(* ===== verification/Prelude.thy ===== *)
theory Prelude
  imports
    Main
    "HOL-Library.State_Monad"
    "HOL-Library.Finite_Map"
    "HOL-Library.Char_ord"
    "HOL-Library.List_Lexorder"
begin

text \<open>
  Shared vocabulary of the development: the fragment of Go's standard library that the
  sources use on strings, bytes and integers (\<open>strings\<close>, \<open>strconv\<close>, \<open>encoding/hex\<close>,
  \<open>path\<close>, the truncating \<open>%\<close> and the wrap-around of \<open>int64\<close>), the three ways a Go call
  ends (a value, an error, a panic) and the glue between them and the state monad, and
  the interface by which properties of effectful code are proved compositionally.
  A Go \<open>string\<close> and a Go \<open>[]byte\<close> are both lists of 8-bit characters here.
\<close>

named_theorems st_run \<open>equations for running the operations of a component\<close>
named_theorems io_intro \<open>introduction rules for relations between the states before and after a call\<close>

section \<open>Strings\<close>

type_synonym bytes = string

definition HasPrefix :: "string \<Rightarrow> string \<Rightarrow> bool" where
  "HasPrefix s p \<longleftrightarrow> take (length p) s = p"

definition HasSuffix :: "string \<Rightarrow> string \<Rightarrow> bool" where
  "HasSuffix s p \<longleftrightarrow> HasPrefix (rev s) (rev p)"

definition TrimPrefix :: "string \<Rightarrow> string \<Rightarrow> string" where
  "TrimPrefix s p = (if HasPrefix s p then drop (length p) s else s)"

definition TrimSuffix :: "string \<Rightarrow> string \<Rightarrow> string" where
  "TrimSuffix s p = (if HasSuffix s p then take (length s - length p) s else s)"

fun Contains :: "string \<Rightarrow> string \<Rightarrow> bool" where
  "Contains [] p = (p = [])"
| "Contains (c # s) p = (HasPrefix (c # s) p \<or> Contains s p)"

text \<open>The ASCII white space that \<open>strings.TrimSpace\<close> removes.\<close>

definition is_space :: "char \<Rightarrow> bool" where
  "is_space c \<longleftrightarrow> of_char c \<in> {9, 10, 11, 12, 13, 32 :: nat}"

definition TrimSpace :: "string \<Rightarrow> string" where
  "TrimSpace s = rev (dropWhile is_space (rev (dropWhile is_space s)))"

definition lower_char :: "char \<Rightarrow> char" where
  "lower_char c = (let n = of_char c :: nat in
     if 65 \<le> n \<and> n \<le> 90 then char_of (n + 32) else c)"

definition ToLower :: "string \<Rightarrow> string" where
  "ToLower s = map lower_char s"

text \<open>\<open>strings.Replace\<close> of one byte by another, as \<open>strings.NewReplacer\<close> is used.\<close>

definition replace_char :: "char \<Rightarrow> char \<Rightarrow> string \<Rightarrow> string" where
  "replace_char a b s = map (\<lambda>c. if c = a then b else c) s"

lemma HasPrefix_iff: "HasPrefix s p \<longleftrightarrow> (\<exists>t. s = p @ t)"
  unfolding HasPrefix_def by (metis append_eq_conv_conj append_take_drop_id)

lemma HasPrefix_append [simp]: "HasPrefix (p @ s) p"
  by (simp add: HasPrefix_def)

lemma HasPrefix_refl [simp]: "HasPrefix s s"
  by (simp add: HasPrefix_def)

lemma HasPrefix_Nil [simp]: "HasPrefix s []"
  by (simp add: HasPrefix_def)

lemma TrimPrefix_append [simp]: "TrimPrefix (p @ s) p = s"
  by (simp add: TrimPrefix_def)

lemma Contains_self [simp]: "Contains s s"
  by (cases s) auto

lemma Contains_iff: "Contains s p \<longleftrightarrow> (\<exists>a b. s = a @ p @ b)"
proof (induction s p rule: Contains.induct)
  case (1 p)
  show ?case by auto
next
  case (2 c s p)
  show ?case
  proof
    assume "Contains (c # s) p"
    then consider "HasPrefix (c # s) p" | "Contains s p" by auto
    then show "\<exists>a b. c # s = a @ p @ b"
    proof cases
      case 1
      then show ?thesis by (metis HasPrefix_iff append_Nil)
    next
      case 2
      then show ?thesis using "2.IH" by (metis append_Cons)
    qed
  next
    assume "\<exists>a b. c # s = a @ p @ b"
    then obtain a b where eq: "c # s = a @ p @ b" by blast
    show "Contains (c # s) p"
    proof (cases a)
      case Nil
      with eq have "HasPrefix (c # s) p" by (simp add: HasPrefix_iff)
      then show ?thesis by simp
    next
      case (Cons x a')
      with eq have "s = a' @ p @ b" by simp
      then show ?thesis using "2.IH" by auto
    qed
  qed
qed

section \<open>Numbers\<close>

text \<open>\<open>strconv.Itoa\<close> and the \<open>%d\<close> verb: decimal digits, most significant first.\<close>

definition digit :: "nat \<Rightarrow> char" where
  "digit d = char_of (48 + d)"

definition undigit :: "char \<Rightarrow> nat" where
  "undigit c = of_char c - 48"

fun decimal :: "nat \<Rightarrow> string" where
  "decimal n = (if n < 10 then [digit n] else decimal (n div 10) @ [digit (n mod 10)])"

declare decimal.simps [simp del]

definition undecimal :: "string \<Rightarrow> nat" where
  "undecimal s = foldl (\<lambda>a c. 10 * a + undigit c) 0 s"

definition Itoa :: "int \<Rightarrow> string" where
  "Itoa i = (if i < 0 then CHR ''-'' # decimal (nat (- i)) else decimal (nat i))"

lemma undigit_digit [simp]: "d < 10 \<Longrightarrow> undigit (digit d) = d"
  by (simp add: undigit_def digit_def)

lemma undecimal_snoc [simp]: "undecimal (s @ [c]) = 10 * undecimal s + undigit c"
  by (simp add: undecimal_def)

lemma undecimal_decimal [simp]: "undecimal (decimal n) = n"
proof (induction n rule: decimal.induct)
  case (1 n)
  show ?case
  proof (cases "n < 10")
    case True
    then show ?thesis by (simp add: decimal.simps [of n] undecimal_def)
  next
    case False
    with "1.IH" have "undecimal (decimal (n div 10)) = n div 10" by simp
    with False show ?thesis by (simp add: decimal.simps [of n])
  qed
qed

lemma decimal_inject [simp]: "decimal m = decimal n \<longleftrightarrow> m = n"
  by (metis undecimal_decimal)

lemma decimal_not_Nil [simp]: "decimal n \<noteq> []"
  by (subst decimal.simps) simp

lemma digit_code: "d < 10 \<Longrightarrow> of_char (digit d) = 48 + d"
  by (simp add: digit_def)

lemma decimal_digits: "c \<in> set (decimal n) \<Longrightarrow> \<exists>d < 10. c = digit d"
proof (induction n rule: decimal.induct)
  case (1 n)
  show ?case
  proof (cases "n < 10")
    case True
    with "1.prems" show ?thesis by (subst (asm) decimal.simps) auto
  next
    case False
    with "1.prems" consider "c \<in> set (decimal (n div 10))" | "c = digit (n mod 10)"
      by (subst (asm) decimal.simps) auto
    then show ?thesis
    proof cases
      case 1
      with False "1.IH" show ?thesis by blast
    next
      case 2
      then show ?thesis by (intro exI [of _ "n mod 10"]) simp
    qed
  qed
qed

definition is_digit :: "char \<Rightarrow> bool" where
  "is_digit c \<longleftrightarrow> 48 \<le> (of_char c :: nat) \<and> (of_char c :: nat) \<le> 57"

lemma decimal_all_digits: "list_all is_digit (decimal n)"
proof (unfold list_all_iff, rule ballI)
  fix c assume "c \<in> set (decimal n)"
  then obtain d where "d < 10" "c = digit d" using decimal_digits by blast
  then show "is_digit c" by (simp add: is_digit_def digit_code)
qed

text \<open>\<open>strconv.ParseInt\<close> in base ten: an optional sign and at least one digit, in the range of
  so many bits.\<close>

definition ParseInt :: "nat \<Rightarrow> string \<Rightarrow> int option" where
  "ParseInt bits s = (
     let neg = HasPrefix s ''-'';
         ds = (if neg \<or> HasPrefix s ''+'' then drop 1 s else s);
         n = int (undecimal ds);
         i = (if neg then - n else n)
     in if ds \<noteq> [] \<and> list_all is_digit ds \<and> - (2 ^ (bits - 1)) \<le> i \<and> i < 2 ^ (bits - 1) then Some i else None)"

lemma digit_no_sign: "is_digit c \<Longrightarrow> c \<noteq> CHR ''-'' \<and> c \<noteq> CHR ''+''"
  by (auto simp: is_digit_def)

lemma ParseInt_Itoa:
  assumes i: "- (2 ^ (bits - 1)) \<le> i" "i < 2 ^ (bits - 1)"
  shows "ParseInt bits (Itoa i) = Some i"
proof -
  have ds: "decimal n \<noteq> []" "list_all is_digit (decimal n)" "\<not> HasPrefix (decimal n) ''-''" "\<not> HasPrefix (decimal n) ''+''" for n
    using decimal_all_digits [of n] digit_no_sign by (cases "decimal n"; auto simp: HasPrefix_def)+
  show ?thesis
  proof (cases "i < 0")
    case True
    have "\<not> HasPrefix (CHR ''-'' # x) ''+''" "HasPrefix (CHR ''-'' # x) ''-''" for x by (simp_all add: HasPrefix_def)
    with True i ds show ?thesis by (simp add: ParseInt_def Itoa_def Let_def)
  next
    case False
    with i ds show ?thesis by (simp add: ParseInt_def Itoa_def Let_def)
  qed
qed

text \<open>Go's \<open>%\<close> truncates towards zero, and \<open>int64\<close> arithmetic wraps.\<close>

definition go_rem :: "int \<Rightarrow> int \<Rightarrow> int" where
  "go_rem a b = sgn a * (\<bar>a\<bar> mod \<bar>b\<bar>)"

definition wrap64 :: "int \<Rightarrow> int" where
  "wrap64 i = (i + 2 ^ 63) mod 2 ^ 64 - 2 ^ 63"

definition int64_range :: "int \<Rightarrow> bool" where
  "int64_range i \<longleftrightarrow> - (2 ^ 63) \<le> i \<and> i < 2 ^ 63"

lemma wrap64_id [simp]: "int64_range i \<Longrightarrow> wrap64 i = i"
  by (simp add: int64_range_def wrap64_def)

lemma wrap64_range [simp]: "int64_range (wrap64 i)"
  using pos_mod_bound [of "2 ^ 64" "i + 2 ^ 63"] pos_mod_sign [of "2 ^ 64" "i + 2 ^ 63"]
  by (simp add: int64_range_def wrap64_def)

lemma go_rem_nonneg: "0 \<le> a \<Longrightarrow> 0 < b \<Longrightarrow> go_rem a b = a mod b"
  by (cases "a = 0") (simp_all add: go_rem_def)

section \<open>Hexadecimal\<close>

definition hex_digit :: "nat \<Rightarrow> char" where
  "hex_digit d = (if d < 10 then char_of (48 + d) else char_of (87 + d))"

definition unhex_digit :: "char \<Rightarrow> nat option" where
  "unhex_digit c = (let n = of_char c :: nat in
     if 48 \<le> n \<and> n \<le> 57 then Some (n - 48)
     else if 97 \<le> n \<and> n \<le> 102 then Some (n - 87)
     else if 65 \<le> n \<and> n \<le> 70 then Some (n - 55)
     else None)"

text \<open>\<open>hex.EncodeToString\<close>.\<close>

fun hex_encode :: "bytes \<Rightarrow> string" where
  "hex_encode [] = []"
| "hex_encode (c # s) =
     hex_digit (of_char c div 16) # hex_digit (of_char c mod 16) # hex_encode s"

text \<open>\<open>hex.DecodeString\<close>: an odd number of digits or a digit out of range is an error.\<close>

fun hex_decode :: "string \<Rightarrow> bytes option" where
  "hex_decode [] = Some []"
| "hex_decode [c] = None"
| "hex_decode (a # b # s) =
     (case unhex_digit a of None \<Rightarrow> None
      | Some h \<Rightarrow> (case unhex_digit b of None \<Rightarrow> None
        | Some l \<Rightarrow> (case hex_decode s of None \<Rightarrow> None
          | Some r \<Rightarrow> Some (char_of (16 * h + l) # r))))"

lemma unhex_hex [simp]: "d < 16 \<Longrightarrow> unhex_digit (hex_digit d) = Some d"
  by (auto simp: unhex_digit_def hex_digit_def)

lemma hex_decode_encode [simp]: "hex_decode (hex_encode s) = Some s"
proof (induction s)
  case Nil
  show ?case by simp
next
  case (Cons c s)
  have "(of_char c :: nat) div 16 < 16" using nat_of_char_less_256 [of c] by linarith
  moreover have "16 * ((of_char c :: nat) div 16) + of_char c mod 16 = of_char c" by simp
  ultimately show ?case using Cons by (simp only: hex_encode.simps hex_decode.simps) simp
qed

lemma length_hex_encode [simp]: "length (hex_encode s) = 2 * length s"
  by (induction s) auto

lemma fmdrop_fmupd_same: "fmdrop n (fmupd n v m) = fmdrop n m"
  by (rule fmap_ext) simp

section \<open>Splitting and joining\<close>

text \<open>\<open>strings.Split\<close> at one byte, and \<open>strings.Join\<close>.\<close>

fun split_on :: "char \<Rightarrow> string \<Rightarrow> string list" where
  "split_on d [] = [[]]"
| "split_on d (c # s) =
     (if c = d then [] # split_on d s
      else case split_on d s of [] \<Rightarrow> [[c]] | w # ws \<Rightarrow> (c # w) # ws)"

fun join_with :: "char \<Rightarrow> string list \<Rightarrow> string" where
  "join_with d [] = []"
| "join_with d [w] = w"
| "join_with d (w # v # ws) = w @ d # join_with d (v # ws)"

lemma split_on_not_Nil [simp]: "split_on d s \<noteq> []"
  by (induction s) (auto split: list.splits)

lemma split_on_append:
  "split_on d (s @ d # t) = split_on d s @ split_on d t"
  by (induction s) (auto split: list.splits)

lemma split_on_free: "d \<notin> set s \<Longrightarrow> split_on d s = [s]"
  by (induction s) auto

lemma join_split: "join_with d (split_on d s) = s"
proof (induction s)
  case (Cons c s)
  obtain w ws where w: "split_on d s = w # ws" by (cases "split_on d s") auto
  with Cons show ?case by (cases ws) auto
qed simp

lemma split_on_join:
  "ws \<noteq> [] \<Longrightarrow> (\<And>w. w \<in> set ws \<Longrightarrow> d \<notin> set w) \<Longrightarrow> split_on d (join_with d ws) = ws"
proof (induction ws rule: join_with.induct)
  case (3 d w v ws)
  then show ?case by (simp add: split_on_append split_on_free)
qed (auto simp: split_on_free)

section \<open>Maps of lists\<close>

text \<open>\<open>m[k] = append(m[k], v)\<close> for a map of slices.\<close>

definition append_value :: "'k \<Rightarrow> 'v \<Rightarrow> ('k, 'v list) fmap \<Rightarrow> ('k, 'v list) fmap" where
  "append_value k v m = fmupd k ((case fmlookup m k of Some vs \<Rightarrow> vs | None \<Rightarrow> []) @ [v]) m"

definition pairs_of :: "('k \<times> 'v list) list \<Rightarrow> ('k \<times> 'v) list" where
  "pairs_of xs = concat (map (\<lambda>(k, vs). map (Pair k) vs) xs)"

lemma append_values:
  "vs \<noteq> [] \<Longrightarrow> fold (\<lambda>(k, v). append_value k v) (map (Pair k) vs) m =
    fmupd k ((case fmlookup m k of Some us \<Rightarrow> us | None \<Rightarrow> []) @ vs) m"
proof (induction vs arbitrary: m)
  case (Cons v vs)
  let ?m = "append_value k v m"
  from Cons.IH [of ?m] show ?case by (cases "vs = []") (simp_all add: append_value_def)
qed simp

text \<open>Appending the values of all entries builds the map up again.\<close>

lemma append_entries:
  assumes "distinct (map fst xs)" "\<And>k vs. (k, vs) \<in> set xs \<Longrightarrow> vs \<noteq> [] \<and> fmlookup m k = None"
  shows "fmlookup (fold (\<lambda>(k, v). append_value k v) (pairs_of xs) m) k =
    (case map_of xs k of Some vs \<Rightarrow> Some vs | None \<Rightarrow> fmlookup m k)"
  using assms
proof (induction xs arbitrary: m)
  case (Cons x xs)
  obtain a vs where x: "x = (a, vs)" by fastforce
  with Cons.prems(2) [of a vs] have "fold (\<lambda>(k, v). append_value k v) (map (Pair a) vs) m = fmupd a vs m"
    by (simp add: append_values)
  moreover have "us \<noteq> [] \<and> fmlookup (fmupd a vs m) b = None" if "(b, us) \<in> set xs" for b us
    using Cons.prems(2) [of b us] Cons.prems(1) that x by force
  ultimately show ?case using Cons.IH [of "fmupd a vs m"] Cons.prems(1) x
    by (auto simp: pairs_of_def split: option.splits dest: map_of_SomeD intro: rev_image_eqI)
qed (simp add: pairs_of_def)

lemma append_all:
  assumes "distinct (map fst xs)" "fmap_of_list xs = m" "\<And>k vs. fmlookup m k = Some vs \<Longrightarrow> vs \<noteq> []"
  shows "fold (\<lambda>(k, v). append_value k v) (pairs_of xs) fmempty = m"
proof (rule fmap_ext)
  fix k
  have look: "map_of xs a = fmlookup m a" for a using assms(2) by (metis fmlookup_of_list)
  then have "vs \<noteq> [] \<and> fmlookup fmempty a = None" if "(a, vs) \<in> set xs" for a vs
    using that assms(1,3) by (metis fmempty_lookup map_of_is_SomeI)
  from append_entries [OF assms(1) this] look
  show "fmlookup (fold (\<lambda>(k, v). append_value k v) (pairs_of xs) fmempty) k = fmlookup m k"
    by (simp split: option.split)
qed

lemma sorted_entries:
  "distinct (map fst (sorted_list_of_fmap m))" "fmap_of_list (sorted_list_of_fmap m) = m"
  by (simp add: sorted_list_of_fmap_def comp_def sorted_list_of_fset.rep_eq)
     (rule fmap_ext, simp add: fmlookup_of_list)

section \<open>Paths\<close>

text \<open>
  \<open>path.Clean\<close> and \<open>path.Dir\<close>: the path is cut at its slashes, empty and \<open>.\<close>
  elements are dropped, \<open>..\<close> removes the element before it (and is dropped at the root).
\<close>

fun split_slash :: "string \<Rightarrow> string list" where
  "split_slash [] = [[]]"
| "split_slash (c # s) =
     (if c = CHR ''/'' then [] # split_slash s
      else case split_slash s of [] \<Rightarrow> [[c]] | w # ws \<Rightarrow> (c # w) # ws)"

fun join_slash :: "string list \<Rightarrow> string" where
  "join_slash [] = []"
| "join_slash [w] = w"
| "join_slash (w # v # ws) = w @ ''/'' @ join_slash (v # ws)"

text \<open>The elements kept so far are in reverse order.\<close>

fun clean_elems :: "bool \<Rightarrow> string list \<Rightarrow> string list \<Rightarrow> string list" where
  "clean_elems rooted acc [] = rev acc"
| "clean_elems rooted acc (w # ws) =
     (if w = [] \<or> w = ''.'' then clean_elems rooted acc ws
      else if w = ''..'' then
        (case acc of
           [] \<Rightarrow> clean_elems rooted (if rooted then [] else [w]) ws
         | a # acc' \<Rightarrow> if a = ''..'' then clean_elems rooted (w # acc) ws
                        else clean_elems rooted acc' ws)
      else clean_elems rooted (w # acc) ws)"

definition path_Clean :: "string \<Rightarrow> string" where
  "path_Clean p =
     (let rooted = HasPrefix p ''/'';
          out = (if rooted then ''/'' else []) @ join_slash (clean_elems rooted [] (split_slash p))
      in if out = [] then ''.'' else out)"

definition path_Dir :: "string \<Rightarrow> string" where
  "path_Dir p = path_Clean (rev (dropWhile (\<lambda>c. c \<noteq> CHR ''/'') (rev p)))"

section \<open>Hoare triples for the state monad\<close>

text \<open>
  \<open>valid P m Q\<close>: from every state in \<open>P\<close> the computation \<open>m\<close> ends in a value and a
  state related by \<open>Q\<close>. With \<open>P\<close> and \<open>Q\<close> both "the log of outgoing calls extends
  the one of \<open>s\<^sub>0\<close> by admissible calls only", it says that \<open>m\<close> makes admissible calls
  only, and the rules below compose such facts along the code.
\<close>

definition valid :: "('s \<Rightarrow> bool) \<Rightarrow> ('s, 'a) state \<Rightarrow> ('a \<Rightarrow> 's \<Rightarrow> bool) \<Rightarrow> bool" where
  "valid P m Q \<longleftrightarrow> (\<forall>s. P s \<longrightarrow> (case run_state m s of (a, t) \<Rightarrow> Q a t))"

lemma validI: "(\<And>s a t. P s \<Longrightarrow> run_state m s = (a, t) \<Longrightarrow> Q a t) \<Longrightarrow> valid P m Q"
  by (auto simp: valid_def)

lemma validD: "valid P m Q \<Longrightarrow> run_state m s = (a, t) \<Longrightarrow> P s \<Longrightarrow> Q a t"
  by (auto simp: valid_def)

lemma valid_return [io_intro]: "(\<And>s. P s \<Longrightarrow> Q x s) \<Longrightarrow> valid P (State_Monad.return x) Q"
  by (simp add: valid_def)

lemma valid_bind:
  assumes "valid P m R" and "\<And>x. valid (R x) (f x) Q"
  shows "valid P (State_Monad.bind m f) Q"
proof (rule validI)
  fix s b u assume s: "P s" and run: "run_state (State_Monad.bind m f) s = (b, u)"
  obtain a t where at: "run_state m s = (a, t)" by (cases "run_state m s") auto
  with run have "run_state (f a) t = (b, u)" by simp
  with validD [OF assms(2)] validD [OF assms(1) at s] show "Q b u" by blast
qed

lemma valid_bind_keep [io_intro]:
  "valid P m (\<lambda>_. P) \<Longrightarrow> (\<And>x. valid P (f x) Q) \<Longrightarrow> valid P (State_Monad.bind m f) Q"
  by (rule valid_bind)

lemma valid_post: "valid P m Q \<Longrightarrow> (\<And>a s. Q a s \<Longrightarrow> Q' a s) \<Longrightarrow> valid P m Q'"
  by (rule validI) (blast dest: validD)

lemma valid_pre: "valid P m Q \<Longrightarrow> (\<And>s. P' s \<Longrightarrow> P s) \<Longrightarrow> valid P' m Q"
  by (rule validI) (blast dest: validD)

lemma valid_pure: "(b \<Longrightarrow> valid P m Q) \<Longrightarrow> valid (\<lambda>s. P s \<and> b) m Q"
  by (cases b) (simp_all add: valid_def)

lemma valid_conj: "valid P m Q \<Longrightarrow> valid P m Q' \<Longrightarrow> valid P m (\<lambda>a s. Q a s \<and> Q' a s)"
  by (rule validI) (blast dest: validD)

lemma valid_if [io_intro]:
  "(b \<Longrightarrow> valid P m Q) \<Longrightarrow> (\<not> b \<Longrightarrow> valid P n Q) \<Longrightarrow> valid P (if b then m else n) Q"
  by simp

lemma valid_option [io_intro]:
  "(x = None \<Longrightarrow> valid P m Q) \<Longrightarrow> (\<And>y. x = Some y \<Longrightarrow> valid P (f y) Q) \<Longrightarrow>
   valid P (case x of None \<Rightarrow> m | Some y \<Rightarrow> f y) Q"
  by (cases x) auto

lemma valid_prod [io_intro]:
  "(\<And>a b. x = (a, b) \<Longrightarrow> valid P (f a b) Q) \<Longrightarrow> valid P (case x of (a, b) \<Rightarrow> f a b) Q"
  by (cases x) auto

lemma valid_get [io_intro]: "(\<And>s. P s \<Longrightarrow> Q s s) \<Longrightarrow> valid P State_Monad.get Q"
  by (simp add: valid_def)

lemma valid_set [io_intro]: "(\<And>s. P s \<Longrightarrow> Q () t) \<Longrightarrow> valid P (State_Monad.set t) Q"
  by (simp add: valid_def)

end
