(* ===== verification/Json.thy ===== *)
theory Json
  imports Prelude
begin

text \<open>
  JSON values as the code holds them after decoding into \<open>interface{}\<close>
  (\<open>map[string]any\<close>, \<open>[]any\<close>, strings, booleans, numbers, \<open>nil\<close>), the text that
  \<open>json.Marshal\<close> produces for them, and the JSON-RPC message structs. A Go map is a
  finite map, so two maps with the same entries are equal; a number is its literal.
  The main fact is that marshalled text determines the value it came from, also when more
  text follows it.
\<close>

section \<open>Values\<close>

datatype json =
    JNull
  | JBool bool
  | JNum string
  | JStr string
  | JArr "json list"
  | JObj "(string, json) fmap"

type_synonym json_map = "(string, json) fmap"

text \<open>The JSON-RPC structs of the client library, with the fields the code reads or sets.\<close>

record rpc_request =
  req_Method :: string
  req_Params :: json
  req_ID :: int
  req_JSONRPC :: string

record rpc_error =
  err_Code :: int
  err_Message :: string
  err_Data :: json

record rpc_response =
  res_JSONRPC :: string
  res_Result :: json
  res_Error :: "rpc_error option"
  res_ID :: int

section \<open>String escaping\<close>

definition line_sep :: string where
  "line_sep = [CHR 0xE2, CHR 0x80, CHR 0xA8]"

definition para_sep :: string where
  "para_sep = [CHR 0xE2, CHR 0x80, CHR 0xA9]"

definition esc_char :: "char \<Rightarrow> string" where
  "esc_char c =
     (if c = CHR 0x22 then [CHR 0x5C, CHR 0x22]
      else if c = CHR 0x5C then [CHR 0x5C, CHR 0x5C]
      else if c = CHR 0x08 then [CHR 0x5C, CHR ''b'']
      else if c = CHR 0x0C then [CHR 0x5C, CHR ''f'']
      else if c = CHR 0x0A then [CHR 0x5C, CHR ''n'']
      else if c = CHR 0x0D then [CHR 0x5C, CHR ''r'']
      else if c = CHR 0x09 then [CHR 0x5C, CHR ''t'']
      else if of_char c < (32 :: nat) \<or> c = CHR ''<'' \<or> c = CHR ''>'' \<or> c = CHR ''&''
        then [CHR 0x5C, CHR ''u'', CHR ''0'', CHR ''0'',
              hex_digit (of_char c div 16), hex_digit (of_char c mod 16)]
      else [c])"

function esc :: "string \<Rightarrow> string" where
  "esc [] = []"
| "esc (c # s) =
     (if HasPrefix (c # s) line_sep then CHR 0x5C # ''u2028'' @ esc (drop 2 s)
      else if HasPrefix (c # s) para_sep then CHR 0x5C # ''u2029'' @ esc (drop 2 s)
      else esc_char c @ esc s)"
  by pat_completeness auto
termination by (relation "measure length") auto

definition quote :: "string \<Rightarrow> string" where
  "quote s = CHR 0x22 # esc s @ [CHR 0x22]"

section \<open>Marshalling\<close>

fun sep_list :: "char \<Rightarrow> string list \<Rightarrow> string" where
  "sep_list close [] = [close]"
| "sep_list close (x # xs) = CHR '','' # x @ sep_list close xs"

definition bracket :: "char \<Rightarrow> char \<Rightarrow> string list \<Rightarrow> string" where
  "bracket open close xs =
     open # (case xs of [] \<Rightarrow> [close] | x # xs' \<Rightarrow> x @ sep_list close xs')"

definition entry :: "string \<times> string \<Rightarrow> string" where
  "entry kv = quote (fst kv) @ CHR '':'' # snd kv"

primrec json_marshal :: "json \<Rightarrow> string" where
  "json_marshal JNull = ''null''"
| "json_marshal (JBool b) = (if b then ''true'' else ''false'')"
| "json_marshal (JNum n) = n"
| "json_marshal (JStr s) = quote s"
| "json_marshal (JArr xs) = bracket CHR ''['' CHR '']'' (map json_marshal xs)"
| "json_marshal (JObj m) =
     bracket CHR ''{'' CHR ''}'' (map entry (sorted_list_of_fmap (fmmap json_marshal m)))"

definition num_char :: "char \<Rightarrow> bool" where
  "num_char c \<longleftrightarrow> c \<in> set ''0123456789+-.eE''"

text \<open>The number literals that occur: not empty and made of the characters of numbers.\<close>

definition num_literal :: "string \<Rightarrow> bool" where
  "num_literal n \<longleftrightarrow> n \<noteq> [] \<and> list_all num_char n"

primrec wf_json :: "json \<Rightarrow> bool" where
  "wf_json JNull = True"
| "wf_json (JBool b) = True"
| "wf_json (JNum n) = num_literal n"
| "wf_json (JStr s) = True"
| "wf_json (JArr xs) = list_all wf_json xs"
| "wf_json (JObj m) = fmpred (\<lambda>_ b. b) (fmmap wf_json m)"

section \<open>Marshalled text determines the value\<close>

text \<open>Reading back an escaped string up to its closing quote.\<close>

definition unesc_simple :: "char \<Rightarrow> char" where
  "unesc_simple e =
     (if e = CHR ''b'' then CHR 0x08 else if e = CHR ''f'' then CHR 0x0C
      else if e = CHR ''n'' then CHR 0x0A else if e = CHR ''r'' then CHR 0x0D
      else if e = CHR ''t'' then CHR 0x09 else e)"

definition unesc_u :: "string \<Rightarrow> string" where
  "unesc_u h =
     (if h = ''2028'' then line_sep else if h = ''2029'' then para_sep
      else case hex_decode (drop 2 h) of Some b \<Rightarrow> b | None \<Rightarrow> [])"

function unesc :: "string \<Rightarrow> (string \<times> string) option" where
  "unesc [] = None"
| "unesc (c # s) =
     (if c = CHR 0x22 then Some ([], s)
      else if c = CHR 0x5C then
        (case s of [] \<Rightarrow> None
         | e # s' \<Rightarrow>
             if e = CHR ''u'' then map_option (apfst ((@) (unesc_u (take 4 s')))) (unesc (drop 4 s'))
             else map_option (apfst ((#) (unesc_simple e))) (unesc s'))
      else map_option (apfst ((#) c)) (unesc s))"
  by pat_completeness auto
termination by (relation "measure length") auto

lemma hex_digit_eq_iff [simp]: "d < 16 \<Longrightarrow> e < 16 \<Longrightarrow> hex_digit d = hex_digit e \<longleftrightarrow> d = e"
  by (metis option.inject unhex_hex)

lemma unesc_esc_char: "unesc (esc_char c @ x) = map_option (apfst ((#) c)) (unesc x)"
proof -
  have lt: "(of_char c :: nat) div 16 < 16" using nat_of_char_less_256 [of c] by linarith
  have c: "char_of (16 * ((of_char c :: nat) div 16) + of_char c mod 16) = c" by simp
  have u: "unesc_u (CHR ''0'' # CHR ''0'' # hex_encode [c]) = [c]"
    using c lt by (simp add: unesc_u_def)
  show ?thesis
    using u by (simp add: esc_char_def unesc_simple_def apfst_def map_prod_def)
qed

lemma esc_seps [simp]:
  "esc (line_sep @ t) = CHR 0x5C # ''u2028'' @ esc t"
  "esc (para_sep @ t) = CHR 0x5C # ''u2029'' @ esc t"
  by (simp_all add: line_sep_def para_sep_def HasPrefix_def)

lemma unesc_esc: "unesc (esc s @ CHR 0x22 # r) = Some (s, r)"
proof (induction s rule: esc.induct)
  case 1
  show ?case by simp
next
  case (2 c s)
  consider (l) "HasPrefix (c # s) line_sep" | (p) "\<not> HasPrefix (c # s) line_sep" "HasPrefix (c # s) para_sep"
    | (o) "\<not> HasPrefix (c # s) line_sep" "\<not> HasPrefix (c # s) para_sep" by blast
  then show ?case
  proof cases
    case l
    then obtain t where t: "c # s = line_sep @ t" by (auto simp: HasPrefix_iff)
    then have "drop 2 s = t" by (auto simp: line_sep_def)
    with "2.IH"(1) l have "unesc (esc t @ CHR 0x22 # r) = Some (t, r)" by simp
    with t show ?thesis by (simp only: t) (simp add: unesc_u_def)
  next
    case p
    then obtain t where t: "c # s = para_sep @ t" by (auto simp: HasPrefix_iff)
    then have "drop 2 s = t" by (auto simp: para_sep_def)
    with "2.IH"(2) p have "unesc (esc t @ CHR 0x22 # r) = Some (t, r)" by simp
    with t show ?thesis by (simp only: t) (simp add: unesc_u_def)
  next
    case o
    with "2.IH"(3) show ?thesis by (simp add: unesc_esc_char)
  qed
qed

lemma quote_inject: "quote s @ r = quote t @ u \<longleftrightarrow> s = t \<and> r = u"
proof
  assume "quote s @ r = quote t @ u"
  then have "esc s @ CHR 0x22 # r = esc t @ CHR 0x22 # u" by (simp add: quote_def)
  then have "unesc (esc s @ CHR 0x22 # r) = unesc (esc t @ CHR 0x22 # u)" by (rule arg_cong)
  then show "s = t \<and> r = u" by (simp only: unesc_esc) simp
qed simp

declare esc.simps [simp del] unesc.simps [simp del]

text \<open>What may follow a value inside a text: nothing, a comma or a closing bracket.\<close>

definition tail_ok :: "string \<Rightarrow> bool" where
  "tail_ok r \<longleftrightarrow> r = [] \<or> hd r \<in> {CHR '','', CHR '']'', CHR ''}''}"

definition decodable :: "('a \<Rightarrow> string) \<Rightarrow> 'a \<Rightarrow> 'a \<Rightarrow> bool" where
  "decodable enc x y \<longleftrightarrow>
     (\<forall>r s. tail_ok r \<longrightarrow> tail_ok s \<longrightarrow> enc x @ r = enc y @ s \<longrightarrow> x = y \<and> r = s)"

lemma decodableD:
  "decodable enc x y \<Longrightarrow> tail_ok r \<Longrightarrow> tail_ok s \<Longrightarrow> enc x @ r = enc y @ s \<Longrightarrow> x = y \<and> r = s"
  unfolding decodable_def by blast

lemma tail_ok_sep_list: "c \<in> {CHR '']'', CHR ''}''} \<Longrightarrow> tail_ok (sep_list c xs @ r)"
  by (cases xs) (auto simp: tail_ok_def)

lemma sep_list_inject:
  assumes "c \<in> {CHR '']'', CHR ''}''}" and "\<forall>x \<in> set xs. \<forall>y \<in> set ys. decodable enc x y"
    and "sep_list c (map enc xs) @ r = sep_list c (map enc ys) @ s"
  shows "xs = ys \<and> r = s"
  using assms(2,3)
proof (induction xs arbitrary: ys)
  case Nil
  with assms(1) show ?case by (cases ys) auto
next
  case (Cons x xs)
  show ?case
  proof (cases ys)
    case Nil
    with Cons.prems assms(1) show ?thesis by auto
  next
    case ys: (Cons y ys')
    with Cons.prems have "enc x @ (sep_list c (map enc xs) @ r) = enc y @ (sep_list c (map enc ys') @ s)"
      and "decodable enc x y" by auto
    from decodableD [OF this(2) tail_ok_sep_list tail_ok_sep_list this(1)] assms(1)
    have "x = y" and "sep_list c (map enc xs) @ r = sep_list c (map enc ys') @ s" by auto
    with Cons.IH [of ys'] Cons.prems ys show ?thesis by auto
  qed
qed

lemma bracket_inject:
  assumes c: "c \<in> {CHR '']'', CHR ''}''}" and dec: "\<forall>x \<in> set xs. \<forall>y \<in> set ys. decodable enc x y"
    and ne: "\<forall>x \<in> set xs \<union> set ys. enc x \<noteq> [] \<and> hd (enc x) \<noteq> c"
    and eq: "bracket b c (map enc xs) @ r = bracket b c (map enc ys) @ s"
  shows "xs = ys \<and> r = s"
proof (cases xs)
  case Nil
  with eq ne show ?thesis by (cases ys) (auto simp: bracket_def neq_Nil_conv)
next
  case xs: (Cons x xs')
  show ?thesis
  proof (cases ys)
    case Nil
    with xs eq ne show ?thesis by (auto simp: bracket_def neq_Nil_conv)
  next
    case ys: (Cons y ys')
    with xs eq dec have "enc x @ (sep_list c (map enc xs') @ r) = enc y @ (sep_list c (map enc ys') @ s)"
      and "decodable enc x y" by (auto simp: bracket_def)
    from decodableD [OF this(2) tail_ok_sep_list tail_ok_sep_list this(1)] c
    have "x = y" and "sep_list c (map enc xs') @ r = sep_list c (map enc ys') @ s" by auto
    with sep_list_inject [OF c _ this(2)] dec xs ys show ?thesis by auto
  qed
qed

lemma sorted_list_of_fmmap:
  "sorted_list_of_fmap (fmmap f m) = map (map_prod id f) (sorted_list_of_fmap m)"
  unfolding sorted_list_of_fmap_def
  by (auto simp: fmlookup_dom_iff)

lemma sorted_one: "sorted_list_of_fmap (fmupd k v fmempty) = [(k, v)]"
  by (simp add: sorted_list_of_fmap_def sorted_list_of_fset.rep_eq)

lemma sorted_list_of_fmap_empty [simp]: "sorted_list_of_fmap fmempty = []"
  by (simp add: sorted_list_of_fmap_def sorted_list_of_fset.rep_eq)

lemma sorted_list_of_fmap_inject:
  "sorted_list_of_fmap m = sorted_list_of_fmap n \<Longrightarrow> m = n"
  by (metis fmlookup_inject map_of_sorted_list)

definition enc_entry :: "string \<times> json \<Rightarrow> string" where
  "enc_entry kv = entry (map_prod id json_marshal kv)"

lemma json_marshal_JObj:
  "json_marshal (JObj m) = bracket CHR ''{'' CHR ''}'' (map enc_entry (sorted_list_of_fmap m))"
  by (simp add: sorted_list_of_fmmap enc_entry_def [abs_def] comp_def)

lemma wf_json_JObj: "wf_json (JObj m) \<longleftrightarrow> (\<forall>kv \<in> set (sorted_list_of_fmap m). wf_json (snd kv))"
  using list_all_sorted_list [of "\<lambda>kv. wf_json (snd kv)" m]
  by (auto simp: list_all_iff fmpred_iff curry_def)

lemma marshal_hd:
  "wf_json j \<Longrightarrow> json_marshal j \<noteq> [] \<and>
     (case j of JNull \<Rightarrow> hd (json_marshal j) = CHR ''n''
      | JBool b \<Rightarrow> hd (json_marshal j) = (if b then CHR ''t'' else CHR ''f'')
      | JNum n \<Rightarrow> num_char (hd (json_marshal j))
      | JStr s \<Rightarrow> hd (json_marshal j) = CHR 0x22
      | JArr xs \<Rightarrow> hd (json_marshal j) = CHR ''[''
      | JObj m \<Rightarrow> hd (json_marshal j) = CHR ''{'')"
  by (cases j) (auto simp: quote_def bracket_def num_literal_def list_all_iff neq_Nil_conv)

lemma marshal_not_close: "wf_json j \<Longrightarrow> json_marshal j \<noteq> [] \<and> hd (json_marshal j) \<notin> {CHR '']'', CHR ''}''}"
  using marshal_hd [of j] by (auto simp: num_char_def split: json.splits if_splits)

lemma marshal_same_kind:
  assumes "wf_json j" "wf_json k" "json_marshal j @ r = json_marshal k @ s"
  shows "(case (j, k) of (JNull, JNull) \<Rightarrow> True | (JBool a, JBool b) \<Rightarrow> a = b
      | (JNum _, JNum _) \<Rightarrow> True | (JStr _, JStr _) \<Rightarrow> True | (JArr _, JArr _) \<Rightarrow> True
      | (JObj _, JObj _) \<Rightarrow> True | _ \<Rightarrow> False)"
proof -
  have "hd (json_marshal j) = hd (json_marshal k)"
    using assms marshal_hd by (metis hd_append2)
  then show ?thesis
    using marshal_hd [OF assms(1)] marshal_hd [OF assms(2)]
    by (cases j; cases k) (auto simp: num_char_def split: if_splits)
qed

lemma num_literal_inject:
  assumes "num_literal m" "num_literal n" "tail_ok r" "tail_ok s" "m @ r = n @ s"
  shows "m = n \<and> r = s"
proof -
  have tw: "takeWhile num_char (x @ t) = x" if "num_literal x" "tail_ok t" for x t
    using that by (cases t) (auto simp: num_literal_def tail_ok_def num_char_def list_all_iff takeWhile_append)
  have "m = n" using tw [OF assms(1,3)] tw [OF assms(2,4)] assms(5) by simp
  with assms(5) show ?thesis by simp
qed

lemma enc_entry_decodable:
  "decodable json_marshal (snd x) (snd y) \<Longrightarrow> decodable enc_entry x y"
  unfolding decodable_def enc_entry_def entry_def
  by (cases x; cases y) (auto simp: quote_inject)

lemma enc_entry_not_close: "enc_entry x \<noteq> [] \<and> hd (enc_entry x) \<noteq> CHR ''}''"
  by (simp add: enc_entry_def entry_def quote_def)

lemma leaf_decodable:
  assumes wf: "wf_json j" "wf_json k" and leaf: "\<And>xs. j \<noteq> JArr xs" "\<And>m. j \<noteq> JObj m"
  shows "decodable json_marshal j k"
  unfolding decodable_def
proof (intro allI impI)
  fix r s assume ok: "tail_ok r" "tail_ok s" and eq: "json_marshal j @ r = json_marshal k @ s"
  note kind = marshal_same_kind [OF wf eq]
  consider "j = JNull" "k = JNull" | b where "j = JBool b" "k = JBool b"
    | m n where "j = JNum m" "k = JNum n" | x y where "j = JStr x" "k = JStr y"
    using kind leaf by (cases j; cases k) auto
  then show "j = k \<and> r = s"
    using eq wf ok by cases (auto simp: quote_inject dest: num_literal_inject)
qed

lemma marshal_decodable: "wf_json j \<Longrightarrow> wf_json k \<Longrightarrow> decodable json_marshal j k"
proof (induction j arbitrary: k)
  case (JArr xs)
  show ?case unfolding decodable_def
  proof (intro allI impI)
    fix r s assume eq: "json_marshal (JArr xs) @ r = json_marshal k @ s"
    from marshal_same_kind [OF JArr.prems eq] obtain ys where k: "k = JArr ys"
      by (cases k) auto
    have "\<forall>x \<in> set xs. \<forall>y \<in> set ys. decodable json_marshal x y"
      using JArr k by (auto simp: list_all_iff)
    moreover have "\<forall>x \<in> set xs \<union> set ys. json_marshal x \<noteq> [] \<and> hd (json_marshal x) \<noteq> CHR '']''"
      using JArr.prems k marshal_not_close by (fastforce simp: list_all_iff)
    ultimately show "JArr xs = k \<and> r = s"
      using bracket_inject [of "CHR '']''" xs ys json_marshal "CHR ''[''" r s] eq k by simp
  qed
next
  case (JObj m)
  show ?case unfolding decodable_def
  proof (intro allI impI)
    fix r s assume eq: "json_marshal (JObj m) @ r = json_marshal k @ s"
    from marshal_same_kind [OF JObj.prems eq] obtain n where k: "k = JObj n"
      by (cases k) auto
    have in_ran: "kv \<in> set (sorted_list_of_fmap f) \<Longrightarrow> snd kv \<in> fmran' f" for kv and f :: json_map
      by (auto simp: sorted_list_of_fmap_def fmlookup_dom_iff intro: fmran'I)
    have "\<forall>x \<in> set (sorted_list_of_fmap m). \<forall>y \<in> set (sorted_list_of_fmap n). decodable enc_entry x y"
      using JObj.IH JObj.prems k in_ran by (metis enc_entry_decodable wf_json_JObj)
    then have "sorted_list_of_fmap m = sorted_list_of_fmap n \<and> r = s"
      using bracket_inject [of "CHR ''}''" _ _ enc_entry "CHR ''{''" r s] eq k enc_entry_not_close
      by (simp add: json_marshal_JObj del: json_marshal.simps)
    then show "JObj m = k \<and> r = s"
      using k sorted_list_of_fmap_inject by blast
  qed
qed (rule leaf_decodable; simp)+

lemma json_marshal_inject:
  "wf_json j \<Longrightarrow> wf_json k \<Longrightarrow> json_marshal j = json_marshal k \<longleftrightarrow> j = k"
  using decodableD [OF marshal_decodable, of j k "[]" "[]"] by (auto simp: tail_ok_def)

end
