(* ===== verification/Errors.thy ===== *)
theory Errors
  imports Json
begin

text \<open>
  Go errors as values, and the three error packages of the program: \<open>internal/errors\<close>
  (errors with a stack trace and a prefix), \<open>pkg/rpcerrors\<close> (errors with a JSON-RPC
  code) and \<open>internal/lbrynet\<close> (wallet errors of the SDK). Package-level error variables
  are the values of \<open>sentinel\<close>, compared by identity; wrapping is a constructor per
  wrapper type (\<open>Wrapped\<close> is \<open>fmt.Errorf("...: %w")\<close>, \<open>Suffixed\<close> is \<open>fmt.Errorf("%w: ...")\<close>), so that \<open>errors.Is\<close> and \<open>errors.As\<close> walk the chain as the library does.
  Stack frames are not modelled.
\<close>

section \<open>Errors as values\<close>

datatype sentinel =
    S_NoAuthInfo | S_AuthRequired | S_ClaimNotFound
  | S_NeedSignedUrl | S_NeedSignedLivestreamUrl
  | S_WalletNotFound | S_WalletExists | S_WalletNeedsLoading | S_WalletNotLoaded
  | S_WalletAlreadyLoaded
  | S_NoRows | S_SdkNetError | S_SdkClientError | S_SkipRetry | S_APIError | S_CacheNotFound

text \<open>The error names of the SDK client that the code tells apart.\<close>

datatype sdk_name =
    ErrorWalletNotFound | ErrorWalletAlreadyExists | ErrorWalletNotLoaded
  | ErrorWalletAlreadyLoaded | OtherErrorName string

datatype go_error =
    Sentinel sentinel
  | Plain string
  | PgError string string
  | SdkError sdk_name string
  | Traced go_error string
  | Wrapped string go_error
  | Suffixed go_error string
  | RPCError "go_error option" int
  | WalletError go_error

text \<open>The outcome of a call: a value, an error, or a panic that unwinds to the HTTP server.\<close>

datatype 'a res = Ok 'a | Err go_error | Panic string

fun sentinel_msg :: "sentinel \<Rightarrow> string" where
  "sentinel_msg S_NoAuthInfo = ''authentication token missing''"
| "sentinel_msg S_AuthRequired = ''authentication required''"
| "sentinel_msg S_ClaimNotFound = ''couldn't find claim''"
| "sentinel_msg S_NeedSignedUrl = ''need signed url''"
| "sentinel_msg S_NeedSignedLivestreamUrl = ''need signed url''"
| "sentinel_msg S_WalletNotFound = ''wallet not found''"
| "sentinel_msg S_WalletExists = ''wallet exists and is loaded''"
| "sentinel_msg S_WalletNeedsLoading = ''wallet exists and needs to be loaded''"
| "sentinel_msg S_WalletNotLoaded = ''wallet is not loaded''"
| "sentinel_msg S_WalletAlreadyLoaded = ''wallet is already loaded''"
| "sentinel_msg S_NoRows = ''sql: no rows in result set''"
| "sentinel_msg S_SdkNetError = ''network level sdk error''"
| "sentinel_msg S_SdkClientError = ''client level sdk error''"
| "sentinel_msg S_SkipRetry = ''skip retry for the task''"
| "sentinel_msg S_APIError = ''internal-api error''"
| "sentinel_msg S_CacheNotFound = ''value not found in store''"

text \<open>\<open>Error()\<close> of each error type.\<close>

primrec error_msg :: "go_error \<Rightarrow> string" where
  "error_msg (Sentinel s) = sentinel_msg s"
| "error_msg (Plain m) = m"
| "error_msg (PgError c m) = m"
| "error_msg (SdkError n m) = m"
| "error_msg (Traced e p) = (if p \<noteq> [] then p @ '': '' @ error_msg e else error_msg e)"
| "error_msg (Wrapped p e) = p @ '': '' @ error_msg e"
| "error_msg (Suffixed e m) = error_msg e @ '': '' @ m"
| "error_msg (RPCError e c) =
     (case map_option error_msg e of None \<Rightarrow> ''no wrapped error'' | Some m \<Rightarrow> m)"
| "error_msg (WalletError e) = error_msg e"

text \<open>\<open>Unwrap()\<close> of each error type.\<close>

fun error_unwrap :: "go_error \<Rightarrow> go_error option" where
  "error_unwrap (Traced e _) = Some e"
| "error_unwrap (Wrapped _ e) = Some e"
| "error_unwrap (Suffixed e _) = Some e"
| "error_unwrap (RPCError e _) = e"
| "error_unwrap (WalletError e) = Some e"
| "error_unwrap _ = None"

text \<open>\<open>errors.Is\<close> and the two uses of \<open>errors.As\<close>.\<close>

primrec error_Is :: "go_error \<Rightarrow> go_error \<Rightarrow> bool" where
  "error_Is (Sentinel s) t = (Sentinel s = t)"
| "error_Is (Plain m) t = (Plain m = t)"
| "error_Is (PgError c m) t = (PgError c m = t)"
| "error_Is (SdkError n m) t = (SdkError n m = t)"
| "error_Is (Traced e p) t = (Traced e p = t \<or> error_Is e t)"
| "error_Is (Wrapped p e) t = (Wrapped p e = t \<or> error_Is e t)"
| "error_Is (Suffixed e m) t = (Suffixed e m = t \<or> error_Is e t)"
| "error_Is (RPCError e c) t =
     (RPCError e c = t \<or> (case map_option error_Is e of None \<Rightarrow> False | Some f \<Rightarrow> f t))"
| "error_Is (WalletError e) t = (WalletError e = t \<or> error_Is e t)"

primrec error_As_RPC :: "go_error \<Rightarrow> go_error option" where
  "error_As_RPC (Sentinel s) = None"
| "error_As_RPC (Plain m) = None"
| "error_As_RPC (PgError c m) = None"
| "error_As_RPC (SdkError n m) = None"
| "error_As_RPC (Traced e p) = error_As_RPC e"
| "error_As_RPC (Wrapped p e) = error_As_RPC e"
| "error_As_RPC (Suffixed e m) = error_As_RPC e"
| "error_As_RPC (RPCError e c) = Some (RPCError e c)"
| "error_As_RPC (WalletError e) = error_As_RPC e"

primrec error_As_pg :: "go_error \<Rightarrow> string option" where
  "error_As_pg (Sentinel s) = None"
| "error_As_pg (Plain m) = None"
| "error_As_pg (PgError c m) = Some c"
| "error_As_pg (SdkError n m) = None"
| "error_As_pg (Traced e p) = error_As_pg e"
| "error_As_pg (Wrapped p e) = error_As_pg e"
| "error_As_pg (Suffixed e m) = error_As_pg e"
| "error_As_pg (RPCError e c) = (case map_option error_As_pg e of None \<Rightarrow> None | Some r \<Rightarrow> r)"
| "error_As_pg (WalletError e) = error_As_pg e"

section \<open>internal/errors\<close>

definition wrap :: "go_error \<Rightarrow> go_error" where
  "wrap e = (case e of Traced _ _ \<Rightarrow> e | _ \<Rightarrow> Traced e [])"

definition Err_of :: "go_error option \<Rightarrow> go_error option" where
  "Err_of e = (case e of None \<Rightarrow> None | Some x \<Rightarrow> Some (wrap x))"

text \<open>\<open>errors.Err\<close> on a format string.\<close>

definition Err_str :: "string \<Rightarrow> go_error" where
  "Err_str m = Traced (Plain m) []"

definition Prefix :: "string \<Rightarrow> go_error option \<Rightarrow> go_error option" where
  "Prefix prefix e =
     (case e of None \<Rightarrow> None
      | Some x \<Rightarrow>
          (case wrap x of
             Traced y p \<Rightarrow> Some (Traced y (if p \<noteq> [] then prefix @ '': '' @ p else prefix))
           | w \<Rightarrow> Some w))"

definition HasTrace :: "go_error \<Rightarrow> bool" where
  "HasTrace e = (case e of Traced _ _ \<Rightarrow> True | _ \<Rightarrow> False)"

datatype panic_value = PanicError go_error | PanicOther string

definition Recover :: "panic_value option \<Rightarrow> go_error option \<Rightarrow> go_error option" where
  "Recover p e =
     (case p of None \<Rightarrow> e
      | Some (PanicError x) \<Rightarrow> Some (Traced x ''panic'')
      | Some (PanicOther m) \<Rightarrow> Some (Traced (Plain m) ''panic''))"

text \<open>The package-level errors built with \<open>errors.Err\<close> carry a trace, those built with
  \<open>errors.Base\<close> do not.\<close>

definition ErrClaimNotFound :: go_error where "ErrClaimNotFound = Traced (Sentinel S_ClaimNotFound) []"
definition errNeedSignedUrl :: go_error where "errNeedSignedUrl = Traced (Sentinel S_NeedSignedUrl) []"
definition errNeedSignedLivestreamUrl :: go_error where
  "errNeedSignedLivestreamUrl = Traced (Sentinel S_NeedSignedLivestreamUrl) []"
definition ErrNoAuthInfo :: go_error where "ErrNoAuthInfo = Sentinel S_NoAuthInfo"
definition ErrAuthRequired :: go_error where "ErrAuthRequired = Sentinel S_AuthRequired"
definition ErrNoRows :: go_error where "ErrNoRows = Sentinel S_NoRows"

section \<open>pkg/rpcerrors\<close>

definition rpcErrorCodeInternal :: int where "rpcErrorCodeInternal = -32080"
definition rpcErrorCodeSDK :: int where "rpcErrorCodeSDK = -32603"
definition rpcErrorCodeAuthRequired :: int where "rpcErrorCodeAuthRequired = -32084"
definition rpcErrorCodeForbidden :: int where "rpcErrorCodeForbidden = -32085"
definition rpcErrorCodeJSONParse :: int where "rpcErrorCodeJSONParse = -32700"
definition rpcErrorCodeInvalidParams :: int where "rpcErrorCodeInvalidParams = -32602"
definition rpcErrorCodeMethodNotAllowed :: int where "rpcErrorCodeMethodNotAllowed = -32601"

lemmas rpc_codes = rpcErrorCodeInternal_def rpcErrorCodeSDK_def rpcErrorCodeAuthRequired_def
  rpcErrorCodeForbidden_def rpcErrorCodeJSONParse_def rpcErrorCodeInvalidParams_def
  rpcErrorCodeMethodNotAllowed_def

definition newRPCErr :: "go_error option \<Rightarrow> int \<Rightarrow> go_error" where
  "newRPCErr e code = RPCError (Err_of e) code"

definition NewInternalError :: "go_error option \<Rightarrow> go_error" where
  "NewInternalError e = newRPCErr e rpcErrorCodeInternal"
definition NewJSONParseError :: "go_error option \<Rightarrow> go_error" where
  "NewJSONParseError e = newRPCErr e rpcErrorCodeJSONParse"
definition NewMethodNotAllowedError :: "go_error option \<Rightarrow> go_error" where
  "NewMethodNotAllowedError e = newRPCErr e rpcErrorCodeMethodNotAllowed"
definition NewInvalidParamsError :: "go_error option \<Rightarrow> go_error" where
  "NewInvalidParamsError e = newRPCErr e rpcErrorCodeInvalidParams"
definition NewSDKError :: "go_error option \<Rightarrow> go_error" where
  "NewSDKError e = newRPCErr e rpcErrorCodeSDK"
definition NewForbiddenError :: "go_error option \<Rightarrow> go_error" where
  "NewForbiddenError e = newRPCErr e rpcErrorCodeForbidden"
definition NewAuthRequiredError :: go_error where
  "NewAuthRequiredError = newRPCErr (Some ErrAuthRequired) rpcErrorCodeAuthRequired"

lemmas rpc_ctors = NewInternalError_def NewJSONParseError_def NewMethodNotAllowedError_def
  NewInvalidParamsError_def NewSDKError_def NewForbiddenError_def NewAuthRequiredError_def newRPCErr_def

text \<open>The response that \<open>RPCError.JSON\<close> marshals.\<close>

definition RPCError_JSON :: "go_error option \<Rightarrow> int \<Rightarrow> rpc_response" where
  "RPCError_JSON e code =
     \<lparr>res_JSONRPC = ''2.0'', res_Result = JNull,
      res_Error = Some \<lparr>err_Code = code, err_Message = error_msg (RPCError e code), err_Data = JNull\<rparr>,
      res_ID = 0\<rparr>"

definition rpc_to_json :: "go_error \<Rightarrow> rpc_response" where
  "rpc_to_json e =
     (case e of RPCError x code \<Rightarrow> RPCError_JSON x code
      | _ \<Rightarrow> RPCError_JSON (Some e) rpcErrorCodeInternal)"

definition isJSONParseError :: "go_error option \<Rightarrow> bool" where
  "isJSONParseError e =
     (case e of None \<Rightarrow> False
      | Some x \<Rightarrow> (case error_As_RPC x of Some (RPCError _ c) \<Rightarrow> c = rpcErrorCodeJSONParse | _ \<Rightarrow> False))"

definition ErrorToJSON :: "go_error option \<Rightarrow> rpc_response" where
  "ErrorToJSON e =
     (case Option.bind e error_As_RPC of
        Some r \<Rightarrow> rpc_to_json r
      | None \<Rightarrow> rpc_to_json (NewInternalError e))"

definition ToJSON :: "go_error option \<Rightarrow> rpc_response" where
  "ToJSON e =
     (case Option.bind e error_As_RPC of
        Some r \<Rightarrow> rpc_to_json r
      | None \<Rightarrow> rpc_to_json (NewInternalError e))"

section \<open>internal/lbrynet\<close>

definition NewWalletError :: "go_error \<Rightarrow> go_error" where
  "NewWalletError e =
     (case e of
        SdkError ErrorWalletNotFound _ \<Rightarrow> WalletError (Sentinel S_WalletNotFound)
      | SdkError ErrorWalletAlreadyExists _ \<Rightarrow> WalletError (Sentinel S_WalletExists)
      | SdkError ErrorWalletNotLoaded _ \<Rightarrow> WalletError (Sentinel S_WalletNotLoaded)
      | SdkError ErrorWalletAlreadyLoaded _ \<Rightarrow> WalletError (Sentinel S_WalletAlreadyLoaded)
      | _ \<Rightarrow> WalletError e)"

section \<open>Lemmas\<close>

lemma error_Is_unfold:
  "error_Is e t \<longleftrightarrow> e = t \<or> (\<exists>u. error_unwrap e = Some u \<and> error_Is u t)"
  by (cases e) (auto split: option.splits)

lemma error_Is_refl [simp]: "error_Is e e"
  by (cases e) auto

lemma wrap_Is_sentinel [simp]: "error_Is (wrap e) (Sentinel s) \<longleftrightarrow> error_Is e (Sentinel s)"
  by (cases e) (auto simp: wrap_def)

lemma error_Is_RPC_sentinel [simp]:
  "error_Is (newRPCErr (Some e) c) (Sentinel s) \<longleftrightarrow> error_Is e (Sentinel s)"
  by (simp add: newRPCErr_def Err_of_def)

lemma error_msg_wrap [simp]: "error_msg (wrap e) = error_msg e"
  by (cases e) (auto simp: wrap_def)

lemma As_RPC_wrap [simp]: "error_As_RPC (wrap e) = error_As_RPC e"
  by (cases e) (auto simp: wrap_def)

lemma wrap_idem [simp]: "wrap (wrap e) = wrap e"
  by (cases e) (auto simp: wrap_def)

lemma As_RPC_shape: "error_As_RPC e = Some r \<Longrightarrow> \<exists>x c. r = RPCError x c"
  by (induction e) auto

text \<open>The JSON-RPC code a client sees for an error.\<close>

definition rpc_code :: "go_error option \<Rightarrow> int" where
  "rpc_code e = (case res_Error (ToJSON e) of Some x \<Rightarrow> err_Code x | None \<Rightarrow> 0)"

lemma rpc_code_ctor [simp]: "rpc_code (Some (newRPCErr e c)) = c"
  by (simp add: rpc_code_def ToJSON_def newRPCErr_def rpc_to_json_def RPCError_JSON_def)

lemma NewWalletError_Is:
  "error_Is (NewWalletError (SdkError ErrorWalletNotLoaded m)) (Sentinel S_WalletNotLoaded)"
  "error_Is (NewWalletError (SdkError ErrorWalletAlreadyLoaded m)) (Sentinel S_WalletAlreadyLoaded)"
  "error_Is (NewWalletError (SdkError ErrorWalletAlreadyExists m)) (Sentinel S_WalletExists)"
  "error_Is (NewWalletError (SdkError ErrorWalletNotFound m)) (Sentinel S_WalletNotFound)"
  by (simp_all add: NewWalletError_def)

end
