(* ===== verification/World.thy ===== *)
theory World
  imports Errors
begin

text \<open>
  The state the API server works on and the services it talks to. The \<open>users\<close> and
  \<open>lbrynet_servers\<close> tables, the requests sent to SDK instances and the errors reported
  to Sentry are explicit; everything else outside the repository lives in an abstract
  state \<open>'w\<close> reached only through the operations of \<open>env\<close>: the SDK's JSON-RPC endpoint
  and wallet calls, internal-apis and chainquery over HTTP, the cache servers, database
  faults, the clock, the random source, digests and signatures.
\<close>

section \<open>Tables\<close>

record lbrynet_server =
  srv_ID :: int
  srv_Name :: string
  srv_Address :: string
  srv_Private :: bool

text \<open>A row of \<open>users\<close>, keyed by its primary key; a missing value is SQL's \<open>NULL\<close>.\<close>

record user_row =
  row_IdpID :: "string option"
  row_ServerID :: "int option"
  row_LastSeenAt :: "int option"

type_synonym users_table = "(int, user_row) fmap"

text \<open>\<open>models.User\<close> in memory: the columns and the loaded relation \<open>R.LbrynetServer\<close>.\<close>

record user =
  usr_ID :: int
  usr_IdpID :: "string option"
  usr_ServerID :: "int option"
  usr_LastSeenAt :: "int option"
  usr_Server :: "lbrynet_server option"

text \<open>\<open>sdkrouter.Router\<close>, shared by all requests.\<close>

record router =
  rt_servers :: "lbrynet_server list"
  rt_leastLoaded :: "lbrynet_server option"
  rt_useDB :: bool
  rt_lastLoaded :: int

section \<open>Internal-apis messages\<close>

record iapi_request =
  ir_URL :: string
  ir_Form :: "(string \<times> string) list"
  ir_Headers :: "(string, string) fmap"

record customer_purchase =
  cp_Status :: string
  cp_Type :: string
  cp_ValidThrough :: int

text \<open>The fields of the internal-apis responses that the code reads.\<close>

record iapi_body =
  ib_Success :: bool
  ib_Error :: "string option"
  ib_UserID :: int
  ib_HasVerifiedEmail :: bool
  ib_GlobalMod :: bool
  ib_HasAccess :: bool
  ib_Customers :: "customer_purchase list"

text \<open>The HTTP reply: its status, and its body if it is the JSON that is expected.\<close>

record iapi_reply =
  ip_Status :: int
  ip_Body :: "iapi_body option"

text \<open>The claims of a verified OAuth access token that the code reads.\<close>

record user_info =
  ui_Aud :: "string list"
  ui_Sub :: string

text \<open>A cached SDK response, and the cache store (\<open>gocache\<close>'s \<open>CacheInterface\<close>) that keeps it
  under a key with an expiration and tags.\<close>

record cached_response =
  cr_Result :: json
  cr_Error :: "rpc_error option"

record 'w base_cache =
  bc_Get :: "string \<Rightarrow> ('w, go_error + cached_response option) state"
  bc_Set :: "string \<Rightarrow> cached_response \<Rightarrow> int \<Rightarrow> string list \<Rightarrow> ('w, go_error option) state"
  bc_Invalidate :: "string list \<Rightarrow> ('w, go_error option) state"

text \<open>The fields of the SDK client's \<open>Claim\<close> that the code reads: a stream with its source
  (descriptor hash, size), fee and release time, and the channel that signed the claim
  with its public key.\<close>

record claim_source =
  cs_SdHash :: bytes
  cs_Size :: nat

record claim_stream =
  st_Source :: "claim_source option"
  st_FeeAmount :: nat
  st_ReleaseTime :: int

record signing_channel =
  sc_ClaimID :: string
  sc_PublicKey :: "bytes option"

text \<open>A purchase receipt: its transaction, and the JSON it is marshalled to.\<close>

record purchase_receipt =
  pr_Txid :: string
  pr_JSON :: json

record claim =
  cl_ClaimID :: string
  cl_Name :: string
  cl_Tags :: "string list"
  cl_Stream :: "claim_stream option"
  cl_IsMyOutput :: bool
  cl_PurchaseReceipt :: "purchase_receipt option"
  cl_SigningChannel :: "signing_channel option"

text \<open>\<open>ClaimSearchParams\<close>: the fields of decoded \<open>claim_search\<close> parameters that the code reads.\<close>

record claim_search_params =
  csp_HasSource :: "bool option"
  csp_OrderBy :: "string list"
  csp_ReleaseTime :: "string list"
  csp_AnyTags :: "string list"
  csp_NotTags :: "string list"

text \<open>The settings of \<open>apps/lbrytv/config\<close> that the code reads.\<close>

record settings =
  cfg_ArfleetEnabled :: bool
  cfg_ArfleetCDN :: string
  cfg_CacheGetterRetries :: nat
  cfg_StreamsV6 :: "(string, string) fmap"
  cfg_PaidContentURL :: string
  cfg_RPCTimeouts :: "(string, int) fmap"

text \<open>The HTTP reply of the chainquery SQL service: whether its body can be read, its status,
  and the heights in its body or the parse error.\<close>

record chainquery_reply =
  cq_ReadErr :: "go_error option"
  cq_Status :: int
  cq_Data :: "go_error + int list"

text \<open>The \<open>asynqueries\<close> table, and the messages of the task queue (\<open>internal/tasks\<close>). A stored
  body or file metadata is what it unmarshals to, or the error.\<close>

record upload_meta =
  um_Size :: nat
  um_FileName :: string
  um_SDHash :: string
  um_MIME :: string
  um_Extension :: string
  um_Hash :: string
  um_Duration :: int
  um_Width :: int
  um_Height :: int

datatype aq_status = AqReceived | AqPreparing | AqForwarded | AqFailed | AqSucceeded

record asynquery =
  aq_ID :: string
  aq_UserID :: int
  aq_Status :: aq_status
  aq_Error :: string
  aq_UploadID :: string
  aq_Body :: "go_error + rpc_request"
  aq_Response :: "rpc_response option"
  aq_ReadyToRun :: bool
  aq_FileReady :: bool
  aq_FileMeta :: "(go_error + upload_meta) option"

datatype task_payload =
    IncomingQuery string int
  | UploadDone string int upload_meta
  | Unreadable go_error

record task =
  tk_Type :: string
  tk_Payload :: task_payload

definition ForkliftUploadDone :: string where "ForkliftUploadDone = ''forklift:upload:done''"

section \<open>Services\<close>

datatype db_op =
    DbBegin | DbCommit | DbSelectUser | DbInsertUser | DbUpdateUser | DbDeleteUser
  | DbSelectServer | DbSelectServers | DbSelectUsers | DbLockUser
  | DbSelectQuery | DbInsertQuery | DbUpdateQuery

record 'w env =
  env_CallRaw :: "string \<Rightarrow> rpc_request \<Rightarrow> ('w, go_error + rpc_response) state"
  env_WrapError :: "rpc_error \<Rightarrow> go_error"
  env_WalletCreate :: "string \<Rightarrow> string \<Rightarrow> ('w, go_error option) state"
  env_WalletAdd :: "string \<Rightarrow> string \<Rightarrow> ('w, go_error option) state"
  env_WalletRemove :: "string \<Rightarrow> string \<Rightarrow> ('w, go_error option) state"
  env_WalletCount :: "string \<Rightarrow> ('w, go_error + nat) state"
  env_iapi_do :: "iapi_request \<Rightarrow> ('w, go_error + iapi_reply) state"
  env_db_fault :: "db_op \<Rightarrow> ('w, go_error option) state"
  env_now :: "('w, int) state"
  env_rand :: "nat \<Rightarrow> ('w, nat) state"
  env_db_others :: "db_op \<Rightarrow> ('w, users_table \<Rightarrow> users_table) state"
  env_evict :: "string \<Rightarrow> ('w, bool) state"
  env_verify :: "string \<Rightarrow> ('w, go_error + user_info) state"
  env_cache :: "'w base_cache"
  env_chainquery :: "string \<Rightarrow> ('w, go_error + chainquery_reply) state"
  env_md5 :: "bytes \<Rightarrow> bytes"
  env_sha256 :: "bytes \<Rightarrow> bytes"
  env_ecdsa_verify :: "bytes \<Rightarrow> bytes \<Rightarrow> nat \<Rightarrow> nat \<Rightarrow> bool"
  env_parse_pubkey :: "bytes \<Rightarrow> go_error + bytes"
  env_cfg :: settings
  env_decode_resolve :: "json \<Rightarrow> go_error + (string, claim) fmap"
  env_decode_claim_search :: "json_map \<Rightarrow> go_error + claim_search_params"
  env_url_Parse :: "string \<Rightarrow> go_error + (string \<times> string)"
  env_CreateToken :: "string \<Rightarrow> string \<Rightarrow> nat \<Rightarrow> ('w, go_error + string) state"
  env_GetClaimUrl :: "string \<Rightarrow> string \<Rightarrow> ('w, go_error + string) state"
  env_ReplaceAssetUrls :: "string \<Rightarrow> json \<Rightarrow> ('w, go_error + json) state"
  env_ReplaceAssetUrl :: "string \<Rightarrow> json \<Rightarrow> ('w, go_error + json) state"
  env_enqueue :: "task \<Rightarrow> ('w, go_error option) state"
  env_audit_insert :: "int \<Rightarrow> string \<Rightarrow> string \<Rightarrow> bytes \<Rightarrow> ('w, go_error option) state"

text \<open>
  \<open>env_db_others\<close> is what other sessions have committed to the \<open>users\<close> table by the time a
  statement of ours runs. The digests and the elliptic-curve check are functions of their
  bytes; a public key is its serialization. Decoding of SDK results and of \<open>claim_search\<close>
  parameters into structs is the SDK client's and \<open>mapstructure\<close>'s, URLs are split into host
  and path by \<open>net/url\<close>, tokens for paid streams come from the player server's library. The
  world also holds the open transaction: whether it is
  aborted, and the function that undoes what it has written so far.
\<close>

record 'w world =
  w_users :: users_table
  w_aborted :: bool
  w_undo :: "users_table \<Rightarrow> users_table"
  w_tokens :: "(string, user option \<times> int) fmap"
  w_servers :: "lbrynet_server list"
  w_router :: router
  w_asynq :: "asynquery list"
  w_tasks :: "task list"
  w_sent :: "(string \<times> rpc_request) list"
  w_sentry :: "go_error option list"
  w_cache :: 'w
  w_height :: int
  w_ext :: 'w

text \<open>\<open>w_asynq\<close> is in the order of creation, \<open>w_tasks\<close> in the order of sending. \<open>w_cache\<close> is the state of the cache servers, apart from that of the other services.\<close>

type_synonym ('w, 'a) io = "('w world, 'a) state"

section \<open>Calling the services\<close>

definition ext :: "('w, 'a) state \<Rightarrow> ('w, 'a) io" where
  "ext m = State (\<lambda>s. case run_state m (w_ext s) of (a, x) \<Rightarrow> (a, s\<lparr>w_ext := x\<rparr>))"

definition reads :: "('w world \<Rightarrow> 'a) \<Rightarrow> ('w, 'a) io" where
  "reads f = State (\<lambda>s. (f s, s))"

definition on_cache :: "('w, 'a) state \<Rightarrow> ('w, 'a) io" where
  "on_cache m = State (\<lambda>s. case run_state m (w_cache s) of (a, x) \<Rightarrow> (a, s\<lparr>w_cache := x\<rparr>))"

text \<open>An operation on the shared router.\<close>

definition with_router :: "(router \<Rightarrow> ('w, 'a \<times> router) io) \<Rightarrow> ('w, 'a) io" where
  "with_router f = State (\<lambda>s. case run_state (f (w_router s)) s of
     ((a, r), t) \<Rightarrow> (a, t\<lparr>w_router := r\<rparr>))"

definition modify :: "('w world \<Rightarrow> 'w world) \<Rightarrow> ('w, unit) io" where
  "modify f = State (\<lambda>s. ((), f s))"

text \<open>A request to an SDK instance is recorded with its endpoint, newest last.\<close>

definition CallRaw :: "'w env \<Rightarrow> string \<Rightarrow> rpc_request \<Rightarrow> ('w, go_error + rpc_response) io" where
  "CallRaw E ep req = do {
     modify (\<lambda>s. s\<lparr>w_sent := w_sent s @ [(ep, req)]\<rparr>);
     ext (env_CallRaw E ep req)
   }"

definition ErrorToSentry :: "go_error option \<Rightarrow> ('w, unit) io" where
  "ErrorToSentry e = modify (\<lambda>s. s\<lparr>w_sentry := w_sentry s @ [e]\<rparr>)"

text \<open>Time is in nanoseconds since the Unix epoch; \<open>time.Time.Unix\<close> rounds down.\<close>

definition second :: int where "second = 1000000000"

definition Unix :: "int \<Rightarrow> int" where
  "Unix t = t div second"

definition NowUnix :: "'w env \<Rightarrow> ('w, int) io" where
  "NowUnix E = do { t \<leftarrow> ext (env_now E); State_Monad.return (Unix t) }"

definition NowAfter :: "'w env \<Rightarrow> int \<Rightarrow> ('w, bool) io" where
  "NowAfter E u = do { t \<leftarrow> ext (env_now E); State_Monad.return (u < t) }"

section \<open>Running\<close>

lemma run_ext [simp, st_run]:
  "run_state (ext m) s = (fst (run_state m (w_ext s)), s\<lparr>w_ext := snd (run_state m (w_ext s))\<rparr>)"
  by (simp add: ext_def split: prod.split)

lemma run_on_cache [simp, st_run]:
  "run_state (on_cache m) s = (fst (run_state m (w_cache s)), s\<lparr>w_cache := snd (run_state m (w_cache s))\<rparr>)"
  by (simp add: on_cache_def split: prod.split)

lemma run_reads [simp, st_run]: "run_state (reads f) s = (f s, s)"
  by (simp add: reads_def)

lemma run_modify [simp, st_run]: "run_state (modify f) s = ((), f s)"
  by (simp add: modify_def)

lemma valid_ext: "(\<And>s x a. P s \<Longrightarrow> Q a (s\<lparr>w_ext := x\<rparr>)) \<Longrightarrow> valid P (ext m) Q"
  by (simp add: valid_def)

lemma valid_reads [io_intro]: "(\<And>s. P s \<Longrightarrow> Q (f s) s) \<Longrightarrow> valid P (reads f) Q"
  by (simp add: valid_def)

lemma valid_modify: "(\<And>s. P s \<Longrightarrow> Q () (f s)) \<Longrightarrow> valid P (modify f) Q"
  by (simp add: valid_def)

lemma valid_res [io_intro]:
  "(\<And>x. r = Ok x \<Longrightarrow> valid P (f x) Q) \<Longrightarrow> (\<And>e. r = Err e \<Longrightarrow> valid P (g e) Q) \<Longrightarrow>
   (\<And>m. r = Panic m \<Longrightarrow> valid P (h m) Q) \<Longrightarrow>
   valid P (case r of Ok x \<Rightarrow> f x | Err e \<Rightarrow> g e | Panic m \<Rightarrow> h m) Q"
  by (cases r) auto

lemma valid_sum [io_intro]:
  "(\<And>x. r = Inl x \<Longrightarrow> valid P (f x) Q) \<Longrightarrow> (\<And>e. r = Inr e \<Longrightarrow> valid P (g e) Q) \<Longrightarrow>
   valid P (case r of Inl x \<Rightarrow> f x | Inr e \<Rightarrow> g e) Q"
  by (cases r) auto

lemma valid_json_obj:
  "(\<And>p. j = JObj p \<Longrightarrow> valid P (f p) Q) \<Longrightarrow> valid P m Q \<Longrightarrow> valid P (case j of JObj p \<Rightarrow> f p | _ \<Rightarrow> m) Q"
  by (cases j) simp_all

lemma run_with_router [st_run]:
  "run_state (with_router f) s = (case run_state (f (w_router s)) s of ((a, r), t) \<Rightarrow> (a, t\<lparr>w_router := r\<rparr>))"
  by (simp add: with_router_def)

lemma valid_with_router:
  "(\<And>r. valid P (f r) (\<lambda>(a, q) t. Q a (t\<lparr>w_router := q\<rparr>))) \<Longrightarrow> valid P (with_router f) Q"
  by (fastforce simp: valid_def run_with_router split: prod.splits)

text \<open>
  Properties of the requests sent: \<open>sends s\<^sub>0 G\<close> holds of a state whose log extends the one
  of \<open>s\<^sub>0\<close> by requests in \<open>G\<close> only.
\<close>

definition sends :: "'w world \<Rightarrow> (string \<Rightarrow> rpc_request \<Rightarrow> bool) \<Rightarrow> 'w world \<Rightarrow> bool" where
  "sends s\<^sub>0 G s \<longleftrightarrow>
     (\<exists>l. w_sent s = w_sent s\<^sub>0 @ l \<and> (\<forall>(ep, r) \<in> set l. G ep r))"

lemma sends_refl [simp]: "sends s G s"
  by (simp add: sends_def)

lemma sends_upd [simp]:
  "sends s\<^sub>0 G (s\<lparr>w_ext := x\<rparr>) \<longleftrightarrow> sends s\<^sub>0 G s"
  "sends s\<^sub>0 G (s\<lparr>w_users := u\<rparr>) \<longleftrightarrow> sends s\<^sub>0 G s"
  "sends s\<^sub>0 G (s\<lparr>w_aborted := b\<rparr>) \<longleftrightarrow> sends s\<^sub>0 G s"
  "sends s\<^sub>0 G (s\<lparr>w_undo := g\<rparr>) \<longleftrightarrow> sends s\<^sub>0 G s"
  "sends s\<^sub>0 G (s\<lparr>w_tokens := tk\<rparr>) \<longleftrightarrow> sends s\<^sub>0 G s"
  "sends s\<^sub>0 G (s\<lparr>w_router := q\<rparr>) \<longleftrightarrow> sends s\<^sub>0 G s"
  "sends s\<^sub>0 G (s\<lparr>w_servers := v\<rparr>) \<longleftrightarrow> sends s\<^sub>0 G s"
  "sends s\<^sub>0 G (s\<lparr>w_sentry := e\<rparr>) \<longleftrightarrow> sends s\<^sub>0 G s"
  "sends s\<^sub>0 G (s\<lparr>w_cache := x\<rparr>) \<longleftrightarrow> sends s\<^sub>0 G s"
  "sends s\<^sub>0 G (s\<lparr>w_asynq := aq\<rparr>) \<longleftrightarrow> sends s\<^sub>0 G s"
  "sends s\<^sub>0 G (s\<lparr>w_tasks := ts\<rparr>) \<longleftrightarrow> sends s\<^sub>0 G s"
  "sends s\<^sub>0 G (s\<lparr>w_height := h\<rparr>) \<longleftrightarrow> sends s\<^sub>0 G s"
  by (simp_all add: sends_def)

lemma sends_ext [io_intro]: "valid (sends s\<^sub>0 G) (ext m) (\<lambda>_. sends s\<^sub>0 G)"
  by (rule valid_ext) simp

lemma sends_on_cache [io_intro]: "valid (sends s\<^sub>0 G) (on_cache m) (\<lambda>_. sends s\<^sub>0 G)"
  by (simp add: valid_def)

lemma sends_CallRaw:
  "G ep req \<Longrightarrow> valid (sends s\<^sub>0 G) (CallRaw E ep req) (\<lambda>_. sends s\<^sub>0 G)"
  unfolding CallRaw_def
  by (rule valid_bind_keep [OF valid_modify sends_ext])
     (auto simp: sends_def)

lemma sends_ErrorToSentry [io_intro]: "valid (sends s\<^sub>0 G) (ErrorToSentry e) (\<lambda>_. sends s\<^sub>0 G)"
  unfolding ErrorToSentry_def by (rule valid_modify) simp

lemma sends_NowUnix [io_intro]: "valid (sends s\<^sub>0 G) (NowUnix E) (\<lambda>_. sends s\<^sub>0 G)"
  unfolding NowUnix_def by (rule valid_bind_keep [OF sends_ext]) (rule valid_return)

lemma sends_NowAfter [io_intro]: "valid (sends s\<^sub>0 G) (NowAfter E u) (\<lambda>_. sends s\<^sub>0 G)"
  unfolding NowAfter_def by (rule valid_bind_keep [OF sends_ext]) (rule valid_return)

lemma sends_mono: "sends s\<^sub>0 G s \<Longrightarrow> (\<And>ep r. G ep r \<Longrightarrow> H ep r) \<Longrightarrow> sends s\<^sub>0 H s"
  unfolding sends_def by fastforce

lemma sends_trans: "sends s\<^sub>0 G s \<Longrightarrow> sends s G t \<Longrightarrow> sends s\<^sub>0 G t"
  unfolding sends_def by fastforce

lemma sends_nothing: "sends s (\<lambda>_ _. False) t \<Longrightarrow> w_sent t = w_sent s"
  by (auto simp: sends_def) (metis last_in_set prod.collapse)

section \<open>A quiet deployment\<close>

text \<open>
  A concrete environment for closed examples: the SDK answers every request with the
  same result, internal-apis confirms user 7, the database never fails, the clock stands
  still and the random source returns 0.
\<close>

definition ok_response :: rpc_response where
  "ok_response = \<lparr>res_JSONRPC = ''2.0'', res_Result = JBool True, res_Error = None, res_ID = 0\<rparr>"

definition quiet_body :: iapi_body where
  "quiet_body = \<lparr>ib_Success = True, ib_Error = None, ib_UserID = 7, ib_HasVerifiedEmail = True,
     ib_GlobalMod = False, ib_HasAccess = True, ib_Customers = []\<rparr>"

definition quiet_settings :: settings where
  "quiet_settings = \<lparr>cfg_ArfleetEnabled = False, cfg_ArfleetCDN = [], cfg_CacheGetterRetries = 2,
     cfg_StreamsV6 = fmap_of_list [(''host'', ''player''), (''paidhost'', ''secure''),
       (''startpath'', ''/v6/streams/%s/%s.mp4''), (''token'', ''secret'')],
     cfg_PaidContentURL = ''https://paid/'', cfg_RPCTimeouts = fmempty\<rparr>"

definition quiet_claim :: claim where
  "quiet_claim = \<lparr>cl_ClaimID = ''c1'', cl_Name = ''a'', cl_Tags = [],
     cl_Stream = Some \<lparr>st_Source = Some \<lparr>cs_SdHash = ''abc'', cs_Size = 1\<rparr>, st_FeeAmount = 0, st_ReleaseTime = 0\<rparr>,
     cl_IsMyOutput = False, cl_PurchaseReceipt = None, cl_SigningChannel = None\<rparr>"

definition quiet_search :: claim_search_params where
  "quiet_search = \<lparr>csp_HasSource = None, csp_OrderBy = [], csp_ReleaseTime = [], csp_AnyTags = [], csp_NotTags = []\<rparr>"

definition quiet_env :: "unit env" where
  "quiet_env = \<lparr>
     env_CallRaw = (\<lambda>_ _. State_Monad.return (Inr ok_response)),
     env_WrapError = (\<lambda>e. SdkError (OtherErrorName (err_Message e)) (err_Message e)),
     env_WalletCreate = (\<lambda>_ _. State_Monad.return None),
     env_WalletAdd = (\<lambda>_ _. State_Monad.return None),
     env_WalletRemove = (\<lambda>_ _. State_Monad.return None),
     env_WalletCount = (\<lambda>_. State_Monad.return (Inr 0)),
     env_iapi_do = (\<lambda>_. State_Monad.return (Inr \<lparr>ip_Status = 200, ip_Body = Some quiet_body\<rparr>)),
     env_db_fault = (\<lambda>_. State_Monad.return None),
     env_now = State_Monad.return (1700000000 * second),
     env_rand = (\<lambda>_. State_Monad.return 0),
     env_db_others = (\<lambda>_. State_Monad.return id),
     env_evict = (\<lambda>_. State_Monad.return False),
     env_verify = (\<lambda>_. State_Monad.return (Inr \<lparr>ui_Aud = [''odysee-apis''], ui_Sub = ''sub7''\<rparr>)),
     env_cache = \<lparr>bc_Get = (\<lambda>_. State_Monad.return (Inl (Sentinel S_CacheNotFound))),
       bc_Set = (\<lambda>_ _ _ _. State_Monad.return None), bc_Invalidate = (\<lambda>_. State_Monad.return None)\<rparr>,
     env_chainquery = (\<lambda>_. State_Monad.return (Inr \<lparr>cq_ReadErr = None, cq_Status = 200, cq_Data = Inr [100]\<rparr>)),
     env_md5 = id, env_sha256 = id, env_ecdsa_verify = (\<lambda>_ _ _ _. True), env_parse_pubkey = Inr,
     env_cfg = quiet_settings,
     env_decode_resolve = (\<lambda>_. Inr (fmupd ''lbry://a'' quiet_claim fmempty)),
     env_decode_claim_search = (\<lambda>_. Inr quiet_search),
     env_url_Parse = (\<lambda>u. Inr (u, ''/'')),
     env_CreateToken = (\<lambda>_ _ _. State_Monad.return (Inr ''token'')),
     env_GetClaimUrl = (\<lambda>_ _. State_Monad.return (Inr [])),
     env_ReplaceAssetUrls = (\<lambda>_ j. State_Monad.return (Inr j)),
     env_ReplaceAssetUrl = (\<lambda>_ j. State_Monad.return (Inr j)),
     env_enqueue = (\<lambda>_. State_Monad.return None),
     env_audit_insert = (\<lambda>_ _ _ _. State_Monad.return None)\<rparr>"

definition sdk1 :: lbrynet_server where
  "sdk1 = \<lparr>srv_ID = 1, srv_Name = ''one'', srv_Address = ''http://sdk1'', srv_Private = False\<rparr>"

definition quiet_router :: router where
  "quiet_router = \<lparr>rt_servers = [sdk1], rt_leastLoaded = Some sdk1, rt_useDB = False, rt_lastLoaded = 0\<rparr>"

definition quiet_world :: "unit world" where
  "quiet_world = \<lparr>w_users = fmempty, w_aborted = False, w_undo = id, w_tokens = fmempty, w_servers = [sdk1], w_router = quiet_router, w_asynq = [], w_tasks = [], w_sent = [], w_sentry = [], w_cache = (), w_height = 0, w_ext = ()\<rparr>"

lemmas quiet_defs = ok_response_def quiet_body_def quiet_env_def quiet_settings_def quiet_claim_def quiet_search_def sdk1_def quiet_router_def quiet_world_def

end
