(* ===== verification/Sdkrouter.thy ===== *)
theory Sdkrouter
  imports World
begin

text \<open>
  \<open>app/sdkrouter\<close>: the list of SDK instances, reloaded from the database at most every
  thirty seconds, the least loaded public instance, and the wallet and server of a user.
  The router's mutexes make each operation atomic; the operations here are those atomic
  steps on the record \<open>router\<close>.
\<close>

section \<open>Definitions\<close>

text \<open>Go's zero \<open>time.Time\<close>, the first of January of year 1.\<close>

definition zero_time :: int where
  "zero_time = - 62135596800 * second"

definition empty_router :: router where
  "empty_router = \<lparr>rt_servers = [], rt_leastLoaded = None, rt_useDB = False, rt_lastLoaded = zero_time\<rparr>"

definition setServers :: "lbrynet_server list \<Rightarrow> router \<Rightarrow> router" where
  "setServers servers r = (if servers = [] then r else r\<lparr>rt_servers := servers\<rparr>)"

definition NewWithServers :: "lbrynet_server list \<Rightarrow> router" where
  "NewWithServers servers = setServers servers empty_router"

text \<open>\<open>models.LbrynetServers().AllG()\<close>: no servers are returned with an error.\<close>

definition all_servers :: "'w env \<Rightarrow> ('w, lbrynet_server list) io" where
  "all_servers E = do {
     f \<leftarrow> ext (env_db_fault E DbSelectServers);
     case f of Some _ \<Rightarrow> State_Monad.return [] | None \<Rightarrow> reads w_servers
   }"

definition reloadServersFromDB :: "'w env \<Rightarrow> router \<Rightarrow> ('w, router) io" where
  "reloadServersFromDB E r = (
     if \<not> rt_useDB r then State_Monad.return r
     else do {
       now \<leftarrow> ext (env_now E);
       if now - rt_lastLoaded r < 30 * second then State_Monad.return r
       else do {
         t \<leftarrow> ext (env_now E);
         servers \<leftarrow> all_servers E;
         State_Monad.return (setServers servers (r\<lparr>rt_lastLoaded := t\<rparr>))
       }
     })"

text \<open>\<open>New\<close> on the configured name-to-address map, in the order the map is iterated.\<close>

definition NewRouter :: "'w env \<Rightarrow> (string \<times> string) list \<Rightarrow> ('w, router) io" where
  "NewRouter E servers = (
     if servers \<noteq> [] then
       State_Monad.return (NewWithServers
         (map (\<lambda>(name, address). \<lparr>srv_ID = 0, srv_Name = name, srv_Address = address, srv_Private = False\<rparr>) servers))
     else reloadServersFromDB E (empty_router\<lparr>rt_useDB := True\<rparr>))"

definition GetAll :: "'w env \<Rightarrow> router \<Rightarrow> ('w, lbrynet_server list \<times> router) io" where
  "GetAll E r = do {
     r' \<leftarrow> reloadServersFromDB E r;
     State_Monad.return (rt_servers r', r')
   }"

text \<open>\<open>rand.Intn\<close> panics on a bound of zero.\<close>

definition RandomServer :: "'w env \<Rightarrow> router \<Rightarrow> ('w, lbrynet_server res \<times> router) io" where
  "RandomServer E r = do {
     r' \<leftarrow> reloadServersFromDB E r;
     if rt_servers r' = [] then State_Monad.return (Panic ''invalid argument to Intn'', r')
     else do {
       i \<leftarrow> ext (env_rand E (length (rt_servers r')));
       State_Monad.return (Ok (rt_servers r' ! i), r')
     }
   }"

definition GetAllAddresses :: "'w env \<Rightarrow> router \<Rightarrow> ('w, string list \<times> router) io" where
  "GetAllAddresses E r = do {
     (servers, r') \<leftarrow> GetAll E r;
     State_Monad.return (map srv_Address servers, r')
   }"

text \<open>The test \<open>best == nil || numWallets < min\<close>.\<close>

definition improves :: "nat \<Rightarrow> (lbrynet_server \<times> nat) option \<Rightarrow> bool" where
  "improves n best = (case best of None \<Rightarrow> True | Some b \<Rightarrow> n < snd b)"

text \<open>The loop of \<open>updateLoadAndMetrics\<close>; \<open>best\<close> and \<open>min\<close> are set together.\<close>

fun load_scan :: "'w env \<Rightarrow> lbrynet_server list \<Rightarrow> (lbrynet_server \<times> nat) option
    \<Rightarrow> ('w, (lbrynet_server \<times> nat) option) io" where
  "load_scan E [] best = State_Monad.return best"
| "load_scan E (server # servers) best = do {
     walletList \<leftarrow> ext (env_WalletCount E (srv_Address server));
     (case walletList of
        Inl err \<Rightarrow> load_scan E servers best
      | Inr numWallets \<Rightarrow>
          load_scan E servers
            (if improves numWallets best \<and> \<not> srv_Private server
             then Some (server, numWallets) else best))
   }"

definition updateLoadAndMetrics :: "'w env \<Rightarrow> router \<Rightarrow> ('w, router) io" where
  "updateLoadAndMetrics E r = do {
     (servers, r') \<leftarrow> GetAll E r;
     best \<leftarrow> load_scan E servers None;
     State_Monad.return (case best of None \<Rightarrow> r' | Some (server, _) \<Rightarrow> r'\<lparr>rt_leastLoaded := Some server\<rparr>)
   }"

text \<open>One round of the endless loop of \<open>WatchLoad\<close>.\<close>

definition WatchLoad_tick :: "'w env \<Rightarrow> router \<Rightarrow> ('w, router) io" where
  "WatchLoad_tick E r = do {
     r' \<leftarrow> reloadServersFromDB E r;
     updateLoadAndMetrics E r'
   }"

definition LeastLoaded :: "'w env \<Rightarrow> router \<Rightarrow> ('w, lbrynet_server res \<times> router) io" where
  "LeastLoaded E r =
     (case rt_leastLoaded r of
        None \<Rightarrow> RandomServer E r
      | Some s \<Rightarrow> State_Monad.return (Ok s, r))"

definition WalletID :: "int \<Rightarrow> string" where
  "WalletID userID = (if userID \<le> 0 then [] else ''lbrytv-id.'' @ Itoa userID @ ''.wallet'')"

definition GetLbrynetServer :: "user option \<Rightarrow> lbrynet_server option" where
  "GetLbrynetServer u = (case u of None \<Rightarrow> None | Some x \<Rightarrow> usr_Server x)"

definition GetSDKAddress :: "user option \<Rightarrow> string" where
  "GetSDKAddress u = (case GetLbrynetServer u of None \<Rightarrow> [] | Some s \<Rightarrow> srv_Address s)"

section \<open>The pool of servers\<close>

definition router_inv :: "router \<Rightarrow> bool" where
  "router_inv r \<longleftrightarrow> rt_servers r \<noteq> []"

lemma setServers_inv: "router_inv r \<Longrightarrow> router_inv (setServers ss r)"
  by (simp add: router_inv_def setServers_def)

lemma setServers_servers: "ss \<noteq> [] \<Longrightarrow> rt_servers (setServers ss r) = ss"
  by (simp add: setServers_def)

lemma reload_inv:
  "router_inv r \<Longrightarrow> run_state (reloadServersFromDB E r) s = (r', t) \<Longrightarrow> router_inv r'"
  by (auto simp: reloadServersFromDB_def all_servers_def router_inv_def setServers_def
      split: if_splits option.splits)

lemma reload_frame:
  "run_state (reloadServersFromDB E r) s = (r', t) \<Longrightarrow>
     rt_leastLoaded r' = rt_leastLoaded r \<and> w_servers t = w_servers s \<and> w_users t = w_users s \<and> w_sent t = w_sent s"
  by (auto simp: reloadServersFromDB_def all_servers_def setServers_def split: if_splits option.splits)

lemma sends_reload [io_intro]: "valid (sends s\<^sub>0 G) (reloadServersFromDB E r) (\<lambda>_. sends s\<^sub>0 G)"
  unfolding reloadServersFromDB_def all_servers_def by (intro io_intro)

text \<open>
  What a client of the router relies on when it asks for a server: a pool that is not
  empty stays so, and the pick then is one of its members.
\<close>

locale server_pool =
  fixes pool_inv :: "'r \<Rightarrow> bool"
    and members :: "'r \<Rightarrow> lbrynet_server list"
    and refresh :: "'r \<Rightarrow> ('w, 'r) io"
    and pick :: "'r \<Rightarrow> ('w, lbrynet_server res \<times> 'r) io"
  assumes refresh_inv: "pool_inv r \<Longrightarrow> run_state (refresh r) s = (r', t) \<Longrightarrow> pool_inv r'"
    and pick_member: "pool_inv r \<Longrightarrow> run_state (pick r) s = ((x, r'), t) \<Longrightarrow>
      pool_inv r' \<and> (\<exists>srv \<in> set (members r'). x = Ok srv)"
begin

text \<open>Any number of refreshes and picks later the pool still answers.\<close>

lemma picks_never_panic:
  assumes "pool_inv r" and "run_state (refresh r) s = (r', t)" and "run_state (pick r') t = ((x, r''), u)"
  shows "\<exists>srv. x = Ok srv"
  using assms refresh_inv pick_member by blast

end

text \<open>The bound that \<open>rand.Intn\<close> documents.\<close>

definition rand_ok :: "'w env \<Rightarrow> bool" where
  "rand_ok E \<longleftrightarrow> (\<forall>n w. 0 < n \<longrightarrow> fst (run_state (env_rand E n) w) < n)"

lemma RandomServer_member:
  assumes "rand_ok E" and "router_inv r" and "run_state (RandomServer E r) s = ((x, r'), t)"
  shows "router_inv r' \<and> (\<exists>srv \<in> set (rt_servers r'). x = Ok srv)"
proof -
  obtain q u where q: "run_state (reloadServersFromDB E r) s = (q, u)" by (cases "run_state (reloadServersFromDB E r) s") auto
  then have inv: "router_inv q" using assms(2) reload_inv by blast
  then have "fst (run_state (env_rand E (length (rt_servers q))) (w_ext u)) < length (rt_servers q)"
    using assms(1) by (simp add: rand_ok_def router_inv_def)
  then show ?thesis
    using assms(3) q inv by (auto simp: RandomServer_def router_inv_def)
qed

section \<open>Least loaded\<close>

definition public_loads :: "lbrynet_server list \<Rightarrow> (go_error + nat) list \<Rightarrow> (lbrynet_server \<times> nat) list" where
  "public_loads ss rs = [(srv, n). (srv, Inr n) \<leftarrow> zip ss rs, \<not> srv_Private srv]"

text \<open>The earliest entry with the smallest load.\<close>

fun least_of :: "(lbrynet_server \<times> nat) list \<Rightarrow> (lbrynet_server \<times> nat) option \<Rightarrow> (lbrynet_server \<times> nat) option" where
  "least_of [] best = best"
| "least_of (x # xs) best =
     least_of xs (if improves (snd x) best then Some x else best)"

lemma least_of_Some: "least_of xs (Some b) \<noteq> None"
  by (induction xs arbitrary: b) auto

lemma least_of_min:
  "least_of xs best = Some y \<Longrightarrow>
     (y \<in> set xs \<or> best = Some y) \<and> (\<forall>z \<in> set xs. snd y \<le> snd z) \<and> (\<forall>b. best = Some b \<longrightarrow> snd y \<le> snd b)"
proof (induction xs arbitrary: best)
  case Nil
  then show ?case by simp
next
  case (Cons x xs)
  let ?best' = "if improves (snd x) best then Some x else best"
  from Cons.prems have "least_of xs ?best' = Some y" by simp
  note IH = Cons.IH [OF this]
  show ?case
  proof (cases "improves (snd x) best")
    case True
    with IH have "snd y \<le> snd x" and "y \<in> set xs \<or> x = y" and "\<forall>z \<in> set xs. snd y \<le> snd z" by auto
    with True show ?thesis by (auto simp: improves_def split: option.splits)
  next
    case False
    with IH show ?thesis by (auto simp: improves_def split: option.splits)
  qed
qed

lemma load_scan_least:
  "run_state (load_scan E ss best) s =
     (case run_state (State_Monad.traverse_list (\<lambda>srv. ext (env_WalletCount E (srv_Address srv))) ss) s of
        (rs, t) \<Rightarrow> (least_of (public_loads ss rs) best, t))"
proof (induction ss arbitrary: best s)
  case Nil
  show ?case by (simp add: public_loads_def)
next
  case (Cons a ss)
  show ?case
    by (cases "fst (run_state (env_WalletCount E (srv_Address a)) (w_ext s))")
       (auto simp: Cons.IH public_loads_def split: prod.split)
qed

section \<open>Wallet identifiers\<close>

lemma Itoa_pos: "0 < i \<Longrightarrow> Itoa i = decimal (nat i)"
  by (simp add: Itoa_def)

lemma WalletID_inject: "0 < a \<Longrightarrow> 0 < b \<Longrightarrow> WalletID a = WalletID b \<longleftrightarrow> a = b"
  by (simp add: WalletID_def Itoa_pos) (metis eq_nat_nat_iff less_imp_le)

lemma WalletID_empty_iff [simp]: "WalletID a = [] \<longleftrightarrow> a \<le> 0"
  by (simp add: WalletID_def)

section \<open>Properties\<close>

interpretation router_pool: server_pool "\<lambda>r. rand_ok E \<and> router_inv r" rt_servers
    "reloadServersFromDB E" "RandomServer E" for E
  by unfold_locales (blast intro: reload_inv dest: RandomServer_member)+

text \<open>Wallet identifiers separate users. Two user ids give the same wallet id exactly
  when they are the same id, except that ids that are not positive all give the empty
  string, which means no wallet.\<close>

theorem wallet_id_separates_users:
  "WalletID a = WalletID b \<longleftrightarrow> a = b \<or> (a \<le> 0 \<and> b \<le> 0)"
  using WalletID_inject [of a b] by (cases "0 < a"; cases "0 < b") (auto simp: WalletID_def)

text \<open>A router that has servers keeps answering. After any reload from the database
  (also one that fails or returns no rows) \<open>RandomServer\<close> returns one of the servers the
  router then holds and does not panic.\<close>

theorem random_server_never_panics:
  assumes "rand_ok E" and "rt_servers r \<noteq> []"
    and "run_state (reloadServersFromDB E r) s = (r', t)"
    and "run_state (RandomServer E r') t = ((x, r''), u)"
  shows "\<exists>srv \<in> set (rt_servers r''). x = Ok srv"
  using assms router_pool.refresh_inv [of E r s r' t] router_pool.pick_member [of E r' t x r'' u]
  by (simp add: router_inv_def)

theorem random_server_never_panics_witness:
  "\<exists>srv \<in> set [sdk1]. Ok sdk1 = Ok srv"
proof -
  have "rand_ok quiet_env" by (simp add: rand_ok_def quiet_env_def)
  moreover have "run_state (reloadServersFromDB quiet_env (NewWithServers [sdk1])) quiet_world
      = (NewWithServers [sdk1], quiet_world)"
    by (simp add: reloadServersFromDB_def NewWithServers_def setServers_def empty_router_def)
  moreover have "run_state (RandomServer quiet_env (NewWithServers [sdk1])) quiet_world
      = ((Ok sdk1, NewWithServers [sdk1]), quiet_world)"
    by (simp add: RandomServer_def reloadServersFromDB_def NewWithServers_def setServers_def
        empty_router_def quiet_env_def quiet_world_def)
  moreover have "rt_servers (NewWithServers [sdk1]) = [sdk1]"
    by (simp add: NewWithServers_def setServers_def)
  ultimately show ?thesis
    using random_server_never_panics [of quiet_env "NewWithServers [sdk1]"] by (metis list.distinct(1))
qed

text \<open>After a load update the least loaded server is a public server that answered
  with the smallest number of wallets of all public servers that answered; when none
  answered the previous choice stays.\<close>

theorem least_loaded_is_minimal:
  assumes "run_state (GetAll E r) s = ((ss, q), u)"
    and "run_state (State_Monad.traverse_list (\<lambda>srv. ext (env_WalletCount E (srv_Address srv))) ss) u = (rs, v)"
    and "run_state (updateLoadAndMetrics E r) s = (r', t)"
  shows "if public_loads ss rs = [] then rt_leastLoaded r' = rt_leastLoaded r
    else \<exists>srv n. rt_leastLoaded r' = Some srv \<and> (srv, n) \<in> set (public_loads ss rs) \<and>
      (\<forall>(srv', m) \<in> set (public_loads ss rs). n \<le> m)"
proof -
  let ?L = "public_loads ss rs"
  have r': "r' = (case least_of ?L None of None \<Rightarrow> q | Some (srv, _) \<Rightarrow> q\<lparr>rt_leastLoaded := Some srv\<rparr>)"
    using assms by (simp add: updateLoadAndMetrics_def load_scan_least split: option.splits prod.splits)
  have q: "rt_leastLoaded q = rt_leastLoaded r"
    using assms(1) by (auto simp: GetAll_def split: prod.splits dest: reload_frame)
  show ?thesis
  proof (cases "least_of ?L None")
    case None
    then have "?L = []" by (cases ?L) (auto simp: improves_def least_of_Some)
    with None r' q show ?thesis by simp
  next
    case (Some y)
    with least_of_min [OF Some] r' show ?thesis by (cases y) (fastforce split: prod.splits)
  qed
qed

theorem least_loaded_is_minimal_witness:
  "rt_leastLoaded (fst (run_state (updateLoadAndMetrics quiet_env (NewWithServers [sdk1])) quiet_world)) = Some sdk1"
proof -
  let ?r = "NewWithServers [sdk1]"
  have g: "run_state (GetAll quiet_env ?r) quiet_world = (([sdk1], ?r), quiet_world)"
    by (simp add: GetAll_def reloadServersFromDB_def NewWithServers_def setServers_def empty_router_def)
  have t: "run_state (State_Monad.traverse_list (\<lambda>srv. ext (env_WalletCount quiet_env (srv_Address srv))) [sdk1])
      quiet_world = ([Inr 0], quiet_world)"
    by (simp add: quiet_env_def quiet_world_def)
  show ?thesis
    using least_loaded_is_minimal [OF g t]
    by (cases "run_state (updateLoadAndMetrics quiet_env ?r) quiet_world")
       (simp add: public_loads_def sdk1_def)
qed

end
