(* ===== verification/Iapi.thy ===== *)
theory Iapi
  imports World
begin

text \<open>
  \<open>pkg/iapi\<close>: the client of internal-apis. Its options are built by a list of option
  functions, \<open>Clone\<close> copies the option maps, and \<open>Call\<close> posts a form and reads the
  common response envelope. The main fact is that no request leaves without credentials.
\<close>

section \<open>Definitions\<close>

record client_options =
  co_server :: string
  co_extraHeaders :: "(string, string) fmap"
  co_extraParams :: "(string, string) fmap"

type_synonym iapi_client = client_options
type_synonym client_option = "client_options \<Rightarrow> client_options"

definition ParamEnviron :: string where "ParamEnviron = ''environment''"
definition EnvironTest :: string where "EnvironTest = ''test''"
definition EnvironLive :: string where "EnvironLive = ''live''"
definition headerForwardedFor :: string where "headerForwardedFor = ''X-Forwarded-For''"
definition headerOauthToken :: string where "headerOauthToken = ''Authorization''"
definition paramLegacyToken :: string where "paramLegacyToken = ''auth_token''"

lemmas iapi_consts = ParamEnviron_def EnvironTest_def EnvironLive_def headerForwardedFor_def
  headerOauthToken_def paramLegacyToken_def

definition WithExtraHeader :: "string \<Rightarrow> string \<Rightarrow> client_option" where
  "WithExtraHeader k v opts = opts\<lparr>co_extraHeaders := fmupd k v (co_extraHeaders opts)\<rparr>"

definition WithExtraParam :: "string \<Rightarrow> string \<Rightarrow> client_option" where
  "WithExtraParam k v opts = opts\<lparr>co_extraParams := fmupd k v (co_extraParams opts)\<rparr>"

definition WithLegacyToken :: "string \<Rightarrow> client_option" where
  "WithLegacyToken token = WithExtraParam paramLegacyToken token"

definition WithOAuthToken :: "string \<Rightarrow> client_option" where
  "WithOAuthToken token = WithExtraHeader headerOauthToken (''Bearer '' @ token)"

definition WithServer :: "string \<Rightarrow> client_option" where
  "WithServer server opts = opts\<lparr>co_server := server\<rparr>"

definition WithRemoteIP :: "string \<Rightarrow> client_option" where
  "WithRemoteIP remoteIP = WithExtraHeader headerForwardedFor remoteIP"

definition WithEnvironment :: "string \<Rightarrow> client_option" where
  "WithEnvironment name = WithExtraParam ParamEnviron name"

text \<open>Reading a missing key of a Go string map gives the empty string.\<close>

definition map_get :: "(string, string) fmap \<Rightarrow> string \<Rightarrow> string" where
  "map_get m k = (case fmlookup m k of None \<Rightarrow> [] | Some v \<Rightarrow> v)"

definition NewClient :: "client_option list \<Rightarrow> iapi_client res" where
  "NewClient optionFuncs =
     (let options = fold (\<lambda>f opts. f opts) optionFuncs
        \<lparr>co_server = ''https://api.odysee.com'', co_extraHeaders = fmempty,
         co_extraParams = fmupd ParamEnviron EnvironLive fmempty\<rparr>
      in if map_get (co_extraHeaders options) headerOauthToken = [] \<and>
            map_get (co_extraParams options) paramLegacyToken = []
         then Err (Plain ''either legacy or oauth token required'')
         else Ok options)"

definition Clone :: "iapi_client \<Rightarrow> client_option list \<Rightarrow> iapi_client" where
  "Clone c optionFuncs = fold (\<lambda>f opts. f opts) optionFuncs c"

text \<open>The form values in the order \<open>url.Values.Encode\<close> writes them: by key, and for one
  key first the client's own value.\<close>

definition prepareParams :: "iapi_client \<Rightarrow> (string, string) fmap \<Rightarrow> (string \<times> string) list" where
  "prepareParams c params =
     sort_key fst (sorted_list_of_fmap (co_extraParams c) @ sorted_list_of_fmap params)"

definition iapi_http_request :: "iapi_client \<Rightarrow> string \<Rightarrow> (string, string) fmap \<Rightarrow> iapi_request" where
  "iapi_http_request c path params =
     \<lparr>ir_URL = co_server c @ ''/'' @ path, ir_Form = prepareParams c params,
      ir_Headers = fmap_of_list [(''Accept'', ''application/json''),
         (''Content-Type'', ''application/x-www-form-urlencoded'')] ++\<^sub>f co_extraHeaders c\<rparr>"

definition iapi_Call :: "'w env \<Rightarrow> iapi_client \<Rightarrow> string \<Rightarrow> (string, string) fmap \<Rightarrow> ('w, iapi_body res) io" where
  "iapi_Call E c path params = do {
     r \<leftarrow> ext (env_iapi_do E (iapi_http_request c path params));
     State_Monad.return (case r of
       Inl err \<Rightarrow> Err err
     | Inr resp \<Rightarrow>
         if 500 \<le> ip_Status resp then Err (Plain (''server returned non-OK status: '' @ Itoa (ip_Status resp)))
         else (case ip_Body resp of
           None \<Rightarrow> Err (Plain ''cannot unmarshal response'')
         | Some body \<Rightarrow>
             if ib_Success body then Ok body
             else (case ib_Error body of
               None \<Rightarrow> Panic ''nil pointer dereference''
             | Some m \<Rightarrow> Err (Suffixed (Sentinel S_APIError) m))))
   }"

section \<open>Lemmas\<close>

definition has_token :: "iapi_client \<Rightarrow> bool" where
  "has_token c \<longleftrightarrow> map_get (co_extraHeaders c) headerOauthToken \<noteq> [] \<or>
     map_get (co_extraParams c) paramLegacyToken \<noteq> []"

definition request_has_token :: "iapi_request \<Rightarrow> bool" where
  "request_has_token r \<longleftrightarrow> map_get (ir_Headers r) headerOauthToken \<noteq> [] \<or>
     (\<exists>t. t \<noteq> [] \<and> (paramLegacyToken, t) \<in> set (ir_Form r))"

lemma sorted_list_of_fmap_mem: "(k, v) \<in> set (sorted_list_of_fmap m) \<longleftrightarrow> fmlookup m k = Some v"
  by (auto simp: sorted_list_of_fmap_def fmlookup_dom_iff image_iff)

lemma map_get_Some: "map_get m k = v \<Longrightarrow> v \<noteq> [] \<Longrightarrow> fmlookup m k = Some v"
  by (auto simp: map_get_def split: option.splits)

lemma has_token_request: "has_token c \<Longrightarrow> request_has_token (iapi_http_request c path params)"
proof -
  assume "has_token c"
  then consider (h) v where "fmlookup (co_extraHeaders c) headerOauthToken = Some v" "v \<noteq> []"
    | (p) v where "fmlookup (co_extraParams c) paramLegacyToken = Some v" "v \<noteq> []"
    unfolding has_token_def by (metis map_get_Some)
  then show ?thesis
  proof cases
    case h
    then show ?thesis
      by (simp add: request_has_token_def iapi_http_request_def map_get_def fmlookup_dom_iff)
  next
    case p
    then show ?thesis
      by (auto simp: request_has_token_def iapi_http_request_def prepareParams_def sorted_list_of_fmap_mem)
  qed
qed

lemma Clone_environment_token: "has_token (Clone c [WithEnvironment e]) = has_token c"
  by (simp add: has_token_def Clone_def WithEnvironment_def WithExtraParam_def map_get_def iapi_consts)

lemma NewClient_Ok_token: "NewClient fs = Ok c \<Longrightarrow> has_token c"
  by (auto simp: NewClient_def has_token_def Let_def split: if_splits)

lemma sends_iapi_Call [io_intro]: "valid (sends s\<^sub>0 G) (iapi_Call E c p ps) (\<lambda>_. sends s\<^sub>0 G)"
  unfolding iapi_Call_def by (rule valid_bind_keep [OF sends_ext]) (rule valid_return)

lemma iapi_Call_frame:
  "run_state (iapi_Call E c p ps) s = (r, t) \<Longrightarrow> t = s\<lparr>w_ext := w_ext t\<rparr>"
  by (auto simp: iapi_Call_def)

section \<open>Properties\<close>

text \<open>No internal-apis request goes out without credentials. Whatever options a client
  is created with, if \<open>NewClient\<close> succeeds then every request of the client, and of its
  clone for the test environment, carries a non-empty OAuth header or legacy token; and
  the clone asks for the environment it was cloned for.\<close>

theorem iapi_requests_carry_token:
  assumes "NewClient fs = Ok c"
  shows "request_has_token (iapi_http_request c path params) \<and>
    request_has_token (iapi_http_request (Clone c [WithEnvironment e]) path params) \<and>
    fmlookup (co_extraParams (Clone c [WithEnvironment e])) ParamEnviron = Some e"
  using NewClient_Ok_token [OF assms] has_token_request Clone_environment_token
  by (simp_all add: Clone_def WithEnvironment_def WithExtraParam_def)

theorem iapi_requests_carry_token_witness:
  "\<exists>c. NewClient [WithLegacyToken ''abc'', WithRemoteIP ''1.2.3.4''] = Ok c \<and>
     request_has_token (iapi_http_request c ''user/me'' fmempty)"
proof -
  have "\<exists>c. NewClient [WithLegacyToken ''abc'', WithRemoteIP ''1.2.3.4''] = Ok c"
    by (simp add: NewClient_def WithLegacyToken_def WithRemoteIP_def WithExtraParam_def
        WithExtraHeader_def map_get_def iapi_consts)
  then show ?thesis using iapi_requests_carry_token by blast
qed

text \<open>A refusal by internal-apis is told apart from a transport failure. A reply below
  500 that parses and reports failure with a message is an \<open>APIError\<close>; a transport error,
  a status of 500 or more or an unreadable body is not turned into one.\<close>

theorem iapi_call_errors:
  "run_state (iapi_Call E c path params) s = (r, t) \<Longrightarrow>
     (case fst (run_state (env_iapi_do E (iapi_http_request c path params)) (w_ext s)) of
        Inl e \<Rightarrow> r = Err e
      | Inr resp \<Rightarrow>
          (500 \<le> ip_Status resp \<or> ip_Body resp = None \<longrightarrow> (\<exists>m. r = Err (Plain m))) \<and>
          (\<forall>b. ip_Status resp < 500 \<and> ip_Body resp = Some b \<longrightarrow>
             (ib_Success b \<longrightarrow> r = Ok b) \<and>
             (\<not> ib_Success b \<longrightarrow> (case ib_Error b of None \<Rightarrow> r = Panic ''nil pointer dereference''
                | Some m \<Rightarrow> \<exists>e. r = Err e \<and> error_Is e (Sentinel S_APIError)))))"
  by (auto simp: iapi_Call_def split: sum.splits option.splits)

theorem iapi_call_errors_witness:
  "\<exists>t. run_state (iapi_Call quiet_env (client_options.make ''s'' fmempty fmempty) ''user/me'' fmempty) quiet_world
     = (Ok quiet_body, t)"
proof -
  let ?run = "run_state (iapi_Call quiet_env (client_options.make ''s'' fmempty fmempty) ''user/me'' fmempty) quiet_world"
  obtain r t where rt: "?run = (r, t)" by (cases ?run) auto
  from iapi_call_errors [OF rt] have "r = Ok quiet_body"
    by (simp add: quiet_env_def quiet_body_def)
  with rt show ?thesis by blast
qed

end
