(* ===== verification/Wallet.thy ===== *)
theory Wallet
  imports Sdkrouter Iapi
begin

text \<open>
  \<open>app/wallet\<close>: finding or creating the local user of a token, assigning an SDK server to
  it and creating its wallet there, the token cache, OAuth authentication, and the tracker
  that records and unloads idle wallets. The \<open>users\<close> table is explicit; every statement
  may fail, runs after whatever other sessions have committed meanwhile, and inside a
  transaction obeys Postgres' rule that after an error only a rollback is possible.
\<close>

section \<open>Statements and transactions\<close>

datatype exec = Pool | Tx

datatype user_by = ByID int | ByIDPID string

definition pgUniqueConstraintViolation :: string where "pgUniqueConstraintViolation = ''23505''"
definition pgAbortedTransactionViolation :: string where "pgAbortedTransactionViolation = ''25P02''"
definition txMaxRetries :: nat where "txMaxRetries = 2"

definition aborted_error :: go_error where
  "aborted_error = PgError pgAbortedTransactionViolation ''current transaction is aborted''"

definition is_err :: "'a res \<Rightarrow> bool" where
  "is_err r = (case r of Err _ \<Rightarrow> True | _ \<Rightarrow> False)"

definition stmt :: "'w env \<Rightarrow> exec \<Rightarrow> db_op \<Rightarrow> ('w, 'a res) io \<Rightarrow> ('w, 'a res) io" where
  "stmt E exec op body = do {
     others \<leftarrow> ext (env_db_others E op);
     modify (\<lambda>s. s\<lparr>w_users := others (w_users s)\<rparr>);
     aborted \<leftarrow> reads w_aborted;
     if exec = Tx \<and> aborted then State_Monad.return (Err aborted_error)
     else do {
       fault \<leftarrow> ext (env_db_fault E op);
       r \<leftarrow> (case fault of Some e \<Rightarrow> State_Monad.return (Err e) | None \<Rightarrow> body);
       modify (\<lambda>s. if exec = Tx \<and> is_err r then s\<lparr>w_aborted := True\<rparr> else s);
       State_Monad.return r
     }
   }"

definition clear_tx :: "'w world \<Rightarrow> 'w world" where
  "clear_tx s = s\<lparr>w_aborted := False, w_undo := id\<rparr>"

definition rollback_tx :: "'w world \<Rightarrow> 'w world" where
  "rollback_tx s = s\<lparr>w_users := w_undo s (w_users s), w_aborted := False, w_undo := id\<rparr>"

text \<open>
  \<open>inTx\<close>: \<open>prev\<close> is the caller's variable that the body assigns, with its value when the
  loop is left; the loop repeats only after an "aborted transaction" error.
\<close>

fun inTx_loop :: "nat \<Rightarrow> 'w env \<Rightarrow> ('w, ('a option \<times> go_error option) res) io
    \<Rightarrow> 'a option \<times> go_error option \<Rightarrow> ('w, ('a option \<times> go_error option) res) io" where
  "inTx_loop 0 E f prev = State_Monad.return (Ok prev)"
| "inTx_loop (Suc n) E f prev = do {
     b \<leftarrow> ext (env_db_fault E DbBegin);
     (case b of
        Some e \<Rightarrow> State_Monad.return (Ok (fst prev, Some e))
      | None \<Rightarrow> do {
          modify clear_tx;
          r \<leftarrow> f;
          (case r of
             Ok (x, None) \<Rightarrow> do {
               c \<leftarrow> ext (env_db_fault E DbCommit);
               modify (if c = None then clear_tx else rollback_tx);
               State_Monad.return (Ok (x, c))
             }
           | Ok (x, Some e) \<Rightarrow> do {
               modify rollback_tx;
               if error_As_pg e = Some pgAbortedTransactionViolation
               then inTx_loop n E f (x, Some e)
               else State_Monad.return (Ok (x, Some e))
             }
           | Err e \<Rightarrow> do { modify rollback_tx; State_Monad.return (Err e) }
           | Panic m \<Rightarrow> do { modify rollback_tx; State_Monad.return (Panic m) })
        })
   }"

definition inTx :: "'w env \<Rightarrow> ('w, ('a option \<times> go_error option) res) io
    \<Rightarrow> ('w, ('a option \<times> go_error option) res) io" where
  "inTx E f = inTx_loop txMaxRetries E f (None, None)"

section \<open>Users\<close>

definition matches :: "user_by \<Rightarrow> int \<times> user_row \<Rightarrow> bool" where
  "matches by kr = (case by of ByID i \<Rightarrow> fst kr = i | ByIDPID p \<Rightarrow> row_IdpID (snd kr) = Some p)"

definition server_by_id :: "lbrynet_server list \<Rightarrow> int option \<Rightarrow> lbrynet_server option" where
  "server_by_id ss i = (case i of None \<Rightarrow> None | Some k \<Rightarrow> List.find (\<lambda>v. srv_ID v = k) ss)"

definition load_user :: "lbrynet_server list \<Rightarrow> int \<times> user_row \<Rightarrow> user" where
  "load_user ss kr =
     \<lparr>usr_ID = fst kr, usr_IdpID = row_IdpID (snd kr), usr_ServerID = row_ServerID (snd kr),
      usr_LastSeenAt = row_LastSeenAt (snd kr), usr_Server = server_by_id ss (row_ServerID (snd kr))\<rparr>"

definition new_user :: "int \<Rightarrow> string option \<Rightarrow> user" where
  "new_user i idp = \<lparr>usr_ID = i, usr_IdpID = idp, usr_ServerID = None, usr_LastSeenAt = None, usr_Server = None\<rparr>"

definition row_of :: "user \<Rightarrow> user_row" where
  "row_of u = \<lparr>row_IdpID = usr_IdpID u, row_ServerID = usr_ServerID u, row_LastSeenAt = usr_LastSeenAt u\<rparr>"

definition getDBUser :: "'w env \<Rightarrow> exec \<Rightarrow> user_by \<Rightarrow> ('w, user res) io" where
  "getDBUser E exec by = do {
     r \<leftarrow> stmt E exec DbSelectUser (reads (\<lambda>s. Ok
            (map_option (load_user (w_servers s)) (List.find (matches by) (sorted_list_of_fmap (w_users s))))));
     State_Monad.return (case r of
       Ok (Some u) \<Rightarrow> Ok u
     | Ok None \<Rightarrow> Err (wrap ErrNoRows)
     | Err e \<Rightarrow> Err (wrap e)
     | Panic m \<Rightarrow> Panic m)
   }"

text \<open>\<open>user.Insert\<close>: the primary key must be free.\<close>

definition insert_user :: "'w env \<Rightarrow> exec \<Rightarrow> user \<Rightarrow> ('w, unit res) io" where
  "insert_user E exec u = stmt E exec DbInsertUser (do {
     taken \<leftarrow> reads (\<lambda>s. usr_ID u |\<in>| fmdom (w_users s));
     if taken then State_Monad.return (Err (PgError pgUniqueConstraintViolation ''duplicate key''))
     else do {
       modify (\<lambda>s. s\<lparr>w_users := fmupd (usr_ID u) (row_of u) (w_users s),
                     w_undo := w_undo s \<circ> fmdrop (usr_ID u)\<rparr>);
       State_Monad.return (Ok ())
     }
   })"

definition createUser :: "'w env \<Rightarrow> exec \<Rightarrow> user \<Rightarrow> ('w, user res) io" where
  "createUser E exec u = do {
     r \<leftarrow> insert_user E exec u;
     (case r of
        Ok _ \<Rightarrow> State_Monad.return (Ok u)
      | Err e \<Rightarrow>
          if error_As_pg e = Some pgUniqueConstraintViolation then
            (case usr_IdpID u of
               Some p \<Rightarrow> getDBUser E exec (ByIDPID p)
             | None \<Rightarrow> getDBUser E exec (ByID (usr_ID u)))
          else State_Monad.return (Err e)
      | Panic m \<Rightarrow> State_Monad.return (Panic m))
   }"

definition getOrCreateLocalUser :: "'w env \<Rightarrow> exec \<Rightarrow> user \<Rightarrow> ('w, user res) io" where
  "getOrCreateLocalUser E exec u = do {
     r \<leftarrow> getDBUser E exec (case usr_IdpID u of Some p \<Rightarrow> ByIDPID p | None \<Rightarrow> ByID (usr_ID u));
     (case r of
        Ok localUser \<Rightarrow> State_Monad.return (Ok localUser)
      | Err e \<Rightarrow> if \<not> error_Is e ErrNoRows then State_Monad.return (Err e) else createUser E exec u
      | Panic m \<Rightarrow> State_Monad.return (Panic m))
   }"

definition deleteDBUser :: "'w env \<Rightarrow> exec \<Rightarrow> int \<Rightarrow> ('w, go_error option) io" where
  "deleteDBUser E exec userID = do {
     r \<leftarrow> getDBUser E exec (ByID userID);
     (case r of
        Ok u \<Rightarrow> do {
          d \<leftarrow> stmt E exec DbDeleteUser (do {
                 modify (\<lambda>s. s\<lparr>w_users := fmdrop (usr_ID u) (w_users s)\<rparr>);
                 State_Monad.return (Ok ()) });
          State_Monad.return (case d of Err e \<Rightarrow> Some (wrap e) | _ \<Rightarrow> None)
        }
      | Err e \<Rightarrow> State_Monad.return (Some (wrap e))
      | Panic m \<Rightarrow> State_Monad.return None)
   }"

definition DeleteUser :: "'w env \<Rightarrow> int \<Rightarrow> ('w, go_error option) io" where
  "DeleteUser E userID = deleteDBUser E Pool userID"

text \<open>\<open>GetDBUserG\<close> runs the query twice and keeps the second result.\<close>

definition GetDBUserG :: "'w env \<Rightarrow> user_by \<Rightarrow> ('w, user res) io" where
  "GetDBUserG E by = do { _ \<leftarrow> getDBUser E Pool by; getDBUser E Pool by }"

section \<open>Wallets\<close>

definition createWallet :: "'w env \<Rightarrow> string \<Rightarrow> int \<Rightarrow> ('w, go_error option) io" where
  "createWallet E addr userID = do {
     e \<leftarrow> ext (env_WalletCreate E addr (WalletID userID));
     State_Monad.return (map_option NewWalletError e)
   }"

definition LoadWallet :: "'w env \<Rightarrow> string \<Rightarrow> int \<Rightarrow> ('w, go_error option) io" where
  "LoadWallet E addr userID = do {
     e \<leftarrow> ext (env_WalletAdd E addr (WalletID userID));
     State_Monad.return (map_option NewWalletError e)
   }"

definition UnloadWallet :: "'w env \<Rightarrow> string \<Rightarrow> int \<Rightarrow> ('w, go_error option) io" where
  "UnloadWallet E addr userID = do {
     e \<leftarrow> ext (env_WalletRemove E addr (WalletID userID));
     State_Monad.return (map_option NewWalletError e)
   }"

definition Create :: "'w env \<Rightarrow> string \<Rightarrow> int \<Rightarrow> ('w, go_error option) io" where
  "Create E serverAddress userID = do {
     e \<leftarrow> createWallet E serverAddress userID;
     (case e of
        None \<Rightarrow> State_Monad.return None
      | Some err \<Rightarrow>
          if error_Is err (Sentinel S_WalletAlreadyLoaded) then State_Monad.return None
          else if error_Is err (Sentinel S_WalletExists) then State_Monad.return None
          else if error_Is err (Sentinel S_WalletNotLoaded) then do {
            l \<leftarrow> LoadWallet E serverAddress userID;
            State_Monad.return (case l of
              None \<Rightarrow> None
            | Some lerr \<Rightarrow> if error_Is lerr (Sentinel S_WalletAlreadyLoaded) then None else Some lerr)
          }
          else State_Monad.return (Some err))
   }"

text \<open>
  \<open>assignSDKServerToUser\<close>. The user is updated in place, also when the call ends with an
  error, so the result is the user and the error.
\<close>

definition update_server :: "'w env \<Rightarrow> exec \<Rightarrow> int \<Rightarrow> int \<Rightarrow> ('w, nat res) io" where
  "update_server E exec serverID userID = stmt E exec DbUpdateUser (do {
     row \<leftarrow> reads (\<lambda>s. fmlookup (w_users s) userID);
     (case row of
        Some r \<Rightarrow>
          if row_ServerID r = None then do {
            modify (\<lambda>s. s\<lparr>w_users := fmupd userID (r\<lparr>row_ServerID := Some serverID\<rparr>) (w_users s),
                          w_undo := w_undo s \<circ> fmupd userID r\<rparr>);
            State_Monad.return (Ok 1)
          }
          else State_Monad.return (Ok 0)
      | None \<Rightarrow> State_Monad.return (Ok 0))
   })"

definition reload_user :: "'w env \<Rightarrow> user \<Rightarrow> ('w, user res) io" where
  "reload_user E u = do {
     r \<leftarrow> stmt E Pool DbSelectUser (reads (\<lambda>s. Ok (fmlookup (w_users s) (usr_ID u))));
     State_Monad.return (case r of
       Ok (Some row) \<Rightarrow> Ok (u\<lparr>usr_IdpID := row_IdpID row, usr_ServerID := row_ServerID row,
                             usr_LastSeenAt := row_LastSeenAt row, usr_Server := None\<rparr>)
     | Ok None \<Rightarrow> Err ErrNoRows
     | Err e \<Rightarrow> Err e
     | Panic m \<Rightarrow> Panic m)
   }"

definition select_server :: "'w env \<Rightarrow> exec \<Rightarrow> int option \<Rightarrow> ('w, lbrynet_server res) io" where
  "select_server E exec i = do {
     r \<leftarrow> stmt E exec DbSelectServer (reads (\<lambda>s. Ok (server_by_id (w_servers s) i)));
     State_Monad.return (case r of
       Ok (Some srv) \<Rightarrow> Ok srv | Ok None \<Rightarrow> Err ErrNoRows | Err e \<Rightarrow> Err e | Panic m \<Rightarrow> Panic m)
   }"

definition assignSDKServerToUser :: "'w env \<Rightarrow> exec \<Rightarrow> user \<Rightarrow> lbrynet_server
    \<Rightarrow> ('w, (user \<times> go_error option)) io" where
  "assignSDKServerToUser E exec u server = (
     if usr_ID u = 0 then State_Monad.return (u, Some (Err_str ''user must already exist in db''))
     else if usr_ServerID u \<noteq> None then
       State_Monad.return (u, Some (Err_str ''user already has an sdk assigned''))
     else if srv_ID server = 0 then do {
       e \<leftarrow> Create E (srv_Address server) (usr_ID u);
       State_Monad.return (u, e)
     }
     else do {
       count \<leftarrow> update_server E exec (srv_ID server) (usr_ID u);
       (case count of
          Ok n \<Rightarrow> do {
            u1 \<leftarrow> (if n = 0 then reload_user E u
                   else State_Monad.return (Ok (u\<lparr>usr_ServerID := Some (srv_ID server)\<rparr>)));
            (case u1 of
               Ok u2 \<Rightarrow> do {
                 srv \<leftarrow> select_server E exec (usr_ServerID u2);
                 (case srv of
                    Ok v \<Rightarrow>
                      if n \<noteq> 0 then do {
                        e \<leftarrow> Create E (srv_Address server) (usr_ID u2);
                        State_Monad.return (u2\<lparr>usr_Server := Some v\<rparr>, e)
                      }
                      else State_Monad.return (u2\<lparr>usr_Server := Some v\<rparr>, None)
                  | Err e \<Rightarrow> State_Monad.return (u2, Some (wrap e))
                  | Panic m \<Rightarrow> State_Monad.return (u2, None))
               }
             | Err e \<Rightarrow> State_Monad.return (u, Some (wrap e))
             | Panic m \<Rightarrow> State_Monad.return (u, None))
          }
        | Err e \<Rightarrow> State_Monad.return (u, Some (wrap e))
        | Panic m \<Rightarrow> State_Monad.return (u, None))
     })"

text \<open>The transaction body shared by both ways of authentication.\<close>

definition ensure_local_user :: "'w env \<Rightarrow> user \<Rightarrow> ('w, (user option \<times> go_error option) res) io" where
  "ensure_local_user E u = do {
     r \<leftarrow> getOrCreateLocalUser E Tx u;
     (case r of
        Err e \<Rightarrow> State_Monad.return (Ok (None, Some e))
      | Panic m \<Rightarrow> State_Monad.return (Panic m)
      | Ok localUser \<Rightarrow>
          if usr_ServerID localUser = None then do {
            srv \<leftarrow> with_router (LeastLoaded E);
            (case srv of
               Ok server \<Rightarrow> do {
                 (u', e) \<leftarrow> assignSDKServerToUser E Tx localUser server;
                 State_Monad.return (Ok (Some u', e))
               }
             | Err e \<Rightarrow> State_Monad.return (Ok (Some localUser, Some e))
             | Panic m \<Rightarrow> State_Monad.return (Panic m))
          }
          else State_Monad.return (Ok (Some localUser, None)))
   }"

section \<open>Invariants of a transaction\<close>

text \<open>
  The contract between the statements on the \<open>users\<close> table and the code that runs them in a
  transaction: an invariant that survives what the services and other sessions do, a row
  inserted under a free key, and a server assigned to a row that has none (each with its
  undo recorded) survives the whole of \<open>ensure_local_user\<close>.
\<close>

locale tx_invariant =
  fixes E :: "'w env" and I :: "'w world \<Rightarrow> bool"
  assumes I_ext: "I s \<Longrightarrow> I (s\<lparr>w_ext := x\<rparr>)"
    and I_aborted: "I s \<Longrightarrow> I (s\<lparr>w_aborted := b\<rparr>)"
    and I_router: "I s \<Longrightarrow> I (s\<lparr>w_router := q\<rparr>)"
    and I_others: "I s \<Longrightarrow> I (s\<lparr>w_users := fst (run_state (env_db_others E op) w) (w_users s)\<rparr>)"
    and I_insert: "I s \<Longrightarrow> fmlookup (w_users s) i = None \<Longrightarrow>
      I (s\<lparr>w_users := fmupd i r (w_users s), w_undo := w_undo s \<circ> fmdrop i\<rparr>)"
    and I_assign: "I s \<Longrightarrow> fmlookup (w_users s) i = Some r \<Longrightarrow> row_ServerID r = None \<Longrightarrow>
      I (s\<lparr>w_users := fmupd i (r\<lparr>row_ServerID := Some k\<rparr>) (w_users s), w_undo := w_undo s \<circ> fmupd i r\<rparr>)"
begin

lemma inv_ext: "valid I (ext c) (\<lambda>_. I)"
  by (rule valid_ext) (rule I_ext)

lemma inv_stmt:
  assumes "valid I body (\<lambda>_. I)"
  shows "valid I (stmt E x op body) (\<lambda>_. I)"
proof -
  have env: "valid I (ext (env_db_others E op)) (\<lambda>g s. I s \<and> (\<exists>w. g = fst (run_state (env_db_others E op) w)))"
    by (auto simp: valid_def I_ext)
  have step: "valid (\<lambda>s. I s \<and> (\<exists>w. g = fst (run_state (env_db_others E op) w)))
      (modify (\<lambda>s. s\<lparr>w_users := g (w_users s)\<rparr>)) (\<lambda>_. I)" for g
    by (rule valid_modify) (auto simp: I_others)
  show ?thesis unfolding stmt_def
    by (rule valid_bind [OF env], rule valid_bind [OF step])
       (intro io_intro inv_ext assms valid_modify; simp add: I_aborted)
qed

lemma inv_getDBUser: "valid I (getDBUser E x b) (\<lambda>_. I)"
  unfolding getDBUser_def by (intro inv_stmt io_intro)

lemma inv_insert_user: "valid I (insert_user E x u) (\<lambda>_. I)"
  unfolding insert_user_def
  by (intro inv_stmt) (auto simp: valid_def fmlookup_dom_iff I_insert)

lemma inv_getOrCreate: "valid I (getOrCreateLocalUser E x u) (\<lambda>_. I)"
  unfolding getOrCreateLocalUser_def createUser_def by (intro inv_getDBUser inv_insert_user io_intro)

lemma inv_Create: "valid I (Create E a u) (\<lambda>_. I)"
  unfolding Create_def createWallet_def LoadWallet_def by (intro inv_ext io_intro)

lemma inv_update_server: "valid I (update_server E x sid uid) (\<lambda>_. I)"
  unfolding update_server_def
  by (intro inv_stmt) (auto simp: valid_def I_assign split: option.splits)

lemma inv_assign: "valid I (assignSDKServerToUser E x u v) (\<lambda>_. I)"
  unfolding assignSDKServerToUser_def reload_user_def select_server_def
  by (intro inv_Create inv_update_server inv_stmt io_intro)

lemma inv_LeastLoaded: "valid I (with_router (LeastLoaded E)) (\<lambda>_. I)"
proof (rule valid_with_router)
  fix r
  have "valid I (LeastLoaded E r) (\<lambda>_. I)"
    unfolding LeastLoaded_def RandomServer_def reloadServersFromDB_def all_servers_def
    by (intro inv_ext io_intro)
  then show "valid I (LeastLoaded E r) (\<lambda>(a, q) t. I (t\<lparr>w_router := q\<rparr>))"
    by (rule valid_post) (simp add: I_router split: prod.split)
qed

lemma inv_ensure_local_user: "valid I (ensure_local_user E u) (\<lambda>_. I)"
  unfolding ensure_local_user_def by (intro inv_getOrCreate inv_LeastLoaded inv_assign io_intro)

end

text \<open>
  Leaving the transaction: with a consequence \<open>J\<close> of the invariant for a committed table and
  for a rolled-back one, \<open>J\<close> holds after \<open>inTx\<close>.
\<close>

lemma inTx_loop_rule:
  fixes E :: "'w env" and f :: "('w, ('a option \<times> go_error option) res) io"
  assumes body: "valid I f (\<lambda>_. I)"
    and start: "\<And>s. J s \<Longrightarrow> I (clear_tx s)" and J_ext: "\<And>s x. J s \<Longrightarrow> J (s\<lparr>w_ext := x\<rparr>)"
    and I_ext: "\<And>s x. I s \<Longrightarrow> I (s\<lparr>w_ext := x\<rparr>)"
    and committed: "\<And>s. I s \<Longrightarrow> K (clear_tx s)" and rolled: "\<And>s. I s \<Longrightarrow> J (rollback_tx s)"
  shows "valid J (inTx_loop n E f prev)
    (\<lambda>r s. J s \<or> (\<exists>x. r = Ok (x, None)) \<and> K s)"
proof (induction n arbitrary: prev)
  case 0
  show ?case by (simp add: valid_return)
next
  case (Suc n)
  have jext: "valid J (ext c) (\<lambda>_. J)" for c :: "('w, go_error option) state"
    by (rule valid_ext) (rule J_ext)
  have iext: "valid I (ext c) (\<lambda>_. I)" for c :: "('w, go_error option) state"
    by (rule valid_ext) (rule I_ext)
  have cl: "valid J (modify clear_tx) (\<lambda>_. I)"
    by (rule valid_modify) (rule start)
  have bk: "valid I (modify rollback_tx) (\<lambda>_. J)"
    by (rule valid_modify) (rule rolled)
  have cm: "valid I (modify (if c = None then clear_tx else rollback_tx))
      (\<lambda>_ s. if c = None then K s else J s)" for c :: "go_error option"
    by (rule valid_modify) (auto simp: committed rolled)
  have ret: "valid (\<lambda>s. if c = None then K s else J s) (State_Monad.return (Ok (x, c)))
      (\<lambda>r s. J s \<or> (\<exists>x. r = Ok (x, None)) \<and> K s)" for c and x :: "'a option"
    by (rule valid_return) (auto split: if_splits)
  show ?case
    by (simp only: inTx_loop.simps)
       (intro valid_bind [OF jext] valid_option valid_bind [OF cl] valid_bind [OF body]
         valid_res valid_prod valid_bind [OF bk] valid_bind [OF iext] valid_bind [OF cm] ret
         valid_if Suc.IH valid_return disjI1; assumption)
qed

section \<open>An assigned server is kept\<close>

text \<open>
  The order on tables: every assignment of \<open>m\<close> is still there in \<open>n\<close>. \<open>keeps m s\<close> says
  that the table of \<open>s\<close> is above \<open>m\<close> and that rolling back the open transaction leads to
  tables above \<open>m\<close> too. Other sessions are assumed to respect the order.
\<close>

definition assign_mono :: "users_table \<Rightarrow> users_table \<Rightarrow> bool" where
  "assign_mono m n \<longleftrightarrow> (\<forall>i r sid. fmlookup m i = Some r \<longrightarrow> row_ServerID r = Some sid \<longrightarrow>
     (\<exists>r'. fmlookup n i = Some r' \<and> row_ServerID r' = Some sid))"

definition keeps :: "users_table \<Rightarrow> 'w world \<Rightarrow> bool" where
  "keeps m s \<longleftrightarrow> assign_mono m (w_users s) \<and> (\<forall>n. assign_mono m n \<longrightarrow> assign_mono m (w_undo s n))"

definition others_ok :: "'w env \<Rightarrow> bool" where
  "others_ok E \<longleftrightarrow> (\<forall>op w m. assign_mono m (fst (run_state (env_db_others E op) w) m))"

lemma assign_mono_refl [simp]: "assign_mono m m"
  by (auto simp: assign_mono_def)

lemma assign_mono_trans: "assign_mono m n \<Longrightarrow> assign_mono n k \<Longrightarrow> assign_mono m k"
  unfolding assign_mono_def by blast

lemma assign_mono_unassigned:
  assumes "assign_mono m n" and "\<And>r. fmlookup n i = Some r \<Longrightarrow> row_ServerID r = None"
  shows "assign_mono m k \<Longrightarrow> assign_mono m (fmupd i r' k)" and "assign_mono m k \<Longrightarrow> assign_mono m (fmdrop i k)"
  using assms unfolding assign_mono_def by (metis fmupd_lookup option.distinct(1), metis fmlookup_drop option.distinct(1))

interpretation server_kept: tx_invariant E "\<lambda>s. others_ok E \<and> keeps m s" for E m
proof
  fix s i r k assume s: "others_ok E \<and> keeps m s" and "fmlookup (w_users s) i = Some r" "row_ServerID r = None"
  then show "others_ok E \<and> keeps m (s\<lparr>w_users := fmupd i (r\<lparr>row_ServerID := Some k\<rparr>) (w_users s), w_undo := w_undo s \<circ> fmupd i r\<rparr>)"
    using assign_mono_unassigned(1) [of m "w_users s" i] by (auto simp: keeps_def)
next
  fix s i r assume s: "others_ok E \<and> keeps m s" and "fmlookup (w_users s) i = None"
  then show "others_ok E \<and> keeps m (s\<lparr>w_users := fmupd i r (w_users s), w_undo := w_undo s \<circ> fmdrop i\<rparr>)"
    using assign_mono_unassigned [of m "w_users s" i] by (auto simp: keeps_def)
qed (auto simp: keeps_def others_ok_def intro: assign_mono_trans)

section \<open>A failed transaction leaves no trace\<close>

definition no_others :: "'w env \<Rightarrow> bool" where
  "no_others E \<longleftrightarrow> (\<forall>op w m. fst (run_state (env_db_others E op) w) m = m)"

definition undoable :: "users_table \<Rightarrow> 'w world \<Rightarrow> bool" where
  "undoable m s \<longleftrightarrow> w_undo s (w_users s) = m"

lemma fmdrop_fmupd_new: "fmlookup m i = None \<Longrightarrow> fmdrop i (fmupd i r m) = m"
  by (rule fmap_ext) (auto simp: fmlookup_drop)

lemma fmupd_restore: "fmlookup m i = Some r \<Longrightarrow> fmupd i r (fmupd i r' m) = m"
  by (rule fmap_ext) auto

lemma fmupd_same: "fmlookup m i = Some r \<Longrightarrow> fmupd i r m = m"
  by (rule fmap_ext) auto

interpretation undo_exact: tx_invariant E "\<lambda>s. no_others E \<and> undoable m s" for E m
  by unfold_locales (auto simp: undoable_def no_others_def fmdrop_fmupd_new fmupd_restore fmupd_same)

end
