(* ===== verification/Tokens.thy ===== *)
theory Tokens
  imports Wallet
begin

text \<open>
  \<open>app/wallet/cache.go\<close>, \<open>remote.go\<close>, \<open>oauth.go\<close>, \<open>GetUserWithSDKServer\<close> of
  \<open>wallet.go\<close>, and \<open>app/wallet/tracker\<close>: from a token to a local user, and keeping track
  of when a wallet was last used.
\<close>

section \<open>Internal-apis users\<close>

record remote_user =
  ru_ID :: int
  ru_HasVerifiedEmail :: bool

definition TokenPrefix :: string where "TokenPrefix = ''Bearer ''"

definition has_verified_email :: "'w env \<Rightarrow> iapi_client \<Rightarrow> ('w, remote_user res) io" where
  "has_verified_email E c = do {
     r \<leftarrow> iapi_Call E c ''user/has_verified_email'' fmempty;
     State_Monad.return (case r of
       Ok b \<Rightarrow> Ok \<lparr>ru_ID = ib_UserID b, ru_HasVerifiedEmail = ib_HasVerifiedEmail b\<rparr>
     | Err e \<Rightarrow> Err e
     | Panic m \<Rightarrow> Panic m)
   }"

definition GetRemoteUserLegacy :: "'w env \<Rightarrow> string \<Rightarrow> string \<Rightarrow> string \<Rightarrow> ('w, remote_user res) io" where
  "GetRemoteUserLegacy E server token remoteIP =
     (case NewClient [WithLegacyToken token, WithRemoteIP remoteIP, WithServer server] of
        Ok c \<Rightarrow> has_verified_email E c
      | Err e \<Rightarrow> State_Monad.return (Err e)
      | Panic m \<Rightarrow> State_Monad.return (Panic m))"

text \<open>The token source is a static bearer token.\<close>

definition GetRemoteUser :: "'w env \<Rightarrow> string \<Rightarrow> string \<Rightarrow> ('w, remote_user res) io" where
  "GetRemoteUser E accessToken remoteIP =
     (case NewClient [WithOAuthToken (TrimPrefix accessToken TokenPrefix), WithRemoteIP remoteIP] of
        Ok c \<Rightarrow> has_verified_email E c
      | Err e \<Rightarrow> State_Monad.return (Err e)
      | Panic m \<Rightarrow> State_Monad.return (Panic m))"

section \<open>Token cache\<close>

definition ttlUnconfirmed :: int where "ttlUnconfirmed = 15 * second"
definition ttlConfirmed :: int where "ttlConfirmed = 15 * 60 * second"

text \<open>
  An entry is a user (\<open>None\<close> for an unconfirmed one) with its expiry time. The store may
  drop an entry at any moment (\<open>env_evict\<close>); concurrent misses for one token share one
  retrieval, which in a sequential run is just the retrieval.
\<close>

definition cache_ttl :: "user option \<Rightarrow> int" where
  "cache_ttl u = (case u of None \<Rightarrow> ttlUnconfirmed | Some _ \<Rightarrow> ttlConfirmed)"

definition tokenCache_miss :: "'w env \<Rightarrow> string \<Rightarrow> ('w, user option res) io \<Rightarrow> ('w, user option res) io" where
  "tokenCache_miss E token retriever = do {
     r \<leftarrow> retriever;
     (case r of
        Ok u \<Rightarrow> do {
          jitter \<leftarrow> ext (env_rand E (nat (cache_ttl u)));
          now \<leftarrow> ext (env_now E);
          modify (\<lambda>s. s\<lparr>w_tokens := fmupd token (u, now + (cache_ttl u + int jitter)) (w_tokens s)\<rparr>);
          State_Monad.return (Ok u)
        }
      | Err e \<Rightarrow> State_Monad.return (Err e)
      | Panic m \<Rightarrow> State_Monad.return (Panic m))
   }"

definition tokenCache_get :: "'w env \<Rightarrow> string \<Rightarrow> ('w, user option res) io \<Rightarrow> ('w, user option res) io" where
  "tokenCache_get E token retriever = do {
     now \<leftarrow> ext (env_now E);
     evicted \<leftarrow> ext (env_evict E token);
     entry \<leftarrow> reads (\<lambda>s. fmlookup (w_tokens s) token);
     (case (if evicted then None else entry) of
        Some (u, expiry) \<Rightarrow> if now < expiry then State_Monad.return (Ok u) else tokenCache_miss E token retriever
      | None \<Rightarrow> tokenCache_miss E token retriever)
   }"

definition tokenCache_flush :: "('w, unit) io" where
  "tokenCache_flush = modify (\<lambda>s. s\<lparr>w_tokens := fmempty\<rparr>)"

section \<open>GetUserWithSDKServer\<close>

definition legacy_retriever :: "'w env \<Rightarrow> string \<Rightarrow> string \<Rightarrow> string \<Rightarrow> ('w, user option res) io" where
  "legacy_retriever E internalAPIHost token remoteIP = do {
     ru \<leftarrow> GetRemoteUserLegacy E internalAPIHost token remoteIP;
     (case ru of
        Err e \<Rightarrow> State_Monad.return (Err e)
      | Panic m \<Rightarrow> State_Monad.return (Panic m)
      | Ok remoteUser \<Rightarrow>
          if \<not> ru_HasVerifiedEmail remoteUser then State_Monad.return (Ok None)
          else do {
            r \<leftarrow> inTx E (ensure_local_user E (new_user (ru_ID remoteUser) None));
            State_Monad.return (case r of
              Ok (localUser, None) \<Rightarrow> Ok localUser
            | Ok (localUser, Some e) \<Rightarrow> Err e
            | Err e \<Rightarrow> Err e
            | Panic m \<Rightarrow> Panic m)
          })
   }"

definition GetUserWithSDKServer :: "'w env \<Rightarrow> string \<Rightarrow> string \<Rightarrow> string \<Rightarrow> ('w, user option res) io" where
  "GetUserWithSDKServer E internalAPIHost token remoteIP =
     tokenCache_get E token (legacy_retriever E internalAPIHost token remoteIP)"

section \<open>OAuth\<close>

definition extractUserInfo :: "'w env \<Rightarrow> string \<Rightarrow> ('w, user_info res) io" where
  "extractUserInfo E token = do {
     r \<leftarrow> ext (env_verify E token);
     State_Monad.return (case r of Inl e \<Rightarrow> Err (wrap e) | Inr info \<Rightarrow> Ok info)
   }"

definition checkAuthorization :: "string \<Rightarrow> user_info \<Rightarrow> go_error option" where
  "checkAuthorization clientID info =
     (if \<not> list_ex (\<lambda>aud. aud = clientID) (ui_Aud info)
      then Some (Err_str ''this token is not meant for Odysee APIs'') else None)"

text \<open>\<open>user.UpdateG(boil.Infer())\<close> writes all columns of the row.\<close>

definition update_user :: "'w env \<Rightarrow> user \<Rightarrow> ('w, unit res) io" where
  "update_user E u = stmt E Pool DbUpdateUser (do {
     modify (\<lambda>s. if usr_ID u |\<in>| fmdom (w_users s)
                 then s\<lparr>w_users := fmupd (usr_ID u) (row_of u) (w_users s)\<rparr> else s);
     State_Monad.return (Ok ())
   })"

definition oauth_create :: "'w env \<Rightarrow> int \<Rightarrow> string \<Rightarrow> ('w, (user option \<times> go_error option) res) io" where
  "oauth_create E remoteID sub = inTx E (ensure_local_user E (new_user remoteID (Some sub)))"

definition oauth_by_remote_id :: "'w env \<Rightarrow> int \<Rightarrow> string \<Rightarrow> ('w, (user option \<times> go_error option) res) io" where
  "oauth_by_remote_id E remoteID sub = do {
     r \<leftarrow> GetDBUserG E (ByID remoteID);
     (case r of
        Ok u \<Rightarrow> do {
          let u' = u\<lparr>usr_IdpID := Some sub\<rparr>;
          w \<leftarrow> update_user E u';
          State_Monad.return (case w of Err e \<Rightarrow> Ok (None, Some (wrap e)) | Panic m \<Rightarrow> Panic m | Ok _ \<Rightarrow> Ok (Some u', None))
        }
      | Err e \<Rightarrow> if \<not> error_Is e ErrNoRows then State_Monad.return (Ok (None, Some e))
                 else oauth_create E remoteID sub
      | Panic m \<Rightarrow> State_Monad.return (Panic m))
   }"

definition Authenticate :: "'w env \<Rightarrow> string \<Rightarrow> string \<Rightarrow> string
    \<Rightarrow> ('w, (user option \<times> go_error option) res) io" where
  "Authenticate E clientID tokenString remoteIP = (
     if \<not> HasPrefix tokenString TokenPrefix then
       State_Monad.return (Ok (None, Some (Err_str ''token passed must be Bearer token'')))
     else do {
       let token = TrimPrefix tokenString TokenPrefix;
       i \<leftarrow> extractUserInfo E token;
       (case i of
          Err e \<Rightarrow> State_Monad.return (Ok (None, Some e))
        | Panic m \<Rightarrow> State_Monad.return (Panic m)
        | Ok userInfo \<Rightarrow>
            (case checkAuthorization clientID userInfo of
               Some e \<Rightarrow> State_Monad.return (Ok (None, Some e))
             | None \<Rightarrow> do {
                 r \<leftarrow> GetDBUserG E (ByIDPID (ui_Sub userInfo));
                 (case r of
                    Ok u \<Rightarrow> State_Monad.return (Ok (Some u, None))
                  | Panic m \<Rightarrow> State_Monad.return (Panic m)
                  | Err e \<Rightarrow>
                      if \<not> error_Is e ErrNoRows then State_Monad.return (Ok (None, Some e))
                      else do {
                        ru \<leftarrow> GetRemoteUser E token remoteIP;
                        (case ru of
                           Err e' \<Rightarrow> State_Monad.return (Ok (None, Some e'))
                         | Panic m \<Rightarrow> State_Monad.return (Panic m)
                         | Ok remoteUser \<Rightarrow> oauth_by_remote_id E (ru_ID remoteUser) (ui_Sub userInfo))
                      })
               }))
     })"

section \<open>Wallet tracker\<close>

definition Touch :: "'w env \<Rightarrow> int \<Rightarrow> ('w, go_error option) io" where
  "Touch E userID = do {
     now \<leftarrow> ext (env_now E);
     r \<leftarrow> stmt E Pool DbUpdateUser (do {
       modify (\<lambda>s. case fmlookup (w_users s) userID of
          None \<Rightarrow> s
        | Some row \<Rightarrow> s\<lparr>w_users := fmupd userID (row\<lparr>row_LastSeenAt := Some now\<rparr>) (w_users s)\<rparr>);
       State_Monad.return (Ok ()) });
     State_Monad.return (case r of Err e \<Rightarrow> Some (wrap e) | _ \<Rightarrow> None)
   }"

text \<open>Clearing the access time only if it is still the one that was read.\<close>

definition clear_last_seen :: "'w env \<Rightarrow> int \<Rightarrow> int \<Rightarrow> ('w, unit res) io" where
  "clear_last_seen E userID seen = stmt E Pool DbUpdateUser (do {
     modify (\<lambda>s. case fmlookup (w_users s) userID of
        None \<Rightarrow> s
      | Some row \<Rightarrow>
          if row_LastSeenAt row = Some seen
          then s\<lparr>w_users := fmupd userID (row\<lparr>row_LastSeenAt := None\<rparr>) (w_users s)\<rparr> else s);
     State_Monad.return (Ok ())
   })"

fun unload_loop :: "'w env \<Rightarrow> int \<Rightarrow> user list \<Rightarrow> ('w, unit) io" where
  "unload_loop E cutoff [] = State_Monad.return ()"
| "unload_loop E cutoff (u # us) =
     (case (usr_Server u, usr_LastSeenAt u) of
        (Some srv, Some seen) \<Rightarrow>
          if seen < cutoff then do {
            e \<leftarrow> UnloadWallet E (srv_Address srv) (usr_ID u);
            (case e of
               Some _ \<Rightarrow> unload_loop E cutoff us
             | None \<Rightarrow> do { _ \<leftarrow> clear_last_seen E (usr_ID u) seen; unload_loop E cutoff us })
          }
          else unload_loop E cutoff us
      | _ \<Rightarrow> unload_loop E cutoff us)"

definition Unload :: "'w env \<Rightarrow> int \<Rightarrow> ('w, nat res) io" where
  "Unload E olderThan = do {
     now \<leftarrow> ext (env_now E);
     let cutoff = now - olderThan;
     r \<leftarrow> stmt E Pool DbSelectUsers (reads (\<lambda>s. Ok (map (load_user (w_servers s))
            (filter (\<lambda>kr. case row_LastSeenAt (snd kr) of None \<Rightarrow> False | Some t \<Rightarrow> t < cutoff)
               (sorted_list_of_fmap (w_users s))))));
     (case r of
        Ok users \<Rightarrow> do { unload_loop E cutoff users; State_Monad.return (Ok (length users)) }
      | Err e \<Rightarrow> State_Monad.return (Err (wrap e))
      | Panic m \<Rightarrow> State_Monad.return (Panic m))
   }"

section \<open>Tables through a login\<close>

lemma valid_iapi_Call:
  assumes "\<And>s x. J s \<Longrightarrow> J (s\<lparr>w_ext := x\<rparr>)"
  shows "valid J (iapi_Call E c p ps) (\<lambda>_. J)"
  unfolding iapi_Call_def by (rule valid_bind_keep [OF valid_ext]) (auto intro: assms valid_return)

lemma valid_remote_user:
  assumes "\<And>s x. J s \<Longrightarrow> J (s\<lparr>w_ext := x\<rparr>)"
  shows "valid J (GetRemoteUserLegacy E h tok ip) (\<lambda>_. J)" and "valid J (GetRemoteUser E acc ip) (\<lambda>_. J)"
  unfolding GetRemoteUserLegacy_def GetRemoteUser_def has_verified_email_def
  by (intro valid_iapi_Call assms io_intro; assumption)+

text \<open>A login keeps whatever a transaction and the token cache keep.\<close>

lemma valid_legacy_retriever:
  fixes E :: "'w env"
  assumes ext: "\<And>s x. J s \<Longrightarrow> J (s\<lparr>w_ext := x\<rparr>)"
    and tx: "\<And>u. valid J (inTx E (ensure_local_user E u)) (\<lambda>r s. J s \<or> (\<exists>x. r = Ok (x, None)) \<and> K s)"
  shows "valid J (legacy_retriever E h tok ip) (\<lambda>r s. J s \<or> (\<exists>x. r = Ok x) \<and> K s)"
  unfolding legacy_retriever_def
  by (rule valid_bind [OF valid_remote_user(1) [of J]], rule ext, assumption)
     (intro valid_res valid_if valid_return valid_bind [OF tx]; auto split: option.splits)

lemma valid_GetUserWithSDKServer:
  fixes E :: "'w env"
  assumes ext: "\<And>s x. J s \<Longrightarrow> J (s\<lparr>w_ext := x\<rparr>)" and Kext: "\<And>s x. K s \<Longrightarrow> K (s\<lparr>w_ext := x\<rparr>)"
    and tok: "\<And>s x. J s \<Longrightarrow> J (s\<lparr>w_tokens := x\<rparr>)" and Ktok: "\<And>s x. K s \<Longrightarrow> K (s\<lparr>w_tokens := x\<rparr>)"
    and tx: "\<And>u. valid J (inTx E (ensure_local_user E u)) (\<lambda>r s. J s \<or> (\<exists>x. r = Ok (x, None)) \<and> K s)"
  shows "valid J (GetUserWithSDKServer E h token ip) (\<lambda>r s. J s \<or> (\<exists>x. r = Ok x) \<and> K s)"
proof -
  let ?Q = "\<lambda>r s. J s \<or> (\<exists>x. r = Ok x) \<and> K s"
  have JK: "valid (\<lambda>s. J s \<or> K s) (ext c) (\<lambda>_ s. J s \<or> K s)" for c :: "('w, 'x) state"
    by (rule valid_ext) (auto intro: ext Kext)
  have put: "valid (\<lambda>s. J s \<or> K s) (modify (\<lambda>s. s\<lparr>w_tokens := g s\<rparr>)) (\<lambda>_ s. J s \<or> K s)" for g
    by (rule valid_modify) (auto intro: tok Ktok)
  have store: "valid (?Q (Ok u)) (do { jitter \<leftarrow> ext (env_rand E (nat (cache_ttl u))); now \<leftarrow> ext (env_now E);
      modify (\<lambda>s. s\<lparr>w_tokens := fmupd token (u, now + (cache_ttl u + int jitter)) (w_tokens s)\<rparr>);
      State_Monad.return (Ok u) }) ?Q" for u
    by (rule valid_pre [where P = "\<lambda>s. J s \<or> K s"], intro valid_bind [OF JK] valid_bind [OF put] valid_return) auto
  have miss: "valid J (tokenCache_miss E token (legacy_retriever E h token ip)) ?Q"
    unfolding tokenCache_miss_def
    by (rule valid_bind, rule valid_legacy_retriever [of J, OF _ tx], rule ext, assumption)
       (intro valid_res valid_return; (simp only: store)?; simp)
  show ?thesis unfolding GetUserWithSDKServer_def tokenCache_get_def
    by (intro valid_bind_keep [OF valid_ext] valid_bind_keep [OF valid_reads] valid_option valid_prod
        valid_if miss valid_return disjI1; (rule ext)?; assumption)
qed

lemma keeps_inTx:
  "valid (\<lambda>s. others_ok E \<and> assign_mono m (w_users s)) (inTx E (ensure_local_user E u))
     (\<lambda>r s. (others_ok E \<and> assign_mono m (w_users s)) \<or> (\<exists>x. r = Ok (x, None)) \<and> assign_mono m (w_users s))"
  unfolding inTx_def
  by (rule inTx_loop_rule [where I = "\<lambda>s. others_ok E \<and> keeps m s"])
     (rule server_kept.inv_ensure_local_user, simp_all add: keeps_def clear_tx_def rollback_tx_def)

lemma undo_inTx:
  "valid (\<lambda>s. no_others E \<and> w_users s = m) (inTx E (ensure_local_user E u))
     (\<lambda>r s. (no_others E \<and> w_users s = m) \<or> (\<exists>x. r = Ok (x, None)) \<and> True)"
  unfolding inTx_def
  by (rule inTx_loop_rule [where I = "\<lambda>s. no_others E \<and> undoable m s"])
     (rule undo_exact.inv_ensure_local_user, simp_all add: undoable_def clear_tx_def rollback_tx_def)

section \<open>Properties\<close>



text \<open>C5: a login that fails leaves no trace in the database. If no other session writes
  meanwhile and the login ends with an error or a panic, at whatever statement, the \<open>users\<close>
  table is what it was: no half-created user, no assignment without a wallet.\<close>

theorem failed_login_leaves_no_trace:
  assumes "no_others E" and "run_state (GetUserWithSDKServer E h token ip) s = (r, t)" and "\<And>u. r \<noteq> Ok u"
  shows "w_users t = w_users s"
proof -
  have "valid (\<lambda>s'. no_others E \<and> w_users s' = w_users s) (GetUserWithSDKServer E h token ip)
      (\<lambda>r s'. (no_others E \<and> w_users s' = w_users s) \<or> (\<exists>x. r = Ok x) \<and> True)"
    by (rule valid_GetUserWithSDKServer [OF _ _ _ _ undo_inTx]) simp_all
  from validD [OF this assms(2)] assms(1,3) show ?thesis by auto
qed

definition update_fails :: "unit env" where
  "update_fails = quiet_env\<lparr>env_db_fault := (\<lambda>op. State_Monad.return
     (if op = DbUpdateUser then Some (Plain ''down'') else None))\<rparr>"

lemmas login_defs = GetUserWithSDKServer_def tokenCache_get_def tokenCache_miss_def legacy_retriever_def
  GetRemoteUserLegacy_def has_verified_email_def iapi_Call_def inTx_def txMaxRetries_def numeral_2_eq_2
  ensure_local_user_def getOrCreateLocalUser_def createUser_def insert_user_def getDBUser_def stmt_def
  assignSDKServerToUser_def update_server_def clear_tx_def rollback_tx_def new_user_def is_err_def

theorem failed_login_leaves_no_trace_witness:
  "\<exists>e. fst (run_state (GetUserWithSDKServer update_fails ''h'' ''tok'' ''ip'') quiet_world) = Err e \<and>
     w_users (snd (run_state (GetUserWithSDKServer update_fails ''h'' ''tok'' ''ip'') quiet_world)) = fmempty"
proof -
  let ?run = "run_state (GetUserWithSDKServer update_fails ''h'' ''tok'' ''ip'') quiet_world"
  obtain c where c: "NewClient [WithLegacyToken ''tok'', WithRemoteIP ''ip'', WithServer ''h''] = Ok c"
    by (simp add: NewClient_def WithLegacyToken_def WithRemoteIP_def WithServer_def WithExtraParam_def
        WithExtraHeader_def map_get_def iapi_consts)
  have err: "\<exists>e. fst ?run = Err e"
    by (simp add: login_defs c update_fails_def quiet_defs st_run LeastLoaded_def wrap_def)
  moreover have "no_others update_fails" by (simp add: no_others_def update_fails_def quiet_env_def)
  ultimately have "w_users (snd ?run) = w_users quiet_world"
    using failed_login_leaves_no_trace [OF _ surjective_pairing] by fastforce
  with err show ?thesis by (simp add: quiet_world_def)
qed

text \<open>How long a token is trusted without asking internal-apis again. After a retrieval
  the entry is valid for at least the base time of its kind (15 seconds for an unconfirmed
  user, 15 minutes for a confirmed one) and for less than twice that; while it is valid and
  not evicted, a login returns the stored user and touches nothing; later, or for another
  outcome of the store, the retriever decides.\<close>

theorem token_cache_lifetime:
  assumes rand: "\<And>n w. 0 < n \<Longrightarrow> fst (run_state (env_rand E n) w) < n"
    and miss: "run_state (tokenCache_miss E token retr) s = (Ok u, t)"
  shows "\<exists>s\<^sub>1 now expiry. run_state retr s = (Ok u, s\<^sub>1) \<and>
    now = fst (run_state (env_now E) (snd (run_state (env_rand E (nat (cache_ttl u))) (w_ext s\<^sub>1)))) \<and>
    fmlookup (w_tokens t) token = Some (u, expiry) \<and>
    now + cache_ttl u \<le> expiry \<and> expiry < now + 2 * cache_ttl u \<and>
    (\<forall>t' retr'. w_tokens t' = w_tokens t \<longrightarrow>
      fst (run_state (env_evict E token) (snd (run_state (env_now E) (w_ext t')))) = False \<longrightarrow>
      fst (run_state (tokenCache_get E token retr') t') =
        (if fst (run_state (env_now E) (w_ext t')) < expiry then Ok u
         else fst (run_state (tokenCache_miss E token retr')
           (t'\<lparr>w_ext := snd (run_state (env_evict E token) (snd (run_state (env_now E) (w_ext t'))))\<rparr>))))"
proof -
  have "0 < cache_ttl u" by (simp add: cache_ttl_def ttlUnconfirmed_def ttlConfirmed_def second_def split: option.split)
  then have j: "int (fst (run_state (env_rand E (nat (cache_ttl u))) w)) < cache_ttl u" for w
    using rand [of "nat (cache_ttl u)" w] by linarith
  let ?rand = "\<lambda>s\<^sub>1. run_state (env_rand E (nat (cache_ttl u))) (w_ext s\<^sub>1)"
  let ?now = "\<lambda>s\<^sub>1. fst (run_state (env_now E) (snd (?rand s\<^sub>1)))"
  let ?expiry = "\<lambda>s\<^sub>1. ?now s\<^sub>1 + (cache_ttl u + int (fst (?rand s\<^sub>1)))"
  from miss obtain s1 where s1: "run_state retr s = (Ok u, s1)"
    and e: "fmlookup (w_tokens t) token = Some (u, ?expiry s1)"
    by (auto simp: tokenCache_miss_def split: res.splits prod.splits)
  show ?thesis
    by (rule exI [of _ s1], rule exI [of _ "?now s1"], rule exI [of _ "?expiry s1"])
      (use s1 e j in \<open>simp add: tokenCache_get_def\<close>)
qed

theorem token_cache_lifetime_witness:
  "\<exists>t expiry. run_state (tokenCache_miss quiet_env ''tok'' (State_Monad.return (Ok None))) quiet_world = (Ok None, t) \<and>
     fmlookup (w_tokens t) ''tok'' = Some (None, expiry) \<and> expiry < 1700000000 * second + 2 * ttlUnconfirmed"
proof -
  let ?run = "run_state (tokenCache_miss quiet_env ''tok'' (State_Monad.return (Ok None))) quiet_world"
  have "?run = (Ok None, snd ?run)" by (simp add: tokenCache_miss_def quiet_env_def)
  moreover have "0 < n \<Longrightarrow> fst (run_state (env_rand quiet_env n) w) < n" for n w by (simp add: quiet_env_def)
  ultimately show ?thesis using token_cache_lifetime [of quiet_env "''tok''"]
    by (fastforce simp: cache_ttl_def quiet_env_def)
qed

section \<open>Idle wallets\<close>

text \<open>What unloading may do to the table: rows keep their identity and server, and an
  access time at or after the cutoff stays.\<close>

definition idle_mono :: "int \<Rightarrow> users_table \<Rightarrow> users_table \<Rightarrow> bool" where
  "idle_mono cutoff m n \<longleftrightarrow> (\<forall>i. fmlookup n i = fmlookup m i \<or>
     (\<exists>r seen. fmlookup m i = Some r \<and> row_LastSeenAt r = Some seen \<and> seen < cutoff \<and>
       fmlookup n i = Some (r\<lparr>row_LastSeenAt := None\<rparr>)))"

lemma idle_mono_refl [simp]: "idle_mono c m m"
  by (simp add: idle_mono_def)

lemma idle_mono_clear:
  assumes "idle_mono c m n" "fmlookup n i = Some r" "row_LastSeenAt r = Some seen" "seen < c"
  shows "idle_mono c m (fmupd i (r\<lparr>row_LastSeenAt := None\<rparr>) n)"
proof -
  have "fmlookup m i = Some r" using assms(2-4) spec [OF assms(1) [unfolded idle_mono_def], of i] by auto
  with assms show ?thesis by (simp add: idle_mono_def)
qed

lemma valid_clear_last_seen:
  assumes "seen < cutoff"
  shows "valid (\<lambda>s. no_others E \<and> idle_mono cutoff m (w_users s)) (clear_last_seen E i seen)
    (\<lambda>_ s. no_others E \<and> idle_mono cutoff m (w_users s))"
proof (rule validI)
  fix s a t assume s: "no_others E \<and> idle_mono cutoff m (w_users s)" and run: "run_state (clear_last_seen E i seen) s = (a, t)"
  then have "w_users t = w_users s \<or> (\<exists>r. fmlookup (w_users s) i = Some r \<and> row_LastSeenAt r = Some seen \<and>
      w_users t = fmupd i (r\<lparr>row_LastSeenAt := None\<rparr>) (w_users s))"
    by (auto simp: clear_last_seen_def stmt_def no_others_def is_err_def split: option.splits if_splits)
  with s assms show "no_others E \<and> idle_mono cutoff m (w_users t)"
    using idle_mono_clear by (elim disjE) auto
qed

lemma valid_unload_loop:
  "valid (\<lambda>s. no_others E \<and> idle_mono cutoff m (w_users s)) (unload_loop E cutoff us)
     (\<lambda>_ s. no_others E \<and> idle_mono cutoff m (w_users s))"
proof (induction us)
  case (Cons u us)
  have "valid (\<lambda>s. no_others E \<and> idle_mono cutoff m (w_users s)) (UnloadWallet E a i)
      (\<lambda>_ s. no_others E \<and> idle_mono cutoff m (w_users s))" for a i
    unfolding UnloadWallet_def by (rule valid_bind_keep [OF valid_ext]) (auto intro: valid_return)
  then show ?case
    by (simp only: unload_loop.simps) (intro io_intro Cons.IH valid_clear_last_seen; assumption)
qed (simp add: valid_return)

text \<open>The unloader only marks wallets that have been idle. With no other session
  writing, after \<open>Unload\<close> every row is as before, or it had an access time older than the
  cutoff (the time of the call less the given duration) and differs only in that this time
  is cleared; in particular a user seen since keeps its access time, and no row appears,
  disappears or changes its server.\<close>

theorem unload_only_idle:
  assumes "no_others E" and "run_state (Unload E olderThan) s = (r, t)"
  shows "idle_mono (fst (run_state (env_now E) (w_ext s)) - olderThan) (w_users s) (w_users t)"
proof -
  let ?now = "fst (run_state (env_now E) (w_ext s))"
  let ?I = "\<lambda>s'. no_others E \<and> idle_mono (?now - olderThan) (w_users s) (w_users s')"
  have sel: "valid ?I (stmt E Pool DbSelectUsers (reads g)) (\<lambda>_. ?I)" for g :: "'a world \<Rightarrow> user list res"
    unfolding valid_def by (auto simp: stmt_def no_others_def split: option.splits)
  have clock: "valid (\<lambda>s'. s' = s \<and> no_others E) (ext (env_now E)) (\<lambda>now s'. now = ?now \<and> ?I s')"
    by (auto simp: valid_def)
  have "valid (\<lambda>s'. s' = s \<and> no_others E) (Unload E olderThan) (\<lambda>_. ?I)"
    unfolding Unload_def Let_def
  proof (rule valid_bind [OF clock])
    fix now
    show "valid (\<lambda>s'. now = ?now \<and> ?I s') (do {
       r \<leftarrow> stmt E Pool DbSelectUsers (reads (\<lambda>s. Ok (map (load_user (w_servers s))
            (filter (\<lambda>kr. case row_LastSeenAt (snd kr) of None \<Rightarrow> False | Some t \<Rightarrow> t < now - olderThan)
               (sorted_list_of_fmap (w_users s))))));
       (case r of
          Ok users \<Rightarrow> do { unload_loop E (now - olderThan) users; State_Monad.return (Ok (length users)) }
        | Err e \<Rightarrow> State_Monad.return (Err (wrap e))
        | Panic m \<Rightarrow> State_Monad.return (Panic m)) }) (\<lambda>_. ?I)"
    proof (cases "now = ?now")
      case True
      show ?thesis unfolding True
        by (rule valid_pre [where P = ?I], intro valid_bind_keep [OF sel] valid_res
            valid_bind_keep [OF valid_unload_loop] valid_return) simp_all
    qed (simp add: valid_def)
  qed
  from validD [OF this assms(2)] assms(1) show ?thesis by simp
qed

definition idle_world :: "unit world" where
  "idle_world = quiet_world\<lparr>w_users := fmap_of_list
     [(7, \<lparr>row_IdpID = None, row_ServerID = Some 1, row_LastSeenAt = Some 5\<rparr>)]\<rparr>"

theorem unload_only_idle_witness:
  "idle_mono (1700000000 * second - 10) (w_users idle_world)
     (w_users (snd (run_state (Unload quiet_env 10) idle_world)))"
proof -
  have "no_others quiet_env" by (simp add: no_others_def quiet_env_def)
  from unload_only_idle [OF this surjective_pairing, of idle_world 10] show ?thesis
    by (simp add: quiet_env_def)
qed

section \<open>Linking an OAuth identity\<close>

definition link_env :: "unit env" where
  "link_env = quiet_env\<lparr>env_db_others := (\<lambda>op. State_Monad.return (\<lambda>m.
     case fmlookup m 7 of
       Some r \<Rightarrow> if op = DbUpdateUser \<and> row_ServerID r = None then fmupd 7 (r\<lparr>row_ServerID := Some 1\<rparr>) m else m
     | None \<Rightarrow> m))\<rparr>"

definition link_world :: "unit world" where
  "link_world = quiet_world\<lparr>w_users := fmupd 7 \<lparr>row_IdpID = None, row_ServerID = None, row_LastSeenAt = None\<rparr> fmempty\<rparr>"

lemma sorted_list_of_fmap_single [simp]: "sorted_list_of_fmap (fmupd k v fmempty) = [(k, v)]"
  by (simp add: sorted_list_of_fmap_def sorted_list_of_fset.rep_eq)

text \<open>Writing all columns of a row read earlier loses an assignment made in between: here
  another session gives user 7 its server just before \<open>Authenticate\<close> links the identity,
  and the row ends without a server.\<close>

theorem oauth_link_loses_assignment:
  "others_ok link_env \<and>
   row_ServerID (the (fmlookup (fst (run_state (env_db_others link_env DbUpdateUser) ()) (w_users link_world)) 7)) = Some 1 \<and>
   (\<exists>u. fst (run_state (Authenticate link_env ''odysee-apis'' ''Bearer x'' ''ip'') link_world) = Ok (Some u, None)) \<and>
   fmlookup (w_users (snd (run_state (Authenticate link_env ''odysee-apis'' ''Bearer x'' ''ip'') link_world))) 7
     = Some \<lparr>row_IdpID = Some ''sub7'', row_ServerID = None, row_LastSeenAt = None\<rparr>"
proof -
  obtain c where c: "NewClient [WithOAuthToken ''x'', WithRemoteIP ''ip''] = Ok c"
    by (simp add: NewClient_def WithOAuthToken_def WithRemoteIP_def WithExtraParam_def
        WithExtraHeader_def map_get_def iapi_consts)
  have ok: "others_ok link_env"
    by (auto simp: others_ok_def link_env_def assign_mono_def split: option.split)
  show ?thesis
    by (simp add: ok, simp add: Authenticate_def Let_def extractUserInfo_def checkAuthorization_def
        TokenPrefix_def HasPrefix_def TrimPrefix_def GetDBUserG_def getDBUser_def stmt_def is_err_def GetRemoteUser_def has_verified_email_def
        iapi_Call_def c link_env_def link_world_def quiet_defs oauth_by_remote_id_def update_user_def
        matches_def load_user_def server_by_id_def row_of_def ErrNoRows_def)
qed

end
