(* ===== verification/Auth.thy ===== *)
theory Auth
  imports Tokens
begin

text \<open>
  \<open>app/auth\<close>: attaching the authenticated user to a request. The two middlewares run in
  the order of the routes (OAuth first, then the legacy token); \<open>universalUserGetter\<close> does
  both at once for the upload services. An HTTP middleware is the function from the request
  it receives to the request it passes on; \<open>app/wallet/tracker\<close>'s middleware runs after the
  handler.
\<close>

section \<open>Requests and users\<close>

record current_user =
  cu_ipAddr :: string
  cu_iac :: "iapi_client option"
  cu_user :: "user option"
  cu_err :: "go_error option"

text \<open>A request: its headers under canonical names, the client address that \<open>internal/ip\<close>
  determined for it, and the \<open>CurrentUser\<close> of its context.\<close>

record http_request =
  rq_Header :: "(string, string list) fmap"
  rq_ip :: string
  rq_CurrentUser :: "current_user option"

definition LegacyTokenHeader :: string where "LegacyTokenHeader = ''X-Lbry-Auth-Token''"
definition AuthorizationHeader :: string where "AuthorizationHeader = ''Authorization''"

definition Header_Get :: "http_request \<Rightarrow> string \<Rightarrow> string" where
  "Header_Get r k = (case fmlookup (rq_Header r) k of Some (v # _) \<Rightarrow> v | _ \<Rightarrow> [])"

type_synonym auth_result = "(user option \<times> go_error option) res"

text \<open>\<open>auth.Provider\<close> and the two methods of \<open>auth.Authenticator\<close>.\<close>

type_synonym 'w auth_provider = "string \<Rightarrow> string \<Rightarrow> ('w, auth_result) io"

record 'w auther =
  au_Authenticate :: "string \<Rightarrow> string \<Rightarrow> ('w, auth_result) io"
  au_GetTokenFromRequest :: "http_request \<Rightarrow> string res"

definition GetTokenFromRequest :: "http_request \<Rightarrow> string res" where
  "GetTokenFromRequest r = (case fmlookup (rq_Header r) AuthorizationHeader of
     Some (t # _) \<Rightarrow> Ok t
   | Some [] \<Rightarrow> Panic ''index out of range''
   | None \<Rightarrow> Err ErrNoAuthInfo)"

definition OauthAuthenticator :: "'w env \<Rightarrow> string \<Rightarrow> 'w auther" where
  "OauthAuthenticator E clientID =
     \<lparr>au_Authenticate = Authenticate E clientID, au_GetTokenFromRequest = GetTokenFromRequest\<rparr>"

definition NewIAPIProvider :: "'w env \<Rightarrow> string \<Rightarrow> 'w auth_provider" where
  "NewIAPIProvider E internalAPIHost token metaRemoteIP = do {
     r \<leftarrow> GetUserWithSDKServer E internalAPIHost token metaRemoteIP;
     State_Monad.return (case r of
       Ok u \<Rightarrow> Ok (u, None) | Err e \<Rightarrow> Ok (None, Some e) | Panic m \<Rightarrow> Panic m)
   }"

definition nilProvider :: "'w auth_provider" where
  "nilProvider token ip = State_Monad.return (Ok (None, None))"

definition NewCurrentUser :: "user option \<Rightarrow> string \<Rightarrow> iapi_client option \<Rightarrow> go_error option \<Rightarrow> current_user" where
  "NewCurrentUser u ipAddr iac e = \<lparr>cu_ipAddr = ipAddr, cu_iac = iac, cu_user = u, cu_err = e\<rparr>"

definition AttachCurrentUser :: "http_request \<Rightarrow> current_user \<Rightarrow> http_request" where
  "AttachCurrentUser r cu = r\<lparr>rq_CurrentUser := Some cu\<rparr>"

definition GetCurrentUserData :: "current_user option \<Rightarrow> go_error + current_user" where
  "GetCurrentUserData v = (case v of
     None \<Rightarrow> Inl (Err_str ''auth middleware is required'') | Some cu \<Rightarrow> Inr cu)"

definition FromRequest :: "http_request \<Rightarrow> user option \<times> go_error option" where
  "FromRequest r = (case GetCurrentUserData (rq_CurrentUser r) of
     Inl e \<Rightarrow> (None, Some e) | Inr cu \<Rightarrow> (cu_user cu, cu_err cu))"

section \<open>Middlewares\<close>

definition client_or_nil :: "iapi_client res \<Rightarrow> iapi_client option" where
  "client_or_nil r = (case r of Ok c \<Rightarrow> Some c | _ \<Rightarrow> None)"

definition Middleware :: "'w auther \<Rightarrow> http_request \<Rightarrow> ('w, http_request res) io" where
  "Middleware auther r = (case au_GetTokenFromRequest auther r of
     Panic m \<Rightarrow> State_Monad.return (Panic m)
   | Err e \<Rightarrow> State_Monad.return (Ok (AttachCurrentUser r (NewCurrentUser None [] None (Some e))))
   | Ok token \<Rightarrow> do {
       a \<leftarrow> au_Authenticate auther token (rq_ip r);
       State_Monad.return (case a of
         Ok (user, err) \<Rightarrow>
           let iac = (if user \<noteq> None
             then client_or_nil (NewClient [WithOAuthToken (TrimPrefix token TokenPrefix), WithRemoteIP (rq_ip r)])
             else None)
           in Ok (AttachCurrentUser r (NewCurrentUser user (rq_ip r) iac err))
       | Err e \<Rightarrow> Err e
       | Panic m \<Rightarrow> Panic m)
     })"

definition LegacyMiddleware :: "'w auth_provider \<Rightarrow> http_request \<Rightarrow> ('w, http_request res) io" where
  "LegacyMiddleware provider r = (
     if snd (FromRequest r) = None then State_Monad.return (Ok r)
     else do {
       let token = Header_Get r LegacyTokenHeader;
       a \<leftarrow> (if token \<noteq> [] then provider token (rq_ip r)
             else State_Monad.return (Ok (fst (FromRequest r), Some ErrNoAuthInfo)));
       State_Monad.return (case a of
         Ok (user, err) \<Rightarrow>
           let iac = (if user \<noteq> None
             then client_or_nil (NewClient [WithLegacyToken token, WithRemoteIP (rq_ip r)]) else None)
           in Ok (AttachCurrentUser r (NewCurrentUser user (rq_ip r) iac err))
       | Err e \<Rightarrow> Err e
       | Panic m \<Rightarrow> Panic m)
     })"

definition NilMiddleware :: "http_request \<Rightarrow> ('w, http_request res) io" where
  "NilMiddleware = LegacyMiddleware nilProvider"

definition MiddlewareWithProvider :: "'w env \<Rightarrow> string \<Rightarrow> http_request \<Rightarrow> ('w, http_request res) io" where
  "MiddlewareWithProvider E internalAPIHost = LegacyMiddleware (NewIAPIProvider E internalAPIHost)"

text \<open>The middlewares in the order the routes install them.\<close>

definition auth_chain :: "'w auther \<Rightarrow> 'w auth_provider \<Rightarrow> http_request \<Rightarrow> ('w, http_request res) io" where
  "auth_chain auther provider r = do {
     x \<leftarrow> Middleware auther r;
     (case x of
        Ok r' \<Rightarrow> LegacyMiddleware provider r'
      | Err e \<Rightarrow> State_Monad.return (Err e)
      | Panic m \<Rightarrow> State_Monad.return (Panic m))
   }"

definition tracker_Middleware :: "'w env \<Rightarrow> (http_request \<Rightarrow> ('w, unit) io) \<Rightarrow> http_request \<Rightarrow> ('w, unit) io" where
  "tracker_Middleware E serve r = do {
     serve r;
     (case FromRequest r of
        (user, err) \<Rightarrow>
          if err \<noteq> None \<and> \<not> error_Is (the err) ErrNoAuthInfo then State_Monad.return ()
          else (case user of
            None \<Rightarrow> State_Monad.return ()
          | Some u \<Rightarrow> do {
              e \<leftarrow> Touch E (usr_ID u);
              (case e of None \<Rightarrow> State_Monad.return () | Some x \<Rightarrow> ErrorToSentry (Some x))
            }))
   }"

section \<open>The universal getter\<close>

definition found_or_refused :: "auth_result \<Rightarrow> auth_result" where
  "found_or_refused a = (case a of
     Ok (_, Some e) \<Rightarrow> Ok (None, Some e)
   | Ok (None, None) \<Rightarrow> Ok (None, Some ErrNoAuthInfo)
   | Ok (Some u, None) \<Rightarrow> Ok (Some u, None)
   | Err e \<Rightarrow> Err e
   | Panic m \<Rightarrow> Panic m)"

definition UniversalFromRequest :: "'w auther \<Rightarrow> 'w auth_provider \<Rightarrow> http_request \<Rightarrow> ('w, auth_result) io" where
  "UniversalFromRequest auther provider r = (case au_GetTokenFromRequest auther r of
     Panic m \<Rightarrow> State_Monad.return (Panic m)
   | Err e \<Rightarrow>
       if error_Is e ErrNoAuthInfo then
         (case fmlookup (rq_Header r) LegacyTokenHeader of
            Some (token # _) \<Rightarrow> do {
              a \<leftarrow> provider token (rq_ip r);
              State_Monad.return (found_or_refused a)
            }
          | Some [] \<Rightarrow> State_Monad.return (Panic ''index out of range'')
          | None \<Rightarrow> State_Monad.return (Ok (None, Some (wrap ErrNoAuthInfo))))
       else State_Monad.return (Ok (None, Some e))
   | Ok token \<Rightarrow> do {
       a \<leftarrow> au_Authenticate auther token (rq_ip r);
       State_Monad.return (found_or_refused a)
     })"

lemmas auth_defs = Middleware_def LegacyMiddleware_def auth_chain_def UniversalFromRequest_def
  found_or_refused_def FromRequest_def GetCurrentUserData_def AttachCurrentUser_def NewCurrentUser_def
  Header_Get_def

section \<open>Login services\<close>

text \<open>
  What the middlewares rely on in a way to log in: it answers with a user or an error (or
  panics), it never accepts a blank token, and it keeps an invariant of its own under which
  this is so.
\<close>

locale login_service =
  fixes login :: "'w auth_provider" and I :: "'w world \<Rightarrow> bool"
  assumes pair: "fst (run_state (login t ip) s) \<noteq> Err e"
    and keeps_inv: "I s \<Longrightarrow> I (snd (run_state (login t ip) s))"
    and blank: "I s \<Longrightarrow> fst (run_state (login [] ip) s) \<noteq> Ok (Some u, None)"
begin

lemma universal_in_chain:
  assumes "au_GetTokenFromRequest A r = Ok t \<or> au_GetTokenFromRequest A r = Err ErrNoAuthInfo" and "I s"
    and "run_state (UniversalFromRequest A login r) s = (Ok (Some u, None), s')"
  shows "\<exists>r'. run_state (auth_chain A login r) s = (Ok r', s') \<and> FromRequest r' = (Some u, None)"
proof (cases "au_GetTokenFromRequest A r")
  case (Ok token)
  with assms(3) have "run_state (au_Authenticate A token (rq_ip r)) s = (Ok (Some u, None), s')"
    by (auto simp: auth_defs split: res.splits option.splits prod.splits)
  with Ok show ?thesis by (simp add: auth_defs Let_def)
next
  case (Err e)
  with assms(3) obtain token ts where tok: "fmlookup (rq_Header r) LegacyTokenHeader = Some (token # ts)"
    and run: "run_state (login token (rq_ip r)) s = (Ok (Some u, None), s')"
    by (auto simp: auth_defs split: if_splits res.splits option.splits list.splits prod.splits)
  from blank [OF assms(2), of "rq_ip r" u] run have "token \<noteq> []" by auto
  with Err tok run show ?thesis by (simp add: auth_defs Let_def)
next
  case (Panic m)
  with assms(1) show ?thesis by simp
qed

end

interpretation tokens_kept: tx_invariant E "\<lambda>s. P (w_tokens s)" for E P
  by unfold_locales simp_all

lemma tokens_inTx:
  "valid (\<lambda>s. P (w_tokens s)) (inTx E (ensure_local_user E u)) (\<lambda>_ s. P (w_tokens s))"
  unfolding inTx_def
  by (rule valid_post [OF inTx_loop_rule [where I = "\<lambda>s. P (w_tokens s)" and J = "\<lambda>s. P (w_tokens s)"
        and K = "\<lambda>s. P (w_tokens s)"]], rule tokens_kept.inv_ensure_local_user)
     (auto simp: clear_tx_def rollback_tx_def)

lemma tokens_legacy_retriever:
  "valid (\<lambda>s. P (w_tokens s)) (legacy_retriever E h t ip) (\<lambda>_ s. P (w_tokens s))"
  by (rule valid_post [OF valid_legacy_retriever [where J = "\<lambda>s. P (w_tokens s)" and K = "\<lambda>s. P (w_tokens s)"]],
      simp, rule valid_post [OF tokens_inTx]) auto

lemma NewClient_blank: "\<exists>e. NewClient [WithLegacyToken [], WithRemoteIP ip, WithServer h] = Err e"
  by (simp add: NewClient_def WithLegacyToken_def WithRemoteIP_def WithServer_def WithExtraParam_def
      WithExtraHeader_def map_get_def iapi_consts)

definition no_blank_token :: "'w world \<Rightarrow> bool" where
  "no_blank_token s \<longleftrightarrow> fmlookup (w_tokens s) [] = None"

interpretation iapi_login: login_service "NewIAPIProvider E h" no_blank_token for E h
proof
  fix t ip e and s :: "'a world" show "fst (run_state (NewIAPIProvider E h t ip) s) \<noteq> Err e"
    by (auto simp: NewIAPIProvider_def split: res.splits prod.splits)
next
  fix ip u and s :: "'a world" assume I: "no_blank_token s"
  obtain e where "NewClient [WithLegacyToken [], WithRemoteIP ip, WithServer h] = Err e"
    using NewClient_blank by blast
  with I show "fst (run_state (NewIAPIProvider E h [] ip) s) \<noteq> Ok (Some u, None)"
    by (auto simp: NewIAPIProvider_def GetUserWithSDKServer_def tokenCache_get_def tokenCache_miss_def
        legacy_retriever_def GetRemoteUserLegacy_def no_blank_token_def split: res.splits)
next
  fix t ip and s :: "'a world" assume I: "no_blank_token s"
  have st: "valid no_blank_token (tokenCache_miss E t (legacy_retriever E h t ip)) (\<lambda>_. no_blank_token)"
  proof (cases "t = []")
    case True
    then show ?thesis using NewClient_blank [of ip h]
      by (auto simp: tokenCache_miss_def legacy_retriever_def GetRemoteUserLegacy_def valid_def)
  next
    case False
    then show ?thesis unfolding tokenCache_miss_def no_blank_token_def
      by (intro valid_bind_keep [OF tokens_legacy_retriever] valid_res valid_bind_keep [OF valid_ext]
          valid_bind_keep [OF valid_modify] valid_return) simp_all
  qed
  have "valid no_blank_token (NewIAPIProvider E h t ip) (\<lambda>_. no_blank_token)"
    unfolding NewIAPIProvider_def GetUserWithSDKServer_def tokenCache_get_def
    by (intro io_intro st valid_ext) (simp_all add: no_blank_token_def)
  from validD [OF this surjective_pairing I]
  show "no_blank_token (snd (run_state (NewIAPIProvider E h t ip) s))" .
qed

section \<open>Properties\<close>

text \<open>C11: the two ways of authenticating a request agree. If the getter that the upload
  services use finds a user for a request, then the middlewares of the main API find the
  same user for it, without an error, from the same credentials and with the same effects.\<close>

theorem universal_getter_agrees:
  assumes "no_blank_token s"
    and "run_state (UniversalFromRequest (OauthAuthenticator E cid) (NewIAPIProvider E h) r) s = (Ok (Some u, None), t)"
  shows "\<exists>r'. run_state (auth_chain (OauthAuthenticator E cid) (NewIAPIProvider E h) r) s = (Ok r', t) \<and>
    FromRequest r' = (Some u, None)"
proof -
  have "au_GetTokenFromRequest (OauthAuthenticator E cid) r = Ok t \<or>
      au_GetTokenFromRequest (OauthAuthenticator E cid) r = Err ErrNoAuthInfo" if "t = hd (the (fmlookup (rq_Header r) AuthorizationHeader))" for t
    using assms(2) that
    by (auto simp: OauthAuthenticator_def GetTokenFromRequest_def UniversalFromRequest_def split: option.splits list.splits)
  from iapi_login.universal_in_chain [OF this [OF refl] assms] show ?thesis .
qed

definition linked_world :: "unit world" where
  "linked_world = quiet_world\<lparr>w_users := fmupd 7
     \<lparr>row_IdpID = Some ''sub7'', row_ServerID = Some 1, row_LastSeenAt = None\<rparr> fmempty\<rparr>"

definition bearer_request :: http_request where
  "bearer_request = \<lparr>rq_Header = fmap_of_list [(AuthorizationHeader, [''Bearer x''])], rq_ip = ''1.2.3.4'',
     rq_CurrentUser = None\<rparr>"

definition linked_user :: user where
  "linked_user = \<lparr>usr_ID = 7, usr_IdpID = Some ''sub7'', usr_ServerID = Some 1, usr_LastSeenAt = None,
     usr_Server = Some sdk1\<rparr>"

lemma linked_login:
  "run_state (Authenticate quiet_env ''odysee-apis'' ''Bearer x'' ip) linked_world
     = (Ok (Some linked_user, None), linked_world)"
  by (simp add: Authenticate_def Let_def extractUserInfo_def checkAuthorization_def TokenPrefix_def HasPrefix_def
      TrimPrefix_def GetDBUserG_def getDBUser_def stmt_def is_err_def linked_world_def quiet_defs
      matches_def load_user_def server_by_id_def linked_user_def)

theorem universal_getter_agrees_witness:
  "\<exists>r' t. run_state (auth_chain (OauthAuthenticator quiet_env ''odysee-apis'') (NewIAPIProvider quiet_env ''h'')
     bearer_request) linked_world = (Ok r', t) \<and> FromRequest r' = (Some linked_user, None)"
proof -
  have "no_blank_token linked_world" by (simp add: no_blank_token_def linked_world_def quiet_world_def)
  moreover have "run_state (UniversalFromRequest (OauthAuthenticator quiet_env ''odysee-apis'')
      (NewIAPIProvider quiet_env ''h'') bearer_request) linked_world = (Ok (Some linked_user, None), linked_world)"
    by (simp add: UniversalFromRequest_def OauthAuthenticator_def GetTokenFromRequest_def bearer_request_def
        AuthorizationHeader_def linked_login found_or_refused_def)
  ultimately show ?thesis using universal_getter_agrees by blast
qed

text \<open>A request is served as a user only on the strength of its own credentials: if the
  middlewares attach a user without an error, then either the request's OAuth token
  authenticated that user, or that failed and its non-blank legacy token did; a user found
  by the first is never replaced by the second.\<close>

theorem authenticated_by_own_credentials:
  assumes "run_state (auth_chain A P r) s = (Ok r', t)" and "FromRequest r' = (Some u, None)"
  shows "case au_GetTokenFromRequest A r of
     Ok tok \<Rightarrow> (case run_state (au_Authenticate A tok (rq_ip r)) s of
         (Ok (x, None), _) \<Rightarrow> x = Some u
       | (Ok (_, Some _), s\<^sub>1) \<Rightarrow> Header_Get r LegacyTokenHeader \<noteq> [] \<and>
           fst (run_state (P (Header_Get r LegacyTokenHeader) (rq_ip r)) s\<^sub>1) = Ok (Some u, None)
       | _ \<Rightarrow> False)
   | Err _ \<Rightarrow> Header_Get r LegacyTokenHeader \<noteq> [] \<and>
       fst (run_state (P (Header_Get r LegacyTokenHeader) (rq_ip r)) s) = Ok (Some u, None)
   | Panic _ \<Rightarrow> False"
  using assms
  by (auto simp: auth_defs Let_def split: res.splits option.splits prod.splits if_splits)

theorem authenticated_by_own_credentials_witness:
  "\<exists>r' t. run_state (auth_chain (OauthAuthenticator quiet_env ''odysee-apis'') nilProvider bearer_request)
       linked_world = (Ok r', t) \<and> FromRequest r' = (Some linked_user, None) \<and>
     (\<exists>tok. GetTokenFromRequest bearer_request = Ok tok \<and>
       fst (run_state (Authenticate quiet_env ''odysee-apis'' tok ''1.2.3.4'') linked_world)
         = Ok (Some linked_user, None))"
proof -
  let ?A = "OauthAuthenticator quiet_env ''odysee-apis''"
  have run: "\<exists>r'. run_state (auth_chain ?A nilProvider bearer_request) linked_world = (Ok r', linked_world) \<and>
      FromRequest r' = (Some linked_user, None)"
    by (simp add: auth_defs OauthAuthenticator_def GetTokenFromRequest_def bearer_request_def
        AuthorizationHeader_def linked_login Let_def)
  then obtain r' where r': "run_state (auth_chain ?A nilProvider bearer_request) linked_world = (Ok r', linked_world)"
    "FromRequest r' = (Some linked_user, None)" by blast
  moreover from authenticated_by_own_credentials [OF r'] have
    "\<exists>tok. GetTokenFromRequest bearer_request = Ok tok \<and>
       fst (run_state (Authenticate quiet_env ''odysee-apis'' tok ''1.2.3.4'') linked_world) = Ok (Some linked_user, None)"
    by (auto simp: OauthAuthenticator_def bearer_request_def Header_Get_def LegacyTokenHeader_def AuthorizationHeader_def
        GetTokenFromRequest_def linked_login)
  ultimately show ?thesis by blast
qed

end
