(* ===== verification/Query.thy ===== *)
theory Query
  imports Auth
begin

text \<open>
  \<open>app/query/const.go\<close>, \<open>query.go\<close>, \<open>errors.go\<close>: which methods and parameters a client may
  use, and the query that is made of its request. Authenticated requests for methods that
  accept a wallet get the caller's own wallet id, replacing whatever the client sent.
\<close>

section \<open>Method and parameter names\<close>

definition MethodClaimSearch :: string where "MethodClaimSearch = ''claim_search''"
definition MethodGet :: string where "MethodGet = ''get''"
definition MethodPublish :: string where "MethodPublish = ''publish''"
definition MethodPurchaseCreate :: string where "MethodPurchaseCreate = ''purchase_create''"
definition MethodResolve :: string where "MethodResolve = ''resolve''"
definition MethodStatus :: string where "MethodStatus = ''status''"
definition MethodStreamUpdate :: string where "MethodStreamUpdate = ''stream_update''"
definition MethodStreamCreate :: string where "MethodStreamCreate = ''stream_create''"
definition MethodSyncApply :: string where "MethodSyncApply = ''sync_apply''"
definition MethodWalletBalance :: string where "MethodWalletBalance = ''wallet_balance''"
definition MethodWalletSend :: string where "MethodWalletSend = ''wallet_send''"
definition ParamMethod :: string where "ParamMethod = ''method''"
definition ParamAccountID :: string where "ParamAccountID = ''account_id''"
definition ParamNewSDKServer :: string where "ParamNewSDKServer = ''new_sdk_server''"
definition ParamPurchaseReceipt :: string where "ParamPurchaseReceipt = ''purchase_receipt''"
definition ParamStreamingUrl :: string where "ParamStreamingUrl = ''streaming_url''"
definition ParamBaseStreamingUrl :: string where "ParamBaseStreamingUrl = ''base_streaming_url''"
definition ParamUrls :: string where "ParamUrls = ''urls''"
definition ParamWalletID :: string where "ParamWalletID = ''wallet_id''"

definition cacheResolveLongerThan :: nat where "cacheResolveLongerThan = 10"
definition maxListSizeLogged :: nat where "maxListSizeLogged = 5"

definition forbiddenParams :: "string list" where
  "forbiddenParams = [ParamAccountID, ParamNewSDKServer]"

definition relaxedMethods :: "string list" where
  "relaxedMethods = [
    ''blob_announce'', MethodStatus, MethodResolve, MethodGet, ''transaction_show'',
    ''stream_cost_estimate'', MethodClaimSearch, ''comment_list'', ''collection_resolve'',
    ''comment_react_list'', ''version'', ''routing_table_get'']"

definition walletSpecificMethods :: "string list" where
  "walletSpecificMethods = [
    MethodGet, MethodPurchaseCreate, MethodResolve, MethodClaimSearch, MethodPublish,
    ''address_unused'', ''address_list'', ''address_is_mine'', ''account_list'',
    ''account_balance'', ''account_send'', ''account_max_address_gap'', ''channel_abandon'',
    ''channel_create'', ''channel_list'', ''channel_update'', ''channel_export'',
    ''channel_import'', ''channel_sign'', ''collection_list'', ''collection_create'',
    ''collection_update'', ''collection_abandon'', ''comment_abandon'', ''comment_create'',
    ''comment_hide'', ''comment_update'', ''comment_react'', ''comment_pin'',
    ''comment_react_list'', ''claim_list'', ''stream_abandon'', MethodStreamCreate,
    ''stream_list'', MethodStreamUpdate, ''stream_repost'', ''support_abandon'',
    ''support_create'', ''support_list'', MethodSyncApply, ''sync_hash'', ''preference_get'',
    ''preference_set'', ''purchase_list'', ''transaction_list'', ''txo_list'', ''txo_spend'',
    ''txo_sum'', ''txo_plot'', ''utxo_list'', ''utxo_release'', ''wallet_list'',
    MethodWalletSend, MethodWalletBalance, ''wallet_encrypt'', ''wallet_decrypt'',
    ''wallet_lock'', ''wallet_unlock'', ''wallet_status'']"

lemmas method_names = MethodClaimSearch_def MethodGet_def MethodPublish_def
  MethodPurchaseCreate_def MethodResolve_def MethodStatus_def MethodStreamUpdate_def
  MethodStreamCreate_def MethodSyncApply_def MethodWalletBalance_def MethodWalletSend_def
  ParamMethod_def ParamAccountID_def ParamNewSDKServer_def ParamPurchaseReceipt_def
  ParamStreamingUrl_def ParamBaseStreamingUrl_def ParamUrls_def ParamWalletID_def

section \<open>Queries\<close>

record query =
  q_Request :: rpc_request
  q_WalletID :: string

definition methodInList :: "string \<Rightarrow> string list \<Rightarrow> bool" where
  "methodInList m checkMethods = list_ex (\<lambda>x. x = m) checkMethods"

definition MethodRequiresWallet :: "string \<Rightarrow> bool" where
  "MethodRequiresWallet m = (\<not> methodInList m relaxedMethods)"

definition MethodAcceptsWallet :: "string \<Rightarrow> bool" where
  "MethodAcceptsWallet m = methodInList m walletSpecificMethods"

definition q_Method :: "query \<Rightarrow> string" where "q_Method q = req_Method (q_Request q)"
definition q_Params :: "query \<Rightarrow> json" where "q_Params q = req_Params (q_Request q)"
definition IsAuthenticated :: "query \<Rightarrow> bool" where "IsAuthenticated q \<longleftrightarrow> q_WalletID q \<noteq> []"

text \<open>\<open>None\<close> is the nil map, which reads as empty.\<close>

definition ParamsAsMap :: "query \<Rightarrow> json_map option" where
  "ParamsAsMap q = (case q_Params q of JObj m \<Rightarrow> Some m | _ \<Rightarrow> None)"

definition CopyParamsAsMap :: "query \<Rightarrow> json_map option" where
  "CopyParamsAsMap q = (case q_Params q of JObj m \<Rightarrow> Some m | _ \<Rightarrow> None)"

definition param :: "query \<Rightarrow> string \<Rightarrow> json option" where
  "param q k = (case ParamsAsMap q of None \<Rightarrow> None | Some m \<Rightarrow> fmlookup m k)"

definition set_params :: "query \<Rightarrow> json \<Rightarrow> query" where
  "set_params q p = q\<lparr>q_Request := (q_Request q)\<lparr>req_Params := p\<rparr>\<rparr>"

definition newResponse :: "query \<Rightarrow> rpc_response" where
  "newResponse q = \<lparr>res_JSONRPC = req_JSONRPC (q_Request q), res_Result = JNull, res_Error = None,
     res_ID = req_ID (q_Request q)\<rparr>"

definition NewQuery :: "rpc_request \<Rightarrow> string \<Rightarrow> query res" where
  "NewQuery req walletID = (
     let q = \<lparr>q_Request = req, q_WalletID = walletID\<rparr> in
     if TrimSpace (req_Method req) = [] then Err (Err_str ''no method in request'')
     else if \<not> methodInList (q_Method q) relaxedMethods \<and> \<not> methodInList (q_Method q) walletSpecificMethods
       then Err (NewMethodNotAllowedError (Some (Err_str ''forbidden method'')))
     else (case List.find (\<lambda>p. param q p \<noteq> None) forbiddenParams of
       Some p \<Rightarrow> Err (NewInvalidParamsError (Some (Plain (''forbidden parameter supplied: '' @ p))))
     | None \<Rightarrow>
         if MethodAcceptsWallet (q_Method q) then
           if IsAuthenticated q then
             (case ParamsAsMap q of
                Some p \<Rightarrow> Ok (set_params q (JObj (fmupd ParamWalletID (JStr walletID) p)))
              | None \<Rightarrow> Ok (set_params q (JObj (fmupd ParamWalletID (JStr walletID) fmempty))))
           else if MethodRequiresWallet (q_Method q) then Err NewAuthRequiredError
           else Ok q
         else Ok q))"

section \<open>SDK errors caused by the input\<close>

definition userInputSDKErrors :: "string list" where
  "userInputSDKErrors = [''expected string or bytes-like object'']"

text \<open>The response is one that carries an error.\<close>

definition isUserInputError :: "rpc_error \<Rightarrow> bool" where
  "isUserInputError e = list_ex (\<lambda>m. Contains (err_Message e) m) userInputSDKErrors"

section \<open>Lemmas\<close>

lemma q_simps [simp]:
  "q_Method (set_params q p) = q_Method q" "q_Params (set_params q p) = p"
  "q_WalletID (set_params q p) = q_WalletID q"
  "q_Method \<lparr>q_Request = r, q_WalletID = w\<rparr> = req_Method r"
  "q_Params \<lparr>q_Request = r, q_WalletID = w\<rparr> = req_Params r"
  by (simp_all add: q_Method_def q_Params_def set_params_def)

lemma param_set_params [simp]: "param (set_params q (JObj m)) k = fmlookup m k"
  by (simp add: param_def ParamsAsMap_def)

text \<open>What the caller puts on the wire for a user: only that user's wallet, or none at all
  from the caller itself.\<close>

definition own_wallet :: "string \<Rightarrow> query \<Rightarrow> bool" where
  "own_wallet w q \<longleftrightarrow> q_WalletID q = w \<and>
     (w \<noteq> [] \<and> MethodAcceptsWallet (q_Method q) \<longrightarrow> param q ParamWalletID = Some (JStr w)) \<and>
     (w = [] \<longrightarrow> \<not> MethodRequiresWallet (q_Method q)) \<and>
     (MethodRequiresWallet (q_Method q) \<longrightarrow> MethodAcceptsWallet (q_Method q))"

lemma NewQuery_cases:
  assumes "NewQuery req w = Ok q"
  shows "q_WalletID q = w" and "q_Method q = req_Method req"
    and "q_Request q = req \<or> (w \<noteq> [] \<and> MethodAcceptsWallet (req_Method req) \<and>
      (\<exists>m. q_Request q = req\<lparr>req_Params := JObj (fmupd ParamWalletID (JStr w) m)\<rparr> \<and>
        (req_Params req = JObj m \<or> (\<forall>m'. req_Params req \<noteq> JObj m') \<and> m = fmempty)))"
    and "MethodAcceptsWallet (req_Method req) \<Longrightarrow> w \<noteq> [] \<Longrightarrow> param q ParamWalletID = Some (JStr w)"
    and "MethodRequiresWallet (req_Method req) \<Longrightarrow> MethodAcceptsWallet (req_Method req)"
    and "w = [] \<Longrightarrow> \<not> MethodRequiresWallet (req_Method req)"
    and "TrimSpace (req_Method req) \<noteq> []"
    and "\<And>p. p \<in> set forbiddenParams \<Longrightarrow> param \<lparr>q_Request = req, q_WalletID = w\<rparr> p = None"
  using assms
  by (auto simp: NewQuery_def Let_def IsAuthenticated_def ParamsAsMap_def set_params_def param_def
      MethodRequiresWallet_def MethodAcceptsWallet_def find_None_iff q_Method_def q_Params_def
      split: if_splits option.splits json.splits)

lemma NewQuery_listed: "NewQuery req w = Ok q \<Longrightarrow> q_Method q \<in> set relaxedMethods \<union> set walletSpecificMethods"
  by (auto simp: NewQuery_def Let_def methodInList_def list_ex_iff split: if_splits option.splits)

lemma NewQuery_own_wallet: "NewQuery req w = Ok q \<Longrightarrow> own_wallet w q"
  using NewQuery_cases [of req w q] by (auto simp: own_wallet_def)

section \<open>Properties\<close>

text \<open>C10: which requests get through. A query is made exactly when the method is not blank, is
  one of the listed ones, carries none of the forbidden parameters, and is either relaxed
  or made by an authenticated user; otherwise the client gets the JSON-RPC code of the
  first rule that it breaks.\<close>

theorem new_query_admission:
  "case NewQuery req w of
     Ok q \<Rightarrow> TrimSpace (req_Method req) \<noteq> [] \<and>
       req_Method req \<in> set relaxedMethods \<union> set walletSpecificMethods \<and>
       (\<forall>m. req_Params req = JObj m \<longrightarrow> fmlookup m ''account_id'' = None \<and> fmlookup m ''new_sdk_server'' = None) \<and>
       (w \<noteq> [] \<or> req_Method req \<in> set relaxedMethods)
   | Err e \<Rightarrow> rpc_code (Some e) =
       (if TrimSpace (req_Method req) = [] then rpcErrorCodeInternal
        else if req_Method req \<notin> set relaxedMethods \<union> set walletSpecificMethods then rpcErrorCodeMethodNotAllowed
        else if (case req_Params req of JObj m \<Rightarrow>
            fmlookup m ''account_id'' \<noteq> None \<or> fmlookup m ''new_sdk_server'' \<noteq> None | _ \<Rightarrow> False)
          then rpcErrorCodeInvalidParams
        else rpcErrorCodeAuthRequired) \<and>
       (TrimSpace (req_Method req) = [] \<or>
        req_Method req \<notin> set relaxedMethods \<union> set walletSpecificMethods \<or>
        (case req_Params req of JObj m \<Rightarrow>
            fmlookup m ''account_id'' \<noteq> None \<or> fmlookup m ''new_sdk_server'' \<noteq> None | _ \<Rightarrow> False) \<or>
        w = [] \<and> req_Method req \<notin> set relaxedMethods)
   | Panic m \<Rightarrow> False"
proof -
  have list: "methodInList m ms \<longleftrightarrow> m \<in> set ms" for m ms by (auto simp: methodInList_def list_ex_iff)
  have internal: "rpc_code (Some (Err_str x)) = rpcErrorCodeInternal" for x
    by (simp add: rpc_code_def ToJSON_def Err_str_def NewInternalError_def newRPCErr_def rpc_to_json_def RPCError_JSON_def)
  have bad: "List.find (\<lambda>p. param q p \<noteq> None) forbiddenParams = None \<longleftrightarrow>
      \<not> (case q_Params q of JObj m \<Rightarrow> fmlookup m ''account_id'' \<noteq> None \<or> fmlookup m ''new_sdk_server'' \<noteq> None | _ \<Rightarrow> False)" for q
    by (auto simp: find_None_iff forbiddenParams_def ParamAccountID_def ParamNewSDKServer_def param_def ParamsAsMap_def
        split: json.splits)
  show ?thesis
    by (cases "List.find (\<lambda>p. param \<lparr>q_Request = req, q_WalletID = w\<rparr> p \<noteq> None) forbiddenParams")
       (use bad [of "\<lparr>q_Request = req, q_WalletID = w\<rparr>"] in \<open>auto simp: NewQuery_def Let_def list internal
         MethodAcceptsWallet_def MethodRequiresWallet_def IsAuthenticated_def NewMethodNotAllowedError_def
         NewInvalidParamsError_def NewAuthRequiredError_def split: if_splits option.splits json.splits\<close>)
qed

theorem new_query_admission_witness:
  "\<exists>e. NewQuery \<lparr>req_Method = ''wallet_send'', req_Params = JNull, req_ID = 1, req_JSONRPC = ''2.0''\<rparr> [] = Err e \<and>
     rpc_code (Some e) = rpcErrorCodeAuthRequired"
proof -
  let ?r = "\<lparr>req_Method = ''wallet_send'', req_Params = JNull, req_ID = 1, req_JSONRPC = ''2.0''\<rparr>"
  have "TrimSpace ''wallet_send'' \<noteq> []" by code_simp
  moreover have "''wallet_send'' \<notin> set relaxedMethods" "''wallet_send'' \<in> set walletSpecificMethods"
    by (simp_all add: relaxedMethods_def walletSpecificMethods_def method_names)
  ultimately show ?thesis using new_query_admission [of ?r "[]"]
    by (cases "NewQuery ?r []") simp_all
qed

text \<open>A client cannot act on another user's wallet. Whatever parameters an authenticated
  client sends for a method that accepts a wallet, in an object or not, the query that goes
  on carries the client's own wallet id; every other parameter, the method and the request
  id are untouched.\<close>

theorem wallet_id_cannot_be_forged:
  assumes "NewQuery req w = Ok q" and "w \<noteq> []" and "MethodAcceptsWallet (req_Method req)"
  shows "param q ParamWalletID = Some (JStr w) \<and>
    (\<forall>k. k \<noteq> ParamWalletID \<longrightarrow> param q k = param \<lparr>q_Request = req, q_WalletID = w\<rparr> k) \<and>
    q_Request q = req\<lparr>req_Params := req_Params (q_Request q)\<rparr>"
  using NewQuery_cases(3,4) [OF assms(1)] assms(2,3)
  by (auto simp: param_def ParamsAsMap_def q_Params_def split: json.splits)

theorem wallet_id_cannot_be_forged_witness:
  "\<exists>q. NewQuery \<lparr>req_Method = ''wallet_send'', req_Params = JObj (fmupd ''wallet_id'' (JStr ''victim'') fmempty),
       req_ID = 1, req_JSONRPC = ''2.0''\<rparr> ''mine'' = Ok q \<and> param q ParamWalletID = Some (JStr ''mine'')"
proof -
  let ?r = "\<lparr>req_Method = ''wallet_send'', req_Params = JObj (fmupd ''wallet_id'' (JStr ''victim'') fmempty),
       req_ID = 1, req_JSONRPC = ''2.0''\<rparr>"
  have acc: "MethodAcceptsWallet ''wallet_send''"
    by (simp add: MethodAcceptsWallet_def methodInList_def walletSpecificMethods_def method_names)
  have "TrimSpace ''wallet_send'' \<noteq> []" by code_simp
  with acc have "\<exists>q. NewQuery ?r ''mine'' = Ok q"
    by (simp add: NewQuery_def MethodAcceptsWallet_def IsAuthenticated_def forbiddenParams_def param_def
        ParamsAsMap_def method_names)
  then show ?thesis using wallet_id_cannot_be_forged [of ?r "''mine''"] acc by auto
qed

text \<open>An unauthenticated request for a relaxed method that accepts a wallet keeps the wallet
  id that the client made up: the parameter is neither forbidden nor removed.\<close>

theorem anonymous_wallet_id_kept:
  "NewQuery \<lparr>req_Method = ''resolve'', req_Params = JObj (fmupd ''wallet_id'' (JStr w) fmempty),
      req_ID = 1, req_JSONRPC = ''2.0''\<rparr> [] =
   Ok \<lparr>q_Request = \<lparr>req_Method = ''resolve'', req_Params = JObj (fmupd ''wallet_id'' (JStr w) fmempty),
      req_ID = 1, req_JSONRPC = ''2.0''\<rparr>, q_WalletID = []\<rparr>"
proof -
  have "TrimSpace ''resolve'' \<noteq> []" by code_simp
  then show ?thesis
    by (simp add: NewQuery_def MethodAcceptsWallet_def MethodRequiresWallet_def methodInList_def relaxedMethods_def
        walletSpecificMethods_def IsAuthenticated_def forbiddenParams_def param_def ParamsAsMap_def method_names)
qed

end
