(* ===== verification/Cache.thy ===== *)
theory Cache
  imports Query
begin

text \<open>
  \<open>app/query/cache.go\<close>, \<open>pkg/sturdycache\<close> and \<open>pkg/chainquery\<close>: caching SDK responses for
  \<open>resolve\<close> and \<open>claim_search\<close> under a digest of the request, in a store that may be
  replicated, and dropping \<open>claim_search\<close> entries when a new block arrives.
\<close>

section \<open>Chain height\<close>

definition makeRequest :: "'w env \<Rightarrow> string \<Rightarrow> ('w, go_error + int list) io" where
  "makeRequest E sql = do {
     r \<leftarrow> ext (env_chainquery E sql);
     State_Monad.return (case r of
       Inl e \<Rightarrow> Inl (Wrapped ''error sending request'' e)
     | Inr resp \<Rightarrow>
         (case cq_ReadErr resp of
            Some e \<Rightarrow> Inl (Wrapped ''error reading response'' e)
          | None \<Rightarrow>
              if cq_Status resp \<noteq> 200
              then Inl (Plain (''unexpected status code: got '' @ Itoa (cq_Status resp) @ '', want 200''))
              else cq_Data resp))
   }"

definition GetHeight :: "'w env \<Rightarrow> ('w, go_error + int) io" where
  "GetHeight E = do {
     r \<leftarrow> makeRequest E ''select height from block order by id desc limit 1'';
     State_Monad.return (case r of
       Inl e \<Rightarrow> Inl (Wrapped ''error retrieving latest height'' e)
     | Inr [h] \<Rightarrow> Inr h
     | Inr hs \<Rightarrow> Inl (Plain (''error retrieving latest height, expected 1 items in response, got ''
         @ Itoa (int (length hs)))))
   }"

section \<open>Replicated store\<close>

text \<open>\<open>ReplicatedCache\<close>: reads try the replicas in order and fall back to the master, writes
  go to the master.\<close>

fun replica_Get :: "'w base_cache list \<Rightarrow> 'w base_cache \<Rightarrow> string \<Rightarrow> ('w, go_error + cached_response option) state" where
  "replica_Get [] masterCache key = bc_Get masterCache key"
| "replica_Get (c # replicaCaches) masterCache key = do {
     r \<leftarrow> bc_Get c key;
     (case r of Inr val \<Rightarrow> State_Monad.return (Inr val) | Inl _ \<Rightarrow> replica_Get replicaCaches masterCache key)
   }"

definition ReplicatedCache :: "'w base_cache \<Rightarrow> 'w base_cache list \<Rightarrow> 'w base_cache" where
  "ReplicatedCache masterCache replicaCaches =
     \<lparr>bc_Get = replica_Get replicaCaches masterCache, bc_Set = bc_Set masterCache,
      bc_Invalidate = bc_Invalidate masterCache\<rparr>"

section \<open>Cache requests\<close>

record cache_request =
  crq_Method :: string
  crq_Params :: json
  crq_metaKey :: string

definition NewCacheRequest :: "string \<Rightarrow> json \<Rightarrow> string \<Rightarrow> cache_request" where
  "NewCacheRequest method params metaKey = \<lparr>crq_Method = method, crq_Params = params, crq_metaKey = metaKey\<rparr>"

definition methodTagSeparator :: string where "methodTagSeparator = '':''"
definition invalidationInterval :: int where "invalidationInterval = 15 * second"

definition Expiration :: "cache_request \<Rightarrow> int" where
  "Expiration r =
     (if crq_Method r = MethodResolve then 600 * second
      else if crq_Method r = MethodClaimSearch then 160 * second
      else 60 * second)"

definition Tags :: "cache_request \<Rightarrow> string list" where
  "Tags r = [ParamMethod @ methodTagSeparator @ crq_Method r]"

text \<open>The text that is digested. Parameters come from JSON, so marshalling them cannot fail.\<close>

definition key_preimage :: "cache_request \<Rightarrow> string" where
  "key_preimage r = ''['' @ crq_metaKey r @ '']'' @ ''request'' @ '':'' @ crq_Method r @ '':'' @
     (if crq_Params r = JNull then ''()'' else json_marshal (crq_Params r))"

definition GetCacheKey :: "'w env \<Rightarrow> cache_request \<Rightarrow> string" where
  "GetCacheKey E r = hex_encode (env_md5 E (key_preimage r))"

definition RPCResponse :: "cached_response \<Rightarrow> int \<Rightarrow> rpc_response" where
  "RPCResponse r i = \<lparr>res_JSONRPC = ''2.0'', res_Result = cr_Result r, res_Error = cr_Error r, res_ID = i\<rparr>"

section \<open>Query cache\<close>

text \<open>The getter returns a possibly nil response. Concurrent misses of one key share one call
  of it; a run of the model is one caller's view.\<close>

definition store_fresh :: "'w env \<Rightarrow> cache_request \<Rightarrow> rpc_response \<Rightarrow> ('w, cached_response option res) io" where
  "store_fresh E cacheReq r = (
     let cacheResp = \<lparr>cr_Result = res_Result r, cr_Error = res_Error r\<rparr> in
     if res_Error r \<noteq> None then State_Monad.return (Ok (Some cacheResp))
     else do {
       e \<leftarrow> on_cache (bc_Set (env_cache E) (GetCacheKey E cacheReq) cacheResp (Expiration cacheReq) (Tags cacheReq));
       (case e of
          Some x \<Rightarrow> ErrorToSentry (Some (Wrapped ''error during cache.set'' x))
        | None \<Rightarrow> State_Monad.return ());
       State_Monad.return (Ok (Some cacheResp))
     })"

definition retrieve_cold :: "'w env \<Rightarrow> cache_request \<Rightarrow> ('w, rpc_response option res) io
    \<Rightarrow> ('w, cached_response option res) io" where
  "retrieve_cold E cacheReq getter = do {
     obj \<leftarrow> getter;
     (case obj of
        Err e \<Rightarrow> State_Monad.return (Err (Wrapped ''error calling getter'' e))
      | Panic m \<Rightarrow> State_Monad.return (Panic m)
      | Ok None \<Rightarrow> State_Monad.return (Panic ''nil pointer dereference'')
      | Ok (Some r) \<Rightarrow> store_fresh E cacheReq r)
   }"

definition Retrieve :: "'w env \<Rightarrow> query \<Rightarrow> ('w, rpc_response option res) io option
    \<Rightarrow> ('w, cached_response option res) io" where
  "Retrieve E query getter = (
     let cacheReq = NewCacheRequest (q_Method query) (q_Params query) [] in do {
       hit \<leftarrow> on_cache (bc_Get (env_cache E) (GetCacheKey E cacheReq));
       (case hit of
          Inr cacheResp \<Rightarrow> State_Monad.return (Ok cacheResp)
        | Inl err \<Rightarrow>
            if \<not> error_Is err (Sentinel S_CacheNotFound) then State_Monad.return (Ok None)
            else (case getter of
              None \<Rightarrow> State_Monad.return (Ok None)
            | Some g \<Rightarrow> retrieve_cold E cacheReq g))
     })"

definition runInvalidator :: "'w env \<Rightarrow> ('w, go_error option) io" where
  "runInvalidator E = do {
     h \<leftarrow> GetHeight E;
     (case h of
        Inl e \<Rightarrow> State_Monad.return (Some (Wrapped ''failed to get current height'' e))
      | Inr height \<Rightarrow> do {
          current \<leftarrow> reads w_height;
          if height \<le> current then State_Monad.return None
          else do {
            modify (\<lambda>s. s\<lparr>w_height := height\<rparr>);
            e \<leftarrow> on_cache (bc_Invalidate (env_cache E) [ParamMethod @ methodTagSeparator @ MethodClaimSearch]);
            State_Monad.return (map_option (Wrapped (''failed to invalidate '' @ MethodClaimSearch @ '' entries'')) e)
          }
        })
   }"

definition NewQueryCacheWithInvalidator :: "'w env \<Rightarrow> ('w, go_error option) io" where
  "NewQueryCacheWithInvalidator E = do {
     h \<leftarrow> GetHeight E;
     (case h of
        Inl e \<Rightarrow> State_Monad.return (Some (Wrapped ''failed to get current height'' e))
      | Inr height \<Rightarrow> do { modify (\<lambda>s. s\<lparr>w_height := height\<rparr>); State_Monad.return None })
   }"

section \<open>Keys\<close>

lemma append_sep_inject:
  "c \<notin> set a \<Longrightarrow> c \<notin> set b \<Longrightarrow> a @ c # x = b @ c # y \<longleftrightarrow> a = b \<and> x = y"
proof (induction a arbitrary: b)
  case Nil
  then show ?case by (cases b) auto
next
  case (Cons z a)
  then show ?case by (cases b) auto
qed

lemma hex_encode_inject: "hex_encode a = hex_encode b \<longleftrightarrow> a = b"
  by (metis hex_decode_encode option.inject)

lemma key_preimage_inject:
  assumes "crq_metaKey r = crq_metaKey q" "CHR '':'' \<notin> set (crq_Method r)" "CHR '':'' \<notin> set (crq_Method q)"
    and "wf_json (crq_Params r)" "wf_json (crq_Params q)" "key_preimage r = key_preimage q"
  shows "r = q"
proof -
  let ?p = "\<lambda>j. if j = JNull then ''()'' else json_marshal j"
  from assms(1,6) have "crq_Method r @ CHR '':'' # ?p (crq_Params r) = crq_Method q @ CHR '':'' # ?p (crq_Params q)"
    by (simp add: key_preimage_def)
  then have m: "crq_Method r = crq_Method q" and p: "?p (crq_Params r) = ?p (crq_Params q)"
    using append_sep_inject [OF assms(2,3)] by blast+
  have paren: "json_marshal j \<noteq> ''()''" if "wf_json j" for j
    using marshal_hd [OF that] by (auto simp: num_char_def split: json.splits if_splits)
  have "crq_Params r = crq_Params q"
    using p paren [OF assms(4)] paren [OF assms(5)] json_marshal_inject [OF assms(4,5)] by (auto split: if_splits)
  with m assms(1) show ?thesis by (cases r; cases q) simp
qed

section \<open>The contract of a cache store\<close>

text \<open>Every entry of the cache servers satisfies \<open>P\<close> of its key, and so do the error-free
  responses of a getter, and an answer of the cache.\<close>

definition all_good :: "('c \<Rightarrow> string \<Rightarrow> cached_response \<Rightarrow> bool) \<Rightarrow> (string \<Rightarrow> cached_response \<Rightarrow> bool) \<Rightarrow> 'c world \<Rightarrow> bool" where
  "all_good holds P s \<longleftrightarrow> (\<forall>k v. holds (w_cache s) k v \<longrightarrow> P k v)"

definition good_response :: "(string \<Rightarrow> cached_response \<Rightarrow> bool) \<Rightarrow> string \<Rightarrow> cached_response option res \<Rightarrow> bool" where
  "good_response P k r \<longleftrightarrow> (\<forall>v. r = Ok (Some v) \<longrightarrow> cr_Error v = None \<longrightarrow> P k v)"

definition good_getter :: "('c \<Rightarrow> string \<Rightarrow> cached_response \<Rightarrow> bool) \<Rightarrow> (string \<Rightarrow> cached_response \<Rightarrow> bool) \<Rightarrow> string
    \<Rightarrow> ('c, rpc_response option res) io \<Rightarrow> bool" where
  "good_getter holds P k g \<longleftrightarrow> valid (all_good holds P) g (\<lambda>r s. all_good holds P s \<and>
     (\<forall>x. r = Ok (Some x) \<longrightarrow> res_Error x = None \<longrightarrow> P k \<lparr>cr_Result = res_Result x, cr_Error = None\<rparr>))"

text \<open>
  What the query cache relies on: a read returns only what the store holds under that key,
  writing adds at most the written entry, and nothing else adds any. Entries may vanish at
  any time.
\<close>

locale cache_store =
  fixes C :: "'c base_cache" and holds :: "'c \<Rightarrow> string \<Rightarrow> cached_response \<Rightarrow> bool"
  assumes get_held: "run_state (bc_Get C k) w = (Inr (Some v), w') \<Longrightarrow> holds w k v"
    and get_adds: "run_state (bc_Get C k) w = (x, w') \<Longrightarrow> holds w' j v \<Longrightarrow> holds w j v"
    and set_adds: "run_state (bc_Set C k v d ts) w = (e, w') \<Longrightarrow> holds w' j u \<Longrightarrow> holds w j u \<or> j = k \<and> u = v"
    and invalidate_adds: "run_state (bc_Invalidate C ts) w = (e, w') \<Longrightarrow> holds w' j u \<Longrightarrow> holds w j u"
begin

lemma good_Get:
  "valid (all_good holds P) (on_cache (bc_Get C k)) (\<lambda>r s. all_good holds P s \<and> (\<forall>v. r = Inr (Some v) \<longrightarrow> P k v))"
proof (rule validI)
  fix s a t assume g: "all_good holds P s" and "run_state (on_cache (bc_Get C k)) s = (a, t)"
  then have run: "run_state (bc_Get C k) (w_cache s) = (a, w_cache t)" by auto
  show "all_good holds P t \<and> (\<forall>v. a = Inr (Some v) \<longrightarrow> P k v)"
    using g get_adds [OF run] get_held run unfolding all_good_def by blast
qed

lemma good_Set: "P k v \<Longrightarrow> valid (all_good holds P) (on_cache (bc_Set C k v d ts)) (\<lambda>_. all_good holds P)" for P
proof (rule validI)
  fix s a t assume p: "P k v" and g: "all_good holds P s" and "run_state (on_cache (bc_Set C k v d ts)) s = (a, t)"
  then have run: "run_state (bc_Set C k v d ts) (w_cache s) = (a, w_cache t)" by auto
  show "all_good holds P t" using g p set_adds [OF run] unfolding all_good_def by blast
qed

lemma good_ErrorToSentry: "valid (all_good holds P) (ErrorToSentry e) (\<lambda>_. all_good holds P)"
  unfolding ErrorToSentry_def by (rule valid_modify) (simp add: all_good_def)

lemma good_store_fresh:
  assumes "C = env_cache E" and "res_Error x = None \<Longrightarrow> P (GetCacheKey E req) \<lparr>cr_Result = res_Result x, cr_Error = None\<rparr>"
  shows "valid (all_good holds P) (store_fresh E req x) (\<lambda>r s. all_good holds P s \<and> good_response P (GetCacheKey E req) r)"
  unfolding store_fresh_def Let_def assms(1) [symmetric]
  by (intro valid_if valid_bind_keep [OF good_Set] valid_bind_keep valid_option good_ErrorToSentry valid_return)
     (auto simp: good_response_def assms(2))

lemma good_retrieve_cold:
  assumes "C = env_cache E" and "good_getter holds P (GetCacheKey E req) g"
  shows "valid (all_good holds P) (retrieve_cold E req g) (\<lambda>r s. all_good holds P s \<and> good_response P (GetCacheKey E req) r)"
  unfolding retrieve_cold_def
  by (rule valid_bind [OF assms(2) [unfolded good_getter_def]], rule valid_pure,
      intro valid_res valid_option good_store_fresh [OF assms(1)] valid_return)
     (auto simp: good_response_def)

lemma good_Retrieve:
  assumes "C = env_cache E" and k: "k = GetCacheKey E (NewCacheRequest (q_Method q) (q_Params q) [])"
    and "\<And>g. getter = Some g \<Longrightarrow> good_getter holds P k g"
  shows "valid (all_good holds P) (Retrieve E q getter) (\<lambda>r s. all_good holds P s \<and> good_response P k r)"
  unfolding Retrieve_def Let_def k
  by (rule valid_bind [OF good_Get [unfolded assms(1)]], rule valid_pure,
      intro valid_sum valid_if valid_option good_retrieve_cold [OF assms(1)] assms(3) [unfolded k] valid_return)
     (auto simp: good_response_def)

end

section \<open>Replication\<close>

locale replicated_stores =
  fixes master :: "'c base_cache" and replicas :: "'c base_cache list"
    and holds :: "'c \<Rightarrow> string \<Rightarrow> cached_response \<Rightarrow> bool"
  assumes master_ok: "cache_store master holds"
    and replicas_ok: "c \<in> set replicas \<Longrightarrow> cache_store c holds"
begin

lemma replica_Get_ok:
  "set cs \<subseteq> set replicas \<Longrightarrow> run_state (replica_Get cs master k) w = (r, w') \<Longrightarrow>
     (\<forall>j v. holds w' j v \<longrightarrow> holds w j v) \<and> (\<forall>v. r = Inr (Some v) \<longrightarrow> holds w k v)"
proof (induction cs arbitrary: w)
  case Nil
  then show ?case using cache_store.get_held [OF master_ok] cache_store.get_adds [OF master_ok] by fastforce
next
  case (Cons c cs)
  have c: "cache_store c holds" using Cons.prems(1) by (auto intro: replicas_ok)
  obtain x w1 where x: "run_state (bc_Get c k) w = (x, w1)" by fastforce
  note older = cache_store.get_adds [OF c x] and held = cache_store.get_held [OF c]
  show ?case
  proof (cases x)
    case (Inl e)
    with Cons.prems x have "run_state (replica_Get cs master k) w1 = (r, w')" by simp
    with Cons.IH [of w1] Cons.prems(1) older show ?thesis by (metis insert_subset list.simps(15))
  next
    case (Inr v)
    with Cons.prems x have "r = Inr v" "w' = w1" by simp_all
    with Inr x held older show ?thesis by blast
  qed
qed

end

sublocale replicated_stores < rep: cache_store "ReplicatedCache master replicas" holds
proof
  fix k w v w' assume "run_state (bc_Get (ReplicatedCache master replicas) k) w = (Inr (Some v), w')"
  with replica_Get_ok [OF subset_refl] show "holds w k v" by (fastforce simp: ReplicatedCache_def)
next
  fix k w x w' j v assume "run_state (bc_Get (ReplicatedCache master replicas) k) w = (x, w')" "holds w' j v"
  with replica_Get_ok [OF subset_refl] show "holds w j v" by (fastforce simp: ReplicatedCache_def)
qed (auto simp: ReplicatedCache_def dest: cache_store.set_adds [OF master_ok] cache_store.invalidate_adds [OF master_ok])

text \<open>An in-memory store that keeps no tags.\<close>

definition mem_cache :: "(string, cached_response) fmap base_cache" where
  "mem_cache = \<lparr>bc_Get = (\<lambda>k. State (\<lambda>w. (case fmlookup w k of
       Some v \<Rightarrow> Inr (Some v) | None \<Rightarrow> Inl (Sentinel S_CacheNotFound), w))),
     bc_Set = (\<lambda>k v d ts. State (\<lambda>w. (None, fmupd k v w))),
     bc_Invalidate = (\<lambda>ts. State (\<lambda>w. (None, fmempty)))\<rparr>"

interpretation mem: cache_store mem_cache "\<lambda>w k v. fmlookup w k = Some v"
  by unfold_locales (auto simp: mem_cache_def split: option.splits if_splits)

interpretation mem_pair: replicated_stores mem_cache "[mem_cache]" "\<lambda>w k v. fmlookup w k = Some v"
  by (rule replicated_stores.intro) (simp_all add: mem.cache_store_axioms)

section \<open>Properties\<close>

text \<open>Two queries share a cache entry only if they are the same query. Unless the two
  digested texts collide under MD5, equal keys mean equal method and equal parameters, for
  every method the proxy lets through and all parameters that come from JSON.\<close>

theorem cache_key_separates_queries:
  assumes "GetCacheKey E (NewCacheRequest m p []) = GetCacheKey E (NewCacheRequest m' p' [])"
    and no_collision: "env_md5 E (key_preimage (NewCacheRequest m p [])) = env_md5 E (key_preimage (NewCacheRequest m' p' []))
      \<Longrightarrow> key_preimage (NewCacheRequest m p []) = key_preimage (NewCacheRequest m' p' [])"
    and "wf_json p" "wf_json p'" "NewQuery r w = Ok q" "m = q_Method q" "NewQuery r' w' = Ok q'" "m' = q_Method q'"
  shows "m = m' \<and> p = p'"
proof -
  have listed: "CHR '':'' \<notin> set x" if "x \<in> set relaxedMethods \<union> set walletSpecificMethods" for x
    using that by (auto simp: relaxedMethods_def walletSpecificMethods_def method_names)
  have colon: "CHR '':'' \<notin> set (q_Method y)" if "NewQuery x v = Ok y" for x v y
    using NewQuery_listed [OF that] by (rule listed)
  have "NewCacheRequest m p [] = NewCacheRequest m' p' []"
    by (rule key_preimage_inject)
       (use assms colon in \<open>auto simp: NewCacheRequest_def GetCacheKey_def hex_encode_inject\<close>)
  then show ?thesis by (simp add: NewCacheRequest_def)
qed

theorem cache_key_separates_queries_witness:
  "GetCacheKey quiet_env (NewCacheRequest ''resolve'' (JStr ''a'') []) \<noteq>
   GetCacheKey quiet_env (NewCacheRequest ''resolve'' (JStr ''b'') [])"
proof
  assume eq: "GetCacheKey quiet_env (NewCacheRequest ''resolve'' (JStr ''a'') []) =
    GetCacheKey quiet_env (NewCacheRequest ''resolve'' (JStr ''b'') [])"
  let ?r = "\<lparr>req_Method = ''resolve'', req_Params = JNull, req_ID = 1, req_JSONRPC = ''2.0''\<rparr>"
  let ?q = "\<lparr>q_Request = ?r, q_WalletID = []\<rparr>"
  have "TrimSpace ''resolve'' \<noteq> []" by code_simp
  then have q: "NewQuery ?r [] = Ok ?q"
    by (simp add: NewQuery_def MethodAcceptsWallet_def MethodRequiresWallet_def methodInList_def relaxedMethods_def
        walletSpecificMethods_def IsAuthenticated_def forbiddenParams_def param_def ParamsAsMap_def method_names)
  from cache_key_separates_queries [OF eq _ _ _ q _ q] show False by (simp add: quiet_env_def)
qed

text \<open>C7: a cached answer is an answer to the same question. For a store that keeps its
  contract (in particular a master with replicas that lag or fail): if every stored
  response is a possible answer for its key and the getter produces possible answers, then
  the response that \<open>Retrieve\<close> returns without an error is a possible answer for the key of
  the query, and this remains true of everything stored. Error responses are never stored.\<close>

theorem cached_answer_is_an_answer:
  assumes "cache_store (env_cache E) holds" and "all_good holds P s"
    and "\<And>g. getter = Some g \<Longrightarrow> good_getter holds P (GetCacheKey E (NewCacheRequest (q_Method q) (q_Params q) [])) g"
    and "run_state (Retrieve E q getter) s = (r, t)"
  shows "all_good holds P t \<and> good_response P (GetCacheKey E (NewCacheRequest (q_Method q) (q_Params q) [])) r"
  by (rule validD [OF cache_store.good_Retrieve [OF assms(1) refl refl assms(3)] assms(4,2)])

definition mem_env :: "(string, cached_response) fmap env" where
  "mem_env = \<lparr>
     env_CallRaw = (\<lambda>_ _. State_Monad.return (Inr ok_response)),
     env_WrapError = env_WrapError quiet_env,
     env_WalletCreate = (\<lambda>_ _. State_Monad.return None),
     env_WalletAdd = (\<lambda>_ _. State_Monad.return None),
     env_WalletRemove = (\<lambda>_ _. State_Monad.return None),
     env_WalletCount = (\<lambda>_. State_Monad.return (Inr 0)),
     env_iapi_do = (\<lambda>_. State_Monad.return (Inl (Plain ''offline''))),
     env_db_fault = (\<lambda>_. State_Monad.return None),
     env_now = State_Monad.return 0,
     env_rand = (\<lambda>_. State_Monad.return 0),
     env_db_others = (\<lambda>_. State_Monad.return id),
     env_evict = (\<lambda>_. State_Monad.return False),
     env_verify = (\<lambda>_. State_Monad.return (Inl (Plain ''offline''))),
     env_cache = ReplicatedCache mem_cache [mem_cache],
     env_chainquery = (\<lambda>_. State_Monad.return (Inl (Plain ''offline''))),
     env_md5 = id, env_sha256 = id, env_ecdsa_verify = (\<lambda>_ _ _ _. True), env_parse_pubkey = Inr,
     env_cfg = quiet_settings, env_decode_resolve = env_decode_resolve quiet_env,
     env_decode_claim_search = env_decode_claim_search quiet_env, env_url_Parse = env_url_Parse quiet_env,
     env_CreateToken = (\<lambda>_ _ _. State_Monad.return (Inr ''token'')),
     env_GetClaimUrl = (\<lambda>_ _. State_Monad.return (Inr [])),
     env_ReplaceAssetUrls = (\<lambda>_ j. State_Monad.return (Inr j)),
     env_ReplaceAssetUrl = (\<lambda>_ j. State_Monad.return (Inr j)),
     env_enqueue = (\<lambda>_. State_Monad.return None),
     env_audit_insert = (\<lambda>_ _ _ _. State_Monad.return None)\<rparr>"

definition mem_world :: "(string, cached_response) fmap world" where
  "mem_world = \<lparr>w_users = fmempty, w_aborted = False, w_undo = id, w_tokens = fmempty, w_servers = [],
     w_router = quiet_router, w_asynq = [], w_tasks = [], w_sent = [], w_sentry = [], w_cache = fmempty, w_height = 0, w_ext = fmempty\<rparr>"

theorem cached_answer_is_an_answer_witness:
  "good_response (\<lambda>_ v. cr_Result v = JBool True)
     (GetCacheKey mem_env (NewCacheRequest ''resolve'' JNull []))
     (fst (run_state (Retrieve mem_env \<lparr>q_Request = \<lparr>req_Method = ''resolve'', req_Params = JNull, req_ID = 1,
        req_JSONRPC = ''2.0''\<rparr>, q_WalletID = []\<rparr> (Some (State_Monad.return (Ok (Some ok_response))))) mem_world))"
proof -
  let ?q = "\<lparr>q_Request = \<lparr>req_Method = ''resolve'', req_Params = JNull, req_ID = 1, req_JSONRPC = ''2.0''\<rparr>, q_WalletID = []\<rparr>"
  let ?h = "\<lambda>w k v. fmlookup w k = Some (v :: cached_response)" and ?P = "\<lambda>(_ :: string) v. cr_Result v = JBool True"
  have "cache_store (env_cache mem_env) ?h" by (simp add: mem_env_def mem_pair.rep.cache_store_axioms)
  moreover have "all_good ?h ?P mem_world" by (simp add: all_good_def mem_world_def)
  moreover have "good_getter ?h ?P k g" if "Some (State_Monad.return (Ok (Some ok_response))) = Some g" for k g
    using that by (auto simp: good_getter_def ok_response_def intro!: valid_return)
  ultimately have "good_response ?P (GetCacheKey mem_env (NewCacheRequest (q_Method ?q) (q_Params ?q) []))
      (fst (run_state (Retrieve mem_env ?q (Some (State_Monad.return (Ok (Some ok_response))))) mem_world))"
    by (intro conjunct2 [OF cached_answer_is_an_answer [OF _ _ _ surjective_pairing]])
  then show ?thesis by simp
qed

text \<open>The invalidator follows the chain. The recorded height never decreases; it changes
  only to a greater height reported by chainquery, and exactly then the entries tagged as
  \<open>claim_search\<close> are invalidated, which is the tag under which \<open>claim_search\<close> responses are
  stored; in all other cases the cache servers are left alone.\<close>

theorem invalidator_follows_chain:
  "case (run_state (GetHeight E) s, run_state (runInvalidator E) s) of
     ((h, s1), (e, t)) \<Rightarrow>
       (case h of
          Inr n \<Rightarrow>
            if w_height s < n then
              w_height t = n \<and>
              w_cache t = snd (run_state (bc_Invalidate (env_cache E)
                (Tags (NewCacheRequest MethodClaimSearch p m))) (w_cache s))
            else t = s1 \<and> e = None
        | Inl x \<Rightarrow> t = s1 \<and> e \<noteq> None) \<and>
       w_height s \<le> w_height t"
proof -
  have frame: "w_height (snd (run_state (GetHeight E) s)) = w_height s \<and> w_cache (snd (run_state (GetHeight E) s)) = w_cache s"
    by (simp add: GetHeight_def makeRequest_def)
  obtain h s1 where g: "run_state (GetHeight E) s = (h, s1)" by fastforce
  with frame show ?thesis
    by (cases h) (auto simp: runInvalidator_def Tags_def NewCacheRequest_def)
qed

end
