(* ===== verification/Caller.thy ===== *)
theory Caller
  imports Cache
begin

text \<open>
  \<open>app/query/caller.go\<close>: the caller with its hooks and endpoints, and \<open>SendQuery\<close>, where
  the SDK is called, a missing wallet is loaded and the request repeated, and the postflight
  hooks are applied. A hook is a value that names the function; preflight hooks are run in
  \<open>Call\<close>, as they send queries themselves.
\<close>

section \<open>Callers\<close>

datatype preflight_fn =
    GetStatusResponse | PreflightHookGet | PreflightHookClaimSearch | PreflightCacheHook
  | SetFileName string

datatype postflight_fn =
    PostClaimSearchArfleetThumbs | PostResolveArfleetThumbs
  | LogRemoteIP string | AuditWalletSend int string bytes

record 'f hook_entry =
  he_method :: string
  he_function :: 'f
  he_name :: string

record caller =
  c_preflightHooks :: "preflight_fn hook_entry list"
  c_postflightHooks :: "postflight_fn hook_entry list"
  c_Cache :: bool
  c_userID :: int
  c_endpoint :: string
  c_backupEndpoints :: "string list"

definition walletLoadRetries :: nat where "walletLoadRetries = 3"
definition builtinHookName :: string where "builtinHookName = ''builtin''"
definition defaultRPCTimeout :: int where "defaultRPCTimeout = 240 * second"
definition AllMethodsHook :: string where "AllMethodsHook = []"

definition hook :: "string \<Rightarrow> 'f \<Rightarrow> string \<Rightarrow> 'f hook_entry" where
  "hook m f n = \<lparr>he_method = m, he_function = f, he_name = n\<rparr>"

definition AddPreflightHook :: "caller \<Rightarrow> string \<Rightarrow> preflight_fn \<Rightarrow> string \<Rightarrow> caller" where
  "AddPreflightHook c method hf name = c\<lparr>c_preflightHooks := c_preflightHooks c @ [hook method hf name]\<rparr>"

definition AddPostflightHook :: "caller \<Rightarrow> string \<Rightarrow> postflight_fn \<Rightarrow> string \<Rightarrow> caller" where
  "AddPostflightHook c method hf name = c\<lparr>c_postflightHooks := c_postflightHooks c @ [hook method hf name]\<rparr>"

definition addDefaultHooks :: "'w env \<Rightarrow> caller \<Rightarrow> caller" where
  "addDefaultHooks E c0 = (
     let c1 = AddPreflightHook c0 MethodStatus GetStatusResponse builtinHookName;
         c2 = AddPreflightHook c1 MethodGet PreflightHookGet builtinHookName;
         c3 = AddPreflightHook c2 MethodClaimSearch PreflightHookClaimSearch builtinHookName;
         c4 = (if cfg_ArfleetEnabled (env_cfg E) then
                 AddPostflightHook (AddPostflightHook c3 MethodClaimSearch PostClaimSearchArfleetThumbs builtinHookName)
                   MethodResolve PostResolveArfleetThumbs builtinHookName
               else c3);
         c5 = AddPreflightHook c4 MethodResolve PreflightCacheHook ''cache''
     in AddPreflightHook c5 MethodClaimSearch PreflightCacheHook ''cache'')"

definition NewCaller :: "'w env \<Rightarrow> string \<Rightarrow> int \<Rightarrow> caller" where
  "NewCaller E endpoint userID = addDefaultHooks E
     \<lparr>c_preflightHooks = [], c_postflightHooks = [], c_Cache = False, c_userID = userID,
      c_endpoint = endpoint, c_backupEndpoints = []\<rparr>"

definition AddBackupEndpoints :: "caller \<Rightarrow> string list \<Rightarrow> caller" where
  "AddBackupEndpoints c endpoints = c\<lparr>c_backupEndpoints := endpoints\<rparr>"

text \<open>\<open>rand.IntN n\<close> is below \<open>n\<close> and panics for \<open>n = 0\<close>.\<close>

definition RandomizeEndpoint :: "'w env \<Rightarrow> caller \<Rightarrow> ('w, caller res) io" where
  "RandomizeEndpoint E c = (
     if c_userID c \<noteq> 0 \<or> c_backupEndpoints c = [] then State_Monad.return (Ok c)
     else let exEndpoints = filter (\<lambda>e. e \<noteq> c_endpoint c) (c_backupEndpoints c) in
       if exEndpoints = [] then State_Monad.return (Panic ''invalid argument to IntN'')
       else do {
         i \<leftarrow> ext (env_rand E (length exEndpoints));
         State_Monad.return (Ok (c\<lparr>c_endpoint := exEndpoints ! (i mod length exEndpoints)\<rparr>))
       })"

definition CloneWithoutHook :: "'w env \<Rightarrow> caller \<Rightarrow> string \<Rightarrow> string \<Rightarrow> string \<Rightarrow> caller" where
  "CloneWithoutHook E c endpoint method name = (
     let cc = NewCaller E endpoint (c_userID c);
         keep = (\<lambda>m n. \<not> (m = method \<and> n = name));
         c1 = fold (\<lambda>h cc. if keep (he_method h) (he_name h)
                then AddPostflightHook cc (he_method h) (he_function h) (he_name h) else cc) (c_postflightHooks c) cc
     in fold (\<lambda>h cc. if keep (he_method h) (he_name h)
                then AddPreflightHook cc (he_method h) (he_function h) (he_name h) else cc) (c_preflightHooks c) c1)"

definition isMatchingHook :: "string \<Rightarrow> 'f hook_entry \<Rightarrow> bool" where
  "isMatchingHook m h \<longleftrightarrow> he_method h = [] \<or> he_method h = m \<or> HasPrefix m (he_method h)"

definition getRPCTimeout :: "'w env \<Rightarrow> string \<Rightarrow> int" where
  "getRPCTimeout E method = (case fmlookup (cfg_RPCTimeouts (env_cfg E)) method of Some t \<Rightarrow> t | None \<Rightarrow> defaultRPCTimeout)"

datatype log_level = DebugLevel | InfoLevel

definition getLogLevel :: "string \<Rightarrow> log_level" where
  "getLogLevel m = (if methodInList m [MethodWalletBalance, MethodSyncApply] then DebugLevel else InfoLevel)"

section \<open>SDK errors about wallets\<close>

definition convertToError :: "'w env \<Rightarrow> rpc_response \<Rightarrow> go_error option" where
  "convertToError E r = (case res_Error r of
     None \<Rightarrow> None
   | Some e \<Rightarrow>
       (case err_Data e of
          JObj d \<Rightarrow> (case fmlookup d ''name'' of
             Some (JStr _) \<Rightarrow> Some (NewWalletError (env_WrapError E e))
           | _ \<Rightarrow> None)
        | _ \<Rightarrow> Some (NewWalletError (env_WrapError E e))))"

definition isErrWalletNotLoaded :: "'w env \<Rightarrow> rpc_response \<Rightarrow> bool" where
  "isErrWalletNotLoaded E r = (case convertToError E r of
     None \<Rightarrow> False | Some e \<Rightarrow> error_Is e (Sentinel S_WalletNotLoaded))"

definition isErrWalletAlreadyLoaded :: "'w env \<Rightarrow> rpc_response \<Rightarrow> bool" where
  "isErrWalletAlreadyLoaded E r = (case convertToError E r of
     None \<Rightarrow> False | Some e \<Rightarrow> error_Is e (Sentinel S_WalletAlreadyLoaded))"

definition cut_value :: "nat \<Rightarrow> json \<Rightarrow> json" where
  "cut_value num v = (case v of
     JArr xs \<Rightarrow>
       if length xs \<le> num then v
       else JArr (take num xs @ [JStr (''... ('' @ Itoa (int (length xs - num)) @ '' skipped)'')])
   | _ \<Rightarrow> v)"

definition cutSublistsToSize :: "json_map \<Rightarrow> nat \<Rightarrow> json_map" where
  "cutSublistsToSize m num = fmmap (cut_value num) m"

section \<open>Postflight hooks\<close>

definition postClaimSearchArfleetThumbs :: "'w env \<Rightarrow> rpc_response \<Rightarrow> ('w, rpc_response) io" where
  "postClaimSearchArfleetThumbs E resp = do {
     r \<leftarrow> ext (env_ReplaceAssetUrls E (cfg_ArfleetCDN (env_cfg E)) (res_Result resp));
     State_Monad.return (case r of Inl _ \<Rightarrow> resp | Inr pRes \<Rightarrow> resp\<lparr>res_Result := pRes\<rparr>)
   }"

text \<open>The loop over the claims leaves the entry that the map iteration visits at the end, which
  can be any of them.\<close>

definition postResolveArfleetThumbs :: "'w env \<Rightarrow> rpc_response \<Rightarrow> ('w, rpc_response) io" where
  "postResolveArfleetThumbs E resp = do {
     let claims = (case res_Result resp of JObj m \<Rightarrow> sorted_list_of_fmap m | _ \<Rightarrow> []);
     i \<leftarrow> ext (env_rand E (length claims));
     let (claimUrl, claim) = (if claims = [] then ([], JNull) else claims ! (i mod length claims));
     r \<leftarrow> ext (env_ReplaceAssetUrl E (cfg_ArfleetCDN (env_cfg E)) claim);
     State_Monad.return (case r of
       Inl _ \<Rightarrow> resp
     | Inr pClaim \<Rightarrow> resp\<lparr>res_Result := JObj (fmupd claimUrl pClaim fmempty)\<rparr>)
   }"

text \<open>\<open>audit.LogQuery\<close> only logs a failed insertion.\<close>

definition LogQuery :: "'w env \<Rightarrow> int \<Rightarrow> string \<Rightarrow> string \<Rightarrow> bytes \<Rightarrow> ('w, unit) io" where
  "LogQuery E userID remoteIP method body = do {
     _ \<leftarrow> ext (env_audit_insert E userID remoteIP method body);
     State_Monad.return ()
   }"

definition run_postflight :: "'w env \<Rightarrow> postflight_fn \<Rightarrow> rpc_response \<Rightarrow> ('w, rpc_response option) io" where
  "run_postflight E f resp = (case f of
     PostClaimSearchArfleetThumbs \<Rightarrow> do { r \<leftarrow> postClaimSearchArfleetThumbs E resp; State_Monad.return (Some r) }
   | PostResolveArfleetThumbs \<Rightarrow> do { r \<leftarrow> postResolveArfleetThumbs E resp; State_Monad.return (Some r) }
   | LogRemoteIP _ \<Rightarrow> State_Monad.return None
   | AuditWalletSend userID remoteIP body \<Rightarrow> do {
       LogQuery E userID remoteIP MethodWalletSend body;
       State_Monad.return None
     })"

fun postflight :: "'w env \<Rightarrow> string \<Rightarrow> postflight_fn hook_entry list \<Rightarrow> rpc_response \<Rightarrow> ('w, rpc_response) io" where
  "postflight E m [] r = State_Monad.return r"
| "postflight E m (h # hs) r =
     (if isMatchingHook m h then do {
        x \<leftarrow> run_postflight E (he_function h) r;
        postflight E m hs (case x of None \<Rightarrow> r | Some hookResp \<Rightarrow> hookResp)
      }
      else postflight E m hs r)"

section \<open>SendQuery\<close>

text \<open>\<open>send_loop n\<close> is the loop with \<open>n\<close> iterations left; it ends with the response of the
  iteration done before them.\<close>

definition give_up_wallet :: "'w env \<Rightarrow> caller \<Rightarrow> ('w, unit) io" where
  "give_up_wallet E c = do {
     e \<leftarrow> DeleteUser E (c_userID c);
     ErrorToSentry (if e \<noteq> None then Prefix ''failed to delete db user with missing wallet'' e
                    else Prefix ''resorted to deleting db user with missing wallet'' e)
   }"

fun send_loop :: "nat \<Rightarrow> 'w env \<Rightarrow> caller \<Rightarrow> query \<Rightarrow> rpc_response \<Rightarrow> ('w, rpc_response res) io" where
  "send_loop 0 E c q prev = State_Monad.return (Ok prev)"
| "send_loop (Suc n) E c q prev = do {
     x \<leftarrow> CallRaw E (c_endpoint c) (q_Request q);
     (case x of
        Inl e \<Rightarrow> State_Monad.return (Err (wrap e))
      | Inr r \<Rightarrow>
          if isErrWalletNotLoaded E r then do {
            e \<leftarrow> LoadWallet E (c_endpoint c) (c_userID c);
            (if e \<noteq> None \<and> n = 0 then give_up_wallet E c else State_Monad.return ());
            send_loop n E c q r
          }
          else if isErrWalletAlreadyLoaded E r then send_loop n E c q r
          else State_Monad.return (Ok r))
   }"

definition SendQuery :: "'w env \<Rightarrow> caller \<Rightarrow> query \<Rightarrow> ('w, rpc_response res) io" where
  "SendQuery E c q = do {
     r \<leftarrow> send_loop walletLoadRetries E c q (newResponse q);
     (case r of
        Ok resp \<Rightarrow> do {
          resp' \<leftarrow> postflight E (q_Method q) (c_postflightHooks c) resp;
          State_Monad.return (Ok resp')
        }
      | Err e \<Rightarrow> State_Monad.return (Err e)
      | Panic m \<Rightarrow> State_Monad.return (Panic m))
   }"

section \<open>What SendQuery sends and deletes\<close>

lemma sends_stmt [io_intro]:
  assumes "valid (sends s\<^sub>0 G) body (\<lambda>_. sends s\<^sub>0 G)"
  shows "valid (sends s\<^sub>0 G) (stmt E x op body) (\<lambda>_. sends s\<^sub>0 G)"
  unfolding stmt_def by (intro io_intro assms valid_modify) simp_all

lemma sends_DeleteUser [io_intro]: "valid (sends s\<^sub>0 G) (DeleteUser E i) (\<lambda>_. sends s\<^sub>0 G)"
  unfolding DeleteUser_def deleteDBUser_def getDBUser_def by (intro io_intro valid_modify) simp_all

lemma sends_LoadWallet [io_intro]: "valid (sends s\<^sub>0 G) (LoadWallet E a i) (\<lambda>_. sends s\<^sub>0 G)"
  unfolding LoadWallet_def by (intro io_intro)

lemma sends_run_postflight [io_intro]: "valid (sends s\<^sub>0 G) (run_postflight E f r) (\<lambda>_. sends s\<^sub>0 G)"
  unfolding run_postflight_def postClaimSearchArfleetThumbs_def postResolveArfleetThumbs_def LogQuery_def Let_def
  by (cases f; simp only: postflight_fn.case; intro io_intro)

lemma sends_postflight [io_intro]: "valid (sends s\<^sub>0 G) (postflight E m hs r) (\<lambda>_. sends s\<^sub>0 G)"
  by (induction hs arbitrary: r) (simp_all only: postflight.simps, (intro io_intro; assumption)+)

lemma sends_send_loop:
  assumes "G (c_endpoint c) (q_Request q)"
  shows "valid (sends s\<^sub>0 G) (send_loop n E c q prev) (\<lambda>_. sends s\<^sub>0 G)"
proof (induction n arbitrary: prev)
  case (Suc n)
  show ?case
    by (simp only: send_loop.simps give_up_wallet_def) (intro io_intro sends_CallRaw [of G, OF assms] Suc.IH)
qed (simp add: valid_return)

lemma sends_SendQuery:
  "G (c_endpoint c) (q_Request q) \<Longrightarrow> valid (sends s\<^sub>0 G) (SendQuery E c q) (\<lambda>_. sends s\<^sub>0 G)"
  unfolding SendQuery_def by (intro valid_bind_keep [OF sends_send_loop [of G]] io_intro)

lemma CallRaw_run:
  "run_state (CallRaw E ep r) s = (x, t) \<Longrightarrow> w_sent t = w_sent s @ [(ep, r)] \<and> w_users t = w_users s"
  by (auto simp: CallRaw_def)

lemma getDBUser_run:
  assumes "no_others E" "run_state (getDBUser E Pool b) s = (r, t)"
  shows "w_sent t = w_sent s \<and> w_users t = w_users s \<and> (\<forall>u i. r = Ok u \<longrightarrow> b = ByID i \<longrightarrow> usr_ID u = i)"
  using assms
  by (auto simp: getDBUser_def stmt_def no_others_def load_user_def matches_def find_Some_iff
      split: option.splits if_splits)

lemma DeleteUser_run:
  assumes "no_others E" "run_state (DeleteUser E i) s = (e, t)"
  shows "w_sent t = w_sent s \<and> (w_users t = w_users s \<or> w_users t = fmdrop i (w_users s))"
proof -
  obtain r s1 where g: "run_state (getDBUser E Pool (ByID i)) s = (r, s1)" by fastforce
  note frame = getDBUser_run [OF assms(1) g]
  show ?thesis
    using assms g frame
    by (cases r) (auto simp: DeleteUser_def deleteDBUser_def stmt_def no_others_def split: option.splits)
qed

lemma LoadWallet_run: "run_state (LoadWallet E a i) s = (e, t) \<Longrightarrow> w_sent t = w_sent s \<and> w_users t = w_users s"
  by (auto simp: LoadWallet_def)

lemma give_up_run:
  assumes "no_others E" "run_state (give_up_wallet E c) s = (u, t)"
  shows "w_sent t = w_sent s \<and> (w_users t = w_users s \<or> w_users t = fmdrop (c_userID c) (w_users s))"
proof -
  obtain e s1 where "run_state (DeleteUser E (c_userID c)) s = (e, s1)" by fastforce
  with DeleteUser_run [OF assms(1) this] assms(2) show ?thesis
    by (auto simp: give_up_wallet_def ErrorToSentry_def)
qed

lemma send_loop_run:
  assumes "no_others E"
  shows "run_state (send_loop n E c q prev) s = (r, t) \<Longrightarrow>
    \<exists>k \<le> n. (0 < n \<longrightarrow> 0 < k) \<and> w_sent t = w_sent s @ replicate k (c_endpoint c, q_Request q) \<and>
      (w_users t = w_users s \<or>
       k = n \<and> w_users t = fmdrop (c_userID c) (w_users s) \<and> (\<exists>x. r = Ok x \<and> isErrWalletNotLoaded E x))"
proof (induction n arbitrary: prev s)
  case 0
  then show ?case by simp
next
  case (Suc n)
  obtain x s1 where cr: "run_state (CallRaw E (c_endpoint c) (q_Request q)) s = (x, s1)" by fastforce
  note one = CallRaw_run [OF cr]
  have again: "\<exists>k \<le> Suc n. (0 < Suc n \<longrightarrow> 0 < k) \<and> w_sent t = w_sent s @ replicate k (c_endpoint c, q_Request q) \<and>
      (w_users t = w_users s \<or>
       k = Suc n \<and> w_users t = fmdrop (c_userID c) (w_users s) \<and> (\<exists>x. r = Ok x \<and> isErrWalletNotLoaded E x))"
    if "run_state (send_loop n E c q y) s2 = (r, t)" "w_sent s2 = w_sent s1" "w_users s2 = w_users s1" for y s2
  proof -
    from Suc.IH [OF that(1)] obtain k where "k \<le> n" "w_sent t = w_sent s2 @ replicate k (c_endpoint c, q_Request q)"
      "w_users t = w_users s2 \<or> k = n \<and> w_users t = fmdrop (c_userID c) (w_users s2) \<and> (\<exists>x. r = Ok x \<and> isErrWalletNotLoaded E x)"
      by blast
    with one that(2,3) show ?thesis by (intro exI [of _ "Suc k"]) auto
  qed
  show ?case
  proof (cases x)
    case (Inl e)
    with Suc.prems cr one show ?thesis by (intro exI [of _ 1]) auto
  next
    case (Inr y)
    show ?thesis
    proof (cases "isErrWalletNotLoaded E y")
      case False
      with Suc.prems cr one Inr again [of y s1] show ?thesis
        by (cases "isErrWalletAlreadyLoaded E y") (auto intro!: exI [of _ 1])
    next
      case True
      obtain e s2 where lw: "run_state (LoadWallet E (c_endpoint c) (c_userID c)) s1 = (e, s2)" by fastforce
      note load = LoadWallet_run [OF lw]
      show ?thesis
      proof (cases "e \<noteq> None \<and> n = 0")
        case False
        with True Suc.prems cr Inr lw load again [of y s2] show ?thesis by auto
      next
        case gone: True
        obtain u s3 where gu: "run_state (give_up_wallet E c) s2 = (u, s3)" by (cases "run_state (give_up_wallet E c) s2")
        from give_up_run [OF assms gu] gone True Suc.prems cr Inr lw load one show ?thesis
          by (intro exI [of _ 1]) (auto simp: gu)
      qed
    qed
  qed
qed

lemma run_postflight_run:
  "run_state (run_postflight E f r) s = (x, t) \<Longrightarrow> w_sent t = w_sent s \<and> w_users t = w_users s"
  by (cases f) (auto simp: run_postflight_def postClaimSearchArfleetThumbs_def postResolveArfleetThumbs_def
      LogQuery_def Let_def split: prod.splits if_splits)

lemma postflight_run:
  "run_state (postflight E m hs r) s = (x, t) \<Longrightarrow> w_sent t = w_sent s \<and> w_users t = w_users s"
proof (induction hs arbitrary: r s)
  case (Cons h hs)
  obtain y s1 where "run_state (run_postflight E (he_function h) r) s = (y, s1)"
    by (cases "run_state (run_postflight E (he_function h) r) s")
  with run_postflight_run [OF this] Cons show ?case by (auto split: if_splits)
qed simp

section \<open>Properties\<close>


definition not_loaded_env :: "unit env" where
  "not_loaded_env = quiet_env\<lparr>
     env_CallRaw := (\<lambda>_ _. State_Monad.return (Inr (ok_response\<lparr>res_Error :=
       Some \<lparr>err_Code = -32500, err_Message = ''wallet is not loaded'', err_Data = JNull\<rparr>\<rparr>))),
     env_WrapError := (\<lambda>e. SdkError ErrorWalletNotLoaded (err_Message e)),
     env_WalletAdd := (\<lambda>_ _. State_Monad.return (Some (Plain ''no such wallet'')))\<rparr>"


section \<open>Observations\<close>

text \<open>With all backup endpoints equal to the current one, retrying panics.\<close>

theorem randomize_endpoint_panics:
  "run_state (RandomizeEndpoint E (AddBackupEndpoints (NewCaller E ep 0) [ep])) s =
     (Panic ''invalid argument to IntN'', s)"
  by (simp add: RandomizeEndpoint_def AddBackupEndpoints_def NewCaller_def addDefaultHooks_def AddPreflightHook_def
      AddPostflightHook_def Let_def)

text \<open>Cloning a caller without its built-in \<open>get\<close> hook gives a caller that has it.\<close>

theorem clone_keeps_builtin_hook:
  "hook MethodGet PreflightHookGet builtinHookName \<in>
     set (c_preflightHooks (CloneWithoutHook E (NewCaller E ep u) ep' MethodGet builtinHookName))"
  by (simp add: CloneWithoutHook_def NewCaller_def addDefaultHooks_def AddPreflightHook_def
      AddPostflightHook_def Let_def hook_def method_names builtinHookName_def)

text \<open>A successful deletion of the user is reported to Sentry as a nil error.\<close>

theorem deletion_reported_as_nil:
  "w_sentry (snd (run_state (give_up_wallet quiet_env (NewCaller quiet_env ep 7)) linked_world)) = [None]"
  by (simp add: give_up_wallet_def DeleteUser_def deleteDBUser_def getDBUser_def stmt_def is_err_def Prefix_def
      ErrorToSentry_def linked_world_def quiet_defs NewCaller_def addDefaultHooks_def AddPreflightHook_def
      AddPostflightHook_def Let_def matches_def load_user_def)

text \<open>With Arfleet enabled, a \<open>resolve\<close> of several URLs loses all results but one.\<close>

theorem resolve_thumbs_keep_one:
  "run_state (postResolveArfleetThumbs E resp) s = (r, t) \<Longrightarrow>
     r = resp \<or> (\<exists>u x. res_Result r = JObj (fmupd u x fmempty))"
  by (auto simp: postResolveArfleetThumbs_def Let_def split: prod.splits sum.splits if_splits) blast+

end
