(* ===== verification/Access.thy ===== *)
theory Access
  imports Caller
begin

text \<open>
  Who may watch a stream: \<open>app/query/validation.go\<close> (channel signatures), \<open>paid.go\<close> (signed
  CDN URLs) and the access checks of \<open>processors.go\<close> (scheduled, unlisted, purchased, rented
  and members-only content, moderators).
\<close>

section \<open>Signatures\<close>

function reverse_loop :: "nat \<Rightarrow> nat \<Rightarrow> bytes \<Rightarrow> bytes \<Rightarrow> bytes" where
  "reverse_loop left right b r =
     (if left < right then reverse_loop (left + 1) (right - 1) b (r[left := b ! right, right := b ! left]) else r)"
  by pat_completeness auto
termination by (relation "measure (\<lambda>(left, right, b, r). right - left)") auto

declare reverse_loop.simps [simp del]

definition reverseBytes :: "bytes \<Rightarrow> bytes" where
  "reverseBytes b = reverse_loop 0 (length b - 1) b (replicate (length b) (CHR 0x00))"

text \<open>A nil slice is empty.\<close>

definition unhelixifyAndReverse :: "string \<Rightarrow> bytes" where
  "unhelixifyAndReverse claimID = (case hex_decode claimID of None \<Rightarrow> [] | Some b \<Rightarrow> reverseBytes b)"

definition createDigest :: "bytes list \<Rightarrow> bytes" where
  "createDigest pieces = fold (\<lambda>p digest. digest @ p) pieces []"

text \<open>\<open>big.Int.SetBytes\<close> reads big-endian.\<close>

definition SetBytes :: "bytes \<Rightarrow> nat" where
  "SetBytes b = fold (\<lambda>c n. 256 * n + of_char c) b 0"

definition isSignatureValid :: "'w env \<Rightarrow> bytes \<Rightarrow> bytes \<Rightarrow> bytes \<Rightarrow> bool" where
  "isSignatureValid E signature publicKey injest =
     env_ecdsa_verify E publicKey injest (SetBytes (take 32 signature)) (SetBytes (drop 32 signature))"

text \<open>The signature is copied into an array of 64 bytes: cut off or filled up with zeroes.\<close>

definition copy64 :: "bytes \<Rightarrow> bytes" where
  "copy64 sig = take 64 sig @ replicate (64 - length sig) (CHR 0x00)"

definition validateSignature :: "'w env \<Rightarrow> string \<Rightarrow> string \<Rightarrow> string \<Rightarrow> string \<Rightarrow> bytes \<Rightarrow> go_error option" where
  "validateSignature E channelClaimID signature signingTS data publicKey = (
     let injest = env_sha256 E (createDigest [signingTS, unhelixifyAndReverse channelClaimID, data]) in
     case hex_decode signature of
       None \<Rightarrow> Some (Err_str ''encoding/hex: invalid'')
     | Some sig \<Rightarrow>
         if \<not> isSignatureValid E (copy64 sig) publicKey injest
         then Some (Err_str ''could not validate the signature'') else None)"

definition ValidateSignatureFromClaim :: "'w env \<Rightarrow> claim option \<Rightarrow> string \<Rightarrow> string \<Rightarrow> string \<Rightarrow> unit res" where
  "ValidateSignatureFromClaim E channel signature signingTS data = (case channel of
     None \<Rightarrow> Err (Err_str ''no channel to validate'')
   | Some cl \<Rightarrow>
       (case cl_SigningChannel cl of
          None \<Rightarrow> Panic ''nil pointer dereference''
        | Some ch \<Rightarrow>
            (case sc_PublicKey ch of
               None \<Rightarrow> Err (Err_str ''no channel for public key'')
             | Some k \<Rightarrow>
                 (case env_parse_pubkey E k of
                    Inl e \<Rightarrow> Err (wrap e)
                  | Inr pubKey \<Rightarrow>
                      (case validateSignature E (sc_ClaimID ch) signature signingTS data pubKey of
                         Some e \<Rightarrow> Err e | None \<Rightarrow> Ok ())))))"

section \<open>Signed URLs\<close>

definition b64_char :: "nat \<Rightarrow> char" where
  "b64_char n = ''ABCDEFGHIJKLMNOPQRSTUVWXYZabcdefghijklmnopqrstuvwxyz0123456789+/'' ! n"

fun base64 :: "bytes \<Rightarrow> string" where
  "base64 [] = []"
| "base64 [a] = (let x = of_char a in [b64_char (x div 4), b64_char (x mod 4 * 16), CHR ''='', CHR ''=''])"
| "base64 [a, b] = (let x = of_char a; y = of_char b in
     [b64_char (x div 4), b64_char (x mod 4 * 16 + y div 16), b64_char (y mod 16 * 4), CHR ''=''])"
| "base64 (a # b # c # s) = (let x = of_char a; y = of_char b; z = of_char c in
     b64_char (x div 4) # b64_char (x mod 4 * 16 + y div 16) # b64_char (y mod 16 * 4 + z div 64) #
     b64_char (z mod 64) # base64 s)"

definition signStreamURL77 :: "'w env \<Rightarrow> string \<Rightarrow> string \<Rightarrow> string \<Rightarrow> int \<Rightarrow> string" where
  "signStreamURL77 E host filePath secureToken expiryTimestamp = (
     let strippedPath = path_Dir filePath;
         hash = (if 0 < expiryTimestamp then Itoa expiryTimestamp @ strippedPath @ secureToken
                 else strippedPath @ secureToken);
         encodedFinalHash = map (\<lambda>c. if c = CHR ''+'' then CHR ''-'' else if c = CHR ''/'' then CHR ''_'' else c)
           (base64 (env_md5 E hash))
     in if 0 < expiryTimestamp then encodedFinalHash @ '','' @ Itoa expiryTimestamp else encodedFinalHash)"

section \<open>Purchases and moderators\<close>

text \<open>What a hook can read from its context: the query, and the current user of the request.\<close>

record hook_ctx =
  hc_query :: query
  hc_user :: "current_user option"

definition with_environ :: "iapi_client \<Rightarrow> string \<Rightarrow> iapi_client" where
  "with_environ iac environ = (if environ = EnvironTest then Clone iac [WithEnvironment EnvironTest] else iac)"

definition checkCustomerListPurchase :: "'w env \<Rightarrow> hook_ctx \<Rightarrow> string \<Rightarrow> string
    \<Rightarrow> ('w, customer_purchase option res) io" where
  "checkCustomerListPurchase E ctx claimID environ = (case GetCurrentUserData (hc_user ctx) of
     Inl e \<Rightarrow> State_Monad.return (Err e)
   | Inr cu \<Rightarrow>
       (case cu_iac cu of
          None \<Rightarrow> State_Monad.return (Err (Err_str ''authentication required''))
        | Some iac \<Rightarrow> do {
            r \<leftarrow> iapi_Call E (with_environ iac environ) ''customer/list'' (fmap_of_list [(''claim_id_filter'', claimID)]);
            State_Monad.return (case r of
              Err e \<Rightarrow> Err e
            | Panic m \<Rightarrow> Panic m
            | Ok resp \<Rightarrow>
                (case ib_Customers resp of
                   [] \<Rightarrow> Ok None
                 | purchase # _ \<Rightarrow>
                     if cp_Status purchase \<noteq> ''confirmed'' \<and> cp_Status purchase \<noteq> ''submitted'' then Ok None
                     else Ok (Some purchase)))
          }))"

definition isUserAMod :: "'w env \<Rightarrow> hook_ctx \<Rightarrow> string \<Rightarrow> ('w, bool res) io" where
  "isUserAMod E ctx environ = (case GetCurrentUserData (hc_user ctx) of
     Inl e \<Rightarrow> State_Monad.return (Ok False)
   | Inr cu \<Rightarrow>
       (case cu_iac cu of
          None \<Rightarrow> State_Monad.return (Ok False)
        | Some iac \<Rightarrow> do {
            r \<leftarrow> iapi_Call E (with_environ iac environ) ''user/me'' fmempty;
            State_Monad.return (case r of
              Err e \<Rightarrow> Ok False
            | Panic m \<Rightarrow> Panic m
            | Ok userResp \<Rightarrow> Ok (ib_Success userResp \<and> ib_GlobalMod userResp))
          }))"

section \<open>Access to streams\<close>

datatype access_type =
    accessTypeFree | accessTypePurchase | accessTypeRental | accessTypeMemberOnly
  | accessTypeUnlisted | accessTypeScheduled

definition ClaimTagPrivate :: string where "ClaimTagPrivate = ''c:private''"
definition ClaimTagUnlisted :: string where "ClaimTagUnlisted = ''c:unlisted''"
definition ClaimTagScheduledShow :: string where "ClaimTagScheduledShow = ''c:scheduled:show''"
definition ClaimTagScheduledHide :: string where "ClaimTagScheduledHide = ''c:scheduled:hide''"

definition tag_access :: "string \<Rightarrow> access_type" where
  "tag_access t =
     (if HasPrefix t ''purchase:'' \<or> t = ''c:purchase'' then accessTypePurchase
      else if HasPrefix t ''rental:'' \<or> t = ''c:rental'' then accessTypeRental
      else if t = ''c:members-only'' then accessTypeMemberOnly
      else if t = ClaimTagUnlisted then accessTypeUnlisted
      else accessTypeFree)"

text \<open>The first tag that restricts access decides. A claim without a stream has no release time
  to look at.\<close>

fun tag_loop :: "'w env \<Rightarrow> claim \<Rightarrow> string list \<Rightarrow> ('w, access_type res) io" where
  "tag_loop E claim [] = State_Monad.return (Ok accessTypeFree)"
| "tag_loop E claim (t # tags) = (
     let other = (if tag_access t \<noteq> accessTypeFree then State_Monad.return (Ok (tag_access t))
                  else tag_loop E claim tags) in
     if t = ClaimTagScheduledHide \<or> t = ClaimTagScheduledShow then
       (case cl_Stream claim of
          None \<Rightarrow> State_Monad.return (Panic ''nil pointer dereference'')
        | Some st \<Rightarrow> do {
            now \<leftarrow> NowUnix E;
            if now < st_ReleaseTime st then State_Monad.return (Ok accessTypeScheduled) else other
          })
     else other)"

definition checkUnlisted :: "'w env \<Rightarrow> query \<Rightarrow> claim \<Rightarrow> go_error \<Rightarrow> (bool \<times> go_error option) res" where
  "checkUnlisted E q claim signErr = (case param q ''signature'' of
     None \<Rightarrow> Ok (False, Some (Err_str ''missing required signature param''))
   | Some signature \<Rightarrow>
       (case param q ''signature_ts'' of
          None \<Rightarrow> Ok (False, Some (Err_str ''missing required signature_ts param''))
        | Some signatureTS \<Rightarrow>
            (case (signature, signatureTS) of
               (JStr sig, JStr ts) \<Rightarrow>
                 (case ValidateSignatureFromClaim E (Some claim) sig ts (cl_ClaimID claim) of
                    Ok _ \<Rightarrow> Ok (True, Some signErr)
                  | Err e \<Rightarrow> Ok (False, Some e)
                  | Panic m \<Rightarrow> Panic m)
             | _ \<Rightarrow> Panic ''interface conversion'')))"

definition checkPurchase :: "'w env \<Rightarrow> hook_ctx \<Rightarrow> access_type \<Rightarrow> string \<Rightarrow> string \<Rightarrow> go_error
    \<Rightarrow> ('w, (bool \<times> go_error option) res) io" where
  "checkPurchase E ctx accessType claimID environ signErr = do {
     r \<leftarrow> checkCustomerListPurchase E ctx claimID environ;
     (case r of
        Err e \<Rightarrow> State_Monad.return (Ok (False, Some e))
      | Panic m \<Rightarrow> State_Monad.return (Panic m)
      | Ok None \<Rightarrow> State_Monad.return (Ok (False, Some (Err_str ''no access to paid content'')))
      | Ok (Some purchase) \<Rightarrow>
          if accessType = accessTypeRental then
            if cp_Type purchase \<noteq> ''rental'' then
              State_Monad.return (Ok (False, Some (Err_str ''incorrect purchase type'')))
            else do {
              expired \<leftarrow> NowAfter E (cp_ValidThrough purchase);
              State_Monad.return (if expired then Ok (False, Some (Err_str ''rental expired''))
                                  else Ok (True, Some signErr))
            }
          else State_Monad.return (Ok (True, Some signErr)))
   }"

definition iapiTypeMembershipVod :: string where "iapiTypeMembershipVod = ''Exclusive content''"
definition iapiTypeMembershipLiveStream :: string where "iapiTypeMembershipLiveStream = ''Exclusive livestreams''"

definition checkMembership :: "'w env \<Rightarrow> hook_ctx \<Rightarrow> bool \<Rightarrow> string \<Rightarrow> string \<Rightarrow> go_error
    \<Rightarrow> ('w, (bool \<times> go_error option) res) io" where
  "checkMembership E ctx isLivestream claimID environ signErr = (case GetCurrentUserData (hc_user ctx) of
     Inl e \<Rightarrow> State_Monad.return (Ok (False, Some (Err_str ''no user data in context'')))
   | Inr cu \<Rightarrow>
       (case cu_iac cu of
          None \<Rightarrow> State_Monad.return (Ok (False, Some (Err_str ''authentication required'')))
        | Some iac \<Rightarrow> do {
            r \<leftarrow> iapi_Call E (with_environ iac environ) ''membership_perk/check'' (fmap_of_list
                   [(''claim_id'', claimID),
                    (''type'', if isLivestream then iapiTypeMembershipLiveStream else iapiTypeMembershipVod)]);
            State_Monad.return (case r of
              Err e \<Rightarrow> Ok (False, Some e)
            | Panic m \<Rightarrow> Panic m
            | Ok resp \<Rightarrow>
                if \<not> ib_HasAccess resp then Ok (False, Some (Err_str ''no access to members-only content''))
                else Ok (True, Some signErr))
          }))"

definition query_environ :: "query \<Rightarrow> string" where
  "query_environ q = (case param q ParamEnviron of Some (JStr e) \<Rightarrow> e | _ \<Rightarrow> [])"

definition checkStreamAccess :: "'w env \<Rightarrow> hook_ctx \<Rightarrow> claim \<Rightarrow> ('w, (bool \<times> go_error option) res) io" where
  "checkStreamAccess E ctx claim = (
     let q = hc_query ctx;
         isLivestream = (param q ParamBaseStreamingUrl \<noteq> None);
         environ = query_environ q;
         signErr = (if isLivestream then errNeedSignedLivestreamUrl else errNeedSignedUrl)
     in do {
       a \<leftarrow> tag_loop E claim (cl_Tags claim);
       (case a of
          Err e \<Rightarrow> State_Monad.return (Err e)
        | Panic m \<Rightarrow> State_Monad.return (Panic m)
        | Ok accessType \<Rightarrow>
            if accessType = accessTypeFree then State_Monad.return (Ok (True, None))
            else if cl_IsMyOutput claim then State_Monad.return (Ok (True, Some signErr))
            else do {
              m \<leftarrow> isUserAMod E ctx environ;
              (case m of
                 Ok True \<Rightarrow> State_Monad.return (Ok (True, Some signErr))
               | Err e \<Rightarrow> State_Monad.return (Err e)
               | Panic msg \<Rightarrow> State_Monad.return (Panic msg)
               | Ok False \<Rightarrow>
                   (case accessType of
                      accessTypeUnlisted \<Rightarrow> State_Monad.return (checkUnlisted E q claim signErr)
                    | accessTypeScheduled \<Rightarrow> State_Monad.return (Ok (False,
                        Some (Err_str ''claim release time is in the future, not ready to be viewed yet'')))
                    | accessTypePurchase \<Rightarrow> checkPurchase E ctx accessType (cl_ClaimID claim) environ signErr
                    | accessTypeRental \<Rightarrow> checkPurchase E ctx accessType (cl_ClaimID claim) environ signErr
                    | accessTypeMemberOnly \<Rightarrow> checkMembership E ctx isLivestream (cl_ClaimID claim) environ signErr
                    | accessTypeFree \<Rightarrow> State_Monad.return (Ok (False, Some (Err_str ''unknown access type'')))))
            })
     })"

section \<open>Lemmas\<close>

lemma length_reverse_loop [simp]: "length (reverse_loop l k b r) = length r"
  by (induction l k b r rule: reverse_loop.induct) (subst reverse_loop.simps, simp)

lemma reverse_loop_nth:
  "l + k + 1 = length b \<Longrightarrow> length r = length b \<Longrightarrow> i < length b \<Longrightarrow>
   reverse_loop l k b r ! i =
     (if l \<le> i \<and> i \<le> k \<and> 2 * i + 1 \<noteq> length b then b ! (length b - 1 - i) else r ! i)"
proof (induction l k b r rule: reverse_loop.induct)
  case (1 l k b r)
  show ?case
  proof (cases "l < k")
    case True
    have "reverse_loop l k b r ! i =
        (if l + 1 \<le> i \<and> i \<le> k - 1 \<and> 2 * i + 1 \<noteq> length b then b ! (length b - 1 - i) else r[l := b ! k, k := b ! l] ! i)"
      using "1.IH" [OF True] "1.prems" True by (subst reverse_loop.simps) simp
    moreover have "length b - 1 - l = k" "length b - 1 - k = l" using "1.prems"(1) by linarith+
    ultimately show ?thesis using "1.prems" True by (auto simp: nth_list_update)
  next
    case False
    then have "\<not> (l \<le> i \<and> i \<le> k \<and> 2 * i + 1 \<noteq> length b)" using "1.prems"(1) by linarith
    with False show ?thesis by (subst reverse_loop.simps) (simp only: if_False)
  qed
qed

lemma reverseBytes_nth:
  "i < length b \<Longrightarrow> reverseBytes b ! i = (if 2 * i + 1 = length b then CHR 0x00 else b ! (length b - 1 - i))"
  unfolding reverseBytes_def by (subst reverse_loop_nth) auto

lemma length_reverseBytes [simp]: "length (reverseBytes b) = length b"
  by (simp add: reverseBytes_def)

lemma customer_purchase_status:
  "fst (run_state (checkCustomerListPurchase E ctx i env) s) = Ok (Some p) \<Longrightarrow>
     cp_Status p \<in> {''confirmed'', ''submitted''} \<and> (\<exists>cu iac. hc_user ctx = Some cu \<and> cu_iac cu = Some iac)"
  by (auto simp: checkCustomerListPurchase_def GetCurrentUserData_def
      split: sum.splits option.splits res.splits list.splits prod.splits if_splits)

lemma mod_has_client:
  "fst (run_state (isUserAMod E ctx env) s) = Ok True \<Longrightarrow> \<exists>cu iac. hc_user ctx = Some cu \<and> cu_iac cu = Some iac"
  by (auto simp: isUserAMod_def GetCurrentUserData_def split: sum.splits option.splits)

text \<open>Grounds for access to restricted content, other than owning it or being a moderator, as
  they stand in the state in which the check asks for them.\<close>

definition purchase_grounds :: "'w env \<Rightarrow> hook_ctx \<Rightarrow> access_type \<Rightarrow> claim \<Rightarrow> 'w world \<Rightarrow> bool" where
  "purchase_grounds E ctx a claim s \<longleftrightarrow> (
     case run_state (checkCustomerListPurchase E ctx (cl_ClaimID claim) (query_environ (hc_query ctx))) s of
       (Ok (Some p), t) \<Rightarrow> cp_Status p \<in> {''confirmed'', ''submitted''} \<and>
         (a = accessTypeRental \<longrightarrow> cp_Type p = ''rental'' \<and> fst (run_state (env_now E) (w_ext t)) \<le> cp_ValidThrough p)
     | _ \<Rightarrow> False)"

definition signature_grounds :: "'w env \<Rightarrow> query \<Rightarrow> claim \<Rightarrow> bool" where
  "signature_grounds E q claim \<longleftrightarrow> (\<exists>sig ts. param q ''signature'' = Some (JStr sig) \<and>
     param q ''signature_ts'' = Some (JStr ts) \<and>
     ValidateSignatureFromClaim E (Some claim) sig ts (cl_ClaimID claim) = Ok ())"

definition membership_grounds :: "'w env \<Rightarrow> hook_ctx \<Rightarrow> bool \<Rightarrow> claim \<Rightarrow> 'w world \<Rightarrow> bool" where
  "membership_grounds E ctx isLivestream claim s \<longleftrightarrow> (\<exists>cu iac resp. hc_user ctx = Some cu \<and> cu_iac cu = Some iac \<and>
     fst (run_state (iapi_Call E (with_environ iac (query_environ (hc_query ctx))) ''membership_perk/check'' (fmap_of_list
       [(''claim_id'', cl_ClaimID claim),
        (''type'', if isLivestream then iapiTypeMembershipLiveStream else iapiTypeMembershipVod)])) s) = Ok resp \<and>
     ib_HasAccess resp)"

definition grounds :: "'w env \<Rightarrow> hook_ctx \<Rightarrow> access_type \<Rightarrow> claim \<Rightarrow> 'w world \<Rightarrow> bool" where
  "grounds E ctx a claim s \<longleftrightarrow> (case a of
     accessTypeFree \<Rightarrow> True
   | accessTypeScheduled \<Rightarrow> False
   | accessTypeUnlisted \<Rightarrow> signature_grounds E (hc_query ctx) claim
   | accessTypeMemberOnly \<Rightarrow> membership_grounds E ctx (param (hc_query ctx) ParamBaseStreamingUrl \<noteq> None) claim s
   | _ \<Rightarrow> purchase_grounds E ctx a claim s)"

lemma checkPurchase_grounds:
  assumes "run_state (checkPurchase E ctx a (cl_ClaimID claim) (query_environ (hc_query ctx)) e) s = (Ok (True, x), t)"
  shows "x = Some e \<and> purchase_grounds E ctx a claim s"
proof -
  let ?c = "checkCustomerListPurchase E ctx (cl_ClaimID claim) (query_environ (hc_query ctx))"
  obtain r s1 where r: "run_state ?c s = (r, s1)" by (cases "run_state ?c s")
  with assms obtain p where p: "r = Ok (Some p)" and x: "x = Some e"
    and rent: "a = accessTypeRental \<longrightarrow> cp_Type p = ''rental'' \<and> fst (run_state (env_now E) (w_ext s1)) \<le> cp_ValidThrough p"
    by (auto simp: checkPurchase_def NowAfter_def not_less split: res.splits option.splits if_splits)
  from r p have "fst (run_state ?c s) = Ok (Some p)" by simp
  with customer_purchase_status [OF this] rent x r p show ?thesis by (simp add: purchase_grounds_def)
qed

lemma checkUnlisted_grounds:
  "checkUnlisted E q claim e = Ok (True, x) \<Longrightarrow> x = Some e \<and> signature_grounds E q claim"
  by (auto simp: checkUnlisted_def signature_grounds_def split: option.splits json.splits res.splits)

lemma checkMembership_grounds:
  "run_state (checkMembership E ctx live (cl_ClaimID claim) (query_environ (hc_query ctx)) e) s = (Ok (True, x), t) \<Longrightarrow>
     x = Some e \<and> membership_grounds E ctx live claim s"
  by (auto simp: checkMembership_def membership_grounds_def GetCurrentUserData_def
      split: sum.splits option.splits res.splits if_splits prod.splits)

section \<open>Properties\<close>

text \<open>C3: restricted content is never given away. If the access check lets a request through,
  then the first restricting tag decides the kind of access: free content needs no signed
  URL; everything else leads to the error that makes the caller sign the URL (the kind for
  livestreams exactly when a base URL was supplied), and is granted only to the owner, to a
  user whom internal-apis calls a moderator, or on the grounds for that kind: a confirmed or
  submitted purchase, for a rental one of type rental that has not expired at the time of
  the check, a valid signature of the claim's channel for unlisted content, a positive
  answer of internal-apis about the user's membership for members-only content; scheduled
  content has no other grounds before its release.\<close>

theorem restricted_access_has_grounds:
  assumes "run_state (checkStreamAccess E ctx claim) s = (Ok (True, e), t)"
  shows "\<exists>a s\<^sub>1. run_state (tag_loop E claim (cl_Tags claim)) s = (Ok a, s\<^sub>1) \<and>
    (a = accessTypeFree \<longrightarrow> e = None) \<and>
    (a \<noteq> accessTypeFree \<longrightarrow>
       e = Some (if param (hc_query ctx) ParamBaseStreamingUrl \<noteq> None then errNeedSignedLivestreamUrl else errNeedSignedUrl) \<and>
       (cl_IsMyOutput claim \<or>
        (\<exists>m s\<^sub>2. run_state (isUserAMod E ctx (query_environ (hc_query ctx))) s\<^sub>1 = (Ok m, s\<^sub>2) \<and>
           (m \<or> grounds E ctx a claim s\<^sub>2))))"
proof -
  let ?tags = "run_state (tag_loop E claim (cl_Tags claim)) s"
  let ?sign = "if param (hc_query ctx) ParamBaseStreamingUrl \<noteq> None then errNeedSignedLivestreamUrl else errNeedSignedUrl"
  let ?mod = "isUserAMod E ctx (query_environ (hc_query ctx))"
  obtain x s1 where x: "?tags = (x, s1)" by (cases ?tags)
  with assms obtain a where a: "x = Ok a" by (cases x) (auto simp: checkStreamAccess_def Let_def)
  show ?thesis
  proof (cases "a = accessTypeFree \<or> cl_IsMyOutput claim")
    case True
    with assms x a show ?thesis by (auto simp: checkStreamAccess_def Let_def split: if_splits)
  next
    case False
    obtain m s2 where m: "run_state ?mod s1 = (m, s2)" by (cases "run_state ?mod s1")
    from False assms x a m obtain b where b: "m = Ok b"
      by (cases m) (auto simp: checkStreamAccess_def Let_def)
    have "e = Some ?sign \<and> (b \<or> grounds E ctx a claim s2)"
    proof (cases b)
      case True
      with b False assms x a m show ?thesis by (auto simp: checkStreamAccess_def Let_def)
    next
      case notmod: False
      show ?thesis using assms x a m b False notmod
        by (cases a) (auto simp: checkStreamAccess_def Let_def grounds_def split: res.splits bool.splits
            dest: checkPurchase_grounds checkUnlisted_grounds checkMembership_grounds)
    qed
    with x a False m b show ?thesis by auto
  qed
qed

definition rental_claim :: claim where
  "rental_claim = quiet_claim\<lparr>cl_Tags := [''c:rental'']\<rparr>"

definition rental_env :: "unit env" where
  "rental_env = quiet_env\<lparr>env_iapi_do := (\<lambda>_. State_Monad.return (Inr \<lparr>ip_Status = 200,
     ip_Body = Some (quiet_body\<lparr>ib_Customers := [\<lparr>cp_Status = ''confirmed'', cp_Type = ''rental'',
       cp_ValidThrough = 1800000000 * second\<rparr>]\<rparr>)\<rparr>))\<rparr>"

definition rental_ctx :: hook_ctx where
  "rental_ctx = \<lparr>hc_query = \<lparr>q_Request = \<lparr>req_Method = ''get'', req_Params = JNull, req_ID = 1, req_JSONRPC = ''2.0''\<rparr>,
       q_WalletID = []\<rparr>,
     hc_user = Some (NewCurrentUser (Some linked_user) ''ip'' (Some (client_options.make ''s'' fmempty fmempty)) None)\<rparr>"

theorem restricted_access_has_grounds_witness:
  "fst (run_state (checkStreamAccess rental_env rental_ctx rental_claim) quiet_world) = Ok (True, Some errNeedSignedUrl) \<and>
   grounds rental_env rental_ctx accessTypeRental rental_claim
     (snd (run_state (isUserAMod rental_env rental_ctx (query_environ (hc_query rental_ctx))) quiet_world))"
proof -
  let ?run = "run_state (checkStreamAccess rental_env rental_ctx rental_claim) quiet_world"
  have owner: "\<not> cl_IsMyOutput rental_claim" by (simp add: rental_claim_def quiet_claim_def)
  have mod: "fst (run_state (isUserAMod rental_env rental_ctx (query_environ (hc_query rental_ctx))) quiet_world) = Ok False"
    by (simp add: rental_env_def rental_ctx_def quiet_defs isUserAMod_def GetCurrentUserData_def NewCurrentUser_def
        iapi_Call_def)
  have tags: "run_state (tag_loop rental_env rental_claim (cl_Tags rental_claim)) quiet_world = (Ok accessTypeRental, quiet_world)"
    by (simp add: rental_claim_def tag_access_def ClaimTagScheduledHide_def ClaimTagScheduledShow_def HasPrefix_def)
  have ok: "fst ?run = Ok (True, Some errNeedSignedUrl)"
    by (simp add: checkStreamAccess_def Let_def rental_claim_def tag_access_def ClaimTagScheduledHide_def
        ClaimTagScheduledShow_def HasPrefix_def rental_env_def rental_ctx_def quiet_defs isUserAMod_def
        GetCurrentUserData_def NewCurrentUser_def iapi_Call_def checkPurchase_def checkCustomerListPurchase_def
        NowAfter_def param_def ParamsAsMap_def second_def)
  then have "?run = (Ok (True, Some errNeedSignedUrl), snd ?run)" by (metis prod.collapse)
  from restricted_access_has_grounds [OF this] tags ok mod owner show ?thesis by auto
qed

text \<open>A claim id is reversed correctly before it is signed or verified: for every id with an
  even number of bytes, as all claim ids have, decoding and reversing yields exactly the
  reversed bytes, and so is an involution.\<close>

theorem claim_id_reversed:
  assumes "even (length b)"
  shows "unhelixifyAndReverse (hex_encode b) = rev b \<and> reverseBytes (reverseBytes b) = b"
proof -
  have r: "reverseBytes c = rev c" if "even (length c)" for c
  proof (rule nth_equalityI)
    fix i assume i: "i < length (reverseBytes c)"
    from that have "2 * i + 1 \<noteq> length c" by (metis even_mult_iff even_plus_one_iff even_numeral)
    with i show "reverseBytes c ! i = rev c ! i" by (simp add: reverseBytes_nth rev_nth)
  qed simp
  with assms show ?thesis by (simp add: unhelixifyAndReverse_def)
qed

theorem claim_id_reversed_witness: "unhelixifyAndReverse ''0aff'' = [CHR 0xff, CHR 0x0a]"
proof -
  have h: "hex_encode [CHR 0x0a, CHR 0xff] = ''0aff''" by code_simp
  show ?thesis using claim_id_reversed [of "[CHR 0x0a, CHR 0xff]"] unfolding h by simp
qed

text \<open>For an odd number of bytes the middle one is lost.\<close>

theorem reverse_bytes_odd_length: "reverseBytes [CHR 0x01, CHR 0x02, CHR 0x03] = [CHR 0x03, CHR 0x00, CHR 0x01]"
  by (simp add: reverseBytes_def reverse_loop.simps)

end
