(* ===== verification/Processors.thy ===== *)
theory Processors
  imports Access
begin

text \<open>
  The preflight hooks of \<open>app/query/processors.go\<close>: \<open>get\<close> is answered without the SDK's
  own \<open>get\<close> (access check, purchase, stream URL), \<open>claim_search\<close> parameters are completed,
  \<open>status\<close> is canned, and \<open>resolve\<close> and \<open>claim_search\<close> go through the cache with retries on
  other SDK instances. Then \<open>Call\<close> of \<open>caller.go\<close>, which runs the hooks and sends the query.
\<close>

section \<open>Helpers\<close>

definition sliceContains :: "'a list \<Rightarrow> 'a list \<Rightarrow> bool" where
  "sliceContains cont items = list_ex (\<lambda>t. list_ex (\<lambda>i. t = i) items) cont"

text \<open>On \<open>int64\<close>: \<open>%\<close> truncates and sums wrap around.\<close>

definition roundUp :: "int \<Rightarrow> int \<Rightarrow> int" where
  "roundUp n s = (let r = go_rem n s in if r = 0 then n else wrap64 (wrap64 (n + s) - r))"

definition releaseTimeRoundDownSec :: int where "releaseTimeRoundDownSec = 300"

definition AnyTagsContains :: "claim_search_params \<Rightarrow> string list \<Rightarrow> bool" where
  "AnyTagsContains c tags = sliceContains (csp_AnyTags c) tags"

definition NotTagsContains :: "claim_search_params \<Rightarrow> string list \<Rightarrow> bool" where
  "NotTagsContains c tags = sliceContains (csp_NotTags c) tags"

text \<open>\<open>fmt.Sprintf\<close> with a format whose only verbs are \<open>%s\<close>, all arguments strings.\<close>

fun Sprintf_s :: "string \<Rightarrow> string list \<Rightarrow> string" where
  "Sprintf_s [] [] = []"
| "Sprintf_s [] (a # as) = ''%!(EXTRA string='' @ a @ concat (map (\<lambda>x. '', string='' @ x) as) @ '')''"
| "Sprintf_s (c # f) as =
     (if c = CHR ''%'' \<and> f \<noteq> [] \<and> hd f = CHR ''s'' then
        (case as of [] \<Rightarrow> ''%!s(MISSING)'' @ Sprintf_s (tl f) [] | a # as' \<Rightarrow> a @ Sprintf_s (tl f) as')
      else c # Sprintf_s f as)"

definition st_cfg :: "'w env \<Rightarrow> string \<Rightarrow> string" where
  "st_cfg E k = map_get (cfg_StreamsV6 (env_cfg E)) k"

section \<open>resolve\<close>

definition NewRequest :: "string \<Rightarrow> json_map \<Rightarrow> rpc_request" where
  "NewRequest method params = \<lparr>req_Method = method, req_Params = JObj params, req_ID = 0, req_JSONRPC = ''2.0''\<rparr>"

definition resolve :: "'w env \<Rightarrow> caller \<Rightarrow> query \<Rightarrow> string \<Rightarrow> ('w, claim res) io" where
  "resolve E c q url =
     (case NewQuery (NewRequest MethodResolve (fmap_of_list
         [(''urls'', JStr url), (''include_purchase_receipt'', JBool True),
          (''include_protobuf'', JBool True), (''include_is_my_output'', JBool True)])) (q_WalletID q) of
        Err e \<Rightarrow> State_Monad.return (Err e)
      | Panic m \<Rightarrow> State_Monad.return (Panic m)
      | Ok resolveQuery \<Rightarrow> do {
          r \<leftarrow> SendQuery E c resolveQuery;
          State_Monad.return (case r of
            Err e \<Rightarrow> Err e
          | Panic m \<Rightarrow> Panic m
          | Ok rawResolveResponse \<Rightarrow>
              (case env_decode_resolve E (res_Result rawResolveResponse) of
                 Inl e \<Rightarrow> Err e
               | Inr resolveResponse \<Rightarrow>
                   (case fmlookup resolveResponse url of
                      None \<Rightarrow> Err (Err_str ''could not find a corresponding entry in the resolve response'')
                    | Some claim \<Rightarrow> if cl_ClaimID claim = [] then Err ErrClaimNotFound else Ok claim)))
        })"

section \<open>get\<close>

definition hook_response :: "query \<Rightarrow> json_map \<Rightarrow> rpc_response" where
  "hook_response q result = (newResponse q)\<lparr>res_Result := JObj result\<rparr>"

definition day_from :: "int \<Rightarrow> int" where
  "day_from now = Unix (now + 24 * 3600 * second)"

definition get_signed :: "'w env \<Rightarrow> query \<Rightarrow> claim \<Rightarrow> ('w, rpc_response option res) io" where
  "get_signed E q claim = (case Option.bind (cl_Stream claim) st_Source of
     None \<Rightarrow> State_Monad.return (Err (Err_str ''paid content doesn't have source data''))
   | Some src \<Rightarrow> do {
       now \<leftarrow> ext (env_now E);
       let startpath = Sprintf_s (st_cfg E ''startpath'') [cl_ClaimID claim, hex_encode (cs_SdHash src)];
       let hash = signStreamURL77 E (st_cfg E ''paidhost'') startpath (st_cfg E ''token'') (day_from now);
       let signedUrl = ''https://'' @ st_cfg E ''paidhost'' @ ''/'' @ hash @ startpath;
       State_Monad.return (Ok (Some (hook_response q
         (fmupd ParamStreamingUrl (JStr (signedUrl @ ''?hash77='' @ hash)) fmempty))))
     })"

definition get_signed_livestream :: "'w env \<Rightarrow> query \<Rightarrow> ('w, rpc_response option res) io" where
  "get_signed_livestream E q = (case param q ParamBaseStreamingUrl of
     Some (JStr baseUrl) \<Rightarrow>
       (case env_url_Parse E baseUrl of
          Inl e \<Rightarrow> State_Monad.return (Err (Err_str ''invalid base_streaming_url supplied''))
        | Inr (host, path) \<Rightarrow> do {
            now \<leftarrow> ext (env_now E);
            let hash = signStreamURL77 E host path (st_cfg E ''token'') (day_from now);
            State_Monad.return (Ok (Some (hook_response q (fmupd ParamStreamingUrl
              (JStr (''https://'' @ host @ ''/'' @ hash @ path)) fmempty))))
          })
   | _ \<Rightarrow> State_Monad.return (Err (Err_str ''invalid base_streaming_url supplied'')))"

text \<open>Buying a stream that has a price: the outcome is whether it is to be served as paid, the
  purchase that is proof of it, and the claim, resolved again after a purchase.\<close>

definition buy :: "'w env \<Rightarrow> caller \<Rightarrow> query \<Rightarrow> string \<Rightarrow> claim \<Rightarrow> ('w, (bool \<times> string \<times> claim) res) io" where
  "buy E c q lbryUrl claim =
     (case NewQuery (NewRequest MethodPurchaseCreate (fmap_of_list
         [(''url'', JStr lbryUrl), (''blocking'', JBool True)])) (q_WalletID q) of
        Err e \<Rightarrow> State_Monad.return (Err e)
      | Panic m \<Rightarrow> State_Monad.return (Panic m)
      | Ok purchaseQuery \<Rightarrow> do {
          r \<leftarrow> SendQuery E c purchaseQuery;
          (case r of
             Err e \<Rightarrow> State_Monad.return (Err e)
           | Panic m \<Rightarrow> State_Monad.return (Panic m)
           | Ok purchaseRes \<Rightarrow>
               (case res_Error purchaseRes of
                  Some e \<Rightarrow> State_Monad.return
                    (if Contains (ToLower (err_Message e)) ''you already have a purchase''
                     then Err (Err_str ''couldn't find purchase receipt for paid stream'')
                     else if Contains (ToLower (err_Message e)) ''does not have a purchase price''
                     then Ok (False, [], claim)
                     else Err (Plain (''purchase error: '' @ err_Message e)))
                | None \<Rightarrow> do {
                    x \<leftarrow> resolve E c q lbryUrl;
                    State_Monad.return (case x of
                      Err e \<Rightarrow> Err e
                    | Panic m \<Rightarrow> Panic m
                    | Ok claim' \<Rightarrow>
                        (case cl_PurchaseReceipt claim' of
                           None \<Rightarrow> Err (Err_str ''couldn't find purchase receipt for paid stream'')
                         | Some receipt \<Rightarrow> Ok (True, pr_Txid receipt, claim')))
                  }))
        })"

definition get_purchase :: "'w env \<Rightarrow> caller \<Rightarrow> hook_ctx \<Rightarrow> string \<Rightarrow> claim \<Rightarrow> ('w, (bool \<times> string \<times> claim) res) io" where
  "get_purchase E c ctx lbryUrl claim = (
     let q = hc_query ctx;
         feeAmount = (case cl_Stream claim of None \<Rightarrow> 0 | Some st \<Rightarrow> st_FeeAmount st) in
     if feeAmount = 0 then State_Monad.return (Ok (False, [], claim))
     else if cl_IsMyOutput claim then State_Monad.return (Ok (True, ''owner'', claim))
     else (case cl_PurchaseReceipt claim of
       Some receipt \<Rightarrow> State_Monad.return (Ok (True, pr_Txid receipt, claim))
     | None \<Rightarrow> do {
         p \<leftarrow> checkCustomerListPurchase E ctx (cl_ClaimID claim) (query_environ q);
         (case p of
            Panic m \<Rightarrow> State_Monad.return (Panic m)
          | Ok (Some _) \<Rightarrow> State_Monad.return (Ok (True, ''customer_list_confirmed'', claim))
          | Ok None \<Rightarrow> buy E c q lbryUrl claim
          | Err _ \<Rightarrow> buy E c q lbryUrl claim)
       }))"

definition content_url :: "'w env \<Rightarrow> bool \<Rightarrow> string \<Rightarrow> claim \<Rightarrow> claim_source \<Rightarrow> ('w, (string \<times> json_map) res) io" where
  "content_url E isPaidStream purchaseTxId claim src = (
     let h = hex_encode (cs_SdHash src) in
     if length h < 6 then State_Monad.return (Panic ''slice bounds out of range'')
     else let sdHash = take 6 h in
       if isPaidStream then do {
         tk \<leftarrow> ext (env_CreateToken E (cl_Name claim @ ''/'' @ cl_ClaimID claim) purchaseTxId (cs_Size src));
         State_Monad.return (case tk of
           Inl e \<Rightarrow> Err e
         | Inr token \<Rightarrow> Ok (cfg_PaidContentURL (env_cfg E) @ cl_Name claim @ ''/'' @ cl_ClaimID claim @ ''/'' @ sdHash @ ''/'' @ token,
             fmupd ParamPurchaseReceipt (case cl_PurchaseReceipt claim of None \<Rightarrow> JNull | Some r \<Rightarrow> pr_JSON r) fmempty))
       }
       else State_Monad.return (Ok (''https://'' @ st_cfg E ''host'' @ Sprintf_s (st_cfg E ''startpath'') [cl_ClaimID claim, sdHash],
              fmempty)))"

definition get_stream :: "'w env \<Rightarrow> caller \<Rightarrow> hook_ctx \<Rightarrow> string \<Rightarrow> claim \<Rightarrow> ('w, rpc_response option res) io" where
  "get_stream E c ctx lbryUrl claim = do {
     p \<leftarrow> get_purchase E c ctx lbryUrl claim;
     (case p of
        Err e \<Rightarrow> State_Monad.return (Err e)
      | Panic m \<Rightarrow> State_Monad.return (Panic m)
      | Ok (isPaidStream, purchaseTxId, claim') \<Rightarrow>
          (case Option.bind (cl_Stream claim) st_Source of
             None \<Rightarrow> State_Monad.return (Err (Err_str ''stream doesn't have source data''))
           | Some src \<Rightarrow> do {
               u \<leftarrow> content_url E isPaidStream purchaseTxId claim' src;
               (case u of
                  Err e \<Rightarrow> State_Monad.return (Err e)
                | Panic m \<Rightarrow> State_Monad.return (Panic m)
                | Ok (contentURL, result) \<Rightarrow> do {
                    url \<leftarrow> (if cfg_ArfleetEnabled (env_cfg E) then do {
                             ar \<leftarrow> ext (env_GetClaimUrl E (cfg_ArfleetCDN (env_cfg E)) (cl_ClaimID claim'));
                             State_Monad.return (case ar of
                               Inl _ \<Rightarrow> contentURL | Inr arUrl \<Rightarrow> if arUrl = [] then contentURL else arUrl)
                           }
                           else State_Monad.return contentURL);
                    State_Monad.return (Ok (Some (hook_response (hc_query ctx)
                      (fmupd ParamStreamingUrl (JStr url) result))))
                  })
             }))
   }"

definition serve_get :: "'w env \<Rightarrow> caller \<Rightarrow> hook_ctx \<Rightarrow> string \<Rightarrow> claim \<Rightarrow> (bool \<times> go_error option) res
    \<Rightarrow> ('w, rpc_response option res) io" where
  "serve_get E c ctx lbryUrl claim access = (case access of
     Err e \<Rightarrow> State_Monad.return (Err e)
   | Panic m \<Rightarrow> State_Monad.return (Panic m)
   | Ok (False, None) \<Rightarrow> State_Monad.return (Ok None)
   | Ok (False, Some e) \<Rightarrow> State_Monad.return (Err e)
   | Ok (True, Some e) \<Rightarrow>
       if error_Is e errNeedSignedUrl then get_signed E (hc_query ctx) claim
       else if error_Is e errNeedSignedLivestreamUrl then get_signed_livestream E (hc_query ctx)
       else get_stream E c ctx lbryUrl claim
   | Ok (True, None) \<Rightarrow> get_stream E c ctx lbryUrl claim)"

definition preflightHookGet :: "'w env \<Rightarrow> caller \<Rightarrow> hook_ctx \<Rightarrow> ('w, rpc_response option res) io" where
  "preflightHookGet E c ctx = (case param (hc_query ctx) ''uri'' of
     None \<Rightarrow> State_Monad.return (Err (Err_str ''missing uri parameter for 'get' method''))
   | Some (JStr lbryUrl) \<Rightarrow> do {
       r \<leftarrow> resolve E c (hc_query ctx) lbryUrl;
       (case r of
          Err e \<Rightarrow> State_Monad.return (Err e)
        | Panic m \<Rightarrow> State_Monad.return (Panic m)
        | Ok claim \<Rightarrow> do {
            a \<leftarrow> checkStreamAccess E ctx claim;
            serve_get E c ctx lbryUrl claim a
          })
     }
   | Some _ \<Rightarrow> State_Monad.return (Panic ''interface conversion''))"

section \<open>claim_search\<close>

text \<open>Assigning to a nil map panics.\<close>

definition set_param :: "json_map option \<Rightarrow> string \<Rightarrow> json \<Rightarrow> json_map option res" where
  "set_param m k v = (case m of None \<Rightarrow> Panic ''assignment to entry in nil map'' | Some p \<Rightarrow> Ok (Some (fmupd k v p)))"

definition strings :: "string list \<Rightarrow> json" where
  "strings xs = JArr (map JStr xs)"

definition search_not_tags :: "claim_search_params \<Rightarrow> string list" where
  "search_not_tags p = (
     let n1 = (if NotTagsContains p [ClaimTagPrivate] then csp_NotTags p else csp_NotTags p @ [ClaimTagPrivate])
     in if sliceContains n1 [ClaimTagUnlisted] then n1 else n1 @ [ClaimTagUnlisted])"

definition search_patch :: "claim_search_params \<Rightarrow> int \<Rightarrow> json_map option \<Rightarrow> json_map option res" where
  "search_patch p now m = (
     if csp_HasSource p = Some True then
       (case (if AnyTagsContains p [ClaimTagPrivate, ClaimTagUnlisted] then Ok m
              else set_param m ''not_tags'' (strings (search_not_tags p))) of
          Ok m1 \<Rightarrow>
            if AnyTagsContains p [ClaimTagScheduledShow, ClaimTagScheduledHide] then Ok m1
            else set_param m1 ''release_time''
              (strings (csp_ReleaseTime p @ [''<'' @ Itoa (roundUp now releaseTimeRoundDownSec)]))
        | Err e \<Rightarrow> Err e
        | Panic x \<Rightarrow> Panic x)
     else Ok m)"

definition search_order :: "claim_search_params \<Rightarrow> json_map option \<Rightarrow> json_map option" where
  "search_order p m = (
     if csp_OrderBy p \<noteq> [] then m
     else (case Option.bind m (\<lambda>x. fmlookup x ''text'') of
       Some (JStr (c # s)) \<Rightarrow> m
     | _ \<Rightarrow> Some (fmupd ''order_by'' (strings [''trending_score'', ''release_time''])
              (case m of None \<Rightarrow> fmempty | Some x \<Rightarrow> x))))"

definition preflightHookClaimSearch :: "'w env \<Rightarrow> query \<Rightarrow> ('w, query res) io" where
  "preflightHookClaimSearch E q = (
     let origParams = ParamsAsMap q in
     case env_decode_claim_search E (case origParams of None \<Rightarrow> fmempty | Some m \<Rightarrow> m) of
       Inl e \<Rightarrow> State_Monad.return (Err (Wrapped ''cannot decode query params'' e))
     | Inr params \<Rightarrow> do {
         now \<leftarrow> (if csp_HasSource params = Some True \<and>
                   \<not> AnyTagsContains params [ClaimTagScheduledShow, ClaimTagScheduledHide]
                 then NowUnix E else State_Monad.return 0);
         State_Monad.return (case search_patch params now origParams of
           Err e \<Rightarrow> Err e
         | Panic m \<Rightarrow> Panic m
         | Ok m \<Rightarrow>
             (case search_order params m of
                None \<Rightarrow> Ok q
              | Some m' \<Rightarrow> Ok (set_params q (JObj m'))))
       })"

section \<open>status\<close>

definition status_result :: json where
  "status_result = JObj (fmap_of_list [(''blob_manager'', JObj (fmap_of_list [(''connections'', JObj (fmap_of_list [(''incoming_bps'', JObj (fmap_of_list [])),
           (''outgoing_bps'', JObj (fmap_of_list [])),
           (''time'', JNum ''0''),
           (''total_incoming_mbs'', JNum ''0''),
           (''total_outgoing_mbs'', JNum ''0'')])),
         (''finished_blobs'', JNum ''0'')])),
       (''connection_status'', JObj (fmap_of_list [(''code'', JStr ''connected''),
         (''message'', JStr ''No connection problems detected'')])),
       (''installation_id'', JStr ''692EAWhtoqDuAfQ6KHMXxFxt8tkhmt7sfprEMHWKjy5hf6PwZcHDV542VHqRnFnTCD''),
       (''is_running'', JBool True),
       (''skipped_components'', JArr [JStr ''hash_announcer'', JStr ''blob_server'', JStr ''dht'']),
       (''startup_status'', JObj (fmap_of_list [(''blob_manager'', JBool True),
         (''blockchain_headers'', JBool True),
         (''database'', JBool True),
         (''exchange_rate_manager'', JBool True),
         (''peer_protocol_server'', JBool True),
         (''stream_manager'', JBool True),
         (''upnp'', JBool True),
         (''wallet'', JBool True)])),
       (''stream_manager'', JObj (fmap_of_list [(''managed_files'', JNum ''1'')])),
       (''upnp'', JObj (fmap_of_list [(''aioupnp_version'', JStr ''0.0.13''),
         (''dht_redirect_set'', JBool False),
         (''external_ip'', JStr ''127.0.0.1''),
         (''gateway'', JStr ''No gateway found''),
         (''peer_redirect_set'', JBool False),
         (''redirects'', JObj (fmap_of_list []))])),
       (''wallet'', JObj (fmap_of_list [(''best_blockhash'', JStr ''3d77791b9d87609a004b398e638bcdc91650247ee4448a2b30bf8474668d0ad3''),
         (''blocks'', JNum ''0''),
         (''blocks_behind'', JNum ''0''),
         (''is_encrypted'', JBool False),
         (''is_locked'', JBool False)]))])"

definition getStatusResponse :: "query \<Rightarrow> rpc_response" where
  "getStatusResponse q = (newResponse q)\<lparr>res_Result := status_result\<rparr>"

section \<open>The cache hook\<close>

text \<open>\<open>cache_getter n\<close> has \<open>n\<close> attempts left; it ends with the outcome of the attempt before
  them, which at the start is a nil response and a nil error.\<close>

fun cache_getter :: "nat \<Rightarrow> 'w env \<Rightarrow> caller \<Rightarrow> query \<Rightarrow> rpc_response option res \<Rightarrow> ('w, rpc_response option res) io" where
  "cache_getter 0 E c q prev = State_Monad.return prev"
| "cache_getter (Suc n) E c q prev = do {
     r \<leftarrow> SendQuery E c q;
     (case r of
        Panic m \<Rightarrow> State_Monad.return (Panic m)
      | Ok resp \<Rightarrow>
          if (case res_Error resp of None \<Rightarrow> True | Some e \<Rightarrow> isUserInputError e)
          then State_Monad.return (Ok (Some resp))
          else do {
            c' \<leftarrow> RandomizeEndpoint E c;
            (case c' of
               Ok c1 \<Rightarrow> cache_getter n E c1 q (Ok (Some resp))
             | Err e \<Rightarrow> State_Monad.return (Err e)
             | Panic m \<Rightarrow> State_Monad.return (Panic m))
          }
      | Err e \<Rightarrow> do {
          c' \<leftarrow> RandomizeEndpoint E c;
          (case c' of
             Ok c1 \<Rightarrow> cache_getter n E c1 q (Err e)
           | Err e \<Rightarrow> State_Monad.return (Err e)
           | Panic m \<Rightarrow> State_Monad.return (Panic m))
        })
   }"

definition preflightCacheHook :: "'w env \<Rightarrow> caller \<Rightarrow> query \<Rightarrow> ('w, rpc_response option res) io" where
  "preflightCacheHook E c q = (
     if \<not> c_Cache c then State_Monad.return (Ok None)
     else do {
       r \<leftarrow> Retrieve E q (Some (cache_getter (cfg_CacheGetterRetries (env_cfg E)) E c q (Ok None)));
       State_Monad.return (case r of
         Err e \<Rightarrow> Err (NewSDKError (Some e))
       | Panic m \<Rightarrow> Panic m
       | Ok None \<Rightarrow> Ok None
       | Ok (Some cachedResp) \<Rightarrow> Ok (Some (RPCResponse cachedResp (req_ID (q_Request q)))))
     })"

section \<open>Call\<close>

text \<open>A preflight hook may return a response and may change the query.\<close>

definition run_preflight :: "'w env \<Rightarrow> caller \<Rightarrow> current_user option \<Rightarrow> preflight_fn \<Rightarrow> query
    \<Rightarrow> ('w, (rpc_response option \<times> query) res) io" where
  "run_preflight E c cu f q = (
     let keep = (\<lambda>r. case r of Ok x \<Rightarrow> Ok (x, q) | Err e \<Rightarrow> Err e | Panic m \<Rightarrow> Panic m) in
     case f of
       GetStatusResponse \<Rightarrow> State_Monad.return (Ok (Some (getStatusResponse q), q))
     | PreflightHookGet \<Rightarrow> do { r \<leftarrow> preflightHookGet E c \<lparr>hc_query = q, hc_user = cu\<rparr>; State_Monad.return (keep r) }
     | PreflightHookClaimSearch \<Rightarrow> do {
         r \<leftarrow> preflightHookClaimSearch E q;
         State_Monad.return (case r of Ok q' \<Rightarrow> Ok (None, q') | Err e \<Rightarrow> Err e | Panic m \<Rightarrow> Panic m)
       }
     | PreflightCacheHook \<Rightarrow> do { r \<leftarrow> preflightCacheHook E c q; State_Monad.return (keep r) }
     | SetFileName filename \<Rightarrow> State_Monad.return (case set_param (ParamsAsMap q) ''file_path'' (JStr filename) of
         Ok (Some m) \<Rightarrow> Ok (None, set_params q (JObj m))
       | Ok None \<Rightarrow> Ok (None, q)
       | Err e \<Rightarrow> Err e
       | Panic m \<Rightarrow> Panic m))"

fun preflight :: "'w env \<Rightarrow> caller \<Rightarrow> current_user option \<Rightarrow> preflight_fn hook_entry list \<Rightarrow> query
    \<Rightarrow> ('w, (rpc_response option \<times> query) res) io" where
  "preflight E c cu [] q = State_Monad.return (Ok (None, q))"
| "preflight E c cu (h # hs) q =
     (if isMatchingHook (q_Method q) h then do {
        r \<leftarrow> run_preflight E c cu (he_function h) q;
        (case r of
           Err e \<Rightarrow> State_Monad.return (Err (NewSDKError (Some e)))
         | Panic m \<Rightarrow> State_Monad.return (Panic m)
         | Ok (Some resp, q') \<Rightarrow> State_Monad.return (Ok (Some resp, q'))
         | Ok (None, q') \<Rightarrow> preflight E c cu hs q')
      }
      else preflight E c cu hs q)"

definition call_wallet :: "caller \<Rightarrow> string" where
  "call_wallet c = (if c_userID c \<noteq> 0 then WalletID (c_userID c) else [])"

definition Call :: "'w env \<Rightarrow> caller \<Rightarrow> current_user option \<Rightarrow> rpc_request \<Rightarrow> ('w, rpc_response res) io" where
  "Call E c cu req = (
     if c_endpoint c = [] then State_Monad.return (Err (Err_str ''cannot call blank endpoint''))
     else (case NewQuery req (call_wallet c) of
       Err e \<Rightarrow> State_Monad.return (Err e)
     | Panic m \<Rightarrow> State_Monad.return (Panic m)
     | Ok q \<Rightarrow> do {
         r \<leftarrow> preflight E c cu (c_preflightHooks c) q;
         (case r of
            Err e \<Rightarrow> State_Monad.return (Err e)
          | Panic m \<Rightarrow> State_Monad.return (Panic m)
          | Ok (Some resp, _) \<Rightarrow> State_Monad.return (Ok resp)
          | Ok (None, q') \<Rightarrow> SendQuery E c q')
       }))"

section \<open>What Call sends\<close>

text \<open>
  A caller that stands for \<open>c\<^sub>0\<close>: the same user, and an endpoint that is that of \<open>c\<^sub>0\<close> or, for
  an anonymous caller, one of the backups. The requests such a caller may send carry the
  wallet of the user where the method accepts one, and for an anonymous caller are for
  relaxed methods only.
\<close>

definition stands_for :: "caller \<Rightarrow> caller \<Rightarrow> bool" where
  "stands_for c\<^sub>0 c \<longleftrightarrow> c_userID c = c_userID c\<^sub>0 \<and> c_backupEndpoints c = c_backupEndpoints c\<^sub>0 \<and>
     (c_endpoint c = c_endpoint c\<^sub>0 \<or> c_userID c\<^sub>0 = 0 \<and> c_endpoint c \<in> set (c_backupEndpoints c\<^sub>0))"

definition own_request :: "string \<Rightarrow> rpc_request \<Rightarrow> bool" where
  "own_request w r \<longleftrightarrow> own_wallet w \<lparr>q_Request = r, q_WalletID = w\<rparr>"

definition permitted :: "caller \<Rightarrow> string \<Rightarrow> rpc_request \<Rightarrow> bool" where
  "permitted c ep r \<longleftrightarrow> own_request (call_wallet c) r \<and>
     (ep = c_endpoint c \<or> c_userID c = 0 \<and> ep \<in> set (c_backupEndpoints c))"

lemma stands_for_refl [simp]: "stands_for c c"
  by (simp add: stands_for_def)

lemma own_wallet_request: "own_wallet w q \<Longrightarrow> own_request w (q_Request q)"
  by (auto simp: own_request_def own_wallet_def param_def ParamsAsMap_def q_Params_def q_Method_def)

lemma sends_own_query:
  "own_wallet (call_wallet c\<^sub>0) q \<Longrightarrow> stands_for c\<^sub>0 c \<Longrightarrow>
     valid (sends s\<^sub>0 (permitted c\<^sub>0)) (SendQuery E c q) (\<lambda>_. sends s\<^sub>0 (permitted c\<^sub>0))"
  by (rule sends_SendQuery) (auto simp: permitted_def stands_for_def own_wallet_request)

lemma sends_checkCustomer [io_intro]:
  "valid (sends s\<^sub>0 G) (checkCustomerListPurchase E ctx i env) (\<lambda>_. sends s\<^sub>0 G)"
  unfolding checkCustomerListPurchase_def by (intro io_intro)

lemma sends_tag_loop [io_intro]: "valid (sends s\<^sub>0 G) (tag_loop E claim tags) (\<lambda>_. sends s\<^sub>0 G)"
  by (induction tags) (simp_all only: tag_loop.simps Let_def, (intro io_intro; assumption)+)

lemma sends_isUserAMod [io_intro]: "valid (sends s\<^sub>0 G) (isUserAMod E ctx env) (\<lambda>_. sends s\<^sub>0 G)"
  unfolding isUserAMod_def by (intro io_intro)

lemma sends_checkPurchase [io_intro]: "valid (sends s\<^sub>0 G) (checkPurchase E ctx a i env e) (\<lambda>_. sends s\<^sub>0 G)"
  unfolding checkPurchase_def by (intro io_intro)

lemma sends_checkMembership [io_intro]: "valid (sends s\<^sub>0 G) (checkMembership E ctx l i env e) (\<lambda>_. sends s\<^sub>0 G)"
  unfolding checkMembership_def by (intro io_intro)

lemma valid_bool [io_intro]: "valid P m Q \<Longrightarrow> valid P n Q \<Longrightarrow> valid P (case b of True \<Rightarrow> m | False \<Rightarrow> n) Q"
  by (cases b) simp_all

lemma valid_access_type [io_intro]:
  "valid P m1 Q \<Longrightarrow> valid P m2 Q \<Longrightarrow> valid P m3 Q \<Longrightarrow> valid P m4 Q \<Longrightarrow> valid P m5 Q \<Longrightarrow> valid P m6 Q \<Longrightarrow>
   valid P (case a of accessTypeFree \<Rightarrow> m1 | accessTypePurchase \<Rightarrow> m2 | accessTypeRental \<Rightarrow> m3
     | accessTypeMemberOnly \<Rightarrow> m4 | accessTypeUnlisted \<Rightarrow> m5 | accessTypeScheduled \<Rightarrow> m6) Q"
  by (cases a) simp_all

lemma valid_json [io_intro]:
  "(\<And>s. j = JStr s \<Longrightarrow> valid P (f s) Q) \<Longrightarrow> valid P m Q \<Longrightarrow> valid P (case j of JStr s \<Rightarrow> f s | _ \<Rightarrow> m) Q"
  by (cases j) simp_all

lemma sends_checkStreamAccess [io_intro]:
  "valid (sends s\<^sub>0 G) (checkStreamAccess E ctx claim) (\<lambda>_. sends s\<^sub>0 G)"
  unfolding checkStreamAccess_def Let_def by (intro io_intro)

text \<open>The queries that the \<open>get\<close> hook adds are made for the wallet of the client's query.\<close>

definition side_queries :: "(string \<Rightarrow> rpc_request \<Rightarrow> bool) \<Rightarrow> caller \<Rightarrow> query \<Rightarrow> bool" where
  "side_queries G c q \<longleftrightarrow> (\<forall>req q'. NewQuery req (q_WalletID q) = Ok q' \<longrightarrow>
     req_Method req \<in> {MethodResolve, MethodPurchaseCreate} \<longrightarrow> G (c_endpoint c) (q_Request q'))"

lemma sends_side_query:
  "side_queries G c q \<Longrightarrow> NewQuery (NewRequest m ps) (q_WalletID q) = Ok q' \<Longrightarrow> m \<in> {MethodResolve, MethodPurchaseCreate} \<Longrightarrow>
     valid (sends s\<^sub>0 G) (SendQuery E c q') (\<lambda>_. sends s\<^sub>0 G)"
  by (rule sends_SendQuery) (auto simp: side_queries_def NewRequest_def)

lemma sends_resolve:
  "side_queries G c q \<Longrightarrow> valid (sends s\<^sub>0 G) (resolve E c q url) (\<lambda>_. sends s\<^sub>0 G)"
  unfolding resolve_def by (intro io_intro sends_side_query) auto

lemma sends_buy: "side_queries G c q \<Longrightarrow> valid (sends s\<^sub>0 G) (buy E c q url claim) (\<lambda>_. sends s\<^sub>0 G)"
  unfolding buy_def by (intro io_intro sends_side_query sends_resolve) auto

lemma sends_get_stream:
  "side_queries G c (hc_query ctx) \<Longrightarrow> valid (sends s\<^sub>0 G) (get_stream E c ctx url claim) (\<lambda>_. sends s\<^sub>0 G)"
  unfolding get_stream_def get_purchase_def content_url_def Let_def by (intro io_intro sends_buy)

lemma sends_preflightHookGet:
  "side_queries G c (hc_query ctx) \<Longrightarrow> valid (sends s\<^sub>0 G) (preflightHookGet E c ctx) (\<lambda>_. sends s\<^sub>0 G)"
  unfolding preflightHookGet_def serve_get_def Let_def get_signed_def get_signed_livestream_def
  by (intro io_intro sends_resolve sends_get_stream)

lemma side_queries_permitted:
  "q_WalletID q = call_wallet c \<Longrightarrow> side_queries (permitted c) c q"
  by (auto simp: side_queries_def permitted_def intro: own_wallet_request NewQuery_own_wallet)

lemma RandomizeEndpoint_stands:
  assumes "stands_for c\<^sub>0 c"
  shows "valid (sends s\<^sub>0 G) (RandomizeEndpoint E c) (\<lambda>r s. sends s\<^sub>0 G s \<and> (\<forall>c'. r = Ok c' \<longrightarrow> stands_for c\<^sub>0 c'))"
proof (rule validI)
  fix s r t assume "sends s\<^sub>0 G s" and run: "run_state (RandomizeEndpoint E c) s = (r, t)"
  then have "sends s\<^sub>0 G t" by (auto simp: RandomizeEndpoint_def Let_def split: if_splits)
  moreover have "stands_for c\<^sub>0 c'" if "r = Ok c'" for c'
  proof (cases "c_userID c \<noteq> 0 \<or> c_backupEndpoints c = []")
    case True
    with run that assms show ?thesis by (simp add: RandomizeEndpoint_def)
  next
    case False
    let ?es = "filter (\<lambda>e. e \<noteq> c_endpoint c) (c_backupEndpoints c)"
    from False run that obtain i where "?es \<noteq> []" "c' = c\<lparr>c_endpoint := ?es ! (i mod length ?es)\<rparr>"
      by (auto simp: RandomizeEndpoint_def Let_def split: if_splits)
    moreover from this have "?es ! (i mod length ?es) \<in> set ?es" by (intro nth_mem mod_less_divisor) simp
    ultimately show ?thesis using False assms by (auto simp: stands_for_def)
  qed
  ultimately show "sends s\<^sub>0 G t \<and> (\<forall>c'. r = Ok c' \<longrightarrow> stands_for c\<^sub>0 c')" by blast
qed

lemma sends_cache_getter:
  assumes "own_wallet (call_wallet c\<^sub>0) q"
  shows "stands_for c\<^sub>0 c \<Longrightarrow>
    valid (sends s\<^sub>0 (permitted c\<^sub>0)) (cache_getter n E c q prev) (\<lambda>_. sends s\<^sub>0 (permitted c\<^sub>0))"
proof (induction n arbitrary: c prev)
  case (Suc n)
  have again: "valid (sends s\<^sub>0 (permitted c\<^sub>0)) (do {
      c' \<leftarrow> RandomizeEndpoint E c;
      (case c' of
         Ok c1 \<Rightarrow> cache_getter n E c1 q y
       | Err e \<Rightarrow> State_Monad.return (Err e)
       | Panic m \<Rightarrow> State_Monad.return (Panic m)) }) (\<lambda>_. sends s\<^sub>0 (permitted c\<^sub>0))" for y
    by (rule valid_bind [OF RandomizeEndpoint_stands [OF Suc.prems]], rule valid_pure, intro io_intro Suc.IH) simp
  show ?case
    by (simp only: cache_getter.simps) (intro io_intro sends_own_query [OF assms Suc.prems] again)
qed (simp add: valid_return)

lemma sends_preflightCacheHook:
  assumes "own_wallet (call_wallet c\<^sub>0) q" and "stands_for c\<^sub>0 c"
  shows "valid (sends s\<^sub>0 (permitted c\<^sub>0)) (preflightCacheHook E c q) (\<lambda>_. sends s\<^sub>0 (permitted c\<^sub>0))"
  unfolding preflightCacheHook_def Retrieve_def retrieve_cold_def store_fresh_def Let_def
  by (intro io_intro) (auto intro: sends_cache_getter [OF assms])

lemma own_wallet_set_params:
  "own_wallet w q \<Longrightarrow> fmlookup m ParamWalletID = param q ParamWalletID \<Longrightarrow> own_wallet w (set_params q (JObj m))"
  by (simp add: own_wallet_def)

lemma set_param_wallet:
  "set_param m k v = Ok m' \<Longrightarrow> k \<noteq> ParamWalletID \<Longrightarrow>
     Option.bind m' (\<lambda>x. fmlookup x ParamWalletID) = Option.bind m (\<lambda>x. fmlookup x ParamWalletID)"
  by (auto simp: set_param_def split: option.splits)

lemma search_wallet:
  assumes "search_patch p now m = Ok m'"
  shows "Option.bind (search_order p m') (\<lambda>x. fmlookup x ParamWalletID) = Option.bind m (\<lambda>x. fmlookup x ParamWalletID)"
proof -
  have "''not_tags'' \<noteq> ParamWalletID" "''release_time'' \<noteq> ParamWalletID" "''order_by'' \<noteq> ParamWalletID"
    by (simp_all add: ParamWalletID_def)
  then have "Option.bind m' (\<lambda>x. fmlookup x ParamWalletID) = Option.bind m (\<lambda>x. fmlookup x ParamWalletID)"
    and "Option.bind (search_order p m') (\<lambda>x. fmlookup x ParamWalletID) = Option.bind m' (\<lambda>x. fmlookup x ParamWalletID)"
    using assms
    by (auto simp: search_patch_def search_order_def set_param_wallet dest!: set_param_wallet
        split: if_splits res.splits option.splits json.splits list.splits)
  then show ?thesis by simp
qed

lemma claim_search_hook:
  assumes "own_wallet w q"
  shows "valid (sends s\<^sub>0 G) (preflightHookClaimSearch E q) (\<lambda>r s. sends s\<^sub>0 G s \<and> (\<forall>q'. r = Ok q' \<longrightarrow> own_wallet w q'))"
  unfolding preflightHookClaimSearch_def Let_def
proof (intro valid_sum valid_bind_keep valid_if sends_NowUnix valid_return)
  fix p now and s assume s: "sends s\<^sub>0 G s"
  show "sends s\<^sub>0 G s \<and> (\<forall>q'. (case search_patch p now (ParamsAsMap q) of
      Ok m \<Rightarrow> (case search_order p m of None \<Rightarrow> Ok q | Some m' \<Rightarrow> Ok (set_params q (JObj m')))
    | Err e \<Rightarrow> Err e | Panic m \<Rightarrow> Panic m) = Ok q' \<longrightarrow> own_wallet w q')"
    using s assms search_wallet [of p now "ParamsAsMap q"]
    by (auto simp: param_def split: res.splits option.splits intro!: own_wallet_set_params)
qed simp_all

lemma keep_query:
  "valid P m (\<lambda>_. P) \<Longrightarrow> own_wallet w q \<Longrightarrow>
   valid P (State_Monad.bind m (\<lambda>r. State_Monad.return (case r of Ok x \<Rightarrow> Ok (x, q) | Err e \<Rightarrow> Err e | Panic y \<Rightarrow> Panic y)))
     (\<lambda>r s. P s \<and> (\<forall>x q'. r = Ok (x, q') \<longrightarrow> own_wallet w q'))"
  by (rule valid_bind_keep, assumption, rule valid_return) (auto split: res.splits)

lemma run_preflight_own:
  assumes own: "own_wallet (call_wallet c) q"
  shows "valid (sends s\<^sub>0 (permitted c)) (run_preflight E c cu f q)
    (\<lambda>r s. sends s\<^sub>0 (permitted c) s \<and> (\<forall>x q'. r = Ok (x, q') \<longrightarrow> own_wallet (call_wallet c) q'))"
proof (cases f)
  case GetStatusResponse
  then show ?thesis using own by (simp add: run_preflight_def valid_return)
next
  case PreflightHookGet
  from own have "q_WalletID q = call_wallet c" by (simp add: own_wallet_def)
  then show ?thesis unfolding run_preflight_def Let_def PreflightHookGet preflight_fn.case
    by (intro keep_query sends_preflightHookGet own side_queries_permitted) simp_all
next
  case PreflightHookClaimSearch
  show ?thesis unfolding run_preflight_def Let_def PreflightHookClaimSearch preflight_fn.case
    by (rule valid_bind [OF claim_search_hook [OF own]], rule valid_return) (auto split: res.splits)
next
  case PreflightCacheHook
  show ?thesis unfolding run_preflight_def Let_def PreflightCacheHook preflight_fn.case
    by (intro keep_query sends_preflightCacheHook own) simp
next
  case (SetFileName name)
  have k: "''file_path'' \<noteq> ParamWalletID" by (simp add: ParamWalletID_def)
  show ?thesis unfolding run_preflight_def Let_def SetFileName preflight_fn.case
    using own k
    by (intro valid_return) (auto simp: set_param_def param_def split: res.splits option.splits intro!: own_wallet_set_params)
qed

lemma preflight_own:
  "own_wallet (call_wallet c) q \<Longrightarrow> valid (sends s\<^sub>0 (permitted c)) (preflight E c cu hs q)
     (\<lambda>r s. sends s\<^sub>0 (permitted c) s \<and> (\<forall>x q'. r = Ok (x, q') \<longrightarrow> own_wallet (call_wallet c) q'))"
proof (induction hs arbitrary: q)
  case Nil
  then show ?case by (simp add: valid_return)
next
  case (Cons h hs)
  show ?case
    by (simp only: preflight.simps, intro valid_if Cons.IH [OF Cons.prems] valid_bind [OF run_preflight_own [OF Cons.prems]]
        valid_pure valid_res valid_prod valid_option valid_return Cons.IH) auto
qed

lemma sends_Call:
  assumes "\<And>ep r. permitted c ep r \<Longrightarrow> G ep r"
  shows "valid (sends s\<^sub>0 G) (Call E c cu req) (\<lambda>_. sends s\<^sub>0 G)"
proof (rule validI)
  fix s r t assume s: "sends s\<^sub>0 G s" and run: "run_state (Call E c cu req) s = (r, t)"
  have "valid (sends s (permitted c)) (Call E c cu req) (\<lambda>_. sends s (permitted c))"
    unfolding Call_def
    by (intro valid_if valid_res valid_return valid_bind [OF preflight_own] valid_pure valid_prod valid_option
        sends_own_query) (auto intro: NewQuery_own_wallet)
  from validD [OF this run] have "sends s (permitted c) t" by simp
  then have "sends s G t" by (rule sends_mono) (rule assms)
  with s show "sends s\<^sub>0 G t" by (rule sends_trans)
qed

section \<open>The get hook always answers\<close>

lemma checkPurchase_refusal: "fst (run_state (checkPurchase E ctx a i env e) s) \<noteq> Ok (False, None)"
  by (auto simp: checkPurchase_def NowAfter_def split: res.splits option.splits prod.splits if_splits)

lemma checkMembership_refusal: "fst (run_state (checkMembership E ctx l i env e) s) \<noteq> Ok (False, None)"
  by (auto simp: checkMembership_def split: res.splits sum.splits option.splits prod.splits if_splits)

lemma checkUnlisted_refusal: "checkUnlisted E q claim e \<noteq> Ok (False, None)"
  by (auto simp: checkUnlisted_def split: res.splits option.splits json.splits)

lemma access_refusal_has_error: "fst (run_state (checkStreamAccess E ctx claim) s) \<noteq> Ok (False, None)"
  by (auto simp: checkStreamAccess_def Let_def checkPurchase_refusal checkMembership_refusal checkUnlisted_refusal
      split: res.splits prod.splits bool.splits access_type.splits)

lemma get_parts_answer:
  "fst (run_state (get_signed E q claim) s) \<noteq> Ok None" "fst (run_state (get_signed_livestream E q) s) \<noteq> Ok None"
  "fst (run_state (get_stream E c ctx url claim) s) \<noteq> Ok None"
  by (auto simp: get_signed_def get_signed_livestream_def get_stream_def Let_def
      split: res.splits option.splits sum.splits prod.splits json.splits)

lemma serve_get_answers: "a \<noteq> Ok (False, None) \<Longrightarrow> fst (run_state (serve_get E c ctx url claim a) s) \<noteq> Ok None"
  by (auto simp: serve_get_def get_parts_answer split: res.splits prod.splits bool.splits option.splits)

lemma checked_get_answers:
  "fst (run_state (State_Monad.bind (checkStreamAccess E ctx claim) (serve_get E c ctx url claim)) s) \<noteq> Ok None"
  using serve_get_answers [OF access_refusal_has_error] by (simp add: case_prod_beta)

lemma get_answers: "fst (run_state (preflightHookGet E c ctx) s) \<noteq> Ok None"
proof -
  have "fst (run_state (case r of Err e \<Rightarrow> State_Monad.return (Err e) | Panic m \<Rightarrow> State_Monad.return (Panic m)
      | Ok claim \<Rightarrow> State_Monad.bind (checkStreamAccess E ctx claim) (serve_get E c ctx url claim)) t) \<noteq> Ok None" for r url t
    using checked_get_answers by (cases r) (simp_all del: bind_simps)
  then show ?thesis
    by (auto simp: preflightHookGet_def case_prod_beta split: option.splits json.splits)
qed

lemma preflight_get:
  assumes m: "q_Method q = MethodGet" and side: "side_queries G c q"
  shows "valid (sends s\<^sub>0 G) (preflight E c cu (hook MethodStatus GetStatusResponse builtinHookName #
      hook MethodGet PreflightHookGet builtinHookName # hs) q)
      (\<lambda>r t. sends s\<^sub>0 G t \<and> (\<forall>q'. r \<noteq> Ok (None, q')))"
proof -
  have match: "isMatchingHook (q_Method q) (hook MethodStatus GetStatusResponse builtinHookName) = False"
    "isMatchingHook (q_Method q) (hook MethodGet PreflightHookGet builtinHookName) = True"
    using m by (simp_all add: isMatchingHook_def hook_def method_names HasPrefix_def)
  let ?get = "preflightHookGet E c \<lparr>hc_query = q, hc_user = cu\<rparr>"
  show ?thesis
  proof (rule validI)
    fix s a t assume s: "sends s\<^sub>0 G s" and run: "run_state (preflight E c cu (hook MethodStatus GetStatusResponse builtinHookName #
      hook MethodGet PreflightHookGet builtinHookName # hs) q) s = (a, t)"
    obtain r s1 where r: "run_state ?get s = (r, s1)" by (cases "run_state ?get s")
    have "sends s\<^sub>0 G s1" using validD [OF sends_preflightHookGet r s] side by simp
    moreover have "r \<noteq> Ok None" using get_answers [of E c "\<lparr>hc_query = q, hc_user = cu\<rparr>" s] r by simp
    ultimately show "sends s\<^sub>0 G t \<and> (\<forall>q'. a \<noteq> Ok (None, q'))"
      using run r by (auto simp: match) (auto simp: hook_def run_preflight_def Let_def split: res.splits option.splits)
  qed
qed

section \<open>Properties\<close>

text \<open>C1: the central guarantee of the proxy. Whatever request a client makes and however the
  SDK, internal-apis, the cache and the database behave, every request that \<open>Call\<close> sends to
  an SDK (the client's own, and the \<open>resolve\<close> and \<open>purchase_create\<close> that hooks add) carries
  the wallet id of the authenticated user whenever the method accepts one, is for a relaxed
  method if there is no user, and goes to the caller's endpoint, or for an anonymous caller
  to one of its backups.\<close>

theorem call_stays_in_own_wallet:
  "sends s (permitted c) (snd (run_state (Call E c cu req) s))"
proof -
  have "valid (sends s (permitted c)) (Call E c cu req) (\<lambda>_. sends s (permitted c))" by (rule sends_Call)
  from validD [OF this surjective_pairing] show ?thesis by simp
qed

text \<open>The SDK's own \<open>get\<close> is never called. For a caller with the default hooks, a \<open>get\<close>
  request is answered from \<open>resolve\<close>, and for paid streams \<open>purchase_create\<close>: these are the
  only methods the SDK sees, in every case, refusals and failures included.\<close>

theorem get_is_replaced:
  assumes "req_Method req = MethodGet"
  shows "sends s (\<lambda>ep r. req_Method r \<in> {MethodResolve, MethodPurchaseCreate})
    (snd (run_state (Call E (AddBackupEndpoints (NewCaller E ep u) eps) cu req) s))"
proof -
  let ?G = "\<lambda>(ep :: string) r. req_Method r \<in> {MethodResolve, MethodPurchaseCreate}"
  let ?c = "AddBackupEndpoints (NewCaller E ep u) eps"
  have side: "side_queries ?G c q" for c q
    by (auto simp: side_queries_def dest!: NewQuery_cases(2) simp: q_Method_def)
  obtain hs where hooks: "c_preflightHooks ?c = hook MethodStatus GetStatusResponse builtinHookName #
      hook MethodGet PreflightHookGet builtinHookName # hs"
    by (auto simp: AddBackupEndpoints_def NewCaller_def addDefaultHooks_def AddPreflightHook_def AddPostflightHook_def Let_def)
  have pre: "valid (sends s ?G) (preflight E ?c cu (c_preflightHooks ?c) q) (\<lambda>r t. sends s ?G t \<and> (\<forall>q'. r \<noteq> Ok (None, q')))"
    if "NewQuery req w = Ok q" for q w
    unfolding hooks by (rule preflight_get) (use NewQuery_cases(2) [OF that] assms side in simp_all)
  have "valid (sends s ?G) (Call E ?c cu req) (\<lambda>_. sends s ?G)"
    unfolding Call_def
    by (intro valid_if valid_res valid_return valid_bind [OF pre] valid_pure valid_prod valid_option) auto
  from validD [OF this surjective_pairing] show ?thesis by simp
qed

theorem get_is_replaced_witness:
  "sends quiet_world (\<lambda>ep r. req_Method r \<in> {MethodResolve, MethodPurchaseCreate})
     (snd (run_state (Call quiet_env (AddBackupEndpoints (NewCaller quiet_env ''http://sdk1'' 0) []) None
        \<lparr>req_Method = ''get'', req_Params = JObj (fmupd ''uri'' (JStr ''lbry://a'') fmempty), req_ID = 1,
         req_JSONRPC = ''2.0''\<rparr>) quiet_world))"
  by (rule get_is_replaced) (simp add: MethodGet_def)

text \<open>The release-time bound added to a search is the current time rounded up to five
  minutes: for a time in range the result is the least multiple of 300 that is not less
  than it (so that searches within five minutes share a cache entry), never smaller.\<close>

theorem release_time_rounded_up:
  assumes "0 \<le> n" and "n < 2 ^ 62"
  shows "n \<le> roundUp n releaseTimeRoundDownSec \<and> roundUp n releaseTimeRoundDownSec < n + 300 \<and>
    300 dvd roundUp n releaseTimeRoundDownSec"
proof -
  have range: "int64_range (n + 300)" "int64_range (n + 300 - n mod 300)"
    using assms pos_mod_bound [of 300 n] pos_mod_sign [of 300 n] by (auto simp: int64_range_def)
  have r: "go_rem n 300 = n mod 300" using assms by (auto simp: go_rem_def sgn_if)
  have "300 dvd n + 300 - n mod 300" by (metis add.commute add_diff_eq dvd_add_right_iff dvd_minus_mod dvd_refl)
  moreover have "300 dvd n" if "n mod 300 = 0" using that by auto
  ultimately show ?thesis
    using assms range pos_mod_bound [of 300 n] pos_mod_sign [of 300 n]
    by (auto simp: roundUp_def releaseTimeRoundDownSec_def Let_def r)
qed

theorem release_time_rounded_up_witness: "roundUp 1700000001 releaseTimeRoundDownSec = 1700000100"
proof -
  let ?t = "roundUp 1700000001 releaseTimeRoundDownSec"
  have "1700000001 \<le> ?t" "?t < 1700000301" "300 dvd ?t"
    using release_time_rounded_up [of 1700000001] by simp_all
  then obtain k where k: "?t = 300 * k" by (auto elim: dvdE)
  with \<open>1700000001 \<le> ?t\<close> \<open>?t < 1700000301\<close> have "k = 5666667" by linarith
  with k show ?thesis by simp
qed


definition hidden_env :: "unit env" where
  "hidden_env = quiet_env\<lparr>env_decode_claim_search := (\<lambda>_. Inr (quiet_search\<lparr>csp_HasSource := Some True\<rparr>))\<rparr>"


end
