(* ===== verification/Proxy.thy ===== *)
theory Proxy
  imports Processors
begin

text \<open>
  \<open>app/proxy/proxy.go\<close>: the handler of client JSON-RPC requests, from the HTTP body to the
  JSON-RPC response. Parsing of the body is \<open>encoding/json\<close>'s, as a parameter: it fails, or
  yields a request, or for a body of \<open>null\<close> a nil pointer.
\<close>

section \<open>Handler\<close>

datatype http_body = NilBody | BrokenBody go_error | Body bytes

record proxy_request =
  px_http :: http_request
  px_body :: http_body
  px_router :: bool
  px_cache :: bool

record http_reply =
  hr_status :: int
  hr_response :: rpc_response

definition orgOdysee :: string where "orgOdysee = ''odysee''"
definition orgLbrytv :: string where "orgLbrytv = ''lbrytv''"
definition orgAndroid :: string where "orgAndroid = ''android''"
definition orgiOS :: string where "orgiOS = ''ios''"

definition getDevice :: "http_request \<Rightarrow> string" where
  "getDevice r = (
     let rf = Header_Get r ''Referer''; ua = Header_Get r ''User-Agent'' in
     if HasSuffix rf ''odysee.com/'' then orgOdysee
     else if HasSuffix rf ''lbry.tv/'' then orgLbrytv
     else if Contains ua ''okhttp'' then orgAndroid
     else if Contains (ToLower ua) ''odysee'' then orgiOS
     else [])"

definition GetAuthError :: "user option \<Rightarrow> go_error option \<Rightarrow> go_error option" where
  "GetAuthError user err = (if err = None \<and> user \<noteq> None then None else err)"

definition writeResponse :: "int \<Rightarrow> rpc_response \<Rightarrow> http_reply" where
  "writeResponse status b = \<lparr>hr_status = status, hr_response = b\<rparr>"

text \<open>Where to send the query: the user's own SDK, or a random one with all as backups. The shared
  router is taken from the request's context, where the middleware must have put it.\<close>

definition choose_sdk :: "'w env \<Rightarrow> bool \<Rightarrow> user option \<Rightarrow> ('w, (string \<times> string list) res) io" where
  "choose_sdk E hasRouter user = (
     let sdkAddress = GetSDKAddress user in
     if sdkAddress \<noteq> [] then State_Monad.return (Ok (sdkAddress, []))
     else if \<not> hasRouter then State_Monad.return (Panic ''sdkrouter.Middleware is required'')
     else do {
       srv \<leftarrow> with_router (RandomServer E);
       (case srv of
          Ok server \<Rightarrow> do {
            backupEndpoints \<leftarrow> with_router (GetAllAddresses E);
            State_Monad.return (Ok (srv_Address server, backupEndpoints))
          }
        | Err e \<Rightarrow> State_Monad.return (Err e)
        | Panic m \<Rightarrow> State_Monad.return (Panic m))
     })"

definition proxy_caller :: "'w env \<Rightarrow> string \<Rightarrow> string list \<Rightarrow> int \<Rightarrow> string \<Rightarrow> bytes \<Rightarrow> bool \<Rightarrow> caller" where
  "proxy_caller E sdkAddress backupEndpoints userID remoteIP body hasCache = (
     let c1 = AddBackupEndpoints (NewCaller E sdkAddress userID) backupEndpoints;
         c2 = AddPostflightHook c1 ''wallet_'' (LogRemoteIP remoteIP) [];
         c3 = AddPostflightHook c2 MethodWalletSend (AuditWalletSend userID remoteIP body) []
     in if hasCache then c3\<lparr>c_Cache := True\<rparr> else c3)"

text \<open>The reply to the outcome of \<open>Call\<close>. A response made of JSON values can always be
  serialized.\<close>

definition finish :: "rpc_request \<Rightarrow> rpc_response res \<Rightarrow> ('w, http_reply res) io" where
  "finish rpcReq out = (case out of
     Ok rpcRes \<Rightarrow> State_Monad.return (Ok (writeResponse 200 rpcRes))
   | Panic m \<Rightarrow> State_Monad.return (Panic m)
   | Err err \<Rightarrow> do {
       (if error_Is err ErrAuthRequired \<and> req_Method rpcReq = MethodGet then State_Monad.return ()
        else if error_Is err ErrClaimNotFound then State_Monad.return ()
        else ErrorToSentry (Some err));
       State_Monad.return (Ok (writeResponse 200 (ToJSON (Some err))))
     })"

definition serve :: "'w env \<Rightarrow> proxy_request \<Rightarrow> bytes \<Rightarrow> rpc_request \<Rightarrow> ('w, http_reply res) io" where
  "serve E r body rpcReq = (
     let (user, err) = FromRequest (px_http r);
         userID = (case user of Some u \<Rightarrow> if MethodAcceptsWallet (req_Method rpcReq) then usr_ID u else 0 | None \<Rightarrow> 0)
     in if MethodRequiresWallet (req_Method rpcReq) \<and> GetAuthError user err \<noteq> None
        then State_Monad.return (Ok (writeResponse 200 (ErrorToJSON (GetAuthError user err))))
        else do {
          sdk \<leftarrow> choose_sdk E (px_router r) user;
          (case sdk of
             Err e \<Rightarrow> State_Monad.return (Err e)
           | Panic m \<Rightarrow> State_Monad.return (Panic m)
           | Ok (sdkAddress, backupEndpoints) \<Rightarrow> do {
               let c = proxy_caller E sdkAddress backupEndpoints userID (rq_ip (px_http r)) body (px_cache r);
               out \<leftarrow> Call E c (rq_CurrentUser (px_http r)) rpcReq;
               finish rpcReq out
             })
        })"

definition Handle :: "'w env \<Rightarrow> (bytes \<Rightarrow> go_error + rpc_request option) \<Rightarrow> proxy_request \<Rightarrow> ('w, http_reply res) io" where
  "Handle E Unmarshal r = (case px_body r of
     NilBody \<Rightarrow> State_Monad.return (Ok (writeResponse 400
       (rpc_to_json (NewJSONParseError (Some (Err_str ''empty request body''))))))
   | BrokenBody _ \<Rightarrow> State_Monad.return (Ok (writeResponse 400
       (rpc_to_json (NewJSONParseError (Some (Err_str ''error reading request body''))))))
   | Body body \<Rightarrow>
       (case Unmarshal body of
          Inl err \<Rightarrow> State_Monad.return (Ok (writeResponse 200 (rpc_to_json (NewJSONParseError (Some err)))))
        | Inr None \<Rightarrow> State_Monad.return (Panic ''nil pointer dereference'')
        | Inr (Some rpcReq) \<Rightarrow> serve E r body rpcReq))"

section \<open>Lemmas\<close>

lemma sends_with_router [io_intro]:
  "(\<And>r. valid (sends s\<^sub>0 G) (f r) (\<lambda>_. sends s\<^sub>0 G)) \<Longrightarrow> valid (sends s\<^sub>0 G) (with_router f) (\<lambda>_. sends s\<^sub>0 G)"
  by (rule valid_with_router, rule valid_post) (auto split: prod.splits)

lemma sends_choose_sdk [io_intro]: "valid (sends s\<^sub>0 G) (choose_sdk E b u) (\<lambda>_. sends s\<^sub>0 G)"
  unfolding choose_sdk_def Let_def RandomServer_def GetAllAddresses_def GetAll_def
  by (intro io_intro)

lemma sends_finish [io_intro]: "valid (sends s\<^sub>0 G) (finish q out) (\<lambda>_. sends s\<^sub>0 G)"
  unfolding finish_def by (intro io_intro)

lemma ToJSON_error: "\<exists>x. res_Error (ToJSON e) = Some x" "\<exists>x. res_Error (ErrorToJSON e) = Some x"
  by (auto simp: ToJSON_def ErrorToJSON_def rpc_to_json_def RPCError_JSON_def NewInternalError_def newRPCErr_def
      split: option.splits go_error.splits)

lemma proxy_caller_simps [simp]:
  "c_userID (proxy_caller E a b u ip body h) = u" "c_endpoint (proxy_caller E a b u ip body h) = a"
  "c_backupEndpoints (proxy_caller E a b u ip body h) = b"
  by (simp_all add: proxy_caller_def AddBackupEndpoints_def NewCaller_def addDefaultHooks_def AddPreflightHook_def
      AddPostflightHook_def Let_def)

text \<open>Requests that need a wallet carry that of the given user.\<close>

definition for_user :: "user option \<Rightarrow> rpc_request \<Rightarrow> bool" where
  "for_user user req \<longleftrightarrow> (MethodRequiresWallet (req_Method req) \<longrightarrow>
     (\<exists>u m. user = Some u \<and> 0 < usr_ID u \<and> req_Params req = JObj m \<and>
       fmlookup m ParamWalletID = Some (JStr (WalletID (usr_ID u)))))"

lemma own_request_for_user:
  assumes "own_request w r" and "w = [] \<or> (\<exists>u. user = Some u \<and> w = WalletID (usr_ID u))"
  shows "for_user user r"
  using assms
  by (auto simp: for_user_def own_request_def own_wallet_def param_def ParamsAsMap_def q_Method_def
      split: json.splits option.splits)

lemma sends_Handle:
  fixes s :: "'w world" and r :: proxy_request
  defines "G \<equiv> \<lambda>(ep :: string) req. for_user (fst (FromRequest (px_http r))) req"
  shows "valid (sends s G) (Handle E Unmarshal r) (\<lambda>_. sends s G)"
proof -
  let ?user = "fst (FromRequest (px_http r))"
  have call: "valid (sends s G) (Call E (proxy_caller E a b
      (case ?user of Some u \<Rightarrow> if MethodAcceptsWallet m then usr_ID u else 0 | None \<Rightarrow> 0) ip body h) cu req)
      (\<lambda>_. sends s G)" for a b m ip body h cu req
    unfolding G_def
    by (rule sends_Call) (auto simp: permitted_def call_wallet_def split: option.splits if_splits
        elim!: own_request_for_user)
  have "valid (sends s G) (serve E r body req) (\<lambda>_. sends s G)" for body req
    unfolding serve_def Let_def case_prod_beta by (intro io_intro call)
  then show ?thesis
    unfolding Handle_def by (cases "px_body r") (auto intro!: io_intro)
qed

section \<open>Properties\<close>

text \<open>Serving a client request never touches another user's wallet. Every request that the
  handler sends to an SDK, for a method that needs a wallet, is made on behalf of the user
  whom the auth middlewares attached to the HTTP request, and names that user's wallet; a
  request with no user attached leads to no such SDK request at all.\<close>

theorem proxy_uses_own_wallet:
  "sends s (\<lambda>ep req. for_user (fst (FromRequest (px_http r))) req) (snd (run_state (Handle E Unmarshal r) s))"
  by (rule validD [OF sends_Handle surjective_pairing sends_refl])

text \<open>C13: a method that needs a wallet is refused without authentication. If the request has no
  user, or authentication ended in an error, then no SDK is called and the client gets a
  JSON-RPC error.\<close>

theorem proxy_refuses_unauthenticated:
  assumes "Unmarshal body = Inr (Some req)" and "px_body r = Body body"
    and "MethodRequiresWallet (req_Method req)"
    and "fst (FromRequest (px_http r)) = None \<or> snd (FromRequest (px_http r)) \<noteq> None"
    and "run_state (Handle E Unmarshal r) s = (out, t)"
  shows "w_sent t = w_sent s \<and> (\<forall>reply. out = Ok reply \<longrightarrow> res_Error (hr_response reply) \<noteq> None)"
proof (cases "snd (FromRequest (px_http r))")
  case (Some e)
  with assms show ?thesis
    by (auto simp: Handle_def serve_def case_prod_beta Let_def GetAuthError_def writeResponse_def ToJSON_error)
next
  case None
  let ?G = "\<lambda>(_ :: string) (_ :: rpc_request). False"
  let ?post = "\<lambda>out t. sends s ?G t \<and> (\<forall>reply. out = Ok reply \<longrightarrow> (\<exists>x. res_Error (hr_response reply) = Some x))"
  have user: "fst (FromRequest (px_http r)) = None" using None assms(4) by simp
  have refused: "\<exists>e. Call E (proxy_caller E a b 0 ip body h) cu req = State_Monad.return (Err e)" for a b ip body h cu
  proof -
    have "NewQuery req [] \<noteq> Ok q" for q using NewQuery_cases(6) [of req "[]" q] assms(3) by auto
    moreover have "NewQuery req [] \<noteq> Panic m" for m
      by (auto simp: NewQuery_def Let_def split: option.splits)
    ultimately show ?thesis by (cases "NewQuery req []") (auto simp: Call_def call_wallet_def)
  qed
  have fin: "valid (sends s ?G) (finish req (Err e)) ?post" for e
    by (auto simp: valid_def finish_def ErrorToSentry_def writeResponse_def ToJSON_error)
  have call: "valid (sends s ?G) (State_Monad.bind (Call E (proxy_caller E a b 0 ip body h) cu req) (finish req)) ?post"
    for a b ip body h cu
  proof -
    from refused [of a b ip body h cu] obtain e where
      "Call E (proxy_caller E a b 0 ip body h) cu req = State_Monad.return (Err e)" by blast
    then show ?thesis using fin [of e] by simp
  qed
  have "valid (sends s ?G) (serve E r body req) ?post"
    unfolding serve_def Let_def case_prod_beta user
    using None by (auto simp: GetAuthError_def intro!: valid_bind_keep [OF sends_choose_sdk] valid_res valid_return call)
  with assms(1,2,5) validD [OF this, of s out t] show ?thesis by (auto simp: Handle_def dest: sends_nothing)
qed

definition anonymous_request :: proxy_request where
  "anonymous_request = \<lparr>px_http = \<lparr>rq_Header = fmempty, rq_ip = ''1.2.3.4'',
     rq_CurrentUser = Some (NewCurrentUser None [] None (Some ErrNoAuthInfo))\<rparr>, px_body = Body ''x'', px_router = True, px_cache = False\<rparr>"

definition balance_request :: rpc_request where
  "balance_request = \<lparr>req_Method = ''wallet_balance'', req_Params = JNull, req_ID = 1, req_JSONRPC = ''2.0''\<rparr>"

theorem proxy_refuses_unauthenticated_witness:
  "w_sent (snd (run_state (Handle quiet_env (\<lambda>_. Inr (Some balance_request)) anonymous_request) quiet_world)) = []"
proof -
  have "MethodRequiresWallet (req_Method balance_request)"
    by (simp add: balance_request_def MethodRequiresWallet_def methodInList_def relaxedMethods_def method_names)
  moreover have "snd (FromRequest (px_http anonymous_request)) \<noteq> None"
    by (simp add: anonymous_request_def FromRequest_def GetCurrentUserData_def NewCurrentUser_def)
  moreover have "px_body anonymous_request = Body ''x''" by (simp add: anonymous_request_def)
  ultimately have "w_sent (snd (run_state (Handle quiet_env (\<lambda>_. Inr (Some balance_request)) anonymous_request) quiet_world))
      = w_sent quiet_world"
    using proxy_refuses_unauthenticated [where Unmarshal = "\<lambda>_. Inr (Some balance_request)" and body = "''x''"
        and r = anonymous_request and E = quiet_env and s = quiet_world, OF refl _ _ _ surjective_pairing] by blast
  then show ?thesis by (simp add: quiet_world_def)
qed

section \<open>Observations\<close>

text \<open>A body of \<open>null\<close> unmarshals into a nil request, which the handler dereferences.\<close>

theorem null_body_panics:
  "run_state (Handle E (\<lambda>b. if b = ''null'' then Inr None else Inl e) (anonymous_request\<lparr>px_body := Body ''null''\<rparr>)) s =
     (Panic ''nil pointer dereference'', s)"
  by (simp add: Handle_def)

end
