(* ===== verification/Asynquery.thy ===== *)
theory Asynquery
  imports Proxy
begin

text \<open>
  \<open>app/asynquery\<close>: queries that run in the background. A client registers a \<open>stream_create\<close>
  or \<open>stream_update\<close>, possibly as a draft that is committed later, the upload service reports
  the file by a task, and when both have happened the query is sent to the SDK; the client
  polls for the outcome. Transactions hold row locks, so each runs as a whole; every
  statement may fail, and the table is then what it was before the transaction. A fault is
  never \<open>sql.ErrNoRows\<close>: whether there are rows is decided by the table.
\<close>

section \<open>Rows\<close>

definition FilePathParam :: string where "FilePathParam = ''file_path''"
definition DeferParam :: string where "DeferParam = ''_defer''"
definition AsynqueryIncomingQuery :: string where "AsynqueryIncomingQuery = ''asynquery:incoming''"

definition sdkNetError :: go_error where "sdkNetError = Sentinel S_SdkNetError"
definition SkipRetry :: go_error where "SkipRetry = Sentinel S_SkipRetry"

record query_params =
  qp_queryID :: string
  qp_uploadID :: string
  qp_userID :: int
  qp_readyToRun :: bool

definition db_fault :: "'w env \<Rightarrow> db_op \<Rightarrow> ('w, go_error option) io" where
  "db_fault E op = ext (env_db_fault E op)"

text \<open>The text of a marshalled request.\<close>

definition marshal_request :: "rpc_request \<Rightarrow> string" where
  "marshal_request r = ''{'' @ entry (''method'', quote (req_Method r)) @
     (if req_Params r = JNull then [] else '','' @ entry (''params'', json_marshal (req_Params r))) @
     '','' @ entry (''id'', Itoa (req_ID r)) @ '','' @ entry (''jsonrpc'', quote (req_JSONRPC r)) @ ''}''"

text \<open>\<open>ORDER BY created_at DESC\<close>, the first row: the newest that satisfies the condition.\<close>

definition newest :: "(asynquery \<Rightarrow> bool) \<Rightarrow> asynquery list \<Rightarrow> asynquery option" where
  "newest P rows = List.find P (rev rows)"

definition update_rows :: "string \<Rightarrow> (asynquery \<Rightarrow> asynquery) \<Rightarrow> asynquery list \<Rightarrow> asynquery list" where
  "update_rows i f rows = map (\<lambda>r. if aq_ID r = i then f r else r) rows"

definition insert_query :: "'w env \<Rightarrow> asynquery \<Rightarrow> ('w, unit res) io" where
  "insert_query E row = do {
     f \<leftarrow> db_fault E DbInsertQuery;
     taken \<leftarrow> reads (\<lambda>s. \<exists>r \<in> set (w_asynq s). aq_ID r = aq_ID row);
     (case f of
        Some e \<Rightarrow> State_Monad.return (Err e)
      | None \<Rightarrow>
          if taken then State_Monad.return (Err (PgError pgUniqueConstraintViolation ''duplicate key''))
          else do { modify (\<lambda>s. s\<lparr>w_asynq := w_asynq s @ [row]\<rparr>); State_Monad.return (Ok ()) })
   }"

definition query_id :: "'w env \<Rightarrow> rpc_request \<Rightarrow> int \<Rightarrow> string" where
  "query_id E req now = hex_encode (env_md5 E (marshal_request req)) @ Itoa (now div 1000000)"

definition createQueryRecord :: "'w env \<Rightarrow> query_params \<Rightarrow> rpc_request \<Rightarrow> ('w, asynquery res) io" where
  "createQueryRecord E params req = do {
     now \<leftarrow> ext (env_now E);
     let q = \<lparr>aq_ID = query_id E req now, aq_UserID = qp_userID params, aq_Status = AqReceived, aq_Error = [],
       aq_UploadID = qp_uploadID params, aq_Body = Inr req, aq_Response = None,
       aq_ReadyToRun = qp_readyToRun params, aq_FileReady = False, aq_FileMeta = None\<rparr>;
     r \<leftarrow> insert_query E q;
     State_Monad.return (case r of Ok _ \<Rightarrow> Ok q | Err e \<Rightarrow> Err e | Panic m \<Rightarrow> Panic m)
   }"

definition getQueryRecord :: "'w env \<Rightarrow> query_params \<Rightarrow> ('w, asynquery res) io" where
  "getQueryRecord E params = do {
     f \<leftarrow> db_fault E DbSelectQuery;
     q \<leftarrow> reads (\<lambda>s. newest (\<lambda>r.
            (qp_queryID params \<noteq> [] \<longrightarrow> aq_ID r = qp_queryID params) \<and>
            (qp_uploadID params \<noteq> [] \<longrightarrow> aq_UploadID r = qp_uploadID params) \<and>
            (qp_userID params > 0 \<longrightarrow> aq_UserID r = qp_userID params)) (w_asynq s));
     State_Monad.return (case (f, q) of
       (Some e, _) \<Rightarrow> Err (Wrapped ''could not retrieve async query record'' e)
     | (None, None) \<Rightarrow> Err (Wrapped ''could not retrieve async query record'' ErrNoRows)
     | (None, Some r) \<Rightarrow> Ok r)
   }"

definition by_id :: "string \<Rightarrow> query_params" where
  "by_id i = \<lparr>qp_queryID = i, qp_uploadID = [], qp_userID = 0, qp_readyToRun = False\<rparr>"

definition finalizeQueryRecord :: "'w env \<Rightarrow> string \<Rightarrow> rpc_response option \<Rightarrow> string \<Rightarrow> ('w, go_error option) io" where
  "finalizeQueryRecord E queryID response callErr = do {
     r \<leftarrow> getQueryRecord E (by_id queryID);
     (case r of
        Err e \<Rightarrow> State_Monad.return (Some (Wrapped ''could not retrieve async query record'' e))
      | Panic m \<Rightarrow> State_Monad.return None
      | Ok q \<Rightarrow> do {
          let failed = (case response of None \<Rightarrow> True | Some x \<Rightarrow> res_Error x \<noteq> None \<or> callErr \<noteq> []);
          let q' = q\<lparr>aq_Response := response, aq_Error := callErr,
                     aq_Status := (if failed then AqFailed else AqSucceeded)\<rparr>;
          f \<leftarrow> db_fault E DbUpdateQuery;
          (case f of
             Some e \<Rightarrow> State_Monad.return (Some (Wrapped ''error updating async query record'' e))
           | None \<Rightarrow> do {
               modify (\<lambda>s. s\<lparr>w_asynq := update_rows (aq_ID q) (\<lambda>_. q') (w_asynq s)\<rparr>);
               State_Monad.return None
             })
        })
   }"

section \<open>Locations of uploads\<close>

definition upload_char :: "char \<Rightarrow> bool" where
  "upload_char c \<longleftrightarrow> (let n = of_char c :: nat in
     (97 \<le> n \<and> n \<le> 122) \<or> (65 \<le> n \<and> n \<le> 90) \<or> (48 \<le> n \<and> n \<le> 57) \<or> c \<in> {CHR ''+'', CHR ''_'', CHR ''.'', CHR ''-''})"

definition strip_scheme :: "string \<Rightarrow> string option" where
  "strip_scheme s = (if HasPrefix s ''http://'' then Some (TrimPrefix s ''http://'')
     else if HasPrefix s ''https://'' then Some (TrimPrefix s ''https://'') else None)"

text \<open>
  The match of \<open>^https?://([^/]+)/.+/([a-zA-Z0-9+_.-]{32,})$\<close>: the server ends at the first
  slash, the upload id, which has no slash, starts after the last one, and there is
  something other than a line break between the two.
\<close>

definition parseFilePath :: "string \<Rightarrow> (string \<times> string) option" where
  "parseFilePath filePath = (case strip_scheme filePath of
     None \<Rightarrow> None
   | Some s \<Rightarrow>
       (let server = takeWhile (\<lambda>c. c \<noteq> CHR ''/'') s;
            path = dropWhile (\<lambda>c. c \<noteq> CHR ''/'') s;
            uploadID = rev (takeWhile (\<lambda>c. c \<noteq> CHR ''/'') (rev (drop 1 path)));
            middle = rev (dropWhile (\<lambda>c. c \<noteq> CHR ''/'') (rev (drop 1 path)))
        in if server \<noteq> [] \<and> 2 \<le> length middle \<and> CHR 0x0A \<notin> set middle \<and>
              32 \<le> length uploadID \<and> list_all upload_char uploadID
           then Some (server, uploadID) else None))"

section \<open>Calls\<close>

definition SendRequest :: "'w env \<Rightarrow> task \<Rightarrow> ('w, go_error option) io" where
  "SendRequest E t = do {
     e \<leftarrow> ext (env_enqueue E t);
     (case e of
        None \<Rightarrow> do { modify (\<lambda>s. s\<lparr>w_tasks := w_tasks s @ [t]\<rparr>); State_Monad.return None }
      | Some x \<Rightarrow> State_Monad.return (Some (Wrapped (''failed to enqueue '' @ tk_Type t @ '' request'') x)))
   }"

definition incoming_task :: "string \<Rightarrow> int \<Rightarrow> task" where
  "incoming_task queryID userID = \<lparr>tk_Type = AsynqueryIncomingQuery, tk_Payload = IncomingQuery queryID userID\<rparr>"

text \<open>Ending a transaction: commit, or restore the table it started from.\<close>

definition restore :: "asynquery list \<Rightarrow> 'a res \<Rightarrow> ('w, 'a res) io" where
  "restore saved r = do { modify (\<lambda>s. s\<lparr>w_asynq := saved\<rparr>); State_Monad.return r }"

definition commit :: "'w env \<Rightarrow> asynquery list \<Rightarrow> 'a \<Rightarrow> ('w, 'a res) io" where
  "commit E saved v = do {
     c \<leftarrow> db_fault E DbCommit;
     (case c of
        None \<Rightarrow> State_Monad.return (Ok v)
      | Some e \<Rightarrow> restore saved (Err (Wrapped ''commit tx'' e)))
   }"

definition upload_row :: "int \<Rightarrow> string \<Rightarrow> asynquery \<Rightarrow> bool" where
  "upload_row userID uploadID r \<longleftrightarrow> aq_UploadID r = uploadID \<and> aq_UserID r = userID"

definition create_in_tx :: "'w env \<Rightarrow> asynquery list \<Rightarrow> query_params \<Rightarrow> rpc_request \<Rightarrow> ('w, (asynquery \<times> bool) res) io" where
  "create_in_tx E saved params req = do {
     r \<leftarrow> createQueryRecord E params req;
     (case r of
        Ok newAq \<Rightarrow> commit E saved (newAq, False)
      | Err e \<Rightarrow> restore saved (Err (Wrapped ''error adding query record'' e))
      | Panic m \<Rightarrow> restore saved (Panic m))
   }"

definition commit_draft :: "'w env \<Rightarrow> asynquery list \<Rightarrow> asynquery \<Rightarrow> rpc_request \<Rightarrow> ('w, (asynquery \<times> bool) res) io" where
  "commit_draft E saved aq req = do {
     f \<leftarrow> db_fault E DbUpdateQuery;
     (case f of
        Some e \<Rightarrow> restore saved (Err (Wrapped ''error updating query record'' e))
      | None \<Rightarrow> do {
          modify (\<lambda>s. s\<lparr>w_asynq := update_rows (aq_ID aq)
            (\<lambda>r. r\<lparr>aq_Body := Inr req, aq_ReadyToRun := True\<rparr>) (w_asynq s)\<rparr>);
          commit E saved (aq\<lparr>aq_Body := Inr req, aq_ReadyToRun := True\<rparr>, aq_FileReady aq)
        })
   }"

text \<open>The transaction once the user's row is locked, on the newest query for the upload.\<close>

definition upload_tx :: "'w env \<Rightarrow> asynquery list \<Rightarrow> int \<Rightarrow> string \<Rightarrow> bool \<Rightarrow> rpc_request \<Rightarrow> asynquery option
    \<Rightarrow> ('w, (asynquery \<times> bool) res) io" where
  "upload_tx E saved userID uploadID deferRun req found = (case found of
     None \<Rightarrow> create_in_tx E saved
       \<lparr>qp_queryID = [], qp_uploadID = uploadID, qp_userID = userID, qp_readyToRun = \<not> deferRun\<rparr> req
   | Some aq \<Rightarrow>
       if deferRun then commit E saved (aq, False)
       else if aq_Status aq = AqReceived then
         (if aq_ReadyToRun aq then commit E saved (aq, False) else commit_draft E saved aq req)
       else if aq_Status aq = AqFailed then create_in_tx E saved
         \<lparr>qp_queryID = [], qp_uploadID = uploadID, qp_userID = userID, qp_readyToRun = True\<rparr> req
       else commit E saved (aq, False))"

definition lock_user :: "'w env \<Rightarrow> int \<Rightarrow> ('w, go_error option) io" where
  "lock_user E userID = do {
     f \<leftarrow> db_fault E DbLockUser;
     known \<leftarrow> reads (\<lambda>s. userID |\<in>| fmdom (w_users s));
     State_Monad.return (case f of Some e \<Rightarrow> Some e | None \<Rightarrow> if known then None else Some ErrNoRows)
   }"

definition callUploadTx :: "'w env \<Rightarrow> int \<Rightarrow> string \<Rightarrow> bool \<Rightarrow> rpc_request \<Rightarrow> ('w, (asynquery \<times> bool) res) io" where
  "callUploadTx E userID uploadID deferRun req = do {
     b \<leftarrow> db_fault E DbBegin;
     (case b of
        Some e \<Rightarrow> State_Monad.return (Err (Wrapped ''begin tx'' e))
      | None \<Rightarrow> do {
          saved \<leftarrow> reads w_asynq;
          l \<leftarrow> lock_user E userID;
          (case l of
             Some e \<Rightarrow> restore saved (Err (Wrapped ''locking user row'' e))
           | None \<Rightarrow> do {
               f \<leftarrow> db_fault E DbSelectQuery;
               (case f of
                  Some e \<Rightarrow> restore saved (Err (Wrapped ''looking up asynquery'' e))
                | None \<Rightarrow> upload_tx E saved userID uploadID deferRun req (newest (upload_row userID uploadID) saved))
             })
        })
   }"

definition enqueue_query :: "'w env \<Rightarrow> asynquery \<Rightarrow> int \<Rightarrow> ('w, asynquery res) io" where
  "enqueue_query E aq userID = do {
     e \<leftarrow> SendRequest E (incoming_task (aq_ID aq) userID);
     State_Monad.return (case e of None \<Rightarrow> Ok aq | Some x \<Rightarrow> Err (Wrapped ''error queuing query'' x))
   }"

definition aq_Call :: "'w env \<Rightarrow> int \<Rightarrow> rpc_request \<Rightarrow> ('w, asynquery res) io" where
  "aq_Call E userID req0 = (case req_Params req0 of
     JObj p0 \<Rightarrow>
       (let deferRun = (case fmlookup p0 DeferParam of Some (JBool b) \<Rightarrow> b | _ \<Rightarrow> False);
            p = fmdrop DeferParam p0;
            req = req0\<lparr>req_Params := JObj p\<rparr>
        in case fmlookup p FilePathParam of
          None \<Rightarrow> do {
            r \<leftarrow> createQueryRecord E \<lparr>qp_queryID = [], qp_uploadID = [], qp_userID = userID, qp_readyToRun = True\<rparr> req;
            (case r of
               Err e \<Rightarrow> State_Monad.return (Err (Wrapped ''error adding query record'' e))
             | Panic m \<Rightarrow> State_Monad.return (Panic m)
             | Ok aq \<Rightarrow> enqueue_query E aq userID)
          }
        | Some (JStr filePath) \<Rightarrow>
            (case parseFilePath filePath of
               None \<Rightarrow> State_Monad.return (Err (Plain (''invalid file location: '' @ filePath)))
             | Some (_, uploadID) \<Rightarrow> do {
                 r \<leftarrow> callUploadTx E userID uploadID deferRun req;
                 (case r of
                    Err e \<Rightarrow> State_Monad.return (Err e)
                  | Panic m \<Rightarrow> State_Monad.return (Panic m)
                  | Ok (aq, shouldEnqueue) \<Rightarrow>
                      if shouldEnqueue then enqueue_query E aq userID else State_Monad.return (Ok aq))
               })
        | Some _ \<Rightarrow> State_Monad.return (Err (Plain ''invalid file path'')))
   | _ \<Rightarrow> State_Monad.return (Panic ''interface conversion''))"

section \<open>Sending the query\<close>

definition buildPatchFromMeta :: "upload_meta \<Rightarrow> json_map" where
  "buildPatchFromMeta meta = (
     let p0 = fmap_of_list [(''file_size'', JNum (Itoa (int (um_Size meta)))), (''file_name'', JStr (um_FileName meta)),
                (''file_hash'', JStr (um_Hash meta)), (''sd_hash'', JStr (um_SDHash meta))];
         p1 = (if 0 < um_Width meta \<and> 0 < um_Height meta
               then fmupd ''height'' (JNum (Itoa (um_Height meta))) (fmupd ''width'' (JNum (Itoa (um_Width meta))) p0) else p0)
     in if 0 < um_Duration meta then fmupd ''duration'' (JNum (Itoa (um_Duration meta))) p1 else p1)"

definition patched_params :: "rpc_request \<Rightarrow> json_map \<Rightarrow> json_map \<Rightarrow> json_map" where
  "patched_params request patch pp = (
     let p1 = pp ++\<^sub>f patch;
         p2 = (if req_Method request = MethodStreamUpdate
               then fmupd ''replace'' (JBool True) (fmdrop ''name'' p1) else p1)
     in fmdrop FilePathParam p2)"

definition load_aq_user :: "'w env \<Rightarrow> int \<Rightarrow> ('w, user res) io" where
  "load_aq_user E userID = do {
     r \<leftarrow> stmt E Pool DbSelectUser (reads (\<lambda>s. Ok
            (map_option (\<lambda>row. load_user (w_servers s) (userID, row)) (fmlookup (w_users s) userID))));
     State_Monad.return (case r of
       Ok (Some u) \<Rightarrow> Ok u | Ok None \<Rightarrow> Err ErrNoRows | Err e \<Rightarrow> Err e | Panic m \<Rightarrow> Panic m)
   }"

definition record_outcome :: "'w env \<Rightarrow> asynquery \<Rightarrow> rpc_response res \<Rightarrow> ('w, unit res) io" where
  "record_outcome E aq out = (case out of
     Panic m \<Rightarrow> State_Monad.return (Panic m)
   | Err err \<Rightarrow> do {
       ErrorToSentry (Some (Wrapped ''asynquery request failed'' err));
       _ \<leftarrow> finalizeQueryRecord E (aq_ID aq) None (error_msg err);
       State_Monad.return (Err sdkNetError)
     }
   | Ok res \<Rightarrow>
       (case res_Error res of
          Some e \<Rightarrow> do {
            _ \<leftarrow> finalizeQueryRecord E (aq_ID aq) (Some res) (err_Message e);
            State_Monad.return (Err SkipRetry)
          }
        | None \<Rightarrow> do {
            f \<leftarrow> finalizeQueryRecord E (aq_ID aq) (Some res) [];
            State_Monad.return (case f of Some e \<Rightarrow> Err e | None \<Rightarrow> Ok ())
          }))"

definition robustCall :: "'w env \<Rightarrow> asynquery \<Rightarrow> json_map \<Rightarrow> ('w, unit res) io" where
  "robustCall E aq patch = do {
     u \<leftarrow> load_aq_user E (aq_UserID aq);
     (case u of
        Err _ \<Rightarrow> State_Monad.return (Err SkipRetry)
      | Panic m \<Rightarrow> State_Monad.return (Panic m)
      | Ok user \<Rightarrow>
          (case usr_Server user of
             None \<Rightarrow> State_Monad.return (Panic ''nil pointer dereference'')
           | Some srv \<Rightarrow>
               (case aq_Body aq of
                  Inl _ \<Rightarrow> State_Monad.return (Err SkipRetry)
                | Inr request \<Rightarrow>
                    (case req_Params request of
                       JObj pp \<Rightarrow> do {
                         out \<leftarrow> Call E (NewCaller E (srv_Address srv) (aq_UserID aq)) None
                                  (request\<lparr>req_Params := JObj (patched_params request patch pp)\<rparr>);
                         record_outcome E aq out
                       }
                     | _ \<Rightarrow> State_Monad.return (Err SkipRetry)))))
   }"

section \<open>Tasks\<close>

definition store_meta :: "'w env \<Rightarrow> asynquery list \<Rightarrow> asynquery \<Rightarrow> upload_meta \<Rightarrow> ('w, (asynquery \<times> bool) res) io" where
  "store_meta E saved aq meta = do {
     f \<leftarrow> db_fault E DbUpdateQuery;
     (case f of
        Some e \<Rightarrow> restore saved (Err e)
      | None \<Rightarrow> do {
          modify (\<lambda>s. s\<lparr>w_asynq := update_rows (aq_ID aq)
            (\<lambda>r. r\<lparr>aq_FileReady := True, aq_FileMeta := Some (Inr meta)\<rparr>) (w_asynq s)\<rparr>);
          commit E saved (aq\<lparr>aq_FileReady := True, aq_FileMeta := Some (Inr meta)\<rparr>, False)
        })
   }"

definition handleMergeTx :: "'w env \<Rightarrow> string \<Rightarrow> int \<Rightarrow> upload_meta \<Rightarrow> ('w, (asynquery \<times> bool) res) io" where
  "handleMergeTx E uploadID userID meta = do {
     b \<leftarrow> db_fault E DbBegin;
     (case b of
        Some e \<Rightarrow> State_Monad.return (Err (Wrapped ''begin tx'' e))
      | None \<Rightarrow> do {
          saved \<leftarrow> reads w_asynq;
          f \<leftarrow> db_fault E DbSelectQuery;
          (case f of
             Some e \<Rightarrow> restore saved (Err e)
           | None \<Rightarrow>
               (case newest (upload_row userID uploadID) saved of
                  None \<Rightarrow> restore saved (Err ErrNoRows)
                | Some aq \<Rightarrow>
                    if \<not> aq_ReadyToRun aq then store_meta E saved aq meta
                    else if aq_Status aq = AqSucceeded then commit E saved (aq, False)
                    else commit E saved (aq, True)))
        })
   }"

definition HandleMerge :: "'w env \<Rightarrow> task \<Rightarrow> ('w, unit res) io" where
  "HandleMerge E task = (
     if tk_Type task \<noteq> ForkliftUploadDone then State_Monad.return (Err SkipRetry)
     else (case tk_Payload task of
       UploadDone uploadID userID meta \<Rightarrow> do {
         r \<leftarrow> handleMergeTx E uploadID userID meta;
         (case r of
            Err e \<Rightarrow> State_Monad.return (Err e)
          | Panic m \<Rightarrow> State_Monad.return (Panic m)
          | Ok (aq, shouldFireSDK) \<Rightarrow>
              if \<not> shouldFireSDK then State_Monad.return (Ok ())
              else robustCall E aq (buildPatchFromMeta meta))
       }
     | _ \<Rightarrow> State_Monad.return (Err SkipRetry)))"

definition HandleQuery :: "'w env \<Rightarrow> task \<Rightarrow> ('w, unit res) io" where
  "HandleQuery E task = (
     if tk_Type task \<noteq> AsynqueryIncomingQuery then State_Monad.return (Err SkipRetry)
     else (case tk_Payload task of
       IncomingQuery queryID userID \<Rightarrow> do {
         r \<leftarrow> getQueryRecord E \<lparr>qp_queryID = queryID, qp_uploadID = [], qp_userID = userID, qp_readyToRun = False\<rparr>;
         (case r of
            Err e \<Rightarrow> State_Monad.return (Err e)
          | Panic m \<Rightarrow> State_Monad.return (Panic m)
          | Ok aq \<Rightarrow>
              (case aq_FileMeta aq of
                 Some (Inl uErr) \<Rightarrow> do {
                   f \<leftarrow> finalizeQueryRecord E (aq_ID aq) None (''invalid stored file metadata: '' @ error_msg uErr);
                   State_Monad.return (case f of Some e \<Rightarrow> Err e | None \<Rightarrow> Err SkipRetry)
                 }
               | Some (Inr meta) \<Rightarrow> robustCall E aq (buildPatchFromMeta meta)
               | None \<Rightarrow> robustCall E aq fmempty))
       }
     | _ \<Rightarrow> State_Monad.return (Err SkipRetry)))"

definition RetryDelay :: "nat \<Rightarrow> go_error \<Rightarrow> int" where
  "RetryDelay n err = (if error_Is err sdkNetError then int n * (10 * second) else 10 * second)"

section \<open>HTTP handlers\<close>

datatype aq_body =
    AuthErrorBody string | TokenBody string string | QueryCreatedBody string | RpcBody rpc_response
  | PlainBody string | NoContent

record aq_reply =
  ar_status :: int
  ar_body :: aq_body

definition reply :: "int \<Rightarrow> aq_body \<Rightarrow> aq_reply res" where
  "reply st b = Ok \<lparr>ar_status = st, ar_body = b\<rparr>"

definition isMethodAllowed :: "string \<Rightarrow> bool" where
  "isMethodAllowed m = list_ex (\<lambda>x. x = m) [MethodStreamCreate, MethodStreamUpdate]"

text \<open>The keyfob's token generator is an argument. Writing the body sends status 200; setting
  another one afterwards has no effect.\<close>

definition CreateUpload :: "'w env \<Rightarrow> (int \<Rightarrow> int \<Rightarrow> go_error + string) \<Rightarrow> string \<Rightarrow> string option \<Rightarrow> http_request
    \<Rightarrow> ('w, aq_reply res) io" where
  "CreateUpload E GenerateToken uploadServiceURL typeVar r = (
     let targetURL = uploadServiceURL @ (case typeVar of Some t \<Rightarrow> t | None \<Rightarrow> ''uploads'') @ ''/'' in
     case FromRequest r of
       (_, Some err) \<Rightarrow> State_Monad.return (reply 200 (AuthErrorBody (error_msg err)))
     | (None, None) \<Rightarrow> State_Monad.return (Panic ''nil pointer dereference'')
     | (Some u, None) \<Rightarrow> do {
         now \<leftarrow> ext (env_now E);
         State_Monad.return (case GenerateToken ((usr_ID u + 2 ^ 31) mod 2 ^ 32 - 2 ^ 31) (now + 48 * 3600 * second) of
           Inl e \<Rightarrow> reply 500 (PlainBody (error_msg e))
         | Inr token \<Rightarrow> reply 200 (TokenBody token targetURL))
       })"

definition CreateQuery :: "'w env \<Rightarrow> http_request \<Rightarrow> go_error + rpc_request option \<Rightarrow> ('w, aq_reply res) io" where
  "CreateQuery E r decoded = (case FromRequest r of
     (_, Some err) \<Rightarrow> State_Monad.return (reply 401 (AuthErrorBody (error_msg err)))
   | (user, None) \<Rightarrow>
       (case decoded of
          Inl e \<Rightarrow> State_Monad.return (reply 200 (RpcBody (ErrorToJSON (Some (NewJSONParseError (Some e))))))
        | Inr None \<Rightarrow> State_Monad.return (Panic ''nil pointer dereference'')
        | Inr (Some rpcReq) \<Rightarrow>
            if \<not> isMethodAllowed (req_Method rpcReq) then
              State_Monad.return (reply 200 (RpcBody (ErrorToJSON (Some
                (NewMethodNotAllowedError (Some (Err_str ''forbidden method'')))))))
            else (case user of
              None \<Rightarrow> State_Monad.return (Panic ''nil pointer dereference'')
            | Some u \<Rightarrow> do {
                x \<leftarrow> aq_Call E (usr_ID u) rpcReq;
                State_Monad.return (case x of
                  Err e \<Rightarrow> reply 200 (RpcBody (ErrorToJSON (Some (NewInternalError (Some e)))))
                | Panic m \<Rightarrow> Panic m
                | Ok aq \<Rightarrow> reply 201 (QueryCreatedBody (aq_ID aq)))
              })))"

definition aq_Get :: "'w env \<Rightarrow> string option \<Rightarrow> http_request \<Rightarrow> ('w, aq_reply res) io" where
  "aq_Get E idVar r = (case idVar of
     None \<Rightarrow> State_Monad.return (reply 404 NoContent)
   | Some queryID \<Rightarrow>
       (case FromRequest r of
          (_, Some err) \<Rightarrow> State_Monad.return (reply 401 NoContent)
        | (None, None) \<Rightarrow> State_Monad.return (Panic ''nil pointer dereference'')
        | (Some u, None) \<Rightarrow> do {
            x \<leftarrow> getQueryRecord E \<lparr>qp_queryID = queryID, qp_uploadID = [], qp_userID = usr_ID u, qp_readyToRun = False\<rparr>;
            State_Monad.return (case x of
              Panic m \<Rightarrow> Panic m
            | Err e \<Rightarrow> if error_Is e ErrNoRows then reply 404 NoContent else reply 200 (RpcBody (ErrorToJSON (Some e)))
            | Ok aq \<Rightarrow>
                (case aq_Status aq of
                   AqSucceeded \<Rightarrow> reply 200 (case aq_Response aq of Some y \<Rightarrow> RpcBody y | None \<Rightarrow> NoContent)
                 | AqFailed \<Rightarrow> reply 200 (case aq_Response aq of
                     Some y \<Rightarrow> RpcBody y | None \<Rightarrow> RpcBody (ErrorToJSON (Some (Err_str (aq_Error aq)))))
                 | _ \<Rightarrow> reply 204 NoContent))
          }))"

section \<open>Locations of uploads, as the regular expression has them\<close>

lemma split_at_slash:
  assumes "c \<notin> set a"
  shows "takeWhile (\<lambda>x. x \<noteq> c) (a @ c # b) = a" "dropWhile (\<lambda>x. x \<noteq> c) (a @ c # b) = c # b"
  using assms by (induction a) auto

lemma upload_char_no_slash: "list_all upload_char s \<Longrightarrow> CHR ''/'' \<notin> set s"
  by (induction s) (auto simp: upload_char_def Let_def)

lemma strip_scheme_iff:
  "strip_scheme p = Some s \<longleftrightarrow> p = ''http://'' @ s \<or> p = ''https://'' @ s"
  by (auto simp: strip_scheme_def HasPrefix_iff TrimPrefix_def split: if_splits)

text \<open>A list cut at its last slash.\<close>

lemma cut_last_slash:
  "rev (takeWhile (\<lambda>c. c \<noteq> CHR ''/'') (rev s)) = u \<and> rev (dropWhile (\<lambda>c. c \<noteq> CHR ''/'') (rev s)) = m @ ''/'' \<longleftrightarrow>
     s = m @ ''/'' @ u \<and> CHR ''/'' \<notin> set u"
proof
  assume cut: "rev (takeWhile (\<lambda>c. c \<noteq> CHR ''/'') (rev s)) = u \<and> rev (dropWhile (\<lambda>c. c \<noteq> CHR ''/'') (rev s)) = m @ ''/''"
  have "s = rev (dropWhile (\<lambda>c. c \<noteq> CHR ''/'') (rev s)) @ rev (takeWhile (\<lambda>c. c \<noteq> CHR ''/'') (rev s))"
    by (metis rev_append rev_rev_ident takeWhile_dropWhile_id)
  moreover have "CHR ''/'' \<notin> set (takeWhile (\<lambda>c. c \<noteq> CHR ''/'') (rev s))" by (auto dest: set_takeWhileD)
  ultimately show "s = m @ ''/'' @ u \<and> CHR ''/'' \<notin> set u" using cut by auto
next
  assume "s = m @ ''/'' @ u \<and> CHR ''/'' \<notin> set u"
  then show "rev (takeWhile (\<lambda>c. c \<noteq> CHR ''/'') (rev s)) = u \<and> rev (dropWhile (\<lambda>c. c \<noteq> CHR ''/'') (rev s)) = m @ ''/''"
    using split_at_slash [of "CHR ''/''" "rev u" "rev m"] by simp
qed

lemma last_part_slash:
  assumes "rev (dropWhile (\<lambda>c. c \<noteq> CHR ''/'') (rev s)) \<noteq> []"
  shows "\<exists>m. rev (dropWhile (\<lambda>c. c \<noteq> CHR ''/'') (rev s)) = m @ ''/''"
proof -
  obtain x xs where "dropWhile (\<lambda>c. c \<noteq> CHR ''/'') (rev s) = x # xs" using assms by (cases "dropWhile (\<lambda>c. c \<noteq> CHR ''/'') (rev s)") auto
  moreover from this have "x = CHR ''/''" using hd_dropWhile [of "\<lambda>c. c \<noteq> CHR ''/''" "rev s"] by simp
  ultimately show ?thesis by (intro exI [of _ "rev xs"]) simp
qed

lemma cut_first_slash:
  assumes "dropWhile (\<lambda>c. c \<noteq> CHR ''/'') s \<noteq> []"
  shows "s = takeWhile (\<lambda>c. c \<noteq> CHR ''/'') s @ ''/'' @ drop 1 (dropWhile (\<lambda>c. c \<noteq> CHR ''/'') s)"
proof -
  obtain x xs where d: "dropWhile (\<lambda>c. c \<noteq> CHR ''/'') s = x # xs" using assms by (cases "dropWhile (\<lambda>c. c \<noteq> CHR ''/'') s") auto
  then have "x = CHR ''/''" using hd_dropWhile [of "\<lambda>c. c \<noteq> CHR ''/''" s] by simp
  with d takeWhile_dropWhile_id [of "\<lambda>c. c \<noteq> CHR ''/''" s] show ?thesis by simp
qed

definition located :: "string \<Rightarrow> string \<Rightarrow> string \<Rightarrow> bool" where
  "located s server uploadID \<longleftrightarrow> (\<exists>mid. s = server @ ''/'' @ mid @ ''/'' @ uploadID \<and>
     server \<noteq> [] \<and> CHR ''/'' \<notin> set server \<and> mid \<noteq> [] \<and> CHR 0x0A \<notin> set mid \<and>
     32 \<le> length uploadID \<and> list_all upload_char uploadID)"

lemma located_iff:
  "located s server uploadID \<longleftrightarrow>
     (let path = dropWhile (\<lambda>c. c \<noteq> CHR ''/'') s;
          middle = rev (dropWhile (\<lambda>c. c \<noteq> CHR ''/'') (rev (drop 1 path)))
      in server = takeWhile (\<lambda>c. c \<noteq> CHR ''/'') s \<and> uploadID = rev (takeWhile (\<lambda>c. c \<noteq> CHR ''/'') (rev (drop 1 path))) \<and>
         server \<noteq> [] \<and> 2 \<le> length middle \<and> CHR 0x0A \<notin> set middle \<and>
         32 \<le> length uploadID \<and> list_all upload_char uploadID)" (is "_ \<longleftrightarrow> ?R")
proof
  assume "located s server uploadID"
  then obtain mid where s: "s = server @ CHR ''/'' # (mid @ ''/'' @ uploadID)" and "server \<noteq> []"
    and slash: "CHR ''/'' \<notin> set server" and mid: "mid \<noteq> []" "CHR 0x0A \<notin> set mid"
    and u: "32 \<le> length uploadID" "list_all upload_char uploadID" by (auto simp: located_def)
  note first = split_at_slash [OF slash, of "mid @ ''/'' @ uploadID", folded s]
  have "rev (takeWhile (\<lambda>c. c \<noteq> CHR ''/'') (rev (mid @ ''/'' @ uploadID))) = uploadID \<and>
      rev (dropWhile (\<lambda>c. c \<noteq> CHR ''/'') (rev (mid @ ''/'' @ uploadID))) = mid @ ''/''"
    using cut_last_slash upload_char_no_slash [OF u(2)] by blast
  with first \<open>server \<noteq> []\<close> mid u show ?R by (cases mid) (simp_all add: Let_def)
next
  assume R: ?R
  let ?path = "dropWhile (\<lambda>c. c \<noteq> CHR ''/'') s"
  have "?path \<noteq> []"
  proof
    assume "?path = []"
    with R show False by (simp add: Let_def del: dropWhile_eq_Nil_conv)
  qed
  note first = cut_first_slash [OF this]
  from R have "rev (dropWhile (\<lambda>c. c \<noteq> CHR ''/'') (rev (drop 1 ?path))) \<noteq> []" by (force simp: Let_def simp del: dropWhile_eq_Nil_conv)
  then obtain m where m: "rev (dropWhile (\<lambda>c. c \<noteq> CHR ''/'') (rev (drop 1 ?path))) = m @ ''/''"
    using last_part_slash by blast
  with R have last: "drop 1 ?path = m @ ''/'' @ uploadID" using cut_last_slash by (metis (no_types, lifting))
  have "2 \<le> length (m @ ''/'')" "CHR 0x0A \<notin> set (m @ ''/'')" using R unfolding Let_def m by blast+
  then have "m \<noteq> []" "CHR 0x0A \<notin> set m" by auto
  moreover have "CHR ''/'' \<notin> set server" using R by (auto simp: Let_def dest: set_takeWhileD)
  moreover have "server \<noteq> []" "32 \<le> length uploadID" "list_all upload_char uploadID" using R unfolding Let_def by blast+
  moreover have "s = server @ ''/'' @ m @ ''/'' @ uploadID" using first R unfolding last Let_def by metis
  ultimately show "located s server uploadID" unfolding located_def by blast
qed

text \<open>Where an upload is. A file location is accepted exactly if it has the form
  scheme, server, path, upload id of the regular expression, with \<open>http\<close> or \<open>https\<close>, a server
  without slashes, a path of at least one character and no line break, and an id of at least
  32 letters, digits or \<open>+_.-\<close>; and the server and id found are the ones of that form.\<close>

theorem upload_location_parsed:
  "parseFilePath p = Some (server, uploadID) \<longleftrightarrow>
     (\<exists>scheme mid. scheme \<in> {''http://'', ''https://''} \<and> p = scheme @ server @ ''/'' @ mid @ ''/'' @ uploadID \<and>
        server \<noteq> [] \<and> CHR ''/'' \<notin> set server \<and> mid \<noteq> [] \<and> CHR 0x0A \<notin> set mid \<and>
        32 \<le> length uploadID \<and> list_all upload_char uploadID)"
proof -
  have "parseFilePath p = Some (server, uploadID) \<longleftrightarrow> (\<exists>s. strip_scheme p = Some s \<and> located s server uploadID)"
    by (auto simp: parseFilePath_def located_iff Let_def split: option.splits)
  then show ?thesis unfolding strip_scheme_iff located_def by auto
qed

end
