(* ===== verification/Drafts.thy ===== *)
theory Drafts
  imports Asynquery
begin

text \<open>
  The life of an asynchronous query (\<open>app/asynquery\<close>): what each transaction does to the
  table, that the orders in which drafts are committed and files arrive all lead to one
  call of the SDK, that the table stays well-formed under all handlers, and what is sent
  to the SDK and shown to clients.
\<close>

section \<open>Transactions\<close>

definition no_faults :: "'w env \<Rightarrow> bool" where
  "no_faults E \<longleftrightarrow> (\<forall>op w. fst (run_state (env_db_fault E op) w) = None)"

text \<open>A transaction touches the table and the state of the services only.\<close>

definition table_only :: "'w world \<Rightarrow> 'w world \<Rightarrow> bool" where
  "table_only s t \<longleftrightarrow> t = s\<lparr>w_ext := w_ext t, w_asynq := w_asynq t\<rparr>"

text \<open>A row as it is created.\<close>

definition fresh_row :: "int \<Rightarrow> string \<Rightarrow> bool \<Rightarrow> rpc_request \<Rightarrow> asynquery \<Rightarrow> bool" where
  "fresh_row userID uploadID ready req r \<longleftrightarrow> r = \<lparr>aq_ID = aq_ID r, aq_UserID = userID, aq_Status = AqReceived,
     aq_Error = [], aq_UploadID = uploadID, aq_Body = Inr req, aq_Response = None,
     aq_ReadyToRun = ready, aq_FileReady = False, aq_FileMeta = None\<rparr>"

definition created :: "int \<Rightarrow> string \<Rightarrow> bool \<Rightarrow> rpc_request \<Rightarrow> asynquery list \<Rightarrow> asynquery list \<Rightarrow> asynquery \<Rightarrow> bool" where
  "created userID uploadID ready req rows rows' r \<longleftrightarrow>
     rows' = rows @ [r] \<and> fresh_row userID uploadID ready req r \<and> aq_ID r \<notin> aq_ID ` set rows"

text \<open>What a request for an upload does when it succeeds: the rows after it, the row it
  returns, and whether the query is put on the queue.\<close>

definition upload_effect ::
  "int \<Rightarrow> string \<Rightarrow> bool \<Rightarrow> rpc_request \<Rightarrow> asynquery list \<Rightarrow> asynquery list \<Rightarrow> asynquery \<Rightarrow> bool \<Rightarrow> bool" where
  "upload_effect userID uploadID deferRun req rows rows' r enq \<longleftrightarrow> (case newest (upload_row userID uploadID) rows of
     None \<Rightarrow> created userID uploadID (\<not> deferRun) req rows rows' r \<and> \<not> enq
   | Some old \<Rightarrow>
       if \<not> deferRun \<and> aq_Status old = AqFailed then created userID uploadID True req rows rows' r \<and> \<not> enq
       else if \<not> deferRun \<and> aq_Status old = AqReceived \<and> \<not> aq_ReadyToRun old then
         rows' = update_rows (aq_ID old) (\<lambda>x. x\<lparr>aq_Body := Inr req, aq_ReadyToRun := True\<rparr>) rows \<and>
         r = old\<lparr>aq_Body := Inr req, aq_ReadyToRun := True\<rparr> \<and> enq = aq_FileReady old
       else rows' = rows \<and> r = old \<and> \<not> enq)"

definition merge_effect ::
  "int \<Rightarrow> string \<Rightarrow> upload_meta \<Rightarrow> asynquery list \<Rightarrow> asynquery list \<Rightarrow> asynquery \<Rightarrow> bool \<Rightarrow> bool" where
  "merge_effect userID uploadID meta rows rows' r fire \<longleftrightarrow> (case newest (upload_row userID uploadID) rows of
     None \<Rightarrow> False
   | Some old \<Rightarrow>
       if \<not> aq_ReadyToRun old then
         rows' = update_rows (aq_ID old) (\<lambda>x. x\<lparr>aq_FileReady := True, aq_FileMeta := Some (Inr meta)\<rparr>) rows \<and>
         r = old\<lparr>aq_FileReady := True, aq_FileMeta := Some (Inr meta)\<rparr> \<and> \<not> fire
       else rows' = rows \<and> r = old \<and> fire = (aq_Status old \<noteq> AqSucceeded))"

lemma fresh_rowD:
  assumes "fresh_row u i ready req r"
  shows "aq_UserID r = u" "aq_UploadID r = i" "aq_Status r = AqReceived" "aq_Error r = []" "aq_Body r = Inr req"
    "aq_Response r = None" "aq_ReadyToRun r = ready" "\<not> aq_FileReady r" "aq_FileMeta r = None" "upload_row u i r"
  using assms by (cases r; simp add: fresh_row_def upload_row_def)+

lemma table_only_refl [simp]: "table_only s s"
  by (simp add: table_only_def)

lemma table_only_upd [simp]:
  "table_only s t \<Longrightarrow> table_only s (t\<lparr>w_ext := x\<rparr>)" "table_only s t \<Longrightarrow> table_only s (t\<lparr>w_asynq := rows\<rparr>)"
  unfolding table_only_def by (cases s; cases t; simp)+

lemmas tx_defs = db_fault_def commit_def restore_def createQueryRecord_def insert_query_def create_in_tx_def
  commit_draft_def upload_tx_def lock_user_def callUploadTx_def store_meta_def handleMergeTx_def

lemma commit_run:
  assumes "run_state (commit E saved v) s = (r, t)" "table_only s0 s"
  shows "table_only s0 t \<and> (case r of Ok v' \<Rightarrow> v' = v \<and> w_asynq t = w_asynq s | Err _ \<Rightarrow> w_asynq t = saved | Panic _ \<Rightarrow> False)"
  using assms by (auto simp: commit_def restore_def db_fault_def split: option.splits)

lemma create_in_tx_run:
  assumes "run_state (create_in_tx E saved p req) s = (r, t)" "table_only s0 s"
  shows "table_only s0 t \<and> (case r of
     Ok (a, enq) \<Rightarrow> created (qp_userID p) (qp_uploadID p) (qp_readyToRun p) req (w_asynq s) (w_asynq t) a \<and> \<not> enq
   | Err _ \<Rightarrow> w_asynq t = saved | Panic _ \<Rightarrow> False)"
  using assms
  by (auto simp: create_in_tx_def createQueryRecord_def insert_query_def db_fault_def restore_def created_def fresh_row_def
      Let_def split: option.splits if_splits dest!: commit_run split: res.splits)

lemma callUploadTx_run:
  assumes "run_state (callUploadTx E u i d req) s = (r, t)"
  shows "table_only s t \<and> (case r of
     Ok (a, enq) \<Rightarrow> upload_effect u i d req (w_asynq s) (w_asynq t) a enq
   | Err _ \<Rightarrow> w_asynq t = w_asynq s | Panic _ \<Rightarrow> False)"
  using assms
  by (auto simp: callUploadTx_def lock_user_def db_fault_def restore_def upload_tx_def commit_draft_def upload_effect_def
      split: option.splits if_splits dest!: commit_run create_in_tx_run split: res.splits)

lemma handleMergeTx_run:
  assumes "run_state (handleMergeTx E i u m) s = (r, t)"
  shows "table_only s t \<and> (case r of
     Ok (a, fire) \<Rightarrow> merge_effect u i m (w_asynq s) (w_asynq t) a fire
   | Err _ \<Rightarrow> w_asynq t = w_asynq s | Panic _ \<Rightarrow> False)"
  using assms
  by (auto simp: handleMergeTx_def store_meta_def db_fault_def restore_def merge_effect_def
      split: option.splits if_splits dest!: commit_run split: res.splits)

section \<open>Rows and their updates\<close>

lemma find_map: "List.find P (map g xs) = map_option g (List.find (P \<circ> g) xs)"
  by (induction xs) auto

lemma newest_update:
  assumes "\<And>r. P (f r) = P r"
  shows "newest P (update_rows k f rows) = map_option (\<lambda>r. if aq_ID r = k then f r else r) (newest P rows)"
proof -
  have "P \<circ> (\<lambda>r. if aq_ID r = k then f r else r) = P" by (rule ext) (simp add: assms)
  then show ?thesis by (simp add: newest_def update_rows_def rev_map find_map)
qed

lemma newest_in: "newest P rows = Some r \<Longrightarrow> r \<in> set rows \<and> P r"
  unfolding newest_def find_Some_iff by (metis length_rev nth_mem set_rev)

lemma upload_row_upd [simp]:
  "upload_row u i (r\<lparr>aq_Body := b\<rparr>) = upload_row u i r" "upload_row u i (r\<lparr>aq_ReadyToRun := c\<rparr>) = upload_row u i r"
  "upload_row u i (r\<lparr>aq_FileReady := c\<rparr>) = upload_row u i r" "upload_row u i (r\<lparr>aq_FileMeta := m\<rparr>) = upload_row u i r"
  by (simp_all add: upload_row_def)

lemma update_rows_ids [simp]:
  assumes "\<And>r. aq_ID (f r) = aq_ID r"
  shows "map aq_ID (update_rows k f rows) = map aq_ID rows"
  using assms by (simp add: update_rows_def)

lemma length_update_rows [simp]: "length (update_rows k f rows) = length rows"
  by (simp add: update_rows_def)

text \<open>With unique ids, updating a row of one upload leaves the rows of the others alone.\<close>

lemma others_update:
  assumes "distinct (map aq_ID rows)" "old \<in> set rows" "P old" "\<And>r. P (f r) = P r"
  shows "filter (\<lambda>r. \<not> P r) (update_rows (aq_ID old) f rows) = filter (\<lambda>r. \<not> P r) rows"
proof -
  have "(if aq_ID r = aq_ID old then f r else r) = r" if "r \<in> set rows" "\<not> P r" for r
    using that assms(1-3) by (metis (no_types, lifting) distinct_map inj_onD)
  then have "filter (\<lambda>r. \<not> P r) (update_rows (aq_ID old) f xs) = filter (\<lambda>r. \<not> P r) xs" if "set xs \<subseteq> set rows" for xs
    using that assms(4) by (induction xs) (auto simp: update_rows_def)
  then show ?thesis by simp
qed

section \<open>Orders of events\<close>

text \<open>The events about one upload of one user: a request as a draft, a request to be run, and
  the report of the upload service. Each runs its transaction; the flag says whether the
  query is sent on its way (put on the queue, or sent by the handler itself).\<close>

datatype aq_event = Defer rpc_request | Commit rpc_request | Uploaded upload_meta

definition event_tx :: "'w env \<Rightarrow> int \<Rightarrow> string \<Rightarrow> aq_event \<Rightarrow> ('w, (asynquery \<times> bool) res) io" where
  "event_tx E u i ev = (case ev of
     Defer req \<Rightarrow> callUploadTx E u i True req
   | Commit req \<Rightarrow> callUploadTx E u i False req
   | Uploaded meta \<Rightarrow> handleMergeTx E i u meta)"

primrec run_events :: "'w env \<Rightarrow> int \<Rightarrow> string \<Rightarrow> aq_event list \<Rightarrow> ('w, bool list) io" where
  "run_events E u i [] = State_Monad.return []"
| "run_events E u i (ev # evs) = do {
     r \<leftarrow> event_tx E u i ev;
     bs \<leftarrow> run_events E u i evs;
     State_Monad.return ((case r of Ok (_, b) \<Rightarrow> b | _ \<Rightarrow> False) # bs)
   }"

text \<open>The protocol the rows implement: two facts, that the query may run and that the file has
  arrived before that.\<close>

fun triggers :: "bool \<Rightarrow> bool \<Rightarrow> aq_event list \<Rightarrow> bool list" where
  "triggers ready filed [] = []"
| "triggers ready filed (Defer _ # es) = False # triggers ready filed es"
| "triggers ready filed (Commit _ # es) = (\<not> ready \<and> filed) # triggers True filed es"
| "triggers ready filed (Uploaded _ # es) = ready # triggers ready (filed \<or> \<not> ready) es"

fun first_commit :: "aq_event list \<Rightarrow> rpc_request option" where
  "first_commit [] = None"
| "first_commit (Commit req # es) = Some req"
| "first_commit (_ # es) = first_commit es"

lemma no_faultsD: "no_faults E \<Longrightarrow> fst (run_state (env_db_fault E op) w) = None"
  by (simp add: no_faults_def)

lemma event_tx_ok:
  assumes "no_faults E" "u |\<in>| fmdom (w_users s)" "newest (upload_row u i) (w_asynq s) = Some aq" "aq_Status aq = AqReceived"
    "run_state (event_tx E u i ev) s = (r, t)"
  shows "(\<exists>a b. r = Ok (a, b)) \<and> table_only s t"
proof -
  have "\<exists>a b. r = Ok (a, b)"
    using assms by (cases ev) (auto simp: event_tx_def tx_defs no_faultsD split: if_splits)
  moreover have "table_only s t"
    using assms(5) by (cases ev) (auto simp: event_tx_def dest: callUploadTx_run handleMergeTx_run)
  ultimately show ?thesis by blast
qed

lemma event_tx_step:
  assumes "no_faults E" "u |\<in>| fmdom (w_users s)" "newest (upload_row u i) (w_asynq s) = Some aq" "aq_Status aq = AqReceived"
    "run_state (event_tx E u i ev) s = (r, t)"
  shows "\<exists>a b aq'. r = Ok (a, b) \<and> w_users t = w_users s \<and> newest (upload_row u i) (w_asynq t) = Some aq' \<and>
    aq_ID aq' = aq_ID aq \<and> aq_Status aq' = AqReceived \<and> length (w_asynq t) = length (w_asynq s) \<and>
    [b] = triggers (aq_ReadyToRun aq) (aq_FileReady aq) [ev] \<and>
    (case ev of
       Defer _ \<Rightarrow> aq' = aq
     | Commit req \<Rightarrow> aq' = (if aq_ReadyToRun aq then aq else aq\<lparr>aq_Body := Inr req, aq_ReadyToRun := True\<rparr>)
     | Uploaded m \<Rightarrow> aq' = (if aq_ReadyToRun aq then aq else aq\<lparr>aq_FileReady := True, aq_FileMeta := Some (Inr m)\<rparr>))"
proof -
  from event_tx_ok [OF assms] obtain a b where r: "r = Ok (a, b)" and frame: "table_only s t" by blast
  from frame have users: "w_users t = w_users s" unfolding table_only_def by (cases s; cases t) simp
  show ?thesis
  proof (cases ev)
    case (Defer req)
    with assms(5) r have "upload_effect u i True req (w_asynq s) (w_asynq t) a b"
      by (auto simp: event_tx_def dest: callUploadTx_run)
    with Defer assms(3,4) r users show ?thesis by (auto simp: upload_effect_def)
  next
    case (Commit req)
    with assms(5) r have "upload_effect u i False req (w_asynq s) (w_asynq t) a b"
      by (auto simp: event_tx_def dest: callUploadTx_run)
    with Commit assms(3,4) r users show ?thesis
      by (auto simp: upload_effect_def newest_update split: if_splits)
  next
    case (Uploaded m)
    with assms(5) r have "merge_effect u i m (w_asynq s) (w_asynq t) a b"
      by (auto simp: event_tx_def dest: handleMergeTx_run)
    with Uploaded assms(3,4) r users show ?thesis
      by (auto simp: merge_effect_def newest_update split: if_splits)
  qed
qed

text \<open>The transactions refine the protocol: the flags of a run are those of the protocol.\<close>

lemma run_events_refine:
  assumes "no_faults E"
  shows "u |\<in>| fmdom (w_users s) \<Longrightarrow> newest (upload_row u i) (w_asynq s) = Some aq \<Longrightarrow> aq_Status aq = AqReceived \<Longrightarrow>
    run_state (run_events E u i es) s = (bs, t) \<Longrightarrow>
    bs = triggers (aq_ReadyToRun aq) (aq_FileReady aq) es \<and> length (w_asynq t) = length (w_asynq s) \<and>
    (\<exists>aq'. newest (upload_row u i) (w_asynq t) = Some aq' \<and> aq_ID aq' = aq_ID aq \<and> aq_Status aq' = AqReceived \<and>
      aq_ReadyToRun aq' = (aq_ReadyToRun aq \<or> first_commit es \<noteq> None) \<and>
      aq_Body aq' = (case first_commit es of Some req \<Rightarrow> if aq_ReadyToRun aq then aq_Body aq else Inr req | None \<Rightarrow> aq_Body aq))"
proof (induction es arbitrary: s aq bs)
  case Nil
  then show ?case by simp
next
  case (Cons ev es)
  obtain r s1 where ev: "run_state (event_tx E u i ev) s = (r, s1)" by fastforce
  obtain bs' where rest: "run_state (run_events E u i es) s1 = (bs', t)" and bs: "bs = (case r of Ok (_, b) \<Rightarrow> b | _ \<Rightarrow> False) # bs'"
    using Cons.prems(4) ev by (auto split: prod.splits)
  from event_tx_step [OF assms Cons.prems(1-3) ev] obtain a b aq' where
    r: "r = Ok (a, b)" and s1: "w_users s1 = w_users s" "newest (upload_row u i) (w_asynq s1) = Some aq'"
      "aq_ID aq' = aq_ID aq" "aq_Status aq' = AqReceived" "length (w_asynq s1) = length (w_asynq s)"
    and b: "[b] = triggers (aq_ReadyToRun aq) (aq_FileReady aq) [ev]"
    and aq': "case ev of
       Defer _ \<Rightarrow> aq' = aq
     | Commit req \<Rightarrow> aq' = (if aq_ReadyToRun aq then aq else aq\<lparr>aq_Body := Inr req, aq_ReadyToRun := True\<rparr>)
     | Uploaded m \<Rightarrow> aq' = (if aq_ReadyToRun aq then aq else aq\<lparr>aq_FileReady := True, aq_FileMeta := Some (Inr m)\<rparr>)"
    by blast
  from s1 Cons.prems(1) have "u |\<in>| fmdom (w_users s1)" by simp
  note IH = Cons.IH [OF this s1(2,4) rest]
  show ?case using IH r s1 b aq' bs by (cases ev) (auto split: if_splits option.splits)
qed

text \<open>One report of the upload service leads to one call, if the query is ever committed.\<close>

definition no_upload :: "aq_event list \<Rightarrow> bool" where
  "no_upload es \<longleftrightarrow> (\<forall>m. Uploaded m \<notin> set es)"

lemma triggers_append:
  "no_upload es \<Longrightarrow> triggers r f (es @ es') = triggers r f es @ triggers (r \<or> first_commit es \<noteq> None) f es'"
  by (induction r f es rule: triggers.induct) (auto simp: no_upload_def)

lemma triggers_none:
  "no_upload es \<Longrightarrow> r \<or> \<not> f \<Longrightarrow> filter id (triggers r f es) = []"
  by (induction r f es rule: triggers.induct) (auto simp: no_upload_def)

lemma triggers_filed:
  "no_upload es \<Longrightarrow> length (filter id (triggers False True es)) = (if first_commit es = None then 0 else 1)"
  by (induction es rule: first_commit.induct) (auto simp: no_upload_def triggers_none)

lemma triggers_filed_none:
  "no_upload es \<Longrightarrow> first_commit es = None \<Longrightarrow> filter id (triggers False True es) = []"
  using triggers_filed [of es] by simp

text \<open>C14: exactly one call per upload, in whatever order things happen. Take a query as it is
  created, as a draft or to be run, and any sequence of further draft requests, requests to
  run it and one report of the upload service, in any order. Without database faults every
  transaction succeeds, no further row is made for the upload, and the query is sent on its
  way exactly once if it was to be run from the start or was committed at some point, and
  never otherwise; what is sent is the request first committed.\<close>

theorem one_call_per_upload:
  assumes "no_faults E" and "u |\<in>| fmdom (w_users s)" and "newest (upload_row u i) (w_asynq s) = Some aq"
    and "aq_Status aq = AqReceived" and "\<not> aq_FileReady aq"
    and "no_upload pre" and "no_upload post"
    and "run_state (run_events E u i (pre @ Uploaded m # post)) s = (bs, t)"
  shows "length (filter id bs) = (if aq_ReadyToRun aq \<or> first_commit (pre @ post) \<noteq> None then 1 else 0) \<and>
    length (w_asynq t) = length (w_asynq s) \<and>
    (\<exists>aq'. newest (upload_row u i) (w_asynq t) = Some aq' \<and> aq_ID aq' = aq_ID aq \<and>
      aq_Body aq' = (case first_commit (pre @ post) of
        Some req \<Rightarrow> if aq_ReadyToRun aq then aq_Body aq else Inr req | None \<Rightarrow> aq_Body aq))"
proof -
  have fc: "first_commit (pre @ Uploaded m # post) = first_commit (pre @ post)"
    by (induction pre rule: first_commit.induct) auto
  have "first_commit (pre @ post) = (if first_commit pre = None then first_commit post else first_commit pre)"
    by (induction pre rule: first_commit.induct) auto
  note run = run_events_refine [OF assms(1-4,8), unfolded fc]
  then have "length (filter id bs) = (if aq_ReadyToRun aq \<or> first_commit (pre @ post) \<noteq> None then 1 else 0)"
    using assms(5-7) \<open>first_commit (pre @ post) = _\<close>
    by (simp add: triggers_append triggers_none triggers_filed triggers_filed_none)
  with run show ?thesis by blast
qed

definition sample_meta :: upload_meta where
  "sample_meta = \<lparr>um_Size = 10, um_FileName = ''a.mp4'', um_SDHash = ''sd'', um_MIME = ''video/mp4'', um_Extension = ''.mp4'',
     um_Hash = ''h'', um_Duration = 1, um_Width = 0, um_Height = 0\<rparr>"

definition sample_request :: rpc_request where
  "sample_request = \<lparr>req_Method = ''stream_create'', req_Params = JObj (fmap_of_list [(''file_path'', JStr ''f'')]),
     req_ID = 1, req_JSONRPC = ''2.0''\<rparr>"

definition sample_row :: asynquery where
  "sample_row = \<lparr>aq_ID = ''q'', aq_UserID = 7, aq_Status = AqReceived, aq_Error = [], aq_UploadID = ''u'',
     aq_Body = Inr sample_request, aq_Response = None, aq_ReadyToRun = False, aq_FileReady = False, aq_FileMeta = None\<rparr>"

definition draft_world :: "unit world" where
  "draft_world = linked_world\<lparr>w_asynq := [sample_row]\<rparr>"

theorem one_call_per_upload_witness:
  "\<exists>bs t. run_state (run_events quiet_env 7 ''u'' ([] @ Uploaded sample_meta # [Commit sample_request, Defer sample_request]))
     draft_world = (bs, t) \<and> length (filter id bs) = 1"
proof -
  have new: "newest (upload_row 7 ''u'') (w_asynq draft_world) = Some sample_row"
    by (simp add: newest_def upload_row_def draft_world_def sample_row_def)
  have nf: "no_faults quiet_env" by (simp add: no_faults_def quiet_env_def)
  have known: "(7::int) |\<in>| fmdom (w_users draft_world)" by (simp add: draft_world_def linked_world_def quiet_world_def)
  obtain bs t where run: "run_state (run_events quiet_env 7 ''u'' ([] @ Uploaded sample_meta #
      [Commit sample_request, Defer sample_request])) draft_world = (bs, t)" by fastforce
  have "length (filter id bs) = 1"
    using one_call_per_upload [OF nf known new _ _ _ _ run] by (simp add: no_upload_def sample_row_def)
  with run show ?thesis by blast
qed

section \<open>Failed transactions\<close>

text \<open>C18: a transaction is all or nothing, and keeps to its upload. Whatever statement fails in
  the transaction of a request or of an upload report, the table is then what it was; and
  whether it succeeds or not, the rows of other users and of other uploads are untouched,
  nothing is put on the queue and no SDK is called.\<close>

theorem upload_transactions_atomic:
  assumes "distinct (map aq_ID (w_asynq s))"
    and "m \<in> {callUploadTx E u i d req, handleMergeTx E i u meta}" and "run_state m s = (r, t)"
  shows "((\<forall>x. r \<noteq> Ok x) \<longrightarrow> w_asynq t = w_asynq s) \<and>
    filter (\<lambda>a. \<not> upload_row u i a) (w_asynq t) = filter (\<lambda>a. \<not> upload_row u i a) (w_asynq s) \<and>
    w_tasks t = w_tasks s \<and> w_sent t = w_sent s"
proof -
  have frame: "w_tasks t = w_tasks s \<and> w_sent t = w_sent s" if "table_only s t"
    using that unfolding table_only_def by (cases s; cases t) simp
  note others = others_update [where P = "upload_row u i", OF assms(1)]
  from assms(2) consider "m = callUploadTx E u i d req" | "m = handleMergeTx E i u meta" by blast
  then show ?thesis
  proof cases
    case 1
    with assms(3) have run: "run_state (callUploadTx E u i d req) s = (r, t)" by simp
    have "filter (\<lambda>a. \<not> upload_row u i a) (w_asynq t) = filter (\<lambda>a. \<not> upload_row u i a) (w_asynq s)"
      if "upload_effect u i d req (w_asynq s) (w_asynq t) a enq" for a enq
      using that others by (auto simp: upload_effect_def created_def fresh_rowD(10)
          dest!: newest_in split: option.splits if_splits)
    with callUploadTx_run [OF run] frame show ?thesis by (auto split: res.splits)
  next
    case 2
    with assms(3) have run: "run_state (handleMergeTx E i u meta) s = (r, t)" by simp
    have "filter (\<lambda>a. \<not> upload_row u i a) (w_asynq t) = filter (\<lambda>a. \<not> upload_row u i a) (w_asynq s)"
      if "merge_effect u i meta (w_asynq s) (w_asynq t) a fire" for a fire
      using that others by (auto simp: merge_effect_def dest!: newest_in split: option.splits if_splits)
    with handleMergeTx_run [OF run] frame show ?thesis by (auto split: res.splits)
  qed
qed

text \<open>Committing a draft when the database fails at the end.\<close>

definition commit_fails :: "unit env" where
  "commit_fails = quiet_env\<lparr>env_db_fault := (\<lambda>op. State_Monad.return (if op = DbCommit then Some (Plain ''gone'') else None))\<rparr>"

theorem upload_transactions_atomic_witness:
  "w_asynq (snd (run_state (callUploadTx commit_fails 7 ''u'' False sample_request) draft_world)) = [sample_row]"
proof -
  let ?m = "callUploadTx commit_fails 7 ''u'' False sample_request"
  have d: "distinct (map aq_ID (w_asynq draft_world))" by (simp add: draft_world_def)
  have err: "\<forall>x. fst (run_state ?m draft_world) \<noteq> Ok x"
    by (simp add: tx_defs commit_fails_def draft_world_def linked_world_def quiet_world_def newest_def upload_row_def sample_row_def)
  from upload_transactions_atomic [OF d _ surjective_pairing, of ?m commit_fails 7 "''u''" False sample_request sample_meta] err
  show ?thesis by (simp add: draft_world_def)
qed

end
