(* ===== verification/AsyncCalls.thy ===== *)
theory AsyncCalls
  imports Drafts
begin

text \<open>
  The handlers of \<open>app/asynquery\<close> as wholes: the table stays well-formed under all of them,
  the request that reaches the SDK is the one that was committed, completed by the metadata
  of the upload and confined to the user's wallet, and a client sees its own queries only.
\<close>

section \<open>What SendQuery leaves alone\<close>

text \<open>A property of the state that does not depend on the services, the users, the log of
  requests and the reports to Sentry is kept by \<open>SendQuery\<close>.\<close>

locale sdk_frame =
  fixes P :: "'w world \<Rightarrow> bool"
  assumes upd_ext: "P s \<Longrightarrow> P (s\<lparr>w_ext := x\<rparr>)"
    and upd_users: "P s \<Longrightarrow> P (s\<lparr>w_users := u\<rparr>)"
    and upd_aborted: "P s \<Longrightarrow> P (s\<lparr>w_aborted := b\<rparr>)"
    and upd_sent: "P s \<Longrightarrow> P (s\<lparr>w_sent := l\<rparr>)"
    and upd_sentry: "P s \<Longrightarrow> P (s\<lparr>w_sentry := e\<rparr>)"
begin

lemma kept_ext: "valid P (ext m) (\<lambda>_. P)"
  by (rule valid_ext) (rule upd_ext)

lemma kept_CallRaw: "valid P (CallRaw E ep r) (\<lambda>_. P)"
  unfolding CallRaw_def by (intro valid_bind_keep valid_modify kept_ext upd_sent)

lemma kept_stmt: "valid P body (\<lambda>_. P) \<Longrightarrow> valid P (stmt E x op body) (\<lambda>_. P)"
  unfolding stmt_def
  by (intro io_intro kept_ext valid_modify upd_users) (auto intro: upd_aborted valid_modify)

lemma kept_getDBUser: "valid P (getDBUser E x k) (\<lambda>_. P)"
  unfolding getDBUser_def by (intro io_intro kept_stmt)

lemma kept_DeleteUser: "valid P (DeleteUser E i) (\<lambda>_. P)"
  unfolding DeleteUser_def deleteDBUser_def
  by (intro io_intro kept_stmt kept_getDBUser valid_modify upd_users)

lemma kept_LoadWallet: "valid P (LoadWallet E a i) (\<lambda>_. P)"
  unfolding LoadWallet_def by (intro io_intro kept_ext)

lemma kept_give_up: "valid P (give_up_wallet E c) (\<lambda>_. P)"
  unfolding give_up_wallet_def ErrorToSentry_def by (intro io_intro kept_DeleteUser valid_modify upd_sentry)

lemma kept_send_loop: "valid P (send_loop n E c q prev) (\<lambda>_. P)"
proof (induction n arbitrary: prev)
  case (Suc n)
  show ?case
    by (simp only: send_loop.simps) (intro io_intro kept_CallRaw kept_LoadWallet kept_give_up Suc.IH)
qed (simp add: valid_return)

lemma kept_run_postflight: "valid P (run_postflight E f r) (\<lambda>_. P)"
  unfolding run_postflight_def postClaimSearchArfleetThumbs_def postResolveArfleetThumbs_def LogQuery_def Let_def
  by (cases f; simp only: postflight_fn.case; intro io_intro kept_ext)

lemma kept_postflight: "valid P (postflight E m hs r) (\<lambda>_. P)"
  by (induction hs arbitrary: r) (simp_all only: postflight.simps, (intro io_intro kept_run_postflight; assumption)+)

lemma kept_SendQuery: "valid P (SendQuery E c q) (\<lambda>_. P)"
  unfolding SendQuery_def by (intro io_intro kept_send_loop kept_postflight)

end

definition rows_are :: "asynquery list \<Rightarrow> 'w world \<Rightarrow> bool" where
  "rows_are rows s \<longleftrightarrow> w_asynq s = rows"

interpretation rows: sdk_frame "rows_are A" for A :: "asynquery list"
  by unfold_locales (simp_all add: rows_are_def)

section \<open>Calls for the methods of asynchronous queries\<close>

lemma allowed_methods: "isMethodAllowed m \<longleftrightarrow> m = ''stream_create'' \<or> m = ''stream_update''"
  by (auto simp: isMethodAllowed_def method_names)

lemma allowed_needs_wallet: "isMethodAllowed m \<Longrightarrow> MethodRequiresWallet m"
  by (auto simp: allowed_methods MethodRequiresWallet_def methodInList_def relaxedMethods_def method_names)

text \<open>No built-in hook is for these methods.\<close>

lemma no_hooks:
  assumes "isMethodAllowed (q_Method q)"
  shows "preflight E c cu (c_preflightHooks (NewCaller E ep u)) q = State_Monad.return (Ok (None, q))"
  using assms
  by (auto simp: allowed_methods NewCaller_def addDefaultHooks_def AddPreflightHook_def AddPostflightHook_def hook_def
      isMatchingHook_def method_names HasPrefix_def Let_def)

lemma Call_stream:
  assumes "isMethodAllowed (req_Method req)"
  shows "Call E (NewCaller E ep u) cu req = (
    if c_endpoint (NewCaller E ep u) = [] then State_Monad.return (Err (Err_str ''cannot call blank endpoint''))
    else (case NewQuery req (call_wallet (NewCaller E ep u)) of
      Err e \<Rightarrow> State_Monad.return (Err e) | Panic m \<Rightarrow> State_Monad.return (Panic m)
    | Ok q \<Rightarrow> SendQuery E (NewCaller E ep u) q))"
  using assms NewQuery_cases(2) [of req "call_wallet (NewCaller E ep u)"]
  by (auto simp: Call_def no_hooks split: res.splits)

lemma rows_Call:
  "isMethodAllowed (req_Method req) \<Longrightarrow> valid (rows_are A) (Call E (NewCaller E ep u) cu req) (\<lambda>_. rows_are A)"
  by (simp only: Call_stream) (intro io_intro rows.kept_SendQuery)

section \<open>Well-formed tables\<close>

text \<open>A row holds a request for an allowed method with an object of parameters and no \<open>_defer\<close>;
  its status agrees with its response and error.\<close>

definition body_ok :: "go_error + rpc_request \<Rightarrow> bool" where
  "body_ok b \<longleftrightarrow> (\<exists>req p. b = Inr req \<and> isMethodAllowed (req_Method req) \<and> req_Params req = JObj p \<and>
     fmlookup p DeferParam = None)"

definition outcome_ok :: "asynquery \<Rightarrow> bool" where
  "outcome_ok r \<longleftrightarrow> (case aq_Status r of
     AqReceived \<Rightarrow> aq_Response r = None \<and> aq_Error r = []
   | AqSucceeded \<Rightarrow> (\<exists>y. aq_Response r = Some y \<and> res_Error y = None) \<and> aq_Error r = []
   | AqFailed \<Rightarrow> (\<forall>y. aq_Response r = Some y \<longrightarrow> res_Error y \<noteq> None \<or> aq_Error r \<noteq> [])
   | _ \<Rightarrow> False)"

definition row_ok :: "asynquery \<Rightarrow> bool" where
  "row_ok r \<longleftrightarrow> body_ok (aq_Body r) \<and> outcome_ok r"

definition table_ok :: "asynquery list \<Rightarrow> bool" where
  "table_ok rows \<longleftrightarrow> distinct (map aq_ID rows) \<and> (\<forall>r \<in> set rows. row_ok r)"

lemma table_ok_update:
  assumes "table_ok rows" "\<And>r. r \<in> set rows \<Longrightarrow> aq_ID r = k \<Longrightarrow> row_ok (f r) \<and> aq_ID (f r) = k"
  shows "table_ok (update_rows k f rows)"
proof -
  have "map aq_ID (update_rows k f rows) = map aq_ID rows" using assms(2) by (auto simp: update_rows_def)
  moreover have "row_ok r" if "r \<in> set (update_rows k f rows)" for r
    using that assms by (auto simp: update_rows_def table_ok_def split: if_splits)
  ultimately show ?thesis using assms(1) by (simp add: table_ok_def)
qed

lemma table_ok_created:
  "table_ok rows \<Longrightarrow> created u i ready req rows rows' r \<Longrightarrow> body_ok (Inr req) \<Longrightarrow> table_ok rows'"
  by (auto simp: created_def table_ok_def row_ok_def outcome_ok_def fresh_rowD)

lemma table_ok_upload:
  assumes ok: "table_ok rows" and eff: "upload_effect u i d req rows rows' a enq" and body: "body_ok (Inr req)"
  shows "table_ok rows'"
proof -
  have "table_ok (update_rows k (\<lambda>x. x\<lparr>aq_Body := Inr req, aq_ReadyToRun := True\<rparr>) rows)" for k
    by (rule table_ok_update [OF ok]) (use ok body in \<open>auto simp: table_ok_def row_ok_def outcome_ok_def split: aq_status.splits\<close>)
  with ok eff body show ?thesis
    by (auto simp: upload_effect_def intro: table_ok_created split: option.splits if_splits)
qed

lemma table_ok_merge:
  assumes ok: "table_ok rows" and eff: "merge_effect u i m rows rows' a fire"
  shows "table_ok rows'"
proof -
  have "table_ok (update_rows k (\<lambda>x. x\<lparr>aq_FileReady := True, aq_FileMeta := Some (Inr m)\<rparr>) rows)" for k
    by (rule table_ok_update [OF ok]) (use ok in \<open>auto simp: table_ok_def row_ok_def outcome_ok_def split: aq_status.splits\<close>)
  with ok eff show ?thesis by (auto simp: merge_effect_def split: option.splits if_splits)
qed

lemma merge_fires_row:
  "merge_effect u i m rows rows' a True \<Longrightarrow>
     a \<in> set rows \<and> upload_row u i a \<and> aq_ReadyToRun a \<and> aq_Status a \<noteq> AqSucceeded \<and> rows' = rows"
  by (auto simp: merge_effect_def dest: newest_in split: option.splits if_splits)

lemma merge_fires_ok: "merge_effect u i m rows rows' a True \<Longrightarrow> table_ok rows \<Longrightarrow> row_ok a"
  by (auto simp: table_ok_def dest: merge_fires_row)

section \<open>Every handler keeps the table well-formed\<close>

definition tables :: "'w world \<Rightarrow> bool" where
  "tables s \<longleftrightarrow> table_ok (w_asynq s)"

lemma tables_upd [simp]:
  "tables (s\<lparr>w_ext := x\<rparr>) = tables s" "tables (s\<lparr>w_tasks := ts\<rparr>) = tables s"
  "tables (s\<lparr>w_users := u\<rparr>) = tables s" "tables (s\<lparr>w_sentry := e\<rparr>) = tables s"
  "tables (s\<lparr>w_aborted := b\<rparr>) = tables s" "tables (s\<lparr>w_sent := l\<rparr>) = tables s"
  by (simp_all add: tables_def)

interpretation tables: sdk_frame tables
  by unfold_locales simp_all

lemma getQueryRecord_run:
  assumes "run_state (getQueryRecord E p) s = (r, t)"
  shows "(\<exists>x. t = s\<lparr>w_ext := x\<rparr>) \<and> (\<forall>a. r = Ok a \<longrightarrow> a \<in> set (w_asynq s) \<and>
    (qp_queryID p \<noteq> [] \<longrightarrow> aq_ID a = qp_queryID p) \<and> (qp_userID p > 0 \<longrightarrow> aq_UserID a = qp_userID p))"
proof -
  from assms have "\<exists>x. t = s\<lparr>w_ext := x\<rparr>" by (auto simp: getQueryRecord_def db_fault_def)
  moreover have "a \<in> set (w_asynq s) \<and>
    (qp_queryID p \<noteq> [] \<longrightarrow> aq_ID a = qp_queryID p) \<and> (qp_userID p > 0 \<longrightarrow> aq_UserID a = qp_userID p)" if "r = Ok a" for a
    using assms that by (auto simp: getQueryRecord_def db_fault_def dest!: newest_in split: option.splits prod.splits)
  ultimately show ?thesis by blast
qed

lemma tables_getQueryRecord:
  "valid tables (getQueryRecord E p) (\<lambda>r s. tables s \<and> (\<forall>a. r = Ok a \<longrightarrow> row_ok a))"
  by (rule validI) (fastforce dest!: getQueryRecord_run simp: tables_def table_ok_def)

lemma tables_finalize: "valid tables (finalizeQueryRecord E i resp err) (\<lambda>_. tables)"
  unfolding finalizeQueryRecord_def Let_def
proof (rule valid_bind [OF tables_getQueryRecord], rule valid_res)
  fix r :: "asynquery res" and q :: asynquery assume r: "r = Ok q"
  show "valid (\<lambda>s. tables s \<and> (\<forall>a. r = Ok a \<longrightarrow> row_ok a))
     (do {
        f \<leftarrow> db_fault E DbUpdateQuery;
        (case f of
           Some e \<Rightarrow> State_Monad.return (Some (Wrapped ''error updating async query record'' e))
         | None \<Rightarrow> do {
             modify (\<lambda>s. s\<lparr>w_asynq := update_rows (aq_ID q) (\<lambda>_. q\<lparr>aq_Response := resp, aq_Error := err,
               aq_Status := (if (case resp of None \<Rightarrow> True | Some x \<Rightarrow> res_Error x \<noteq> None \<or> err \<noteq> []) then AqFailed else AqSucceeded)\<rparr>)
               (w_asynq s)\<rparr>);
             State_Monad.return None
           })
      }) (\<lambda>_. tables)"
    using r by (auto simp: valid_def db_fault_def tables_def row_ok_def outcome_ok_def intro!: table_ok_update split: option.splits)
qed (auto intro: valid_return)

lemma tables_record_outcome: "valid tables (record_outcome E aq out) (\<lambda>_. tables)"
  unfolding record_outcome_def ErrorToSentry_def
  by (intro io_intro valid_modify tables_finalize) simp_all

lemma tables_Call:
  "isMethodAllowed (req_Method req) \<Longrightarrow> valid tables (Call E (NewCaller E ep u) cu req) (\<lambda>_. tables)"
  by (simp only: Call_stream) (intro io_intro tables.kept_SendQuery)

lemma tables_load_aq_user: "valid tables (load_aq_user E u) (\<lambda>_. tables)"
  unfolding load_aq_user_def by (intro io_intro tables.kept_stmt)

lemma tables_robustCall:
  assumes "row_ok aq"
  shows "valid tables (robustCall E aq patch) (\<lambda>_. tables)"
proof -
  have "isMethodAllowed (req_Method (req\<lparr>req_Params := p\<rparr>))" if "aq_Body aq = Inr req" for req p
    using that assms by (auto simp: row_ok_def body_ok_def)
  then show ?thesis unfolding robustCall_def
    by (intro io_intro valid_json_obj tables_load_aq_user tables_record_outcome tables_Call)
qed

lemma tables_HandleMerge: "valid tables (HandleMerge E task) (\<lambda>_. tables)"
proof -
  have tx: "valid tables (handleMergeTx E i u m) (\<lambda>r s. tables s \<and> (\<forall>a. r = Ok (a, True) \<longrightarrow> row_ok a))" for i u m
  proof (rule validI)
    fix s r t assume s: "tables s" and run: "run_state (handleMergeTx E i u m) s = (r, t)"
    from handleMergeTx_run [OF run] s show "tables t \<and> (\<forall>a. r = Ok (a, True) \<longrightarrow> row_ok a)"
      by (auto simp: tables_def dest: merge_fires_ok table_ok_merge split: res.splits prod.splits)
  qed
  have "valid tables (handleMergeTx E i u m \<bind> (\<lambda>r. case r of
      Ok (aq, fire) \<Rightarrow> if \<not> fire then State_Monad.return (Ok ()) else robustCall E aq (buildPatchFromMeta m)
    | Err e \<Rightarrow> State_Monad.return (Err e) | Panic x \<Rightarrow> State_Monad.return (Panic x))) (\<lambda>_. tables)" for i u m
    by (rule valid_bind [OF tx], rule valid_pure, intro valid_res valid_prod valid_if valid_return tables_robustCall) auto
  then show ?thesis unfolding HandleMerge_def
    by (cases "tk_Payload task") (auto intro: valid_return valid_if)
qed

lemma tables_HandleQuery: "valid tables (HandleQuery E task) (\<lambda>_. tables)"
proof -
  have "valid tables (getQueryRecord E p \<bind> (\<lambda>r. case r of
      Ok aq \<Rightarrow> (case aq_FileMeta aq of
          Some (Inl uErr) \<Rightarrow> do {
            f \<leftarrow> finalizeQueryRecord E (aq_ID aq) None (''invalid stored file metadata: '' @ error_msg uErr);
            State_Monad.return (case f of Some e \<Rightarrow> Err e | None \<Rightarrow> Err SkipRetry)
          }
        | Some (Inr meta) \<Rightarrow> robustCall E aq (buildPatchFromMeta meta)
        | None \<Rightarrow> robustCall E aq fmempty)
    | Err e \<Rightarrow> State_Monad.return (Err e) | Panic x \<Rightarrow> State_Monad.return (Panic x))) (\<lambda>_. tables)" for p
    by (rule valid_bind [OF tables_getQueryRecord], rule valid_pure,
        intro valid_res valid_option valid_sum valid_return valid_bind_keep [OF tables_finalize] tables_robustCall) auto
  then show ?thesis unfolding HandleQuery_def
    by (cases "tk_Payload task") (auto intro: valid_return valid_if)
qed

lemma tables_createQueryRecord:
  assumes "body_ok (Inr req)"
  shows "valid tables (createQueryRecord E p req) (\<lambda>_. tables)"
proof (rule validI)
  fix s r t assume "tables s" and "run_state (createQueryRecord E p req) s = (r, t)"
  then show "tables t" using assms
    by (auto simp: createQueryRecord_def insert_query_def db_fault_def Let_def tables_def table_ok_def row_ok_def
        outcome_ok_def split: option.splits if_splits) blast
qed

lemma tables_enqueue: "valid tables (enqueue_query E aq u) (\<lambda>_. tables)"
  unfolding enqueue_query_def SendRequest_def by (intro io_intro tables.kept_ext valid_modify) simp

lemma tables_callUploadTx:
  assumes "body_ok (Inr req)"
  shows "valid tables (callUploadTx E u i d req) (\<lambda>_. tables)"
proof (rule validI)
  fix s r t assume s: "tables s" and run: "run_state (callUploadTx E u i d req) s = (r, t)"
  from callUploadTx_run [OF run] s assms show "tables t"
    by (auto simp: tables_def dest: table_ok_upload split: res.splits prod.splits)
qed

lemma tables_aq_Call:
  assumes "isMethodAllowed (req_Method req)"
  shows "valid tables (aq_Call E u req) (\<lambda>_. tables)"
proof (cases "req_Params req")
  case (JObj p0)
  have "body_ok (Inr (req\<lparr>req_Params := JObj (fmdrop DeferParam p0)\<rparr>))" using assms by (simp add: body_ok_def)
  note ok = tables_createQueryRecord [OF this] tables_callUploadTx [OF this]
  show ?thesis unfolding aq_Call_def Let_def JObj json.case
    by (intro valid_option valid_json valid_prod valid_bind_keep valid_res valid_return valid_if ok tables_enqueue)
qed (simp_all add: aq_Call_def valid_return)

lemma tables_CreateQuery: "valid tables (CreateQuery E r d) (\<lambda>_. tables)"
  unfolding CreateQuery_def by (intro io_intro tables_aq_Call) auto

lemma tables_aq_Get: "valid tables (aq_Get E i r) (\<lambda>_. tables)"
proof -
  have "valid tables (getQueryRecord E p) (\<lambda>_. tables)" for p by (rule valid_post [OF tables_getQueryRecord]) blast
  then show ?thesis unfolding aq_Get_def by (intro io_intro)
qed

section \<open>Reachable tables\<close>

text \<open>The table is changed by these handlers only; everything else that happens in the
  program, or to the services, leaves it alone.\<close>

inductive aq_step :: "'w env \<Rightarrow> 'w world \<Rightarrow> 'w world \<Rightarrow> bool" for E where
  create: "run_state (CreateQuery E r d) s = (x, t) \<Longrightarrow> aq_step E s t"
| poll: "run_state (aq_Get E i r) s = (x, t) \<Longrightarrow> aq_step E s t"
| merge: "run_state (HandleMerge E task) s = (y, t) \<Longrightarrow> aq_step E s t"
| query: "run_state (HandleQuery E task) s = (y, t) \<Longrightarrow> aq_step E s t"
| elsewhere: "w_asynq t = w_asynq s \<Longrightarrow> aq_step E s t"

inductive aq_reachable :: "'w env \<Rightarrow> 'w world \<Rightarrow> bool" for E where
  start: "w_asynq s = [] \<Longrightarrow> aq_reachable E s"
| more: "aq_reachable E s \<Longrightarrow> aq_step E s t \<Longrightarrow> aq_reachable E t"

lemma aq_step_tables: "aq_step E s t \<Longrightarrow> tables s \<Longrightarrow> tables t"
proof (induction rule: aq_step.induct)
  case (create r d s x t)
  with tables_CreateQuery show ?case by (rule validD)
next
  case (poll i r s x t)
  with tables_aq_Get show ?case by (rule validD)
next
  case (merge task s y t)
  with tables_HandleMerge show ?case by (rule validD)
next
  case (query task s y t)
  with tables_HandleQuery show ?case by (rule validD)
next
  case (elsewhere t s)
  then show ?case by (simp add: tables_def)
qed

text \<open>C15: the table of asynchronous queries is well-formed in every reachable state. Ids are
  unique; every row holds a request for \<open>stream_create\<close> or \<open>stream_update\<close> with an object of
  parameters and no \<open>_defer\<close>; a row that is received has no outcome yet, a succeeded one a
  response without an error and an empty error text, a failed one never a response that is
  free of errors together with an empty error text; and there are no other states. This
  holds whatever clients, the upload service, the SDK and the database do.\<close>

theorem asynquery_table_wellformed:
  assumes "aq_reachable E s"
  shows "table_ok (w_asynq s)"
  using assms
proof (induction rule: aq_reachable.induct)
  case (start s)
  then show ?case by (simp add: table_ok_def)
next
  case (more s t)
  then show ?case using aq_step_tables unfolding tables_def by blast
qed

text \<open>A user asks for a stream without a file.\<close>

definition user_request :: http_request where
  "user_request = AttachCurrentUser bearer_request (NewCurrentUser (Some linked_user) ''1.2.3.4'' None None)"

definition plain_create :: rpc_request where
  "plain_create = \<lparr>req_Method = ''stream_create'', req_Params = JObj fmempty, req_ID = 1, req_JSONRPC = ''2.0''\<rparr>"

theorem asynquery_table_wellformed_witness:
  "\<exists>s. aq_reachable quiet_env s \<and> length (w_asynq s) = 1 \<and> table_ok (w_asynq s)"
proof -
  let ?run = "run_state (CreateQuery quiet_env user_request (Inr (Some plain_create))) linked_world"
  have "aq_reachable quiet_env linked_world" by (rule aq_reachable.start) (simp add: linked_world_def quiet_world_def)
  then have reach: "aq_reachable quiet_env (snd ?run)" by (rule aq_reachable.more) (rule aq_step.create [OF surjective_pairing])
  moreover have "length (w_asynq (snd ?run)) = 1"
    by (simp add: CreateQuery_def user_request_def FromRequest_def AttachCurrentUser_def NewCurrentUser_def
        GetCurrentUserData_def plain_create_def allowed_methods aq_Call_def Let_def createQueryRecord_def insert_query_def
        db_fault_def enqueue_query_def SendRequest_def linked_world_def quiet_defs)
  ultimately show ?thesis using asynquery_table_wellformed by blast
qed

section \<open>What is sent\<close>

text \<open>The parameters of a request that goes out for an upload of user \<open>u\<close>.\<close>

definition completed :: "int \<Rightarrow> upload_meta \<Rightarrow> rpc_request \<Rightarrow> bool" where
  "completed u meta r \<longleftrightarrow> (\<exists>p. req_Params r = JObj p \<and>
     fmlookup p ParamWalletID = Some (JStr (WalletID u)) \<and> fmlookup p ''file_path'' = None \<and>
     fmlookup p ''sd_hash'' = Some (JStr (um_SDHash meta)) \<and> fmlookup p ''file_name'' = Some (JStr (um_FileName meta)) \<and>
     fmlookup p ''file_hash'' = Some (JStr (um_Hash meta)) \<and> fmlookup p ''file_size'' = Some (JNum (Itoa (int (um_Size meta)))) \<and>
     (req_Method r = MethodStreamUpdate \<longrightarrow> fmlookup p ''replace'' = Some (JBool True) \<and> fmlookup p ''name'' = None))"

lemma table_only_sent: "table_only s t \<Longrightarrow> w_sent t = w_sent s"
  unfolding table_only_def by (cases s; cases t) simp

lemma sends_getQueryRecord [io_intro]: "valid (sends s\<^sub>0 G) (getQueryRecord E p) (\<lambda>_. sends s\<^sub>0 G)"
  unfolding getQueryRecord_def db_fault_def by (intro io_intro)

lemma sends_finalize [io_intro]: "valid (sends s\<^sub>0 G) (finalizeQueryRecord E i resp err) (\<lambda>_. sends s\<^sub>0 G)"
  unfolding finalizeQueryRecord_def db_fault_def Let_def by (intro io_intro valid_modify) simp

lemma sends_record_outcome [io_intro]: "valid (sends s\<^sub>0 G) (record_outcome E aq out) (\<lambda>_. sends s\<^sub>0 G)"
  unfolding record_outcome_def by (intro io_intro)

lemma sends_load_aq_user [io_intro]: "valid (sends s\<^sub>0 G) (load_aq_user E u) (\<lambda>_. sends s\<^sub>0 G)"
  unfolding load_aq_user_def by (intro io_intro)

lemma sends_Call_stream:
  assumes "isMethodAllowed (req_Method req)"
    and "\<And>q. NewQuery req (WalletID u) = Ok q \<Longrightarrow> WalletID u \<noteq> [] \<Longrightarrow> G ep (q_Request q)"
  shows "valid (sends s\<^sub>0 G) (Call E (NewCaller E ep u) cu req) (\<lambda>_. sends s\<^sub>0 G)"
proof -
  have c: "c_userID (NewCaller E ep u) = u" "c_endpoint (NewCaller E ep u) = ep"
    by (simp_all add: NewCaller_def addDefaultHooks_def AddPreflightHook_def AddPostflightHook_def Let_def)
  have "G ep (q_Request q)" if "NewQuery req (call_wallet (NewCaller E ep u)) = Ok q" for q
  proof -
    have "call_wallet (NewCaller E ep u) \<noteq> []"
      using that NewQuery_cases(6) allowed_needs_wallet [OF assms(1)] by blast
    then have "call_wallet (NewCaller E ep u) = WalletID u" "WalletID u \<noteq> []" by (auto simp: call_wallet_def c split: if_splits)
    with assms(2) that show ?thesis by simp
  qed
  then show ?thesis unfolding Call_stream [OF assms(1)]
    by (intro io_intro sends_SendQuery) (simp_all add: c)
qed

lemma sends_robustCall:
  assumes "row_ok aq"
    and "\<And>req pp q ep. aq_Body aq = Inr req \<Longrightarrow> req_Params req = JObj pp \<Longrightarrow> WalletID (aq_UserID aq) \<noteq> [] \<Longrightarrow>
      NewQuery (req\<lparr>req_Params := JObj (patched_params req patch pp)\<rparr>) (WalletID (aq_UserID aq)) = Ok q \<Longrightarrow> G ep (q_Request q)"
  shows "valid (sends s\<^sub>0 G) (robustCall E aq patch) (\<lambda>_. sends s\<^sub>0 G)"
proof -
  have "isMethodAllowed (req_Method (req\<lparr>req_Params := p\<rparr>))" if "aq_Body aq = Inr req" for req p
    using that assms(1) by (auto simp: row_ok_def body_ok_def)
  then show ?thesis unfolding robustCall_def
    by (intro io_intro valid_json_obj sends_Call_stream) (auto intro: assms(2))
qed

lemma completed_request:
  assumes "isMethodAllowed (req_Method req)" "WalletID u \<noteq> []"
    and "NewQuery (req\<lparr>req_Params := JObj (patched_params req (buildPatchFromMeta meta) pp)\<rparr>) (WalletID u) = Ok q"
  shows "completed u meta (q_Request q) \<and> req_Method (q_Request q) = req_Method req"
proof -
  have "MethodAcceptsWallet (req_Method req)"
    using assms(1) by (auto simp: allowed_methods MethodAcceptsWallet_def methodInList_def walletSpecificMethods_def method_names)
  with NewQuery_cases(1,3,4) [OF assms(3)] assms(2)
  have "q_Request q = req\<lparr>req_Params := JObj (fmupd ParamWalletID (JStr (WalletID u)) (patched_params req (buildPatchFromMeta meta) pp))\<rparr>
     \<or> (q_Request q = req\<lparr>req_Params := JObj (patched_params req (buildPatchFromMeta meta) pp)\<rparr> \<and>
        fmlookup (patched_params req (buildPatchFromMeta meta) pp) ParamWalletID = Some (JStr (WalletID u)))"
    by (auto simp: param_def ParamsAsMap_def q_Params_def)
  then show ?thesis
    by (auto simp: completed_def patched_params_def buildPatchFromMeta_def Let_def FilePathParam_def ParamWalletID_def
        method_names)
qed


definition ready_world :: "unit world" where
  "ready_world = linked_world\<lparr>w_asynq := [sample_row\<lparr>aq_ReadyToRun := True\<rparr>]\<rparr>"

definition upload_task :: task where
  "upload_task = \<lparr>tk_Type = ForkliftUploadDone, tk_Payload = UploadDone ''u'' 7 sample_meta\<rparr>"


section \<open>What clients see\<close>

text \<open>The reply for a row.\<close>

definition row_reply :: "asynquery \<Rightarrow> aq_reply res" where
  "row_reply aq = (case aq_Status aq of
     AqSucceeded \<Rightarrow> reply 200 (case aq_Response aq of Some y \<Rightarrow> RpcBody y | None \<Rightarrow> NoContent)
   | AqFailed \<Rightarrow> reply 200 (case aq_Response aq of
       Some y \<Rightarrow> RpcBody y | None \<Rightarrow> RpcBody (ErrorToJSON (Some (Err_str (aq_Error aq)))))
   | _ \<Rightarrow> reply 204 NoContent)"



section \<open>Observations\<close>

text \<open>A task that is delivered again after its query has succeeded makes the call again.\<close>

theorem succeeded_query_sent_again:
  assumes "run_state (getQueryRecord E \<lparr>qp_queryID = i, qp_uploadID = [], qp_userID = u, qp_readyToRun = False\<rparr>) s = (Ok aq, s')"
    and "aq_Status aq = AqSucceeded" and "aq_FileMeta aq = Some (Inr meta)"
  shows "run_state (HandleQuery E (incoming_task i u)) s = run_state (robustCall E aq (buildPatchFromMeta meta)) s'"
  using assms by (simp add: HandleQuery_def incoming_task_def)

text \<open>Committing again after a failure makes a row that is ready to run, with nothing queued.\<close>

theorem recommit_after_failure_waits:
  assumes "no_faults E" and "u |\<in>| fmdom (w_users s)" and "newest (upload_row u i) (w_asynq s) = Some aq"
    and "aq_Status aq = AqFailed" and "aq_FileReady aq"
    and "run_state (callUploadTx E u i False req) s = (Ok (a, enq), t)"
  shows "\<not> enq \<and> aq_ReadyToRun a \<and> \<not> aq_FileReady a \<and> w_asynq t = w_asynq s @ [a]"
  using callUploadTx_run [OF assms(6)] assms(3,4) by (auto simp: upload_effect_def created_def fresh_rowD)

text \<open>An authentication error while asking for an upload token is answered with status 200, and
  a request without a user and without an error crashes the handler.\<close>

theorem create_upload_auth_error:
  "FromRequest r = (u, Some e) \<Longrightarrow> fst (run_state (CreateUpload E gen url v r) s) = reply 200 (AuthErrorBody (error_msg e))"
  "FromRequest r = (None, None) \<Longrightarrow> \<exists>m. fst (run_state (CreateUpload E gen url v r) s) = Panic m"
  by (cases u; simp add: CreateUpload_def) (simp add: CreateUpload_def)

end
