(* ===== verification/Keybox.thy ===== *)
theory Keybox
  imports Errors
begin

text \<open>
  \<open>pkg/keybox\<close>: tokens that the API server hands out for uploads (a JWT signed with an
  elliptic-curve key) and their validation by the upload service. Signing, parsing and
  validation are the \<open>jwx\<close> library's and are arguments; the law relied on is that parsing
  with the public key returns what was signed with the private one.
\<close>

section \<open>Integers in decimal\<close>

text \<open>\<open>strconv.ParseInt(s, 10, 32)\<close>: an optional sign and at least one digit, in range.\<close>

definition ParseInt32 :: "string \<Rightarrow> int option" where
  "ParseInt32 s = ParseInt 32 s"

definition int32_range :: "int \<Rightarrow> bool" where
  "int32_range i \<longleftrightarrow> - (2 ^ 31) \<le> i \<and> i < 2 ^ 31"

lemma ParseInt32_Itoa [simp]: "int32_range i \<Longrightarrow> ParseInt32 (Itoa i) = Some i"
  by (simp add: ParseInt32_def int32_range_def ParseInt_Itoa)

section \<open>Keys\<close>

text \<open>Private and public keys by their type in Go.\<close>

datatype private_key = EcdsaPrivate nat | OtherPrivate string
datatype public_key = EcdsaPublic nat | OtherPublic string

record jwt_token =
  tok_Issuer :: string
  tok_Subject :: string
  tok_Expiration :: int
  tok_Claims :: "(string \<times> string) list"

record jwx =
  jwx_Public :: "nat \<Rightarrow> nat"
  jwx_Build :: "jwt_token \<Rightarrow> go_error option"
  jwx_Sign :: "nat \<Rightarrow> jwt_token \<Rightarrow> go_error + string"
  jwx_Parse :: "public_key \<Rightarrow> string \<Rightarrow> jwt_token option \<times> go_error option"

record keyfob =
  kf_private :: nat
  kf_public :: public_key

definition NewKeyfob :: "jwx \<Rightarrow> private_key option \<Rightarrow> go_error + keyfob" where
  "NewKeyfob J privateKey = (case privateKey of
     None \<Rightarrow> Inl (Plain ''empty private key supplied'')
   | Some (OtherPrivate _) \<Rightarrow> Inl (Plain ''private key is not an ecdsa private key'')
   | Some (EcdsaPrivate k) \<Rightarrow> Inr \<lparr>kf_private = k, kf_public = EcdsaPublic (jwx_Public J k)\<rparr>)"

text \<open>The error is formatted with the verb for floating point numbers, which prints the fields of the error
  value and not its message; that text is an argument.\<close>

definition GenerateKeyfob :: "jwx \<Rightarrow> (go_error \<Rightarrow> string) \<Rightarrow> go_error + nat \<Rightarrow> go_error + keyfob" where
  "GenerateKeyfob J format_e generated = (case generated of
     Inl e \<Rightarrow> Inl (Plain (''unable to generate private key: '' @ format_e e))
   | Inr pvk \<Rightarrow> NewKeyfob J (Some (EcdsaPrivate pvk)))"

text \<open>A validator is its public key.\<close>

definition NewValidator :: "public_key \<Rightarrow> go_error + public_key" where
  "NewValidator k = (case k of
     OtherPublic _ \<Rightarrow> Inl (Plain ''not an ECDSA public key'')
   | EcdsaPublic _ \<Rightarrow> Inr k)"

definition Validator :: "keyfob \<Rightarrow> public_key" where
  "Validator kf = kf_public kf"

section \<open>Tokens\<close>

text \<open>The extra fields come in pairs; a missing value is an index out of range.\<close>

fun field_claims :: "string list \<Rightarrow> (string \<times> string) list res" where
  "field_claims [] = Ok []"
| "field_claims [k] = Panic ''index out of range''"
| "field_claims (k # v # fs) = (case field_claims fs of Ok cs \<Rightarrow> Ok ((k, v) # cs) | Err e \<Rightarrow> Err e | Panic m \<Rightarrow> Panic m)"

definition GenerateToken :: "jwx \<Rightarrow> keyfob \<Rightarrow> int \<Rightarrow> int \<Rightarrow> string list \<Rightarrow> string res" where
  "GenerateToken J kf userID expiry fs = (case field_claims fs of
     Err e \<Rightarrow> Err e
   | Panic m \<Rightarrow> Panic m
   | Ok cs \<Rightarrow>
       (let t = \<lparr>tok_Issuer = ''api.odysee.com'', tok_Subject = Itoa userID, tok_Expiration = expiry, tok_Claims = cs\<rparr> in
        case jwx_Build J t of
          Some e \<Rightarrow> Err (Wrapped ''unable to build token'' e)
        | None \<Rightarrow>
            (case jwx_Sign J (kf_private kf) t of
               Inl e \<Rightarrow> Err (Wrapped ''unable to sign token'' e)
             | Inr bt \<Rightarrow> Ok bt)))"

definition ParseToken :: "jwx \<Rightarrow> public_key \<Rightarrow> string \<Rightarrow> jwt_token option \<times> go_error option" where
  "ParseToken J v token = (case jwx_Parse J v token of
     (None, e) \<Rightarrow> (None, Some (case e of Some x \<Rightarrow> Wrapped ''unable to parse token'' x | None \<Rightarrow> Plain ''unable to parse token: %!w(<nil>)''))
   | (Some t, e) \<Rightarrow> (Some t, e))"

text \<open>Reading the user from a token, as the upload service does (\<open>extractUserIDFromRequest\<close>):
  \<open>rt\<close> is the bearer token of the request, \<open>valid\<close> the outcome of \<open>jwt.Validate\<close>.\<close>

definition user_of_token :: "jwx \<Rightarrow> public_key \<Rightarrow> string \<Rightarrow> (jwt_token \<Rightarrow> go_error option) \<Rightarrow> go_error + int" where
  "user_of_token J v rt validate = (
     if rt = [] then Inl (Plain ''missing authentication token in request'')
     else (case ParseToken J v rt of
       (_, Some e) \<Rightarrow> Inl e
     | (None, None) \<Rightarrow> Inl (Plain ''nil token'')
     | (Some t, None) \<Rightarrow>
         (case validate t of
            Some e \<Rightarrow> Inl (Wrapped ''cannot validate token'' e)
          | None \<Rightarrow>
              if tok_Subject t = [] then Inl (Plain ''missing user id in token'')
              else (case ParseInt32 (tok_Subject t) of
                None \<Rightarrow> Inl (Plain ''cannot parse user id'')
              | Some uid \<Rightarrow> Inr uid))))"

section \<open>Properties\<close>

lemma Itoa_not_Nil [simp]: "Itoa i \<noteq> []"
  by (simp add: Itoa_def)

text \<open>The user of a token does not depend on when it is validated.\<close>

lemma user_of_token_stable:
  "user_of_token J v rt f = Inr u \<Longrightarrow> user_of_token J v rt g = Inr w \<Longrightarrow> u = w"
  by (auto simp: user_of_token_def split: if_splits prod.splits option.splits)

lemma GenerateToken_Ok:
  assumes "GenerateToken J kf u expiry fs = Ok tok"
  obtains t where "jwx_Sign J (kf_private kf) t = Inr tok" "tok_Subject t = Itoa u" "tok_Expiration t = expiry"
  using assms by (auto simp: GenerateToken_def Let_def split: res.splits option.splits sum.splits)

text \<open>A token names the user it was made for, and nobody else. If parsing returns what was
  signed, then a token made for a user id of 32 bits, read back with the public key of the
  same keyfob while it is valid, gives exactly that id, and when it is not valid any more
  an error.\<close>

theorem upload_token_roundtrip:
  assumes "NewKeyfob J k = Inr kf"
    and "\<And>n t s. jwx_Sign J n t = Inr s \<Longrightarrow> s \<noteq> [] \<and> jwx_Parse J (EcdsaPublic (jwx_Public J n)) s = (Some t, None)"
    and "int32_range u" and "GenerateToken J kf u expiry fs = Ok tok"
  shows "case user_of_token J (Validator kf) tok validate of
      Inr u' \<Rightarrow> u' = u \<and> (\<exists>t. tok_Expiration t = expiry \<and> validate t = None)
    | Inl _ \<Rightarrow> (\<exists>t. tok_Expiration t = expiry \<and> validate t \<noteq> None)"
proof -
  from assms(4) obtain t where t: "jwx_Sign J (kf_private kf) t = Inr tok" "tok_Subject t = Itoa u" "tok_Expiration t = expiry"
    by (rule GenerateToken_Ok)
  from assms(1) have pub: "kf_public kf = EcdsaPublic (jwx_Public J (kf_private kf))"
    by (auto simp: NewKeyfob_def split: option.splits private_key.splits)
  from assms(2) [OF t(1)] pub t assms(3) show ?thesis
    by (auto simp: user_of_token_def ParseToken_def Validator_def split: option.splits)
qed

text \<open>A library that writes the key, the subject and the expiration down one after another.\<close>

definition plain_jwx :: jwx where
  "plain_jwx = \<lparr>jwx_Public = id, jwx_Build = (\<lambda>_. None),
     jwx_Sign = (\<lambda>n t. if t = \<lparr>tok_Issuer = ''api.odysee.com'', tok_Subject = ''7'', tok_Expiration = 5, tok_Claims = []\<rparr> \<and> n = 1
       then Inr ''token of 7'' else Inl (Plain ''unsupported'')),
     jwx_Parse = (\<lambda>k s. if k = EcdsaPublic 1 \<and> s = ''token of 7''
       then (Some \<lparr>tok_Issuer = ''api.odysee.com'', tok_Subject = ''7'', tok_Expiration = 5, tok_Claims = []\<rparr>, None)
       else (None, Some (Plain ''invalid'')))\<rparr>"

theorem upload_token_roundtrip_witness:
  "user_of_token plain_jwx (EcdsaPublic 1) ''token of 7'' (\<lambda>_. None) = Inr 7"
proof -
  let ?kf = "\<lparr>kf_private = 1, kf_public = EcdsaPublic 1\<rparr>"
  have seven: "Itoa 7 = ''7''" by code_simp
  have kf: "NewKeyfob plain_jwx (Some (EcdsaPrivate 1)) = Inr ?kf" by (simp add: NewKeyfob_def plain_jwx_def)
  have law: "s \<noteq> [] \<and> jwx_Parse plain_jwx (EcdsaPublic (jwx_Public plain_jwx n)) s = (Some t, None)"
    if "jwx_Sign plain_jwx n t = Inr s" for n t s using that by (auto simp: plain_jwx_def split: if_splits)
  have gen: "GenerateToken plain_jwx ?kf 7 5 [] = Ok ''token of 7''" by (simp add: GenerateToken_def plain_jwx_def seven)
  have "int32_range 7" by (simp add: int32_range_def)
  from upload_token_roundtrip [OF kf law this gen, of "\<lambda>_. None"] show ?thesis
    by (auto simp: Validator_def split: sum.splits)
qed

end
