(* ===== verification/Paths.thy ===== *)
theory Paths
  imports Prelude
begin

text \<open>
  More of Go's \<open>path\<close> package: \<open>Ext\<close>, \<open>Base\<close> and \<open>Join\<close>, and when joining a directory and a
  file name stays in the directory.
\<close>

definition path_Ext :: "string \<Rightarrow> string" where
  "path_Ext p = (
     let elem = takeWhile (\<lambda>c. c \<noteq> CHR ''/'') (rev p);
         ext = takeWhile (\<lambda>c. c \<noteq> CHR ''.'') elem
     in if length ext < length elem then CHR ''.'' # rev ext else [])"

definition path_Base :: "string \<Rightarrow> string" where
  "path_Base p = (
     if p = [] then ''.''
     else let q = dropWhile (\<lambda>c. c = CHR ''/'') (rev p) in
       if q = [] then ''/'' else rev (takeWhile (\<lambda>c. c \<noteq> CHR ''/'') q))"

definition path_Join :: "string \<Rightarrow> string \<Rightarrow> string" where
  "path_Join a b = (if a = [] then (if b = [] then [] else path_Clean b)
     else if b = [] then path_Clean a else path_Clean (a @ ''/'' @ b))"

text \<open>\<open>filepath.Join\<close> of any number of elements, on Unix.\<close>

definition path_Joins :: "string list \<Rightarrow> string" where
  "path_Joins es = (let ws = filter (\<lambda>w. w \<noteq> []) es in if ws = [] then [] else path_Clean (join_slash ws))"

section \<open>Clean absolute paths\<close>

definition proper :: "string \<Rightarrow> bool" where
  "proper w \<longleftrightarrow> w \<noteq> [] \<and> w \<noteq> ''.'' \<and> w \<noteq> ''..'' \<and> CHR ''/'' \<notin> set w"

text \<open>\<open>abs_path ws\<close> is the path with the elements \<open>ws\<close>.\<close>

definition abs_path :: "string list \<Rightarrow> string" where
  "abs_path ws = ''/'' @ join_slash ws"

lemma split_slash_word: "CHR ''/'' \<notin> set w \<Longrightarrow> split_slash w = [w]"
  by (induction w) auto

lemma split_slash_app: "CHR ''/'' \<notin> set w \<Longrightarrow> split_slash (w @ CHR ''/'' # p) = w # split_slash p"
  by (induction w) auto

lemma split_join:
  "ws \<noteq> [] \<Longrightarrow> list_all (\<lambda>w. CHR ''/'' \<notin> set w) ws \<Longrightarrow> split_slash (join_slash ws) = ws"
  by (induction ws rule: join_slash.induct) (auto simp: split_slash_word split_slash_app)

lemma join_slash_snoc: "ws \<noteq> [] \<Longrightarrow> join_slash (ws @ [w]) = join_slash ws @ ''/'' @ w"
  by (induction ws rule: join_slash.induct) auto

lemma split_slash_abs:
  "ws \<noteq> [] \<Longrightarrow> list_all proper ws \<Longrightarrow> split_slash (abs_path ws) = [] # ws"
  by (auto simp: abs_path_def list_all_iff proper_def intro: split_join)

lemma clean_elems_proper: "list_all proper ws \<Longrightarrow> clean_elems b acc (ws @ vs) = clean_elems b (rev ws @ acc) vs"
  by (induction ws arbitrary: acc) (auto simp: proper_def)

lemma Clean_rooted: "HasPrefix p ''/'' \<Longrightarrow> path_Clean p = abs_path (clean_elems True [] (split_slash p))"
  by (simp add: path_Clean_def Let_def abs_path_def)

lemma abs_prefix [simp]: "HasPrefix (abs_path ws @ p) ''/''"
  by (simp add: abs_path_def HasPrefix_def)

lemma split_slash_ext:
  assumes "ws \<noteq> []" "list_all proper ws"
  shows "split_slash (abs_path ws @ CHR ''/'' # p) = [] # ws @ split_slash p"
proof -
  have "split_slash (join_slash ws @ CHR ''/'' # p) = ws @ split_slash p"
    using assms by (induction ws rule: join_slash.induct) (auto simp: proper_def split_slash_app)
  then show ?thesis by (simp add: abs_path_def)
qed

text \<open>Joining a clean directory and a path: the elements of the path are applied one by one.\<close>

lemma Join_abs:
  assumes "ws \<noteq> []" "list_all proper ws"
  shows "path_Join (abs_path ws) p = abs_path (clean_elems True (rev ws) (split_slash p))"
proof -
  have c: "path_Clean (abs_path ws @ CHR ''/'' # p) = abs_path (clean_elems True (rev ws) (split_slash p))"
    using assms by (simp add: Clean_rooted split_slash_ext clean_elems_proper)
  have "path_Clean (abs_path ws) = abs_path (clean_elems True (rev ws) [])"
    using assms abs_prefix [of ws "[]"] clean_elems_proper [of ws True "[]" "[]"]
    by (simp add: Clean_rooted split_slash_abs)
  with c show ?thesis by (simp add: path_Join_def) (simp add: abs_path_def)
qed

lemma Join_proper:
  assumes "ws \<noteq> []" "list_all proper ws" "proper n"
  shows "path_Join (abs_path ws) n = abs_path (ws @ [n])"
  using assms by (simp add: Join_abs proper_def split_slash_word)

lemma Dir_abs:
  assumes "ws \<noteq> []" "list_all proper ws" "proper n"
  shows "path_Dir (abs_path (ws @ [n])) = abs_path ws"
proof -
  have n: "CHR ''/'' \<notin> set (rev n)" using assms(3) by (simp add: proper_def)
  have "abs_path (ws @ [n]) = abs_path ws @ ''/'' @ n" using assms(1) by (simp add: abs_path_def join_slash_snoc)
  moreover have "dropWhile (\<lambda>c. c \<noteq> CHR ''/'') (rev n @ CHR ''/'' # q) = CHR ''/'' # q" for q
    using n by (subst dropWhile_append2) auto
  ultimately have "path_Dir (abs_path (ws @ [n])) = path_Clean (abs_path ws @ CHR ''/'' # [])"
    by (simp add: path_Dir_def)
  also have "\<dots> = abs_path ws" using assms(1,2) by (simp add: Clean_rooted split_slash_ext clean_elems_proper)
  finally show ?thesis .
qed

text \<open>A base name is one element, or \<open>/\<close>.\<close>

lemma path_Base_cases: "path_Base p = ''/'' \<or> CHR ''/'' \<notin> set (path_Base p) \<and> path_Base p \<noteq> []"
proof -
  let ?q = "dropWhile (\<lambda>c. c = CHR ''/'') (rev p)"
  have "takeWhile (\<lambda>c. c \<noteq> CHR ''/'') ?q \<noteq> []" if "?q \<noteq> []"
    using hd_dropWhile [of "\<lambda>c. c = CHR ''/''" "rev p"] that by (cases ?q) auto
  then show ?thesis by (auto simp: path_Base_def Let_def dest: set_takeWhileD)
qed

text \<open>So joining a directory and a base name gives a file in it, the directory itself or its parent.\<close>

lemma Join_Base:
  assumes "ws \<noteq> []" "list_all proper ws"
  shows "proper (path_Base p) \<and> path_Join (abs_path ws) (path_Base p) = abs_path (ws @ [path_Base p]) \<or>
    path_Join (abs_path ws) (path_Base p) \<in> {abs_path ws, abs_path (butlast ws)}"
proof (cases "proper (path_Base p)")
  case True
  with assms show ?thesis by (simp add: Join_proper)
next
  case False
  then consider "path_Base p = ''/''" | "path_Base p = ''.''" | "path_Base p = ''..''"
    using path_Base_cases [of p] by (auto simp: proper_def)
  then show ?thesis
  proof cases
    case 3
    obtain vs v where ws: "ws = vs @ [v]" using assms(1) by (metis rev_exhaust)
    with assms(2) have "v \<noteq> ''..''" by (simp add: proper_def)
    then show ?thesis using assms 3 by (simp add: Join_abs ws)
  qed (use assms in \<open>simp_all add: Join_abs\<close>)
qed

end
