(* ===== verification/Fileanalyzer.thy ===== *)
theory Fileanalyzer
  imports Errors Paths
begin

text \<open>
  \<open>pkg/fileanalyzer\<close>: the media type of an uploaded file, from its first bytes or its
  name, and the duration and dimensions reported by \<open>ffprobe\<close>. The matcher of file headers
  (\<open>h2non/filetype\<close>) and the probe are arguments; the local files are a map from paths to
  contents.
\<close>

section \<open>Media types\<close>

record media_type =
  mt_MIME :: string
  mt_Name :: string
  mt_Extension :: string

definition mime :: "string \<Rightarrow> string \<Rightarrow> media_type" where
  "mime t n = \<lparr>mt_MIME = t, mt_Name = n, mt_Extension = []\<rparr>"

definition extensions :: "(string \<times> media_type) list" where
  "extensions = [
    (''.a'', mime ''application/octet-stream'' ''binary''),
    (''.ai'', mime ''application/postscript'' ''image''),
    (''.aif'', mime ''audio/x-aiff'' ''audio''),
    (''.aifc'', mime ''audio/x-aiff'' ''audio''),
    (''.aiff'', mime ''audio/x-aiff'' ''audio''),
    (''.au'', mime ''audio/basic'' ''audio''),
    (''.avi'', mime ''video/x-msvideo'' ''video''),
    (''.bat'', mime ''text/plain'' ''document''),
    (''.bcpio'', mime ''application/x-bcpio'' ''binary''),
    (''.bin'', mime ''application/octet-stream'' ''binary''),
    (''.bmp'', mime ''image/bmp'' ''image''),
    (''.c'', mime ''text/plain'' ''document''),
    (''.cdf'', mime ''application/x-netcdf'' ''binary''),
    (''.cpio'', mime ''application/x-cpio'' ''binary''),
    (''.csh'', mime ''application/x-csh'' ''binary''),
    (''.css'', mime ''text/css'' ''document''),
    (''.csv'', mime ''text/csv'' ''document''),
    (''.dll'', mime ''application/octet-stream'' ''binary''),
    (''.doc'', mime ''application/msword'' ''document''),
    (''.dot'', mime ''application/msword'' ''document''),
    (''.dvi'', mime ''application/x-dvi'' ''binary''),
    (''.eml'', mime ''message/rfc822'' ''document''),
    (''.eps'', mime ''application/postscript'' ''document''),
    (''.epub'', mime ''application/epub+zip'' ''document''),
    (''.etx'', mime ''text/x-setext'' ''document''),
    (''.exe'', mime ''application/octet-stream'' ''binary''),
    (''.gif'', mime ''image/gif'' ''image''),
    (''.gtar'', mime ''application/x-gtar'' ''binary''),
    (''.h'', mime ''text/plain'' ''document''),
    (''.hdf'', mime ''application/x-hdf'' ''binary''),
    (''.htm'', mime ''text/html'' ''document''),
    (''.html'', mime ''text/html'' ''document''),
    (''.ico'', mime ''image/vnd.microsoft.icon'' ''image''),
    (''.ief'', mime ''image/ief'' ''image''),
    (''.iges'', mime ''model/iges'' ''model''),
    (''.jpe'', mime ''image/jpeg'' ''image''),
    (''.jpeg'', mime ''image/jpeg'' ''image''),
    (''.jpg'', mime ''image/jpeg'' ''image''),
    (''.js'', mime ''application/javascript'' ''document''),
    (''.json'', mime ''application/json'' ''document''),
    (''.ksh'', mime ''text/plain'' ''document''),
    (''.latex'', mime ''application/x-latex'' ''binary''),
    (''.m1v'', mime ''video/mpeg'' ''video''),
    (''.m3u'', mime ''application/x-mpegurl'' ''audio''),
    (''.m3u8'', mime ''application/x-mpegurl'' ''video''),
    (''.man'', mime ''application/x-troff-man'' ''document''),
    (''.markdown'', mime ''text/markdown'' ''document''),
    (''.md'', mime ''text/markdown'' ''document''),
    (''.me'', mime ''application/x-troff-me'' ''binary''),
    (''.mht'', mime ''message/rfc822'' ''document''),
    (''.mhtml'', mime ''message/rfc822'' ''document''),
    (''.mif'', mime ''application/x-mif'' ''binary''),
    (''.mov'', mime ''video/quicktime'' ''video''),
    (''.movie'', mime ''video/x-sgi-movie'' ''video''),
    (''.mp2'', mime ''audio/mpeg'' ''audio''),
    (''.mp3'', mime ''audio/mpeg'' ''audio''),
    (''.mp4'', mime ''video/mp4'' ''video''),
    (''.mpa'', mime ''video/mpeg'' ''video''),
    (''.mpd'', mime ''application/dash+xml'' ''video''),
    (''.mpe'', mime ''video/mpeg'' ''video''),
    (''.mpeg'', mime ''video/mpeg'' ''video''),
    (''.mpg'', mime ''video/mpeg'' ''video''),
    (''.ms'', mime ''application/x-troff-ms'' ''binary''),
    (''.m4s'', mime ''video/iso.segment'' ''binary''),
    (''.nc'', mime ''application/x-netcdf'' ''binary''),
    (''.nws'', mime ''message/rfc822'' ''document''),
    (''.o'', mime ''application/octet-stream'' ''binary''),
    (''.obj'', mime ''application/octet-stream'' ''model''),
    (''.oda'', mime ''application/oda'' ''binary''),
    (''.p12'', mime ''application/x-pkcs12'' ''binary''),
    (''.p7c'', mime ''application/pkcs7-mime'' ''binary''),
    (''.pbm'', mime ''image/x-portable-bitmap'' ''image''),
    (''.pdf'', mime ''application/pdf'' ''document''),
    (''.pfx'', mime ''application/x-pkcs12'' ''binary''),
    (''.pgm'', mime ''image/x-portable-graymap'' ''image''),
    (''.pl'', mime ''text/plain'' ''document''),
    (''.png'', mime ''image/png'' ''image''),
    (''.pnm'', mime ''image/x-portable-anymap'' ''image''),
    (''.pot'', mime ''application/vnd.ms-powerpoint'' ''document''),
    (''.ppa'', mime ''application/vnd.ms-powerpoint'' ''document''),
    (''.ppm'', mime ''image/x-portable-pixmap'' ''image''),
    (''.pps'', mime ''application/vnd.ms-powerpoint'' ''document''),
    (''.ppt'', mime ''application/vnd.ms-powerpoint'' ''document''),
    (''.ps'', mime ''application/postscript'' ''document''),
    (''.pwz'', mime ''application/vnd.ms-powerpoint'' ''document''),
    (''.py'', mime ''text/x-python'' ''document''),
    (''.pyc'', mime ''application/x-python-code'' ''binary''),
    (''.pyo'', mime ''application/x-python-code'' ''binary''),
    (''.qt'', mime ''video/quicktime'' ''video''),
    (''.ra'', mime ''audio/x-pn-realaudio'' ''audio''),
    (''.ram'', mime ''application/x-pn-realaudio'' ''audio''),
    (''.ras'', mime ''image/x-cmu-raster'' ''image''),
    (''.rdf'', mime ''application/xml'' ''binary''),
    (''.rgb'', mime ''image/x-rgb'' ''image''),
    (''.roff'', mime ''application/x-troff'' ''binary''),
    (''.rtx'', mime ''text/richtext'' ''document''),
    (''.sgm'', mime ''text/x-sgml'' ''document''),
    (''.sgml'', mime ''text/x-sgml'' ''document''),
    (''.sh'', mime ''application/x-sh'' ''document''),
    (''.shar'', mime ''application/x-shar'' ''binary''),
    (''.snd'', mime ''audio/basic'' ''audio''),
    (''.so'', mime ''application/octet-stream'' ''binary''),
    (''.src'', mime ''application/x-wais-source'' ''binary''),
    (''.stl'', mime ''model/stl'' ''model''),
    (''.sv4cpio'', mime ''application/x-sv4cpio'' ''binary''),
    (''.sv4crc'', mime ''application/x-sv4crc'' ''binary''),
    (''.svg'', mime ''image/svg+xml'' ''image''),
    (''.swf'', mime ''application/x-shockwave-flash'' ''binary''),
    (''.t'', mime ''application/x-troff'' ''binary''),
    (''.tar'', mime ''application/x-tar'' ''binary''),
    (''.tcl'', mime ''application/x-tcl'' ''binary''),
    (''.tex'', mime ''application/x-tex'' ''binary''),
    (''.texi'', mime ''application/x-texinfo'' ''binary''),
    (''.texinfo'', mime ''application/x-texinfo'' ''binary''),
    (''.tif'', mime ''image/tiff'' ''image''),
    (''.tiff'', mime ''image/tiff'' ''image''),
    (''.tr'', mime ''application/x-troff'' ''binary''),
    (''.ts'', mime ''video/mp2t'' ''video''),
    (''.tsv'', mime ''text/tab-separated-values'' ''document''),
    (''.txt'', mime ''text/plain'' ''document''),
    (''.ustar'', mime ''application/x-ustar'' ''binary''),
    (''.vcf'', mime ''text/x-vcard'' ''document''),
    (''.vtt'', mime ''text/vtt'' ''document''),
    (''.wav'', mime ''audio/x-wav'' ''audio''),
    (''.webm'', mime ''video/webm'' ''video''),
    (''.wiz'', mime ''application/msword'' ''document''),
    (''.wsdl'', mime ''application/xml'' ''document''),
    (''.xbm'', mime ''image/x-xbitmap'' ''image''),
    (''.xlb'', mime ''application/vnd.ms-excel'' ''document''),
    (''.xls'', mime ''application/vnd.ms-excel'' ''document''),
    (''.xml'', mime ''text/xml'' ''document''),
    (''.xpdl'', mime ''application/xml'' ''document''),
    (''.xpm'', mime ''image/x-xpixmap'' ''image''),
    (''.xsl'', mime ''application/xml'' ''document''),
    (''.xwd'', mime ''image/x-xwindowdump'' ''image''),
    (''.zip'', mime ''application/zip'' ''binary''),
    (''.cbr'', mime ''application/vnd.comicbook-rar'' ''document''),
    (''.cbz'', mime ''application/vnd.comicbook+zip'' ''document''),
    (''.flac'', mime ''audio/flac'' ''audio''),
    (''.lbry'', mime ''application/x-ext-lbry'' ''document''),
    (''.m4a'', mime ''audio/mp4'' ''audio''),
    (''.m4v'', mime ''video/m4v'' ''video''),
    (''.mid'', mime ''audio/midi'' ''audio''),
    (''.midi'', mime ''audio/midi'' ''audio''),
    (''.mkv'', mime ''video/x-matroska'' ''video''),
    (''.mobi'', mime ''application/x-mobipocket-ebook'' ''document''),
    (''.oga'', mime ''audio/ogg'' ''audio''),
    (''.ogv'', mime ''video/ogg'' ''video''),
    (''.ogg'', mime ''video/ogg'' ''video''),
    (''.pct'', mime ''image/pict'' ''image''),
    (''.pic'', mime ''image/pict'' ''image''),
    (''.pict'', mime ''image/pict'' ''image''),
    (''.prc'', mime ''application/x-mobipocket-ebook'' ''document''),
    (''.rtf'', mime ''application/rtf'' ''document''),
    (''.xul'', mime ''text/xul'' ''document''),
    (''.wmv'', mime ''video/x-ms-wmv'' ''video'')
  ]"

definition synonyms :: "(string \<times> string list) list" where
  "synonyms = [(''.zip'', [''.cbz'']), (''.rar'', [''.cbr'']), (''.ar'', [''.a''])]"

definition defaultType :: media_type where
  "defaultType = mime ''application/octet-stream'' ''binary''"

definition GetExtensionByType :: "string \<Rightarrow> media_type" where
  "GetExtensionByType t = (case map_of extensions t of Some m \<Rightarrow> m | None \<Rightarrow> \<lparr>mt_MIME = [], mt_Name = [], mt_Extension = []\<rparr>)"

section \<open>Analysis\<close>

record media_info =
  mi_Duration :: int
  mi_Width :: int
  mi_Height :: int

record stream_info =
  si_header :: bytes
  si_RealFilePath :: string
  si_FileName :: string
  si_MediaInfo :: "media_info option"
  si_MediaType :: "media_type option"

text \<open>The parts of the probe's result that are read: the duration of the container in whole
  seconds, if there is a container, and the streams with codec type, width and height.\<close>

record probe_stream =
  ps_CodecType :: string
  ps_Width :: int
  ps_Height :: int

record probe_data =
  pd_Format :: "int option"
  pd_Streams :: "probe_stream list"

record probe =
  pr_Match :: "bytes \<Rightarrow> string option"
  pr_ProbeURL :: "string \<Rightarrow> bytes \<Rightarrow> go_error + probe_data"

definition detect_ext :: "string option \<Rightarrow> string \<Rightarrow> string" where
  "detect_ext kind fileExt = (
     let detExt = (case kind of None \<Rightarrow> fileExt | Some k \<Rightarrow> k) in
     if detExt \<noteq> fileExt then
       (let foundSyn = list_ex (\<lambda>x. fileExt = x) (case map_of synonyms detExt of Some xs \<Rightarrow> xs | None \<Rightarrow> [])
        in if \<not> foundSyn then detExt else fileExt)
     else fileExt)"

definition DetectMediaType :: "probe \<Rightarrow> stream_info \<Rightarrow> stream_info" where
  "DetectMediaType P si = (
     let fileExt = ''.'' @ detect_ext (pr_Match P (si_header si)) (path_Ext (si_FileName si)) in
     case map_of extensions fileExt of
       None \<Rightarrow> si\<lparr>si_MediaType := Some defaultType\<rparr>
     | Some t \<Rightarrow> si\<lparr>si_MediaType := Some (if mt_Extension t = [] then t\<lparr>mt_Extension := fileExt\<rparr> else t)\<rparr>)"

definition DetectMediaInfo :: "probe \<Rightarrow> bytes \<Rightarrow> stream_info \<Rightarrow> stream_info \<times> go_error option" where
  "DetectMediaInfo P content si = (case si_MediaType si of
     None \<Rightarrow> (si, Some (Plain ''DetectMediaType must be called first''))
   | Some t \<Rightarrow>
       if mt_Name t \<noteq> ''video'' \<and> mt_Name t \<noteq> ''image'' \<and> mt_Name t \<noteq> ''audio'' then
         (si, Some (Plain (''no media info for '' @ CHR 0x27 # mt_Name t @ CHR 0x27 # '' type'')))
       else (case pr_ProbeURL P (si_RealFilePath si) content of
         Inl e \<Rightarrow> (si, Some (Wrapped ''error running ffprobe'' e))
       | Inr d \<Rightarrow>
           (case pd_Format d of
              None \<Rightarrow> (si, Some (Plain ''format data is missing from ffprobe results''))
            | Some secs \<Rightarrow>
                if pd_Streams d = [] then (si, Some (Plain ''format data is missing from ffprobe results''))
                else (case List.find (\<lambda>x. ps_CodecType x = (if mt_Name t = ''image'' then ''video'' else mt_Name t)) (pd_Streams d) of
                  None \<Rightarrow> (si, None)
                | Some x \<Rightarrow> (si\<lparr>si_MediaInfo := Some \<lparr>mi_Duration = secs, mi_Width = ps_Width x, mi_Height = ps_Height x\<rparr>\<rparr>, None)))))"

text \<open>The header is a buffer of 261 bytes, filled as far as the file goes; reading an empty
  file is an error.\<close>

definition Analyze :: "probe \<Rightarrow> (string, bytes) fmap \<Rightarrow> string \<Rightarrow> string \<Rightarrow> stream_info option \<times> go_error option" where
  "Analyze P files realFilePath fileName = (case fmlookup files realFilePath of
     None \<Rightarrow> (None, Some (Plain (''open '' @ realFilePath @ '': no such file or directory'')))
   | Some content \<Rightarrow>
       if content = [] then (None, Some (Plain ''EOF''))
       else let header = take 261 content @ replicate (261 - length content) (CHR 0x00);
                s = \<lparr>si_header = header, si_RealFilePath = realFilePath,
                     si_FileName = (if fileName = [] then path_Base realFilePath else fileName),
                     si_MediaInfo = None, si_MediaType = None\<rparr>;
                r = DetectMediaInfo P content (DetectMediaType P s)
            in (Some (fst r), snd r))"

section \<open>Properties\<close>

lemma extension_keys: "map_of extensions k = Some t \<Longrightarrow> \<exists>c s. k = CHR ''.'' # c # s \<and> c \<noteq> CHR ''.''"
  by (drule map_of_SomeD) (auto simp: extensions_def)

lemma extension_blank: "map_of extensions k = Some t \<Longrightarrow> mt_Extension t = []"
  by (drule map_of_SomeD) (auto simp: extensions_def mime_def)

lemma path_Ext_dot: "path_Ext p = [] \<or> hd (path_Ext p) = CHR ''.''"
  by (simp add: path_Ext_def Let_def)

text \<open>A name's extension, which starts with a dot, never gives a key of the table after another dot.\<close>

lemma no_dotted_extension: "map_of extensions (CHR ''.'' # path_Ext p) = None"
proof (rule ccontr)
  assume "\<not> ?thesis"
  then obtain t where "map_of extensions (CHR ''.'' # path_Ext p) = Some t" by auto
  from extension_keys [OF this] obtain c s where "path_Ext p = c # s" "c \<noteq> CHR ''.''" by auto
  with path_Ext_dot [of p] show False by simp
qed

lemma detect_by_content:
  assumes "\<And>k. pr_Match P (si_header si) = Some k \<Longrightarrow> k \<noteq> [] \<and> hd k \<noteq> CHR ''.''"
  shows "si_MediaType (DetectMediaType P si) = Some (case pr_Match P (si_header si) of
      None \<Rightarrow> defaultType
    | Some k \<Rightarrow> (case map_of extensions (''.'' @ k) of
        None \<Rightarrow> defaultType | Some t \<Rightarrow> t\<lparr>mt_Extension := ''.'' @ k\<rparr>))"
proof (cases "pr_Match P (si_header si)")
  case None
  then show ?thesis by (simp add: DetectMediaType_def Let_def detect_ext_def no_dotted_extension)
next
  case (Some k)
  from assms [OF Some] have "map_of synonyms k = None" by (cases k) (auto simp: synonyms_def)
  then have "detect_ext (Some k) (path_Ext p) = k" for p by (simp add: detect_ext_def Let_def)
  with Some show ?thesis
    by (simp add: DetectMediaType_def Let_def extension_blank split: option.split)
qed

text \<open>The media type of an upload depends on its first 261 bytes only. If the matcher knows
  the content by an extension, written without a dot, the type is the one of the table for
  that extension, and the extension recorded is that key; if the matcher does not know the
  content, or the extension is not in the table, it is the default binary type. The name of
  the file has no influence, so that a client cannot pass one kind of content off as another.\<close>

theorem media_type_by_content:
  assumes "fmlookup files realFilePath = Some content" and "content \<noteq> []"
    and "header = take 261 content @ replicate (261 - length content) (CHR 0x00)"
    and "\<And>k. pr_Match P header = Some k \<Longrightarrow> k \<noteq> [] \<and> hd k \<noteq> CHR ''.''"
  shows "\<exists>si e. Analyze P files realFilePath fileName = (Some si, e) \<and>
    si_MediaType si = Some (case pr_Match P header of
      None \<Rightarrow> defaultType
    | Some k \<Rightarrow> (case map_of extensions (''.'' @ k) of
        None \<Rightarrow> defaultType | Some t \<Rightarrow> t\<lparr>mt_Extension := ''.'' @ k\<rparr>))"
proof -
  have info: "si_MediaType (fst (DetectMediaInfo P c s)) = si_MediaType s" for c s
    by (simp add: DetectMediaInfo_def split: option.splits sum.splits)
  let ?s = "\<lparr>si_header = header, si_RealFilePath = realFilePath,
    si_FileName = (if fileName = [] then path_Base realFilePath else fileName), si_MediaInfo = None, si_MediaType = None\<rparr>"
  have "Analyze P files realFilePath fileName = (Some (fst (DetectMediaInfo P content (DetectMediaType P ?s))),
      snd (DetectMediaInfo P content (DetectMediaType P ?s)))"
    using assms(1-3) by (simp add: Analyze_def Let_def)
  moreover have "si_MediaType (DetectMediaType P ?s) = Some (case pr_Match P header of
      None \<Rightarrow> defaultType
    | Some k \<Rightarrow> (case map_of extensions (''.'' @ k) of
        None \<Rightarrow> defaultType | Some t \<Rightarrow> t\<lparr>mt_Extension := ''.'' @ k\<rparr>))"
    using detect_by_content [of P ?s] assms(4) by simp
  ultimately show ?thesis using info by auto
qed

theorem media_type_by_content_witness:
  "\<exists>si e. Analyze \<lparr>pr_Match = (\<lambda>_. Some ''mp4''), pr_ProbeURL = (\<lambda>_ _. Inl (Plain ''no ffprobe''))\<rparr>
      (fmupd ''/tmp/x'' ''data'' fmempty) ''/tmp/x'' ''evil.html'' = (Some si, e) \<and>
    si_MediaType si = Some \<lparr>mt_MIME = ''video/mp4'', mt_Name = ''video'', mt_Extension = ''.mp4''\<rparr>"
proof -
  have "map_of extensions ''.mp4'' = Some (mime ''video/mp4'' ''video'')" by code_simp
  then show ?thesis
    using media_type_by_content [of "fmupd ''/tmp/x'' ''data'' fmempty" "''/tmp/x''" "''data''" _
        "\<lparr>pr_Match = (\<lambda>_. Some ''mp4''), pr_ProbeURL = (\<lambda>_ _. Inl (Plain ''no ffprobe''))\<rparr>" "''evil.html''", OF _ _ refl]
    by (simp add: mime_def)
qed

text \<open>So the fallback to the extension of the file name, and the synonyms, never take effect: a
  Markdown file is a binary file, and a comic book archive a plain archive.\<close>

theorem extension_fallback_ineffective:
  "si_MediaType (DetectMediaType P si) = Some defaultType" if "pr_Match P (si_header si) = None"
  using that by (simp add: DetectMediaType_def Let_def detect_ext_def no_dotted_extension)

end
