(* ===== verification/Uploads.thy ===== *)
theory Uploads
  imports World Keybox Fileanalyzer
begin

text \<open>
  \<open>apps/uploads\<close>: the upload service. Requests are authenticated by the tokens of the API
  server and confined to the user's own uploads before the TUS library (\<open>tusd\<close>) sees them;
  the library reports what happens to uploads on four channels, each read by a listener of
  its own that keeps the \<open>uploads\<close> table and tells forklift about complete files. Files
  given by URL are recorded and passed on too. The library, the object store and the JWT
  library are not part of the repository; request paths are ASCII.
\<close>

section \<open>Tables\<close>

datatype upload_status =
    UploadStatusCreated | UploadStatusReceiving | UploadStatusCompleted | UploadStatusTerminated | UploadStatusProcessed

datatype url_status = UrlStatusCreated | UrlStatusDownloaded | UrlStatusProcessed

record upload_rec =
  ur_ID :: string
  ur_UserID :: int
  ur_Filename :: string
  ur_Key :: string
  ur_Status :: upload_status
  ur_Size :: int
  ur_Received :: int
  ur_SDHash :: string
  ur_Meta :: "upload_meta option"

record url_rec =
  ul_ID :: string
  ul_UserID :: int
  ul_URL :: string
  ul_Filename :: string
  ul_Status :: url_status
  ul_Size :: int
  ul_SDHash :: string

text \<open>What forklift is asked to do.\<close>

datatype incoming =
    UploadIncoming (in_UserID: int) (in_UploadID: string) (in_FileName: string) string string
  | URLIncoming (in_UserID: int) (in_UploadID: string) (in_FileName: string) string

text \<open>The events of the TUS library, with the authorization header of the request that caused
  them.\<close>

datatype hook_kind = CreatedUploads | UploadProgress | TerminatedUploads | CompleteUploads

record hook_event =
  ev_Kind :: hook_kind
  ev_Header :: string
  ev_ID :: string
  ev_Size :: int
  ev_Offset :: int
  ev_Filename :: string
  ev_Key :: string

datatype up_op = UpCreate | UpGet | UpProgress | UpTerminated | UpCompleted | UpProcessed | UpCreateURL

record 'w up_env =
  ue_fault :: "up_op \<Rightarrow> ('w, go_error option) state"
  ue_enqueue :: "('w, go_error option) state"
  ue_jwx :: jwx
  ue_key :: public_key
  ue_TokenFromHeader :: "string \<Rightarrow> string"
  ue_Validate :: "jwt_token \<Rightarrow> ('w, go_error option) state"
  ue_rand :: "('w, go_error + bytes) state"
  ue_ParseRequestURI :: "string \<Rightarrow> go_error + string"
  ue_bucket :: string
  ue_notifier :: bool

record 'w up_world =
  uw_uploads :: "upload_rec list"
  uw_urls :: "url_rec list"
  uw_events :: "hook_event list"
  uw_requests :: "incoming list"
  uw_done :: "task list"
  uw_s3 :: "(string \<times> string, bytes) fmap"
  uw_files :: "(string, bytes) fmap"
  uw_blobs :: "string list"
  uw_ext :: 'w

type_synonym ('w, 'a) up_io = "('w up_world, 'a) state"

definition up_ext :: "('w, 'a) state \<Rightarrow> ('w, 'a) up_io" where
  "up_ext m = State (\<lambda>s. case run_state m (uw_ext s) of (a, x) \<Rightarrow> (a, s\<lparr>uw_ext := x\<rparr>))"

definition up_reads :: "('w up_world \<Rightarrow> 'a) \<Rightarrow> ('w, 'a) up_io" where
  "up_reads f = State (\<lambda>s. (f s, s))"

definition up_modify :: "('w up_world \<Rightarrow> 'w up_world) \<Rightarrow> ('w, unit) up_io" where
  "up_modify f = State (\<lambda>s. ((), f s))"

lemma run_up_ext [simp]:
  "run_state (up_ext m) s = (fst (run_state m (uw_ext s)), s\<lparr>uw_ext := snd (run_state m (uw_ext s))\<rparr>)"
  by (simp add: up_ext_def split: prod.split)

lemma run_up_reads [simp]: "run_state (up_reads f) s = (f s, s)"
  by (simp add: up_reads_def)

lemma run_up_modify [simp]: "run_state (up_modify f) s = ((), f s)"
  by (simp add: up_modify_def)

section \<open>Queries\<close>

text \<open>The table checks that ids are unique and not empty and that sizes are positive.\<close>

definition CreateUploadRow :: "'w up_env \<Rightarrow> int \<Rightarrow> string \<Rightarrow> int \<Rightarrow> ('w, go_error option) up_io" where
  "CreateUploadRow E userID i sz = do {
     f \<leftarrow> up_ext (ue_fault E UpCreate);
     taken \<leftarrow> up_reads (\<lambda>s. \<exists>r \<in> set (uw_uploads s). ur_ID r = i);
     (case f of
        Some e \<Rightarrow> State_Monad.return (Some e)
      | None \<Rightarrow>
          if taken then State_Monad.return (Some (PgError ''23505'' ''duplicate key value''))
          else if i = [] \<or> sz \<le> 0 then State_Monad.return (Some (PgError ''23514'' ''violates check constraint''))
          else do {
            up_modify (\<lambda>s. s\<lparr>uw_uploads := uw_uploads s @ [\<lparr>ur_ID = i, ur_UserID = userID, ur_Filename = [], ur_Key = [],
              ur_Status = UploadStatusCreated, ur_Size = sz, ur_Received = 0, ur_SDHash = [], ur_Meta = None\<rparr>]\<rparr>);
            State_Monad.return None
          })
   }"

definition GetUpload :: "'w up_env \<Rightarrow> int \<Rightarrow> string \<Rightarrow> ('w, go_error + upload_rec) up_io" where
  "GetUpload E userID i = do {
     f \<leftarrow> up_ext (ue_fault E UpGet);
     r \<leftarrow> up_reads (\<lambda>s. List.find (\<lambda>r. ur_UserID r = userID \<and> ur_ID r = i) (uw_uploads s));
     State_Monad.return (case (f, r) of (Some e, _) \<Rightarrow> Inl e | (None, None) \<Rightarrow> Inl ErrNoRows | (None, Some x) \<Rightarrow> Inr x)
   }"

definition update_where :: "'w up_env \<Rightarrow> up_op \<Rightarrow> (upload_rec \<Rightarrow> bool) \<Rightarrow> (upload_rec \<Rightarrow> upload_rec) \<Rightarrow> ('w, go_error option) up_io" where
  "update_where E op P g = do {
     f \<leftarrow> up_ext (ue_fault E op);
     (case f of
        Some e \<Rightarrow> State_Monad.return (Some e)
      | None \<Rightarrow> do {
          up_modify (\<lambda>s. s\<lparr>uw_uploads := map (\<lambda>r. if P r then g r else r) (uw_uploads s)\<rparr>);
          State_Monad.return None
        })
   }"

definition own :: "int \<Rightarrow> string \<Rightarrow> upload_rec \<Rightarrow> bool" where
  "own userID i r \<longleftrightarrow> ur_UserID r = userID \<and> ur_ID r = i"

definition RecordUploadProgress :: "'w up_env \<Rightarrow> int \<Rightarrow> string \<Rightarrow> int \<Rightarrow> ('w, go_error option) up_io" where
  "RecordUploadProgress E userID i received = update_where E UpProgress
     (\<lambda>r. own userID i r \<and> ur_Status r \<in> {UploadStatusReceiving, UploadStatusCreated}) (\<lambda>r. r\<lparr>ur_Received := received\<rparr>)"

definition MarkUploadTerminated :: "'w up_env \<Rightarrow> int \<Rightarrow> string \<Rightarrow> ('w, go_error option) up_io" where
  "MarkUploadTerminated E userID i = update_where E UpTerminated (own userID i) (\<lambda>r. r\<lparr>ur_Status := UploadStatusCompleted\<rparr>)"

definition MarkUploadCompleted :: "'w up_env \<Rightarrow> int \<Rightarrow> string \<Rightarrow> string \<Rightarrow> string \<Rightarrow> ('w, go_error option) up_io" where
  "MarkUploadCompleted E userID i filename key = update_where E UpCompleted (own userID i)
     (\<lambda>r. r\<lparr>ur_Status := UploadStatusCompleted, ur_Filename := filename, ur_Key := key\<rparr>)"

definition MarkUploadProcessed :: "'w up_env \<Rightarrow> string \<Rightarrow> string \<Rightarrow> upload_meta \<Rightarrow> ('w, go_error option) up_io" where
  "MarkUploadProcessed E i sdHash meta = update_where E UpProcessed (\<lambda>r. ur_ID r = i)
     (\<lambda>r. r\<lparr>ur_Status := UploadStatusProcessed, ur_SDHash := sdHash, ur_Meta := Some meta\<rparr>)"

definition CreateURL :: "'w up_env \<Rightarrow> int \<Rightarrow> string \<Rightarrow> string \<Rightarrow> string \<Rightarrow> ('w, go_error option) up_io" where
  "CreateURL E userID i url filename = do {
     f \<leftarrow> up_ext (ue_fault E UpCreateURL);
     taken \<leftarrow> up_reads (\<lambda>s. \<exists>r \<in> set (uw_urls s). ul_ID r = i);
     (case f of
        Some e \<Rightarrow> State_Monad.return (Some e)
      | None \<Rightarrow>
          if taken then State_Monad.return (Some (PgError ''23505'' ''duplicate key value''))
          else if i = [] \<or> url = [] \<or> filename = [] then State_Monad.return (Some (PgError ''23514'' ''violates check constraint''))
          else do {
            up_modify (\<lambda>s. s\<lparr>uw_urls := uw_urls s @ [\<lparr>ul_ID = i, ul_UserID = userID, ul_URL = url, ul_Filename = filename,
              ul_Status = UrlStatusCreated, ul_Size = 0, ul_SDHash = []\<rparr>]\<rparr>);
            State_Monad.return None
          })
   }"

section \<open>Notifying forklift\<close>

definition up_SendRequest :: "'w up_env \<Rightarrow> incoming \<Rightarrow> ('w, go_error option) up_io" where
  "up_SendRequest E t = do {
     e \<leftarrow> up_ext (ue_enqueue E);
     (case e of
        Some x \<Rightarrow> State_Monad.return (Some (Wrapped ''failed to enqueue request'' x))
      | None \<Rightarrow> do { up_modify (\<lambda>s. s\<lparr>uw_requests := uw_requests s @ [t]\<rparr>); State_Monad.return None })
   }"

definition UploadReceived :: "'w up_env \<Rightarrow> int \<Rightarrow> string \<Rightarrow> string \<Rightarrow> string \<Rightarrow> string \<Rightarrow> ('w, go_error option) up_io" where
  "UploadReceived E userID uploadID filename bucket key = up_SendRequest E (UploadIncoming userID uploadID filename bucket key)"

definition URLReceived :: "'w up_env \<Rightarrow> int \<Rightarrow> string \<Rightarrow> string \<Rightarrow> string \<Rightarrow> ('w, go_error option) up_io" where
  "URLReceived E userID uploadID filename url = up_SendRequest E (URLIncoming userID uploadID filename url)"

section \<open>Requests\<close>

definition extractUserIDFromRequest :: "'w up_env \<Rightarrow> string \<Rightarrow> ('w, go_error + int) up_io" where
  "extractUserIDFromRequest E header = (
     let rt = ue_TokenFromHeader E header in
     case (if rt = [] then None else fst (ParseToken (ue_jwx E) (ue_key E) rt)) of
       None \<Rightarrow> State_Monad.return (user_of_token (ue_jwx E) (ue_key E) rt (\<lambda>_. None))
     | Some t \<Rightarrow> do {
         v \<leftarrow> (if snd (ParseToken (ue_jwx E) (ue_key E) rt) = None then up_ext (ue_Validate E t) else State_Monad.return None);
         State_Monad.return (user_of_token (ue_jwx E) (ue_key E) rt (\<lambda>_. v))
       })"

text \<open>The match of \<open>([^/]{32,})\/?$\<close>: the last element of the path, up to one slash at the end.\<close>

definition extractUploadIDFromPath :: "string \<Rightarrow> string" where
  "extractUploadIDFromPath url = (
     let p = (if HasSuffix url ''/'' then butlast url else url);
         seg = rev (takeWhile (\<lambda>c. c \<noteq> CHR ''/'') (rev p))
     in if 32 \<le> length seg then seg else [])"

text \<open>The middlewares: a status to answer with, or the user id the request goes on with (none
  for an \<open>OPTIONS\<close> request, which is not authenticated).\<close>

datatype gate = Refuse int | Pass "int option"

definition authByToken :: "'w up_env \<Rightarrow> string \<Rightarrow> string \<Rightarrow> ('w, gate) up_io" where
  "authByToken E httpMethod header = (
     if httpMethod = ''OPTIONS'' then State_Monad.return (Pass None)
     else do {
       u \<leftarrow> extractUserIDFromRequest E header;
       State_Monad.return (case u of Inl _ \<Rightarrow> Refuse 401 | Inr uid \<Rightarrow> Pass (Some uid))
     })"

definition verifyUploadFileAccess :: "'w up_env \<Rightarrow> int option \<Rightarrow> string \<Rightarrow> ('w, gate res) up_io" where
  "verifyUploadFileAccess E ctxUser urlPath = (
     let uploadID = extractUploadIDFromPath urlPath in
     case ctxUser of
       None \<Rightarrow> State_Monad.return (Panic ''interface conversion'')
     | Some userID \<Rightarrow>
         if userID = 0 then State_Monad.return (Ok (Refuse 404))
         else if uploadID \<noteq> [] then do {
           r \<leftarrow> GetUpload E userID uploadID;
           State_Monad.return (Ok (case r of Inl _ \<Rightarrow> Refuse 404 | Inr _ \<Rightarrow> Pass (Some userID)))
         }
         else State_Monad.return (Ok (Pass (Some userID))))"

text \<open>A request to \<open>/v1/uploads\<close> up to the TUS handler; its middleware answers \<open>OPTIONS\<close> itself.\<close>

definition serve_upload :: "'w up_env \<Rightarrow> string \<Rightarrow> string \<Rightarrow> string \<Rightarrow> ('w, gate res) up_io" where
  "serve_upload E httpMethod header urlPath = do {
     a \<leftarrow> authByToken E httpMethod header;
     (case a of
        Refuse c \<Rightarrow> State_Monad.return (Ok (Refuse c))
      | Pass u \<Rightarrow>
          if httpMethod = ''OPTIONS'' then State_Monad.return (Ok (Refuse 200))
          else verifyUploadFileAccess E u urlPath)
   }"

definition MaxURLLength :: nat where "MaxURLLength = 2083"

definition generateURLUID :: "'w up_env \<Rightarrow> ('w, go_error + string) up_io" where
  "generateURLUID E = do {
     b \<leftarrow> up_ext (ue_rand E);
     State_Monad.return (case b of Inl e \<Rightarrow> Inl e | Inr x \<Rightarrow> Inr (hex_encode x))
   }"

definition url_Bind :: "'w up_env \<Rightarrow> string \<Rightarrow> ('w, go_error + (string \<times> string)) up_io" where
  "url_Bind E url = (
     if MaxURLLength < length url then State_Monad.return (Inl (Plain ''URL too long''))
     else (case ue_ParseRequestURI E url of
       Inl e \<Rightarrow> State_Monad.return (Inl (Wrapped ''invalid URL'' e))
     | Inr p \<Rightarrow>
         (let fn = path_Base p in
          if fn = ''/'' \<or> fn = ''.'' \<or> fn = [] then State_Monad.return (Inl (Plain (''couldn'' @ CHR 0x27 # ''t determine remote file name'')))
          else do {
            u \<leftarrow> generateURLUID E;
            State_Monad.return (case u of
              Inl e \<Rightarrow> Inl (Wrapped (''couldn'' @ CHR 0x27 # ''t generate upload ID'') e)
            | Inr uuid \<Rightarrow> Inr (fn, uuid))
          })))"

text \<open>The reply: its HTTP status, the status word, and the upload id that was made.\<close>

definition PostURL :: "'w up_env \<Rightarrow> int option \<Rightarrow> string \<Rightarrow> ('w, (int \<times> string \<times> string) res) up_io" where
  "PostURL E ctxUser url = (case ctxUser of
     None \<Rightarrow> State_Monad.return (Panic ''interface conversion'')
   | Some userID \<Rightarrow> do {
       b \<leftarrow> url_Bind E url;
       (case b of
          Inl e \<Rightarrow> State_Monad.return (Ok (400, ''input_error'', []))
        | Inr (fn, uuid) \<Rightarrow> do {
            c \<leftarrow> CreateURL E userID uuid url fn;
            (case c of
               Some e \<Rightarrow> State_Monad.return (Ok (500, ''internal_error'', []))
             | None \<Rightarrow>
                 if \<not> ue_notifier E then State_Monad.return (Panic ''nil pointer dereference'')
                 else do {
                   n \<leftarrow> URLReceived E userID uuid fn url;
                   State_Monad.return (case n of
                     Some e \<Rightarrow> Ok (400, ''input_error'', [])
                   | None \<Rightarrow> Ok (201, ''url_created'', uuid))
                 })
          })
     })"

section \<open>Listeners\<close>

definition on_created :: "'w up_env \<Rightarrow> int \<Rightarrow> hook_event \<Rightarrow> ('w, unit) up_io" where
  "on_created E uid ev = do { _ \<leftarrow> CreateUploadRow E uid (ev_ID ev) (ev_Size ev); State_Monad.return () }"

definition on_progress :: "'w up_env \<Rightarrow> int \<Rightarrow> hook_event \<Rightarrow> ('w, unit) up_io" where
  "on_progress E uid ev = do { _ \<leftarrow> RecordUploadProgress E uid (ev_ID ev) (ev_Offset ev); State_Monad.return () }"

definition on_terminated :: "'w up_env \<Rightarrow> int \<Rightarrow> hook_event \<Rightarrow> ('w, unit) up_io" where
  "on_terminated E uid ev = do { _ \<leftarrow> MarkUploadTerminated E uid (ev_ID ev); State_Monad.return () }"

definition on_complete :: "'w up_env \<Rightarrow> int \<Rightarrow> hook_event \<Rightarrow> ('w, unit) up_io" where
  "on_complete E uid ev = do {
     e \<leftarrow> MarkUploadCompleted E uid (ev_ID ev) (ev_Filename ev) (ev_Key ev);
     if e \<noteq> None \<or> \<not> ue_notifier E then State_Monad.return ()
     else do { _ \<leftarrow> UploadReceived E uid (ev_ID ev) (ev_Filename ev) (ue_bucket E) (ev_Key ev); State_Monad.return () }
   }"

text \<open>One turn of a listener; when the token is not valid any more the user id is 0.\<close>

definition listen :: "'w up_env \<Rightarrow> hook_event \<Rightarrow> ('w, unit) up_io" where
  "listen E ev = do {
     u \<leftarrow> extractUserIDFromRequest E (ev_Header ev);
     let uid = (case u of Inl _ \<Rightarrow> 0 | Inr n \<Rightarrow> n);
     (case ev_Kind ev of
        CreatedUploads \<Rightarrow> on_created E uid ev
      | UploadProgress \<Rightarrow> on_progress E uid ev
      | TerminatedUploads \<Rightarrow> on_terminated E uid ev
      | CompleteUploads \<Rightarrow> on_complete E uid ev)
   }"

end
