(* ===== verification/Forklift.thy ===== *)
theory Forklift
  imports Uploads
begin

text \<open>
  \<open>apps/forklift\<close> and \<open>pkg/blobs\<close>: the worker that fetches a received file (from the object
  store or from a URL), analyzes it, splits it into encrypted blobs, uploads those to the
  reflector, records the result and reports it to the API server. Files, blob directories
  and the object store are part of the state; the transfer, the stream encoder and the
  reflector are not part of the repository and may fail at every step.
\<close>

section \<open>The world outside\<close>

text \<open>What the stream encoder makes of a file: the hash of the descriptor blob, the length and
  the hash of the source. The reflector reports the number of blobs that failed.\<close>

record encoded =
  en_SdHash :: bytes
  en_Size :: nat
  en_Hash :: bytes

record 'w fl_env =
  fe_up :: "'w up_env"
  fe_blobPath :: string
  fe_downloadsPath :: string
  fe_Create :: "string \<Rightarrow> ('w, go_error option) state"
  fe_Download :: "string \<times> string \<Rightarrow> ('w, go_error option) state"
  fe_NewRequest :: "string \<Rightarrow> go_error option"
  fe_Do :: "string \<Rightarrow> ('w, go_error + (int \<times> (go_error + bytes))) state"
  fe_probe :: probe
  fe_Encode :: "bytes \<Rightarrow> string \<Rightarrow> ('w, go_error + encoded) state"
  fe_MkdirAll :: "string \<Rightarrow> ('w, go_error option) state"
  fe_Reflect :: "string \<Rightarrow> ('w, go_error + nat) state"
  fe_SendResponse :: "('w, go_error option) state"
  fe_DeleteObject :: "('w, go_error option) state"

definition ErrReflector :: go_error where
  "ErrReflector = Plain ''errors found while uploading blobs to reflector''"

definition fl_SkipRetry :: go_error where "fl_SkipRetry = Sentinel S_SkipRetry"

section \<open>Retrievers\<close>

record local_file =
  lf_Name :: string
  lf_Size :: nat

definition write_file :: "string \<Rightarrow> bytes \<Rightarrow> ('w, unit) up_io" where
  "write_file n b = up_modify (\<lambda>s. s\<lparr>uw_files := fmupd n b (uw_files s)\<rparr>)"

definition remove_file :: "string \<Rightarrow> ('w, unit) up_io" where
  "remove_file n = up_modify (\<lambda>s. s\<lparr>uw_files := fmdrop n (uw_files s)\<rparr>)"

definition S3_Retrieve :: "'w fl_env \<Rightarrow> string \<Rightarrow> string \<times> string \<Rightarrow> ('w, go_error + local_file) up_io" where
  "S3_Retrieve F uploadID loc = (
     let name = path_Join (fe_downloadsPath F) uploadID in do {
       c \<leftarrow> up_ext (fe_Create F name);
       (case c of
          Some e \<Rightarrow> State_Monad.return (Inl (Wrapped (''failed to create local upload file ('' @ name @ '')'') e))
        | None \<Rightarrow> do {
            write_file name [];
            d \<leftarrow> up_ext (fe_Download F loc);
            obj \<leftarrow> up_reads (\<lambda>s. fmlookup (uw_s3 s) loc);
            (case (d, obj) of
               (None, Some content) \<Rightarrow> do {
                 write_file name content;
                 State_Monad.return (Inr \<lparr>lf_Name = name, lf_Size = length content\<rparr>)
               }
             | (Some e, _) \<Rightarrow> do { remove_file name; State_Monad.return (Inl e) }
             | (None, None) \<Rightarrow> do { remove_file name; State_Monad.return (Inl (Plain ''NoSuchKey'')) })
          })
     })"

definition S3_Delete :: "'w fl_env \<Rightarrow> string \<times> string \<Rightarrow> ('w, go_error option) up_io" where
  "S3_Delete F loc = do {
     e \<leftarrow> up_ext (fe_DeleteObject F);
     (case e of
        Some x \<Rightarrow> State_Monad.return (Some x)
      | None \<Rightarrow> do { up_modify (\<lambda>s. s\<lparr>uw_s3 := fmdrop loc (uw_s3 s)\<rparr>); State_Monad.return None })
   }"

definition HTTP_Retrieve :: "'w fl_env \<Rightarrow> string \<Rightarrow> string \<Rightarrow> ('w, go_error + local_file) up_io" where
  "HTTP_Retrieve F uploadID url = (
     let name = path_Join (fe_downloadsPath F) uploadID in
     case fe_NewRequest F url of
       Some _ \<Rightarrow> State_Monad.return (Inl (Plain ''fatal retriever error: error creating request''))
     | None \<Rightarrow> do {
         r \<leftarrow> up_ext (fe_Do F url);
         (case r of
            Inl e \<Rightarrow> State_Monad.return (Inl (Wrapped ''error fetching remote file'' e))
          | Inr (status, body) \<Rightarrow>
              if status \<noteq> 200 then
                State_Monad.return (Inl (Plain (''remote server returned non-OK status: '' @ Itoa status)))
              else do {
                c \<leftarrow> up_ext (fe_Create F name);
                (case c of
                   Some e \<Rightarrow> State_Monad.return (Inl (Wrapped (''failed to create local file ('' @ name @ '')'') e))
                 | None \<Rightarrow>
                     (case body of
                        Inl e \<Rightarrow> do {
                          write_file name [];
                          remove_file name;
                          State_Monad.return (Inl (Wrapped ''error saving uploaded file'' e))
                        }
                      | Inr b \<Rightarrow> do {
                          write_file name b;
                          if b = [] then do { remove_file name; State_Monad.return (Inl (Plain ''remote file is empty'')) }
                          else State_Monad.return (Inr \<lparr>lf_Name = name, lf_Size = length b\<rparr>)
                        }))
              })
       })"

definition Cleanup :: "local_file \<Rightarrow> ('w, unit) up_io" where
  "Cleanup f = remove_file (lf_Name f)"

section \<open>Blobs\<close>

text \<open>\<open>Source.Split\<close> writes the blobs into a directory, \<open>Uploader.Upload\<close> sends that directory.\<close>

definition Split :: "'w fl_env \<Rightarrow> string \<Rightarrow> string \<Rightarrow> string \<Rightarrow> ('w, go_error + encoded) up_io" where
  "Split F filePath blobPath encodedFileName = do {
     file \<leftarrow> up_reads (\<lambda>s. fmlookup (uw_files s) filePath);
     (case file of
        None \<Rightarrow> State_Monad.return (Inl (Plain ''cannot open source''))
      | Some content \<Rightarrow> do {
          m \<leftarrow> up_ext (fe_MkdirAll F blobPath);
          (case m of
             Some e \<Rightarrow> State_Monad.return (Inl (Wrapped ''cannot create directory for blobs'' e))
           | None \<Rightarrow> do {
               up_modify (\<lambda>s. s\<lparr>uw_blobs := List.insert blobPath (uw_blobs s)\<rparr>);
               r \<leftarrow> up_ext (fe_Encode F content encodedFileName);
               State_Monad.return (case r of Inl e \<Rightarrow> Inl (Wrapped ''cannot encode stream'' e) | Inr x \<Rightarrow> Inr x)
             })
        })
   }"

definition Upload :: "'w fl_env \<Rightarrow> string \<Rightarrow> ('w, go_error + nat) up_io" where
  "Upload F finalPath = do {
     there \<leftarrow> up_reads (\<lambda>s. finalPath \<in> set (uw_blobs s));
     if \<not> there then State_Monad.return (Inl (Plain ''cannot stat source blobs''))
     else do {
       r \<leftarrow> up_ext (fe_Reflect F finalPath);
       State_Monad.return (case r of Inl e \<Rightarrow> Inl (Wrapped ''cannot upload blobs'' e) | Inr n \<Rightarrow> Inr n)
     }
   }"

definition RemoveAll :: "string \<Rightarrow> ('w, unit) up_io" where
  "RemoveAll p = up_modify (\<lambda>s. s\<lparr>uw_blobs := removeAll p (uw_blobs s)\<rparr>)"

section \<open>Handlers\<close>

definition build_meta :: "string \<Rightarrow> stream_info \<Rightarrow> encoded \<Rightarrow> upload_meta" where
  "build_meta fileName info src = (
     let mt = (case si_MediaType info of Some t \<Rightarrow> t | None \<Rightarrow> defaultType);
         mi = (case si_MediaInfo info of Some i \<Rightarrow> i | None \<Rightarrow> \<lparr>mi_Duration = 0, mi_Width = 0, mi_Height = 0\<rparr>)
     in \<lparr>um_Size = en_Size src,
         um_FileName = (if path_Ext fileName = [] then fileName @ mt_Extension mt else fileName),
         um_SDHash = hex_encode (en_SdHash src), um_MIME = mt_MIME mt, um_Extension = mt_Extension mt,
         um_Hash = hex_encode (en_Hash src), um_Duration = mi_Duration mi, um_Width = mi_Width mi, um_Height = mi_Height mi\<rparr>)"

text \<open>Analysis, splitting and upload of a local file: the metadata, or the error.\<close>

definition process_file :: "'w fl_env \<Rightarrow> string \<Rightarrow> string \<Rightarrow> string \<Rightarrow> ('w, go_error option + upload_meta) up_io" where
  "process_file F name blobPath fileName = do {
     files \<leftarrow> up_reads uw_files;
     (case Analyze (fe_probe F) files name fileName of
        (None, err) \<Rightarrow> State_Monad.return (Inl err)
      | (Some info, _) \<Rightarrow> do {
          st \<leftarrow> Split F name blobPath fileName;
          (case st of
             Inl e \<Rightarrow> State_Monad.return (Inl (Some e))
           | Inr src \<Rightarrow> do {
               u \<leftarrow> Upload F blobPath;
               State_Monad.return (case u of
                 Inl e \<Rightarrow> Inl (Some e)
               | Inr n \<Rightarrow> if 0 < n then Inl (Some ErrReflector) else Inr (build_meta fileName info src))
             })
        })
   }"

definition SendResponse :: "'w fl_env \<Rightarrow> string \<Rightarrow> int \<Rightarrow> upload_meta \<Rightarrow> ('w, go_error option) up_io" where
  "SendResponse F uploadID userID meta = do {
     e \<leftarrow> up_ext (fe_SendResponse F);
     (case e of
        Some x \<Rightarrow> State_Monad.return (Some x)
      | None \<Rightarrow> do {
          up_modify (\<lambda>s. s\<lparr>uw_done := uw_done s @
            [\<lparr>tk_Type = ForkliftUploadDone, tk_Payload = UploadDone uploadID userID meta\<rparr>]\<rparr>);
          State_Monad.return None
        })
   }"

text \<open>The rest of both handlers, on the retrieved file. The deferred calls run in the reverse
  order of their registration, whatever is returned; \<open>deferred\<close> is the one that is registered
  once the result has been recorded.\<close>

definition record_result :: "'w fl_env \<Rightarrow> int \<Rightarrow> string \<Rightarrow> ('w, unit) up_io \<Rightarrow> go_error option + upload_meta \<Rightarrow> ('w, go_error option) up_io" where
  "record_result F userID uploadID deferred p = (case p of
     Inl e \<Rightarrow> State_Monad.return e
   | Inr meta \<Rightarrow> do {
       q \<leftarrow> MarkUploadProcessed (fe_up F) uploadID (um_SDHash meta) meta;
       (case q of
          Some e \<Rightarrow> State_Monad.return (Some e)
        | None \<Rightarrow> do {
            e \<leftarrow> SendResponse F uploadID userID meta;
            deferred;
            State_Monad.return e
          })
     })"

definition file_body :: "'w fl_env \<Rightarrow> int \<Rightarrow> string \<Rightarrow> string \<Rightarrow> ('w, unit) up_io \<Rightarrow> local_file \<Rightarrow> ('w, go_error option) up_io" where
  "file_body F userID uploadID fileName deferred f = (
     let blobPath = path_Join (fe_blobPath F) (lf_Name f) in do {
       p \<leftarrow> process_file F (lf_Name f) blobPath fileName;
       r \<leftarrow> record_result F userID uploadID deferred p;
       RemoveAll blobPath;
       Cleanup f;
       State_Monad.return r
     })"

definition delete_source :: "'w fl_env \<Rightarrow> string \<times> string \<Rightarrow> ('w, unit) up_io" where
  "delete_source F loc = do { _ \<leftarrow> S3_Delete F loc; State_Monad.return () }"

definition HandleUpload :: "'w fl_env \<Rightarrow> go_error + incoming \<Rightarrow> ('w, go_error option) up_io" where
  "HandleUpload F task = (case task of
     Inr (UploadIncoming userID uploadID fileName bucket key) \<Rightarrow> do {
       l \<leftarrow> S3_Retrieve F uploadID (bucket, key);
       (case l of
          Inl e \<Rightarrow> State_Monad.return (Some e)
        | Inr f \<Rightarrow> file_body F userID uploadID fileName (delete_source F (bucket, key)) f)
     }
   | _ \<Rightarrow> State_Monad.return (Some fl_SkipRetry))"

definition HandleURL :: "'w fl_env \<Rightarrow> go_error + incoming \<Rightarrow> ('w, go_error option) up_io" where
  "HandleURL F task = (case task of
     Inr (URLIncoming userID uploadID fileName url) \<Rightarrow> do {
       l \<leftarrow> HTTP_Retrieve F uploadID url;
       (case l of
          Inl e \<Rightarrow> State_Monad.return (Some e)
        | Inr f \<Rightarrow> file_body F userID uploadID fileName (State_Monad.return ()) f)
     }
   | _ \<Rightarrow> State_Monad.return (Some fl_SkipRetry))"

definition fl_RetryDelay :: "int \<Rightarrow> go_error \<Rightarrow> int" where
  "fl_RetryDelay count err = (if error_Is err ErrReflector then count * (60 * second) else 10 * second)"

section \<open>What the steps change\<close>

lemma blob_dirs_refl [simp]: "s\<lparr>uw_ext := uw_ext s, uw_blobs := uw_blobs s\<rparr> = s"
  by simp

lemma Split_run:
  assumes "run_state (Split F n bp fn) s = (r, t)"
  shows "t = s\<lparr>uw_ext := uw_ext t, uw_blobs := uw_blobs t\<rparr> \<and> set (uw_blobs t) \<subseteq> insert bp (set (uw_blobs s)) \<and>
    (\<forall>src. r = Inr src \<longrightarrow> (\<exists>content w. fmlookup (uw_files s) n = Some content \<and> fst (run_state (fe_Encode F content fn) w) = Inr src))"
  using assms by (auto simp: Split_def split: option.splits sum.splits)

lemma Upload_run:
  "run_state (Upload F p) s = (r, t) \<Longrightarrow> t = s\<lparr>uw_ext := uw_ext t\<rparr>"
  by (auto simp: Upload_def split: if_splits)

lemma process_file_run:
  assumes "run_state (process_file F n bp fn) s = (r, t)"
  shows "t = s\<lparr>uw_ext := uw_ext t, uw_blobs := uw_blobs t\<rparr> \<and> set (uw_blobs t) \<subseteq> insert bp (set (uw_blobs s)) \<and>
    r \<noteq> Inl None \<and>
    (\<forall>meta. r = Inr meta \<longrightarrow> (\<exists>content info e src w. fmlookup (uw_files s) n = Some content \<and>
      Analyze (fe_probe F) (uw_files s) n fn = (Some info, e) \<and> fst (run_state (fe_Encode F content fn) w) = Inr src \<and>
      meta = build_meta fn info src))"
proof -
  obtain i e where an: "Analyze (fe_probe F) (uw_files s) n fn = (i, e)" by fastforce
  have err: "i = None \<Longrightarrow> e \<noteq> None" using an by (auto simp: Analyze_def Let_def split: option.splits if_splits)
  show ?thesis
  proof (cases i)
    case None
    with assms an err show ?thesis by (auto simp: process_file_def)
  next
    case (Some info)
    obtain sp s1 where sp: "run_state (Split F n bp fn) s = (sp, s1)" by fastforce
    obtain u s2 where up: "run_state (Upload F bp) s1 = (u, s2)" by fastforce
    note frame = Split_run [OF sp] Upload_run [OF up]
    then have s2: "s2 = s\<lparr>uw_ext := uw_ext s2, uw_blobs := uw_blobs s2\<rparr>" "uw_blobs s2 = uw_blobs s1"
      by (metis up_world.ext_inject up_world.surjective up_world.update_convs(8,9))+
    show ?thesis
    proof (cases sp)
      case (Inl x)
      with assms an Some sp frame(1) show ?thesis by (auto simp: process_file_def)
    next
      case (Inr src)
      with assms an Some sp up have t: "t = s2" and r: "r = (case u of Inl e \<Rightarrow> Inl (Some e)
          | Inr k \<Rightarrow> if 0 < k then Inl (Some ErrReflector) else Inr (build_meta fn info src))"
        by (auto simp: process_file_def)
      from frame(1) Inr obtain content w where "fmlookup (uw_files s) n = Some content"
        "fst (run_state (fe_Encode F content fn) w) = Inr src" by blast
      with r an Some s2 t frame(1) show ?thesis by (auto split: sum.splits if_splits)
    qed
  qed
qed

text \<open>What is recorded and reported about a file: made from its content and its name alone.\<close>

definition described :: "'w fl_env \<Rightarrow> string \<Rightarrow> bytes \<Rightarrow> string \<Rightarrow> upload_meta \<Rightarrow> bool" where
  "described F n content fn meta \<longleftrightarrow> (\<exists>info e src w. Analyze (fe_probe F) (fmupd n content fmempty) n fn = (Some info, e) \<and>
     fst (run_state (fe_Encode F content fn) w) = Inr src \<and> meta = build_meta fn info src)"

definition marked :: "string \<Rightarrow> upload_meta \<Rightarrow> upload_rec list \<Rightarrow> upload_rec list" where
  "marked i meta rows = map (\<lambda>r. if ur_ID r = i
     then r\<lparr>ur_Status := UploadStatusProcessed, ur_SDHash := um_SDHash meta, ur_Meta := Some meta\<rparr> else r) rows"

definition done_task :: "string \<Rightarrow> int \<Rightarrow> upload_meta \<Rightarrow> task" where
  "done_task i u meta = \<lparr>tk_Type = ForkliftUploadDone, tk_Payload = UploadDone i u meta\<rparr>"

lemma Analyze_local: "fmlookup files n = fmlookup files' n \<Longrightarrow> Analyze P files n fn = Analyze P files' n fn"
  by (simp add: Analyze_def)

lemma process_file_described:
  assumes "run_state (process_file F n bp fn) s = (Inr meta, t)"
  shows "\<exists>content. fmlookup (uw_files s) n = Some content \<and> described F n content fn meta"
proof -
  from process_file_run [OF assms] obtain content info e src w where
    c: "fmlookup (uw_files s) n = Some content" and "Analyze (fe_probe F) (uw_files s) n fn = (Some info, e)"
    and "fst (run_state (fe_Encode F content fn) w) = Inr src" "meta = build_meta fn info src" by blast
  moreover from c have "Analyze (fe_probe F) (uw_files s) n fn = Analyze (fe_probe F) (fmupd n content fmempty) n fn"
    by (intro Analyze_local) simp
  ultimately show ?thesis unfolding described_def by metis
qed

text \<open>The parts of the state that neither handler touches.\<close>

definition elsewhere :: "'w up_world \<Rightarrow> 'w up_world \<Rightarrow> bool" where
  "elsewhere s t \<longleftrightarrow> uw_urls t = uw_urls s \<and> uw_events t = uw_events s \<and> uw_requests t = uw_requests s"

definition deferred_ok :: "string \<times> string \<Rightarrow> ('w, unit) up_io \<Rightarrow> bool" where
  "deferred_ok loc d \<longleftrightarrow> (\<forall>s. snd (run_state d s) = s \<or> (\<exists>x. snd (run_state d s) = s\<lparr>uw_ext := x\<rparr>) \<or>
     (\<exists>x. snd (run_state d s) = s\<lparr>uw_ext := x, uw_s3 := fmdrop loc (uw_s3 s)\<rparr>))"

lemma deferred_ok_delete: "deferred_ok loc (delete_source F loc)"
  by (auto simp: deferred_ok_def delete_source_def S3_Delete_def split: option.splits)

lemma deferred_ok_none: "deferred_ok loc (State_Monad.return ())"
  by (simp add: deferred_ok_def)

lemma record_result_run:
  assumes "run_state (record_result F u i d p) s = (r, t)" and "p \<noteq> Inl None" and d: "deferred_ok loc d"
  shows "elsewhere s t \<and> uw_files t = uw_files s \<and> uw_blobs t = uw_blobs s \<and>
    ((r \<noteq> None \<and> uw_done t = uw_done s \<and> uw_s3 t = uw_s3 s \<and> uw_uploads t = uw_uploads s) \<or>
     (\<exists>meta. p = Inr meta \<and> uw_uploads t = marked i meta (uw_uploads s) \<and>
       uw_s3 t \<in> {uw_s3 s, fmdrop loc (uw_s3 s)} \<and>
       uw_done t = (if r = None then uw_done s @ [done_task i u meta] else uw_done s)))"
proof (cases p)
  case (Inl e)
  with assms show ?thesis by (auto simp: record_result_def elsewhere_def)
next
  case (Inr meta)
  obtain q s1 where q: "run_state (MarkUploadProcessed (fe_up F) i (um_SDHash meta) meta) s = (q, s1)" by fastforce
  show ?thesis
  proof (cases q)
    case (Some e)
    with q have "\<exists>x. s1 = s\<lparr>uw_ext := x\<rparr>" by (auto simp: MarkUploadProcessed_def update_where_def split: option.splits)
    with assms(1) Inr q Some show ?thesis by (auto simp: record_result_def elsewhere_def)
  next
    case None
    with q have s1: "\<exists>x. s1 = s\<lparr>uw_ext := x, uw_uploads := marked i meta (uw_uploads s)\<rparr>"
      by (auto simp: MarkUploadProcessed_def update_where_def marked_def split: option.splits)
    obtain e s2 where e: "run_state (SendResponse F i u meta) s1 = (e, s2)" by fastforce
    then have s2: "\<exists>x. s2 = s1\<lparr>uw_ext := x, uw_done := (if e = None then uw_done s1 @ [done_task i u meta] else uw_done s1)\<rparr>"
      by (auto simp: SendResponse_def done_task_def split: option.splits)
    from assms(1) Inr q None e have "r = e" "t = snd (run_state d s2)"
      by (auto simp: record_result_def split: prod.splits)
    with d [unfolded deferred_ok_def, rule_format, of s2] s1 s2 Inr show ?thesis by (auto simp: elsewhere_def)
  qed
qed

lemma only_blobs:
  assumes "t = s\<lparr>uw_ext := x, uw_blobs := b\<rparr>"
  shows "uw_files t = uw_files s" "uw_done t = uw_done s" "uw_s3 t = uw_s3 s" "uw_uploads t = uw_uploads s" "elsewhere s t"
  by (simp_all add: assms elsewhere_def)

lemma file_body_run:
  assumes "run_state (file_body F u i fn d f) s = (r, t)" and "deferred_ok loc d"
  shows "elsewhere s t \<and> uw_files t = fmdrop (lf_Name f) (uw_files s) \<and> set (uw_blobs t) \<subseteq> set (uw_blobs s) \<and>
    ((r \<noteq> None \<and> uw_done t = uw_done s \<and> uw_s3 t = uw_s3 s \<and> uw_uploads t = uw_uploads s) \<or>
     (\<exists>meta content. fmlookup (uw_files s) (lf_Name f) = Some content \<and> described F (lf_Name f) content fn meta \<and>
       uw_uploads t = marked i meta (uw_uploads s) \<and> uw_s3 t \<in> {uw_s3 s, fmdrop loc (uw_s3 s)} \<and>
       uw_done t = (if r = None then uw_done s @ [done_task i u meta] else uw_done s)))"
proof -
  let ?bp = "path_Join (fe_blobPath F) (lf_Name f)"
  obtain p s1 where p: "run_state (process_file F (lf_Name f) ?bp fn) s = (p, s1)" by fastforce
  note pf = process_file_run [OF p]
  from pf have "s1 = s\<lparr>uw_ext := uw_ext s1, uw_blobs := uw_blobs s1\<rparr>" by blast
  note s1 = only_blobs [OF this]
  obtain r' s2 where rest: "run_state (record_result F u i d p) s1 = (r', s2)" by fastforce
  from pf have "p \<noteq> Inl None" by blast
  note fin = record_result_run [OF rest this assms(2)]
  have t: "r = r'" "t = s2\<lparr>uw_blobs := removeAll ?bp (uw_blobs s2), uw_files := fmdrop (lf_Name f) (uw_files s2)\<rparr>"
    using assms(1) p rest by (simp_all add: file_body_def Let_def RemoveAll_def Cleanup_def remove_file_def)
  have desc: "\<exists>content. fmlookup (uw_files s) (lf_Name f) = Some content \<and> described F (lf_Name f) content fn meta"
    if "p = Inr meta" for meta using process_file_described p that by blast
  have "set (uw_blobs t) \<subseteq> set (uw_blobs s)" using pf fin t by auto
  moreover have "elsewhere s t \<and> uw_files t = fmdrop (lf_Name f) (uw_files s)" using s1 fin t by (simp add: elsewhere_def)
  moreover have "(r \<noteq> None \<and> uw_done t = uw_done s \<and> uw_s3 t = uw_s3 s \<and> uw_uploads t = uw_uploads s) \<or>
     (\<exists>meta. p = Inr meta \<and> uw_uploads t = marked i meta (uw_uploads s) \<and> uw_s3 t \<in> {uw_s3 s, fmdrop loc (uw_s3 s)} \<and>
       uw_done t = (if r = None then uw_done s @ [done_task i u meta] else uw_done s))"
    using s1 fin t by (auto split: if_splits)
  ultimately show ?thesis using desc by metis
qed

declare fmdrop_fmupd_same [simp]

lemma S3_Retrieve_run:
  assumes "run_state (S3_Retrieve F i loc) s = (l, t)"
  shows "elsewhere s t \<and> uw_done t = uw_done s \<and> uw_s3 t = uw_s3 s \<and> uw_uploads t = uw_uploads s \<and> uw_blobs t = uw_blobs s \<and>
    (case l of
       Inl _ \<Rightarrow> uw_files t \<in> {uw_files s, fmdrop (path_Join (fe_downloadsPath F) i) (uw_files s)}
     | Inr f \<Rightarrow> lf_Name f = path_Join (fe_downloadsPath F) i \<and>
         (\<exists>content. fmlookup (uw_s3 s) loc = Some content \<and> uw_files t = fmupd (lf_Name f) content (uw_files s)))"
  using assms
  by (auto simp: S3_Retrieve_def Let_def write_file_def remove_file_def elsewhere_def split: option.splits)

lemma HTTP_Retrieve_run:
  assumes "run_state (HTTP_Retrieve F i url) s = (l, t)"
  shows "elsewhere s t \<and> uw_done t = uw_done s \<and> uw_s3 t = uw_s3 s \<and> uw_uploads t = uw_uploads s \<and> uw_blobs t = uw_blobs s \<and>
    (case l of
       Inl _ \<Rightarrow> uw_files t \<in> {uw_files s, fmdrop (path_Join (fe_downloadsPath F) i) (uw_files s)}
     | Inr f \<Rightarrow> lf_Name f = path_Join (fe_downloadsPath F) i \<and>
         (\<exists>content. content \<noteq> [] \<and> uw_files t = fmupd (lf_Name f) content (uw_files s)))"
  using assms
  by (auto simp: HTTP_Retrieve_def Let_def write_file_def remove_file_def elsewhere_def
    split: option.splits sum.splits if_splits) metis

section \<open>Properties\<close>


text \<open>A calm surrounding: every step works, but for the report, which fails with \<open>e\<close> if given.\<close>

definition calm_up :: "unit up_env" where
  "calm_up = \<lparr>ue_fault = (\<lambda>_. State_Monad.return None), ue_enqueue = State_Monad.return None, ue_jwx = plain_jwx,
     ue_key = EcdsaPublic 1, ue_TokenFromHeader = id, ue_Validate = (\<lambda>_. State_Monad.return None),
     ue_rand = State_Monad.return (Inr [CHR ''a'']), ue_ParseRequestURI = Inr, ue_bucket = ''b'', ue_notifier = True\<rparr>"

definition calm_fl :: "go_error option \<Rightarrow> unit fl_env" where
  "calm_fl e = \<lparr>fe_up = calm_up, fe_blobPath = ''/blobs'', fe_downloadsPath = ''/down'', fe_Create = (\<lambda>_. State_Monad.return None),
     fe_Download = (\<lambda>_. State_Monad.return None), fe_NewRequest = (\<lambda>_. None),
     fe_Do = (\<lambda>_. State_Monad.return (Inl (Plain ''no network''))),
     fe_probe = \<lparr>pr_Match = (\<lambda>_. Some ''mp4''), pr_ProbeURL = (\<lambda>_ _. Inl (Plain ''no ffprobe''))\<rparr>,
     fe_Encode = (\<lambda>b _. State_Monad.return (Inr \<lparr>en_SdHash = ''s'', en_Size = length b, en_Hash = ''h''\<rparr>)),
     fe_MkdirAll = (\<lambda>_. State_Monad.return None), fe_Reflect = (\<lambda>_. State_Monad.return (Inr 0)),
     fe_SendResponse = State_Monad.return e, fe_DeleteObject = State_Monad.return None\<rparr>"

definition incoming_cat :: incoming where
  "incoming_cat = UploadIncoming 7 ''id'' ''cat'' ''b'' ''k''"

definition one_object :: "unit up_world" where
  "one_object = \<lparr>uw_uploads = [\<lparr>ur_ID = ''id'', ur_UserID = 7, ur_Filename = ''cat'', ur_Key = ''k'',
       ur_Status = UploadStatusCompleted, ur_Size = 4, ur_Received = 0, ur_SDHash = [], ur_Meta = None\<rparr>],
     uw_urls = [], uw_events = [], uw_requests = [incoming_cat], uw_done = [], uw_s3 = fmupd (''b'', ''k'') ''data'' fmempty,
     uw_files = fmempty, uw_blobs = [], uw_ext = ()\<rparr>"

lemma calm_run:
  "fst (run_state (HandleUpload (calm_fl e) (Inr incoming_cat)) one_object) = e"
  "uw_s3 (snd (run_state (HandleUpload (calm_fl e) (Inr incoming_cat)) one_object)) = fmempty"
  "\<exists>meta. uw_done (snd (run_state (HandleUpload (calm_fl e) (Inr incoming_cat)) one_object)) = (if e = None then [done_task ''id'' 7 meta] else [])"
proof -
  define n where "n = path_Join ''/down'' ''id''"
  define bp where "bp = path_Join ''/blobs'' n"
  let ?files = "fmupd n ''data'' (fmupd n [] fmempty)"
  obtain info ae where an: "Analyze (fe_probe (calm_fl e)) ?files n ''cat'' = (Some info, ae)"
    by (simp add: Analyze_def Let_def)
  have "run_state (S3_Retrieve (calm_fl e) ''id'' (''b'', ''k'')) one_object =
      (Inr \<lparr>lf_Name = n, lf_Size = length ''data''\<rparr>, one_object\<lparr>uw_files := ?files\<rparr>)"
    by (simp add: S3_Retrieve_def Let_def calm_fl_def one_object_def write_file_def n_def)
  moreover have "run_state (process_file (calm_fl e) n bp ''cat'') (one_object\<lparr>uw_files := ?files\<rparr>) =
      (Inr (build_meta ''cat'' info \<lparr>en_SdHash = ''s'', en_Size = length ''data'', en_Hash = ''h''\<rparr>), one_object\<lparr>uw_files := ?files, uw_blobs := [bp]\<rparr>)"
    unfolding process_file_def using an by (simp add: Split_def Upload_def calm_fl_def one_object_def)
  ultimately have "run_state (HandleUpload (calm_fl e) (Inr incoming_cat)) one_object =
      (e, snd (run_state (HandleUpload (calm_fl e) (Inr incoming_cat)) one_object)) \<and>
    uw_s3 (snd (run_state (HandleUpload (calm_fl e) (Inr incoming_cat)) one_object)) = fmempty \<and>
    (\<exists>meta. uw_done (snd (run_state (HandleUpload (calm_fl e) (Inr incoming_cat)) one_object)) = (if e = None then [done_task ''id'' 7 meta] else []))"
    by (cases e) (simp_all add: HandleUpload_def incoming_cat_def file_body_def Let_def bp_def record_result_def
      MarkUploadProcessed_def update_where_def SendResponse_def delete_source_def S3_Delete_def RemoveAll_def Cleanup_def
      remove_file_def one_object_def calm_up_def calm_fl_def done_task_def)
  then show "fst (run_state (HandleUpload (calm_fl e) (Inr incoming_cat)) one_object) = e"
    "uw_s3 (snd (run_state (HandleUpload (calm_fl e) (Inr incoming_cat)) one_object)) = fmempty"
    "\<exists>meta. uw_done (snd (run_state (HandleUpload (calm_fl e) (Inr incoming_cat)) one_object)) = (if e = None then [done_task ''id'' 7 meta] else [])"
    by (auto simp: prod_eq_iff)
qed


text \<open>A report that fails loses the upload: the object is deleted all the same, the task is
  retried, and the retry finds nothing, so the API server never hears of a file that has
  been processed.\<close>

lemma missing_object_fails:
  assumes "fmlookup (uw_s3 s) (b, k) = None" and "run_state (HandleUpload F (Inr (UploadIncoming u i fn b k))) s = (r, t)"
  shows "r \<noteq> None \<and> uw_done t = uw_done s"
proof -
  obtain l s1 where l: "run_state (S3_Retrieve F i (b, k)) s = (l, s1)" by fastforce
  with S3_Retrieve_run [OF l] assms show ?thesis by (cases l) (auto simp: HandleUpload_def)
qed

theorem failed_report_loses_upload:
  "\<exists>t. run_state (HandleUpload (calm_fl (Some (Plain ''redis down''))) (Inr incoming_cat)) one_object
       = (Some (Plain ''redis down''), t) \<and> uw_done t = [] \<and>
     (\<forall>F :: unit fl_env. fst (run_state (HandleUpload F (Inr incoming_cat)) t) \<noteq> None \<and>
       uw_done (snd (run_state (HandleUpload F (Inr incoming_cat)) t)) = [])"
proof -
  let ?m = "run_state (HandleUpload (calm_fl (Some (Plain ''redis down''))) (Inr incoming_cat)) one_object"
  have t: "?m = (Some (Plain ''redis down''), snd ?m)" "uw_s3 (snd ?m) = fmempty" "uw_done (snd ?m) = []"
    using calm_run [of "Some (Plain ''redis down'')"] by (auto simp: prod_eq_iff)
  have "fst (run_state (HandleUpload F (Inr incoming_cat)) (snd ?m)) \<noteq> None \<and>
      uw_done (snd (run_state (HandleUpload F (Inr incoming_cat)) (snd ?m))) = []" for F :: "unit fl_env"
    using missing_object_fails [of "snd ?m" "''b''" "''k''" F 7 "''id''" "''cat''", OF _ surjective_pairing] t
    by (simp add: incoming_cat_def)
  with t show ?thesis by blast
qed

end
