(* ===== verification/UploadFlow.thy ===== *)
theory UploadFlow
  imports Forklift
begin

text \<open>
  The way of an upload through the services: requests that pass the middlewares reach the TUS
  library, its events are handled by the listeners one channel at a time, complete files and
  URLs are passed to forklift, forklift reports to the API server. The theorems follow the
  owner of an upload along this way.
\<close>

section \<open>Who a request comes from\<close>

text \<open>The user a header names, if its token is valid at the time of asking.\<close>

definition names :: "'w up_env \<Rightarrow> string \<Rightarrow> int \<Rightarrow> bool" where
  "names E header u \<longleftrightarrow> (\<exists>validate. user_of_token (ue_jwx E) (ue_key E) (ue_TokenFromHeader E header) validate = Inr u)"

lemma ext_refl [simp]: "\<exists>x. s = s\<lparr>uw_ext := x\<rparr>"
  by (rule exI [of _ "uw_ext s"]) simp

lemma names_unique: "names E h u \<Longrightarrow> names E h w \<Longrightarrow> u = w"
  by (auto simp: names_def dest: user_of_token_stable)

lemma extractUser_run:
  assumes "run_state (extractUserIDFromRequest E h) s = (r, t)"
  shows "\<exists>x. t = s\<lparr>uw_ext := x\<rparr>" and "r = Inr u \<Longrightarrow> names E h u"
  using assms by (auto simp: extractUserIDFromRequest_def names_def Let_def split: option.splits if_splits)

section \<open>Access\<close>

lemma GetUpload_run:
  assumes "run_state (GetUpload E u i) s = (r, t)"
  shows "\<exists>x. t = s\<lparr>uw_ext := x\<rparr>" and "r = Inr row \<Longrightarrow> row \<in> set (uw_uploads s) \<and> own u i row"
  using assms by (auto simp: GetUpload_def own_def find_Some_iff split: option.splits)

lemma serve_upload_pass:
  assumes "run_state (serve_upload E m h path) s = (Ok (Pass v), t)"
  obtains u x where "v = Some u" "u \<noteq> 0" "names E h u" "m \<noteq> ''OPTIONS''" "t = s\<lparr>uw_ext := x\<rparr>"
    "extractUploadIDFromPath path = [] \<or> (\<exists>r \<in> set (uw_uploads s). own u (extractUploadIDFromPath path) r)"
proof -
  have m: "m \<noteq> ''OPTIONS''" using assms by (auto simp: serve_upload_def authByToken_def)
  obtain r s1 where r: "run_state (extractUserIDFromRequest E h) s = (r, s1)" by fastforce
  with m assms obtain u where u: "r = Inr u" by (cases r) (auto simp: serve_upload_def authByToken_def)
  from r m u assms have "run_state (verifyUploadFileAccess E (Some u) path) s1 = (Ok (Pass v), t)"
    by (simp add: serve_upload_def authByToken_def)
  note acc = this [unfolded verifyUploadFileAccess_def Let_def]
  from acc have u0: "u \<noteq> 0" by auto
  from extractUser_run [OF r] u obtain x where s1: "s1 = s\<lparr>uw_ext := x\<rparr>" and nm: "names E h u" by blast
  show thesis
  proof (cases "extractUploadIDFromPath path = []")
    case True
    with acc u0 s1 that m nm show thesis by auto
  next
    case False
    obtain g s2 where g: "run_state (GetUpload E u (extractUploadIDFromPath path)) s1 = (g, s2)" by fastforce
    with acc u0 False obtain row where row: "g = Inr row" and t: "t = s2" "v = Some u" by (cases g) auto
    from GetUpload_run [OF g] row s1 t obtain y where "t = s\<lparr>uw_ext := y\<rparr>"
      "row \<in> set (uw_uploads s)" "own u (extractUploadIDFromPath path) row" by auto
    with that u0 nm m t show thesis by blast
  qed
qed


section \<open>The flow\<close>

text \<open>Everything in the state that ties an upload id to a user: pending events by their token,
  rows of both tables, requests to forklift and reports of forklift.\<close>

definition event_claims :: "'w up_env \<Rightarrow> hook_event list \<Rightarrow> (string \<times> int) set" where
  "event_claims E evs = {(ev_ID ev, u) | ev u. ev \<in> set evs \<and> names E (ev_Header ev) u}"

definition row_claims :: "upload_rec list \<Rightarrow> (string \<times> int) set" where
  "row_claims rows = (\<lambda>r. (ur_ID r, ur_UserID r)) ` set rows"

definition url_claims :: "url_rec list \<Rightarrow> (string \<times> int) set" where
  "url_claims rows = (\<lambda>r. (ul_ID r, ul_UserID r)) ` set rows"

definition request_claims :: "incoming list \<Rightarrow> (string \<times> int) set" where
  "request_claims qs = (\<lambda>q. (in_UploadID q, in_UserID q)) ` set qs"

definition report_claims :: "task list \<Rightarrow> (string \<times> int) set" where
  "report_claims ts = {(i, u). \<exists>meta. done_task i u meta \<in> set ts}"

definition claims :: "'w up_env \<Rightarrow> 'w up_world \<Rightarrow> (string \<times> int) set" where
  "claims E s = event_claims E (uw_events s) \<union> row_claims (uw_uploads s) \<union> url_claims (uw_urls s) \<union>
     request_claims (uw_requests s) \<union> report_claims (uw_done s)"

lemmas claims_parts = event_claims_def row_claims_def url_claims_def request_claims_def report_claims_def

definition known :: "'w up_world \<Rightarrow> string \<Rightarrow> bool" where
  "known s i \<longleftrightarrow> list_ex (\<lambda>ev. ev_ID ev = i) (uw_events s) \<or> list_ex (\<lambda>r. ur_ID r = i) (uw_uploads s) \<or>
     list_ex (\<lambda>r. ul_ID r = i) (uw_urls s) \<or> list_ex (\<lambda>q. in_UploadID q = i) (uw_requests s) \<or>
     list_ex (\<lambda>t. case tk_Payload t of UploadDone j _ _ \<Rightarrow> j = i | _ \<Rightarrow> False) (uw_done s)"

text \<open>Steps. A request that passes makes the library emit events under the request's header:
  about the upload of its path, or, if the path has none, about an upload with an id that
  has never been used. A listener takes the oldest event of its channel. A URL gets an id
  from 16 random bytes, taken not to collide. Forklift handles a request that is queued,
  and may be given it again, so that it stays. The library fills the object store.\<close>

inductive up_step :: "'w fl_env \<Rightarrow> 'w up_world \<Rightarrow> 'w up_world \<Rightarrow> bool" for F where
  tus_request: "run_state (serve_upload (fe_up F) m h path) s = (Ok (Pass v), t) \<Longrightarrow>
     list_all (\<lambda>ev. ev_Header ev = h \<and> ev_ID ev = i) evs \<Longrightarrow>
     (if extractUploadIDFromPath path \<noteq> [] then i = extractUploadIDFromPath path else \<not> known s i) \<Longrightarrow>
     up_step F s (t\<lparr>uw_events := uw_events t @ evs\<rparr>)"
| hook: "uw_events s = pre @ ev # post \<Longrightarrow> list_all (\<lambda>e. ev_Kind e \<noteq> ev_Kind ev) pre \<Longrightarrow>
     run_state (listen (fe_up F) ev) (s\<lparr>uw_events := pre @ post\<rparr>) = (r, t) \<Longrightarrow> up_step F s t"
| url_request: "run_state (authByToken (fe_up F) ''POST'' h) s = (Pass v, s1) \<Longrightarrow>
     run_state (PostURL (fe_up F) v url) s1 = (r, t) \<Longrightarrow>
     (\<And>uuid. fst (run_state (generateURLUID (fe_up F)) s1) = Inr uuid \<Longrightarrow> \<not> known s uuid) \<Longrightarrow> up_step F s t"
| upload_work: "q \<in> set (uw_requests s) \<Longrightarrow> run_state (HandleUpload F (Inr q)) s = (r, t) \<Longrightarrow> up_step F s t"
| url_work: "q \<in> set (uw_requests s) \<Longrightarrow> run_state (HandleURL F (Inr q)) s = (r, t) \<Longrightarrow> up_step F s t"
| acknowledged: "up_step F s (s\<lparr>uw_requests := remove1 q (uw_requests s)\<rparr>)"
| outside: "up_step F s (s\<lparr>uw_s3 := objs, uw_ext := x\<rparr>)"

inductive up_reachable :: "'w fl_env \<Rightarrow> 'w up_world \<Rightarrow> bool" for F where
  start: "up_reachable F \<lparr>uw_uploads = [], uw_urls = [], uw_events = [], uw_requests = [], uw_done = [], uw_s3 = objs,
     uw_files = files, uw_blobs = [], uw_ext = x\<rparr>"
| step: "up_reachable F s \<Longrightarrow> up_step F s t \<Longrightarrow> up_reachable F t"

definition one_owner :: "(string \<times> int) set \<Rightarrow> bool" where
  "one_owner C \<longleftrightarrow> (\<forall>i u w. (i, u) \<in> C \<longrightarrow> (i, w) \<in> C \<longrightarrow> u \<noteq> 0 \<longrightarrow> w \<noteq> 0 \<longrightarrow> u = w)"

lemma one_owner_mono:
  "one_owner C \<Longrightarrow> (\<And>i u. (i, u) \<in> D \<Longrightarrow> (i, u) \<in> C \<or> u = 0) \<Longrightarrow> one_owner D"
  unfolding one_owner_def by blast

lemma one_owner_fresh:
  "one_owner C \<Longrightarrow> (\<And>j u. (j, u) \<in> D \<Longrightarrow> (j, u) \<in> C \<or> u = 0 \<or> (j, u) = (i, v)) \<Longrightarrow> (\<And>u. (i, u) \<notin> C) \<Longrightarrow> one_owner D"
  unfolding one_owner_def by (metis prod.inject)

lemma unknown_unclaimed: "\<not> known s i \<Longrightarrow> (i, u) \<notin> claims E s"
  by (auto simp: known_def claims_def claims_parts list_ex_iff done_task_def)

lemma claims_ext [simp]: "claims E (s\<lparr>uw_ext := x\<rparr>) = claims E s"
  by (simp add: claims_def)

lemma known_ext [simp]: "known (s\<lparr>uw_ext := x\<rparr>) i = known s i"
  by (simp add: known_def)

lemma row_claims_map:
  assumes "\<And>r. ur_ID (g r) = ur_ID r" "\<And>r. ur_UserID (g r) = ur_UserID r"
  shows "row_claims (map g rows) = row_claims rows"
  by (simp add: row_claims_def image_image assms)

lemma update_where_claims:
  assumes "run_state (update_where E op P g) s = (r, t)"
    and "\<And>r. ur_ID (g r) = ur_ID r" "\<And>r. ur_UserID (g r) = ur_UserID r"
  shows "claims E t = claims E s"
proof -
  have "claims E (s'\<lparr>uw_uploads := map (\<lambda>r. if P r then g r else r) (uw_uploads s')\<rparr>) = claims E s'" for s' :: "'a up_world"
    by (simp add: claims_def row_claims_map assms(2,3))
  moreover have "\<exists>x. t = s\<lparr>uw_ext := x\<rparr> \<or> t = s\<lparr>uw_ext := x\<rparr>\<lparr>uw_uploads := map (\<lambda>r. if P r then g r else r) (uw_uploads (s\<lparr>uw_ext := x\<rparr>))\<rparr>"
    using assms(1) by (auto simp: update_where_def split: option.splits)
  ultimately show ?thesis by (metis claims_ext)
qed

lemma SendRequest_claims:
  "run_state (up_SendRequest E q) s = (r, t) \<Longrightarrow> claims E t \<subseteq> insert (in_UploadID q, in_UserID q) (claims E s)"
  by (auto simp: up_SendRequest_def claims_def claims_parts split: option.splits)

lemma CreateUploadRow_claims:
  "run_state (CreateUploadRow E u i n) s = (r, t) \<Longrightarrow> claims E t \<subseteq> insert (i, u) (claims E s)"
  by (auto simp: CreateUploadRow_def claims_def claims_parts split: option.splits if_splits)

lemma CreateURL_claims:
  "run_state (CreateURL E u i url fn) s = (r, t) \<Longrightarrow> claims E t \<subseteq> insert (i, u) (claims E s)"
  by (auto simp: CreateURL_def claims_def claims_parts split: option.splits if_splits)

lemma on_complete_claims:
  assumes "run_state (on_complete E u ev) s = (r, t)"
  shows "claims E t \<subseteq> insert (ev_ID ev, u) (claims E s)"
proof -
  obtain e s1 where e: "run_state (MarkUploadCompleted E u (ev_ID ev) (ev_Filename ev) (ev_Key ev)) s = (e, s1)" by fastforce
  then have c: "claims E s1 = claims E s" by (auto simp: MarkUploadCompleted_def dest: update_where_claims)
  obtain n s2 where n: "run_state (up_SendRequest E (UploadIncoming u (ev_ID ev) (ev_Filename ev) (ue_bucket E) (ev_Key ev))) s1 = (n, s2)"
    by fastforce
  from SendRequest_claims [OF n] c e n assms show ?thesis
    by (auto simp: on_complete_def UploadReceived_def split: if_splits)
qed

lemma listen_claims:
  assumes "run_state (listen E ev) s = (r, t)"
  shows "\<exists>u. (u = 0 \<or> names E (ev_Header ev) u) \<and> claims E t \<subseteq> insert (ev_ID ev, u) (claims E s)"
proof -
  obtain x s1 where x: "run_state (extractUserIDFromRequest E (ev_Header ev)) s = (x, s1)" by fastforce
  define u where "u = (case x of Inl _ \<Rightarrow> 0 | Inr n \<Rightarrow> n)"
  have u: "u = 0 \<or> names E (ev_Header ev) u" using extractUser_run(2) [OF x] by (auto simp: u_def split: sum.splits)
  have s1: "claims E s1 = claims E s" using extractUser_run(1) [OF x] by auto
  have "claims E t \<subseteq> insert (ev_ID ev, u) (claims E s1)"
  proof (cases "ev_Kind ev")
    case CreatedUploads
    obtain y where "run_state (CreateUploadRow E u (ev_ID ev) (ev_Size ev)) s1 = (y, t)"
      using assms x CreatedUploads by (auto simp: listen_def on_created_def u_def [symmetric] split: prod.splits)
    then show ?thesis by (rule CreateUploadRow_claims)
  next
    case UploadProgress
    obtain y where "run_state (RecordUploadProgress E u (ev_ID ev) (ev_Offset ev)) s1 = (y, t)"
      using assms x UploadProgress by (auto simp: listen_def on_progress_def u_def [symmetric] split: prod.splits)
    then show ?thesis by (auto simp: RecordUploadProgress_def dest: update_where_claims)
  next
    case TerminatedUploads
    obtain y where "run_state (MarkUploadTerminated E u (ev_ID ev)) s1 = (y, t)"
      using assms x TerminatedUploads by (auto simp: listen_def on_terminated_def u_def [symmetric] split: prod.splits)
    then show ?thesis by (auto simp: MarkUploadTerminated_def dest: update_where_claims)
  next
    case CompleteUploads
    have "run_state (on_complete E u ev) s1 = (r, t)"
      using assms x CompleteUploads by (simp add: listen_def u_def [symmetric])
    then show ?thesis by (rule on_complete_claims)
  qed
  with u s1 show ?thesis by auto
qed

lemma PostURL_claims:
  assumes "run_state (PostURL E (Some u) url) s = (r, t)"
  shows "claims E t \<subseteq> claims E s \<or>
    (\<exists>i. fst (run_state (generateURLUID E) s) = Inr i \<and> claims E t \<subseteq> insert (i, u) (claims E s))"
proof -
  obtain b s1 where b: "run_state (url_Bind E url) s = (b, s1)" by fastforce
  then have s1: "claims E s1 = claims E s"
    and gen: "\<And>fn i. b = Inr (fn, i) \<Longrightarrow> fst (run_state (generateURLUID E) s) = Inr i"
    by (auto simp: url_Bind_def generateURLUID_def Let_def split: if_splits sum.splits)
  show ?thesis
  proof (cases b)
    case (Inl e)
    with assms b s1 show ?thesis by (simp add: PostURL_def)
  next
    case (Inr p)
    obtain fn i where p: "p = (fn, i)" by fastforce
    obtain c s2 where c: "run_state (CreateURL E u i url fn) s1 = (c, s2)" by fastforce
    obtain n s3 where n: "run_state (up_SendRequest E (URLIncoming u i fn url)) s2 = (n, s3)" by fastforce
    have "t \<in> {s2, s3}" using assms b Inr p c n
      by (auto simp: PostURL_def URLReceived_def split: option.splits if_splits)
    then have "claims E t \<subseteq> insert (i, u) (claims E s)"
      using CreateURL_claims [OF c] SendRequest_claims [OF n] s1 by auto
    with gen Inr p show ?thesis by blast
  qed
qed

section \<open>The owner\<close>

lemma reported_claims:
  assumes "elsewhere s t" and "uw_uploads t = uw_uploads s \<or> (\<exists>meta. uw_uploads t = marked i meta (uw_uploads s))"
    and "uw_done t = uw_done s \<or> (\<exists>meta. uw_done t = uw_done s @ [done_task i u meta])"
  shows "claims E t \<subseteq> insert (i, u) (claims E s)"
proof -
  have "row_claims (uw_uploads t) = row_claims (uw_uploads s)"
    using assms(2) by (auto simp: marked_def row_claims_map)
  moreover have "report_claims (uw_done t) \<subseteq> insert (i, u) (report_claims (uw_done s))"
    using assms(3) by (auto simp: report_claims_def done_task_def)
  ultimately show ?thesis using assms(1) by (auto simp: claims_def elsewhere_def)
qed

lemma claims_frame:
  "elsewhere s t \<Longrightarrow> uw_uploads t = uw_uploads s \<Longrightarrow> uw_done t = uw_done s \<Longrightarrow> claims E t = claims E s"
  by (simp add: claims_def elsewhere_def)

lemma file_body_claims:
  assumes "run_state (file_body F u i fn d f) s = (r, t)" and "deferred_ok loc d"
  shows "claims E t \<subseteq> insert (i, u) (claims E s)"
  using file_body_run [OF assms] by (intro reported_claims) (auto split: if_splits)

lemma HandleUpload_claims:
  assumes "run_state (HandleUpload F (Inr q)) s = (r, t)"
  shows "claims E t \<subseteq> insert (in_UploadID q, in_UserID q) (claims E s)"
proof (cases q)
  case (UploadIncoming u i fn b k)
  obtain l s1 where l: "run_state (S3_Retrieve F i (b, k)) s = (l, s1)" by fastforce
  have s1: "claims E s1 = claims E s" using S3_Retrieve_run [OF l] by (intro claims_frame) simp_all
  show ?thesis
  proof (cases l)
    case (Inl e)
    with assms UploadIncoming l s1 show ?thesis by (auto simp: HandleUpload_def)
  next
    case (Inr f)
    with assms UploadIncoming l have "run_state (file_body F u i fn (delete_source F (b, k)) f) s1 = (r, t)"
      by (simp add: HandleUpload_def)
    from file_body_claims [OF this deferred_ok_delete] s1 UploadIncoming show ?thesis by auto
  qed
next
  case URLIncoming
  with assms show ?thesis by (auto simp: HandleUpload_def)
qed

lemma HandleURL_claims:
  assumes "run_state (HandleURL F (Inr q)) s = (r, t)"
  shows "claims E t \<subseteq> insert (in_UploadID q, in_UserID q) (claims E s)"
proof (cases q)
  case (URLIncoming u i fn url)
  obtain l s1 where l: "run_state (HTTP_Retrieve F i url) s = (l, s1)" by fastforce
  have s1: "claims E s1 = claims E s" using HTTP_Retrieve_run [OF l] by (intro claims_frame) simp_all
  show ?thesis
  proof (cases l)
    case (Inl e)
    with assms URLIncoming l s1 show ?thesis by (auto simp: HandleURL_def)
  next
    case (Inr f)
    with assms URLIncoming l have "run_state (file_body F u i fn (State_Monad.return ()) f) s1 = (r, t)"
      by (simp add: HandleURL_def)
    from file_body_claims [OF this deferred_ok_none] s1 URLIncoming show ?thesis by auto
  qed
next
  case UploadIncoming
  with assms show ?thesis by (auto simp: HandleURL_def)
qed

lemma queued_claim: "q \<in> set (uw_requests s) \<Longrightarrow> (in_UploadID q, in_UserID q) \<in> claims E s"
  by (auto simp: claims_def request_claims_def)

lemma request_events_claims:
  assumes "list_all (\<lambda>ev. ev_Header ev = h \<and> ev_ID ev = i) evs" and "names E h u"
  shows "claims E (s\<lparr>uw_events := uw_events s @ evs\<rparr>) \<subseteq> insert (i, u) (claims E s)"
proof -
  have "event_claims E (uw_events s @ evs) \<subseteq> insert (i, u) (event_claims E (uw_events s))"
    using assms by (auto simp: event_claims_def list_all_iff dest: names_unique)
  then show ?thesis by (auto simp: claims_def)
qed

lemma taken_event_claims:
  assumes "uw_events s = pre @ ev # post"
  shows "claims E (s\<lparr>uw_events := pre @ post\<rparr>) \<subseteq> claims E s"
    and "names E (ev_Header ev) u \<Longrightarrow> (ev_ID ev, u) \<in> claims E s"
  using assms by (auto simp: claims_def event_claims_def)

lemma up_step_one_owner:
  assumes "up_step F s t" and "one_owner (claims (fe_up F) s)"
  shows "one_owner (claims (fe_up F) t)"
  using assms
proof cases
  case (tus_request m h path v t0 i evs)
  from tus_request(2) obtain u x where u: "u \<noteq> 0" "names (fe_up F) h u" "t0 = s\<lparr>uw_ext := x\<rparr>"
    "extractUploadIDFromPath path = [] \<or> (\<exists>r \<in> set (uw_uploads s). own u (extractUploadIDFromPath path) r)"
    by (rule serve_upload_pass) blast
  have sub: "claims (fe_up F) t \<subseteq> insert (i, u) (claims (fe_up F) s)"
    using request_events_claims [OF tus_request(3) u(2), of t0] u(3) tus_request(1) by simp
  show ?thesis
  proof (cases "extractUploadIDFromPath path = []")
    case True
    with tus_request(4) have "(i, w) \<notin> claims (fe_up F) s" for w by (simp add: unknown_unclaimed)
    with sub show ?thesis by (intro one_owner_fresh [OF assms(2), of _ i u]) auto
  next
    case False
    with u(4) tus_request(4) have "(i, u) \<in> claims (fe_up F) s" by (force simp: own_def claims_def row_claims_def)
    with sub show ?thesis by (intro one_owner_mono [OF assms(2)]) auto
  qed
next
  case (hook pre ev post r)
  from listen_claims [OF hook(3)] obtain u where u: "u = 0 \<or> names (fe_up F) (ev_Header ev) u"
    "claims (fe_up F) t \<subseteq> insert (ev_ID ev, u) (claims (fe_up F) (s\<lparr>uw_events := pre @ post\<rparr>))" by blast
  with taken_event_claims [OF hook(1), of "fe_up F"] show ?thesis by (intro one_owner_mono [OF assms(2)]) auto
next
  case (url_request h v s1 url r)
  obtain x s2 where x: "run_state (extractUserIDFromRequest (fe_up F) h) s = (x, s2)" by fastforce
  from x url_request(1) obtain u where v: "v = Some u" "s2 = s1"
    by (cases x) (auto simp: authByToken_def)
  with extractUser_run(1) [OF x] have s1: "claims (fe_up F) s1 = claims (fe_up F) s" by auto
  from PostURL_claims [OF url_request(2) [unfolded v(1)]] s1 consider "claims (fe_up F) t \<subseteq> claims (fe_up F) s"
    | i where "fst (run_state (generateURLUID (fe_up F)) s1) = Inr i" "claims (fe_up F) t \<subseteq> insert (i, u) (claims (fe_up F) s)"
    by auto
  then show ?thesis
  proof cases
    case 1
    then show ?thesis by (intro one_owner_mono [OF assms(2)]) auto
  next
    case 2
    from url_request(3) [OF 2(1)] have "(i, w) \<notin> claims (fe_up F) s" for w by (simp add: unknown_unclaimed)
    with 2(2) show ?thesis by (intro one_owner_fresh [OF assms(2), of _ i u]) auto
  qed
next
  case (upload_work q r)
  with HandleUpload_claims [OF upload_work(2), of "fe_up F"] queued_claim [OF upload_work(1), of "fe_up F"]
  show ?thesis by (intro one_owner_mono [OF assms(2)]) auto
next
  case (url_work q r)
  with HandleURL_claims [OF url_work(2), of "fe_up F"] queued_claim [OF url_work(1), of "fe_up F"]
  show ?thesis by (intro one_owner_mono [OF assms(2)]) auto
next
  case (acknowledged q)
  then show ?thesis by (intro one_owner_mono [OF assms(2)]) (auto simp: claims_def request_claims_def dest: subsetD [OF set_remove1_subset])
next
  case (outside objs x)
  then show ?thesis by (intro one_owner_mono [OF assms(2)]) (auto simp: claims_def)
qed

lemma up_reachable_one_owner: "up_reachable F s \<Longrightarrow> one_owner (claims (fe_up F) s)"
proof (induction rule: up_reachable.induct)
  case (start objs files x)
  then show ?case by (simp add: one_owner_def claims_def claims_parts)
qed (rule up_step_one_owner)


text \<open>A run: a file that is created and completed in one request.\<close>

definition cat_event :: "hook_kind \<Rightarrow> hook_event" where
  "cat_event k = \<lparr>ev_Kind = k, ev_Header = ''token of 7'', ev_ID = ''id'', ev_Size = 4, ev_Offset = 4, ev_Filename = ''cat'', ev_Key = ''k''\<rparr>"

lemma token_of_7 [simp]: "run_state (extractUserIDFromRequest calm_up ''token of 7'') s = (Inr 7, s)"
proof -
  have "ParseInt32 ''7'' = Some 7" by code_simp
  then show ?thesis by (simp add: extractUserIDFromRequest_def calm_up_def Let_def ParseToken_def plain_jwx_def user_of_token_def)
qed

lemma one_object_reachable: "up_reachable (calm_fl None) one_object"
proof -
  let ?s0 = "\<lparr>uw_uploads = [], uw_urls = [], uw_events = [], uw_requests = [], uw_done = [], uw_s3 = fmupd (''b'', ''k'') ''data'' fmempty,
     uw_files = fmempty, uw_blobs = [], uw_ext = ()\<rparr> :: unit up_world"
  let ?s1 = "?s0\<lparr>uw_events := [cat_event CreatedUploads, cat_event CompleteUploads]\<rparr>"
  let ?row = "\<lparr>ur_ID = ''id'', ur_UserID = 7, ur_Filename = [], ur_Key = [],
       ur_Status = UploadStatusCreated, ur_Size = 4, ur_Received = 0, ur_SDHash = [], ur_Meta = None\<rparr>"
  let ?s2 = "?s0\<lparr>uw_events := [cat_event CompleteUploads], uw_uploads := [?row]\<rparr>"
  have up: "fe_up (calm_fl None) = calm_up" by (simp add: calm_fl_def)
  have path: "extractUploadIDFromPath ''/'' = []" by code_simp
  have "run_state (serve_upload calm_up ''POST'' ''token of 7'' ''/'') ?s0 = (Ok (Pass (Some 7)), ?s0)"
    by (simp add: serve_upload_def authByToken_def verifyUploadFileAccess_def Let_def path)
  then have "up_step (calm_fl None) ?s0 (?s0\<lparr>uw_events := uw_events ?s0 @ [cat_event CreatedUploads, cat_event CompleteUploads]\<rparr>)"
    by (intro up_step.tus_request [where i = "''id''"]) (auto simp: up path cat_event_def known_def)
  then have s1: "up_reachable (calm_fl None) ?s1" by (intro up_reachable.step [OF up_reachable.start]) simp
  have "run_state (listen calm_up (cat_event CreatedUploads)) (?s1\<lparr>uw_events := [] @ [cat_event CompleteUploads]\<rparr>) = ((), ?s2)"
    by (simp add: listen_def cat_event_def on_created_def CreateUploadRow_def) (simp add: calm_up_def)
  then have "up_step (calm_fl None) ?s1 ?s2" by (intro up_step.hook [where pre = "[]"]) (simp_all add: up)
  with s1 have s2: "up_reachable (calm_fl None) ?s2" by (rule up_reachable.step)
  have "run_state (listen calm_up (cat_event CompleteUploads)) (?s2\<lparr>uw_events := [] @ []\<rparr>) = ((), one_object)"
    by (simp add: listen_def cat_event_def on_complete_def MarkUploadCompleted_def update_where_def UploadReceived_def up_SendRequest_def)
      (simp add: calm_up_def one_object_def incoming_cat_def own_def UploadReceived_def up_SendRequest_def)
  then have "up_step (calm_fl None) ?s2 one_object" by (intro up_step.hook [where pre = "[]"]) (simp_all add: up)
  with s2 show ?thesis by (rule up_reachable.step)
qed



end
