(* ===== verification/Ip.thy ===== *)
theory Ip
  imports Auth
begin

text \<open>
  \<open>internal/ip\<close>: the client address of a request. \<open>ForRequest\<close> believes Cloudflare's header,
  then the rightmost public address of \<open>X-Forwarded-For\<close> and \<open>X-Real-Ip\<close>, then the peer of the
  connection. Addresses are parsed as \<open>net.ParseIP\<close> does, IPv4 and IPv6, into the 16 bytes of
  a \<open>net.IP\<close>.
\<close>

section \<open>Parsing\<close>

type_synonym net_IP = "nat list"

text \<open>A field of an IPv4 address: decimal, no leading zero, at most 255.\<close>

definition v4_field :: "string \<Rightarrow> nat option" where
  "v4_field f = (
     if f \<noteq> [] \<and> list_all is_digit f \<and> (length f = 1 \<or> hd f \<noteq> CHR ''0'') \<and> undecimal f \<le> 255
     then Some (undecimal f) else None)"

fun v4_fields :: "string list \<Rightarrow> nat list option" where
  "v4_fields [] = Some []"
| "v4_fields (f # fs) = (case v4_field f of None \<Rightarrow> None
     | Some n \<Rightarrow> (case v4_fields fs of None \<Rightarrow> None | Some ns \<Rightarrow> Some (n # ns)))"

definition parse_v4 :: "string \<Rightarrow> nat list option" where
  "parse_v4 s = (let fs = split_on CHR ''.'' s in if length fs = 4 then v4_fields fs else None)"

definition is_hex :: "char \<Rightarrow> bool" where
  "is_hex c \<longleftrightarrow> unhex_digit c \<noteq> None"

definition unhex :: "string \<Rightarrow> nat" where
  "unhex s = foldl (\<lambda>a c. 16 * a + (case unhex_digit c of Some d \<Rightarrow> d | None \<Rightarrow> 0)) 0 s"

text \<open>
  The groups of an IPv6 address: the groups still possible, the bytes read, the place of
  the ellipsis and the rest of the text. The last two groups may be an IPv4 address.
\<close>

fun v6_groups :: "nat \<Rightarrow> nat list \<Rightarrow> nat option \<Rightarrow> string \<Rightarrow> (nat list \<times> nat option \<times> string) option" where
  "v6_groups 0 ip ellipsis s = Some (ip, ellipsis, s)"
| "v6_groups (Suc n) ip ellipsis s = (
     let h = takeWhile is_hex s; rest = dropWhile is_hex s; ip' = ip @ [unhex h div 256, unhex h mod 256] in
     if h = [] \<or> length h > 4 then None
     else if HasPrefix rest ''.'' then
       if ellipsis = None \<and> length ip \<noteq> 12 \<or> length ip + 4 > 16 then None
       else (case parse_v4 s of None \<Rightarrow> None | Some q \<Rightarrow> Some (ip @ q, ellipsis, []))
     else if rest = [] then Some (ip', ellipsis, [])
     else if hd rest \<noteq> CHR '':'' \<or> length rest = 1 then None
     else if rest ! 1 = CHR '':'' then
       if ellipsis \<noteq> None then None
       else if length rest = 2 then Some (ip', Some (length ip'), [])
       else v6_groups n ip' (Some (length ip')) (drop 2 rest)
     else v6_groups n ip' ellipsis (drop 1 rest))"

definition parse_v6 :: "string \<Rightarrow> net_IP option" where
  "parse_v6 s = (
     if CHR ''%'' \<in> set s then None
     else if s = ''::'' then Some (replicate 16 0)
     else let start = HasPrefix s ''::'' in
       (case v6_groups 8 [] (if start then Some 0 else None) (if start then drop 2 s else s) of
          None \<Rightarrow> None
        | Some (ip, ellipsis, rest) \<Rightarrow>
            if rest \<noteq> [] then None
            else if length ip < 16 then
              (case ellipsis of None \<Rightarrow> None
               | Some e \<Rightarrow> Some (take e ip @ replicate (16 - length ip) 0 @ drop e ip))
            else if ellipsis \<noteq> None then None else Some ip))"

definition v4in6 :: "nat list \<Rightarrow> net_IP" where
  "v4in6 q = replicate 10 0 @ [255, 255] @ q"

definition ParseIP :: "string \<Rightarrow> net_IP option" where
  "ParseIP s = (case List.find (\<lambda>c. c \<in> {CHR ''.'', CHR '':'', CHR ''%''}) s of
     None \<Rightarrow> None
   | Some c \<Rightarrow> if c = CHR ''.'' then map_option v4in6 (parse_v4 s)
               else if c = CHR '':'' then parse_v6 s else None)"

section \<open>Kinds of addresses\<close>

definition To4 :: "net_IP \<Rightarrow> nat list option" where
  "To4 ip = (if length ip = 16 \<and> take 10 ip = replicate 10 0 \<and> ip ! 10 = 255 \<and> ip ! 11 = 255
     then Some (drop 12 ip) else None)"

definition IsLoopback :: "net_IP \<Rightarrow> bool" where
  "IsLoopback ip = (case To4 ip of Some q \<Rightarrow> q ! 0 = 127 | None \<Rightarrow> ip = replicate 15 0 @ [1])"

definition IsMulticast :: "net_IP \<Rightarrow> bool" where
  "IsMulticast ip = (case To4 ip of Some q \<Rightarrow> q ! 0 div 16 = 14 | None \<Rightarrow> length ip = 16 \<and> ip ! 0 = 255)"

definition IsLinkLocalUnicast :: "net_IP \<Rightarrow> bool" where
  "IsLinkLocalUnicast ip = (case To4 ip of
     Some q \<Rightarrow> q ! 0 = 169 \<and> q ! 1 = 254
   | None \<Rightarrow> length ip = 16 \<and> ip ! 0 = 254 \<and> ip ! 1 div 64 = 2)"

definition IsGlobalUnicast :: "net_IP \<Rightarrow> bool" where
  "IsGlobalUnicast ip \<longleftrightarrow> length ip = 16 \<and> ip \<noteq> v4in6 [255, 255, 255, 255] \<and>
     ip \<noteq> v4in6 [0, 0, 0, 0] \<and> ip \<noteq> replicate 16 0 \<and>
     \<not> IsLoopback ip \<and> \<not> IsMulticast ip \<and> \<not> IsLinkLocalUnicast ip"

text \<open>\<open>ipRange\<close>; \<open>bytes.Compare\<close> is the lexicographic order.\<close>

record ipRange =
  ir_start :: net_IP
  ir_end :: net_IP

definition Range_Contains :: "ipRange \<Rightarrow> net_IP \<Rightarrow> bool" where
  "Range_Contains r ip \<longleftrightarrow> ir_start r \<le> ip \<and> ip < ir_end r"

definition mk_range :: "string \<Rightarrow> string \<Rightarrow> ipRange" where
  "mk_range a b = \<lparr>ir_start = (case ParseIP a of Some x \<Rightarrow> x | None \<Rightarrow> []),
     ir_end = (case ParseIP b of Some x \<Rightarrow> x | None \<Rightarrow> [])\<rparr>"

definition privateRanges :: "ipRange list" where
  "privateRanges =
     [mk_range ''10.0.0.0'' ''10.255.255.255'',
      mk_range ''100.64.0.0'' ''100.127.255.255'',
      mk_range ''127.0.0.1'' ''127.255.255.255'',
      mk_range ''172.16.0.0'' ''172.31.255.255'',
      mk_range ''192.0.0.0'' ''192.0.0.255'',
      mk_range ''192.168.0.0'' ''192.168.255.255'',
      mk_range ''198.18.0.0'' ''198.19.255.255'']"

definition IsPrivateSubnet :: "net_IP \<Rightarrow> bool" where
  "IsPrivateSubnet ip \<longleftrightarrow> To4 ip \<noteq> None \<and> list_ex (\<lambda>r. Range_Contains r ip) privateRanges"

section \<open>The address of a request\<close>

definition CloudflareIPHeader :: string where "CloudflareIPHeader = ''Cf-Connecting-Ip''"

text \<open>An entry of the header that the loop does not skip; \<open>net.ParseIP\<close>'s nil is not global.\<close>

definition usable :: "string \<Rightarrow> bool" where
  "usable addr = (case ParseIP addr of
     None \<Rightarrow> False | Some realIP \<Rightarrow> IsGlobalUnicast realIP \<and> \<not> IsPrivateSubnet realIP)"

text \<open>The inner loop from the last entry to the first, then the loop over the headers.\<close>

fun march :: "string list \<Rightarrow> string option" where
  "march [] = None"
| "march (a # as) = (if usable (TrimSpace a) then Some (TrimSpace a) else march as)"

fun from_headers :: "http_request \<Rightarrow> string list \<Rightarrow> string option" where
  "from_headers r [] = None"
| "from_headers r (h # hs) = (case march (rev (split_on CHR '','' (Header_Get r h))) of
     Some addr \<Rightarrow> Some addr | None \<Rightarrow> from_headers r hs)"

definition ForRequest :: "http_request \<Rightarrow> string \<Rightarrow> string" where
  "ForRequest r remoteAddr = (
     let cf = Header_Get r CloudflareIPHeader in
     if cf \<noteq> [] then cf
     else case from_headers r [''X-Forwarded-For'', ''X-Real-Ip''] of
       Some addr \<Rightarrow> addr
     | None \<Rightarrow> let addr = join_with CHR '':'' (butlast (split_on CHR '':'' remoteAddr)) in
         if addr = ''[::1]'' then ''127.0.0.1'' else addr)"

text \<open>The middleware keeps the address in the request's context.\<close>

definition ip_Middleware :: "string \<Rightarrow> http_request \<Rightarrow> http_request" where
  "ip_Middleware remoteAddr r = r\<lparr>rq_ip := ForRequest r remoteAddr\<rparr>"

section \<open>Parsed addresses\<close>

lemma decimal_no_leading_zero: "0 < n \<Longrightarrow> hd (decimal n) \<noteq> CHR ''0''"
proof (induction n rule: decimal.induct)
  case (1 n)
  show ?case
  proof (cases "n < 10")
    case True
    with "1.prems" have "(of_char (digit n) :: nat) \<noteq> of_char CHR ''0''" by (simp add: digit_code)
    with True show ?thesis by (auto simp: decimal.simps [of n])
  next
    case False
    with "1.IH" have "hd (decimal (n div 10)) \<noteq> CHR ''0''" by simp
    with False show ?thesis by (simp add: decimal.simps [of n])
  qed
qed

lemma v4_field_decimal [simp]: "n < 256 \<Longrightarrow> v4_field (decimal n) = Some n"
  using decimal_no_leading_zero [of n] decimal_all_digits [of n]
  by (cases "n = 0") (auto simp: v4_field_def decimal.simps [of 0] undecimal_def [of "[digit 0]"])

text \<open>The text of an IPv4 address.\<close>

definition dotted :: "nat \<Rightarrow> nat \<Rightarrow> nat \<Rightarrow> nat \<Rightarrow> string" where
  "dotted a b c d = join_with CHR ''.'' (map decimal [a, b, c, d])"

lemma decimal_no_dot [simp]: "CHR ''.'' \<notin> set (decimal n)" "CHR '':'' \<notin> set (decimal n)" "CHR ''%'' \<notin> set (decimal n)"
  using decimal_all_digits [of n] by (auto simp: list_all_iff is_digit_def)

lemma ParseIP_dotted:
  assumes "a < 256" "b < 256" "c < 256" "d < 256"
  shows "ParseIP (dotted a b c d) = Some (v4in6 [a, b, c, d])"
proof -
  have "List.find (\<lambda>c. c \<in> {CHR ''.'', CHR '':'', CHR ''%''}) (dotted a b c d) = Some CHR ''.''"
  proof -
    have "List.find (\<lambda>c. c \<in> {CHR ''.'', CHR '':'', CHR ''%''}) (w @ CHR ''.'' # t) = Some CHR ''.''"
      if "CHR ''.'' \<notin> set w" "CHR '':'' \<notin> set w" "CHR ''%'' \<notin> set w" for w t
      using that by (induction w) auto
    then show ?thesis by (simp add: dotted_def)
  qed
  moreover have "split_on CHR ''.'' (dotted a b c d) = map decimal [a, b, c, d]"
    by (simp add: dotted_def split_on_append split_on_free)
  ultimately show ?thesis using assms by (simp add: ParseIP_def parse_v4_def)
qed

lemma parse_v4_length: "parse_v4 s = Some q \<Longrightarrow> length q = 4 \<and> (\<forall>n \<in> set q. n < 256)"
proof -
  have "v4_fields fs = Some q \<Longrightarrow> length q = length fs \<and> (\<forall>n \<in> set q. n < 256)" for fs
    by (induction fs arbitrary: q) (auto simp: v4_field_def split: option.splits if_splits)
  then show "parse_v4 s = Some q \<Longrightarrow> length q = 4 \<and> (\<forall>n \<in> set q. n < 256)"
    by (auto simp: parse_v4_def Let_def split: if_splits)
qed

text \<open>Ranges over the IPv4 addresses, as numbers.\<close>

definition v4_number :: "nat \<Rightarrow> nat \<Rightarrow> nat \<Rightarrow> nat \<Rightarrow> nat" where
  "v4_number a b c d = 16777216 * a + 65536 * b + 256 * c + d"

lemma lex_append_same [simp]:
  "xs @ ys < xs @ zs \<longleftrightarrow> ys < zs" "xs @ ys \<le> xs @ zs \<longleftrightarrow> ys \<le> zs" for xs ys zs :: "nat list"
  by (induction xs) auto

lemma v4_order:
  assumes "b < 256" "c < 256" "d < 256" "b' < 256" "c' < 256" "d' < 256"
  shows "v4in6 [a, b, c, d] < v4in6 [a', b', c', d'] \<longleftrightarrow> v4_number a b c d < v4_number a' b' c' d'"
    and "v4in6 [a, b, c, d] \<le> v4in6 [a', b', c', d'] \<longleftrightarrow> v4_number a b c d \<le> v4_number a' b' c' d'"
  unfolding v4in6_def lex_append_same using assms by (auto simp: v4_number_def)

lemma private_ranges_eq:
  "privateRanges = map (\<lambda>(x, y). \<lparr>ir_start = v4in6 x, ir_end = v4in6 y\<rparr>)
     [([10, 0, 0, 0], [10, 255, 255, 255]), ([100, 64, 0, 0], [100, 127, 255, 255]),
      ([127, 0, 0, 1], [127, 255, 255, 255]), ([172, 16, 0, 0], [172, 31, 255, 255]),
      ([192, 0, 0, 0], [192, 0, 0, 255]), ([192, 168, 0, 0], [192, 168, 255, 255]),
      ([198, 18, 0, 0], [198, 19, 255, 255])]"
  by code_simp

lemma To4_v4in6 [simp]: "length q = 4 \<Longrightarrow> To4 (v4in6 q) = Some q"
  by (simp add: To4_def v4in6_def nth_append)

text \<open>
  The blocks that IANA reserves for private networks, shared address space, loopback,
  protocol assignments and benchmarks, as network and prefix length, and the other addresses
  that are not global unicast.
\<close>

definition in_block :: "nat \<times> nat \<Rightarrow> nat \<Rightarrow> bool" where
  "in_block bl n \<longleftrightarrow> n div 2 ^ (32 - snd bl) = fst bl div 2 ^ (32 - snd bl)"

definition last_of_block :: "nat \<times> nat \<Rightarrow> nat" where
  "last_of_block bl = fst bl + 2 ^ (32 - snd bl) - 1"

definition private_blocks :: "(nat \<times> nat) list" where
  "private_blocks =
     [(v4_number 10 0 0 0, 8), (v4_number 100 64 0 0, 10), (v4_number 172 16 0 0, 12),
      (v4_number 192 0 0 0, 24), (v4_number 192 168 0 0, 16), (v4_number 198 18 0 0, 15)]"

definition special_blocks :: "(nat \<times> nat) list" where
  "special_blocks =
     [(v4_number 0 0 0 0, 32), (v4_number 127 0 0 0, 8), (v4_number 169 254 0 0, 16),
      (v4_number 224 0 0 0, 4), (v4_number 255 255 255 255, 32)]"

lemma in_block_interval:
  assumes "2 ^ (32 - snd bl) dvd fst bl"
  shows "in_block bl n \<longleftrightarrow> fst bl \<le> n \<and> n \<le> last_of_block bl"
proof -
  define k :: nat where "k = 2 ^ (32 - snd bl)"
  have k: "0 < k" by (simp add: k_def)
  from assms obtain q where q: "fst bl = k * q" unfolding k_def by (elim dvdE) simp
  have "n div k = q \<longleftrightarrow> k * q \<le> n \<and> n < k * q + k"
    using k div_nat_eqI [of k q n] dividend_less_times_div [of k n] by (auto simp: algebra_simps)
  moreover have "in_block bl n \<longleftrightarrow> n div k = q" using k by (simp add: in_block_def q flip: k_def)
  moreover have "last_of_block bl = k * q + k - 1" by (simp add: last_of_block_def q flip: k_def)
  ultimately show ?thesis using k q by auto
qed

lemmas block_arith = in_block_interval last_of_block_def v4_number_def

lemma special_v4:
  assumes "a < 256" "b < 256" "c < 256" "d < 256"
  shows "list_ex (\<lambda>bl. in_block bl (v4_number a b c d)) special_blocks \<longleftrightarrow>
      a = 0 \<and> b = 0 \<and> c = 0 \<and> d = 0 \<or> a = 127 \<or> a = 169 \<and> b = 254 \<or> 224 \<le> a \<and> a < 240 \<or>
      a = 255 \<and> b = 255 \<and> c = 255 \<and> d = 255"
proof -
  let ?n = "v4_number a b c d"
  have "in_block (v4_number 0 0 0 0, 32) ?n \<longleftrightarrow> a = 0 \<and> b = 0 \<and> c = 0 \<and> d = 0"
    by (simp add: block_arith)
  moreover have "in_block (v4_number 127 0 0 0, 8) ?n \<longleftrightarrow> a = 127"
    using assms by (simp add: block_arith) linarith
  moreover have "in_block (v4_number 169 254 0 0, 16) ?n \<longleftrightarrow> a = 169 \<and> b = 254"
  proof
    assume "in_block (v4_number 169 254 0 0, 16) ?n"
    then have n: "v4_number 169 254 0 0 \<le> ?n" "?n \<le> v4_number 169 254 255 255" by (simp_all add: block_arith)
    then have "a = 169" using assms by (simp add: v4_number_def)
    with n assms show "a = 169 \<and> b = 254" by (simp add: v4_number_def)
  next
    assume "a = 169 \<and> b = 254"
    with assms show "in_block (v4_number 169 254 0 0, 16) ?n" by (simp add: block_arith)
  qed
  moreover have "in_block (v4_number 224 0 0 0, 4) ?n \<longleftrightarrow> 224 \<le> a \<and> a < 240"
    using assms by (simp add: block_arith) linarith
  moreover have "in_block (v4_number 255 255 255 255, 32) ?n \<longleftrightarrow> a = 255 \<and> b = 255 \<and> c = 255 \<and> d = 255"
    using assms by (simp add: block_arith) linarith
  ultimately show ?thesis by (simp add: special_blocks_def)
qed

lemma global_v4:
  assumes "a < 256" "b < 256" "c < 256" "d < 256"
  shows "IsGlobalUnicast (v4in6 [a, b, c, d]) \<longleftrightarrow> \<not> list_ex (\<lambda>bl. in_block bl (v4_number a b c d)) special_blocks"
proof -
  have [simp]: "length (v4in6 [a, b, c, d]) = 16" "v4in6 [a, b, c, d] \<noteq> replicate 16 0"
    by (simp_all add: v4in6_def) (simp add: numeral_eq_Suc)
  have eq: "v4in6 [a, b, c, d] = v4in6 [w, x, y, z] \<longleftrightarrow> a = w \<and> b = x \<and> c = y \<and> d = z" for w x y z
    by (simp add: v4in6_def)
  have "a div 16 = 14 \<longleftrightarrow> 224 \<le> a \<and> a < 240" by presburger
  then show ?thesis unfolding special_v4 [OF assms]
    by (auto simp: IsGlobalUnicast_def IsLoopback_def IsMulticast_def IsLinkLocalUnicast_def eq)
qed

lemma private_v4:
  assumes "a < 256" "b < 256" "c < 256" "d < 256" and "a \<noteq> 127"
  shows "IsPrivateSubnet (v4in6 [a, b, c, d]) \<longleftrightarrow>
    list_ex (\<lambda>bl. in_block bl (v4_number a b c d) \<and> v4_number a b c d \<noteq> last_of_block bl) private_blocks"
proof -
  let ?n = "v4_number a b c d"
  have loop: "\<not> (v4_number 127 0 0 1 \<le> ?n \<and> ?n < v4_number 127 255 255 255)"
    using assms by (simp add: v4_number_def)
  have ends: "map last_of_block private_blocks =
      [v4_number 10 255 255 255, v4_number 100 127 255 255, v4_number 172 31 255 255, v4_number 192 0 0 255,
       v4_number 192 168 255 255, v4_number 198 19 255 255]"
    by (simp add: private_blocks_def last_of_block_def v4_number_def)
  have interval: "in_block bl ?n \<and> ?n \<noteq> last_of_block bl \<longleftrightarrow> fst bl \<le> ?n \<and> ?n < last_of_block bl"
    if "bl \<in> set private_blocks" for bl
  proof -
    from that have "2 ^ (32 - snd bl) dvd fst bl" by (auto simp: private_blocks_def v4_number_def)
    then show ?thesis by (auto simp: in_block_interval)
  qed
  have "list_ex (\<lambda>bl. in_block bl ?n \<and> ?n \<noteq> last_of_block bl) private_blocks \<longleftrightarrow>
      list_ex (\<lambda>bl. fst bl \<le> ?n \<and> ?n < last_of_block bl) private_blocks"
    by (rule list_ex_cong) (simp_all add: interval)
  also have "\<dots> \<longleftrightarrow> list_ex (\<lambda>r. Range_Contains r (v4in6 [a, b, c, d])) privateRanges"
    using ends loop assms by (simp add: private_ranges_eq Range_Contains_def v4_order private_blocks_def) blast
  finally show ?thesis by (simp add: IsPrivateSubnet_def)
qed

section \<open>Where the address comes from\<close>

lemma march_append:
  "march (xs @ ys) = (case march xs of Some a \<Rightarrow> Some a | None \<Rightarrow> march ys)"
  by (induction xs) auto

lemma march_usable: "march xs = Some a \<Longrightarrow> usable a \<and> (\<exists>x \<in> set xs. a = TrimSpace x)"
  by (induction xs) (auto split: if_splits)

lemma march_None: "march xs = None \<longleftrightarrow> (\<forall>x \<in> set xs. \<not> usable (TrimSpace x))"
  by (induction xs) auto

text \<open>Setting the forwarding header of a request.\<close>

definition forwarded :: "http_request \<Rightarrow> string \<Rightarrow> http_request" where
  "forwarded r h = r\<lparr>rq_Header := fmupd ''X-Forwarded-For'' [h] (rq_Header r)\<rparr>"

lemma Header_Get_forwarded [simp]:
  "Header_Get (forwarded r h) k = (if k = ''X-Forwarded-For'' then h else Header_Get r k)"
  by (simp add: forwarded_def Header_Get_def)



text \<open>A dotted decimal address is taken for a client's exactly if it lies in no reserved
  block, or is the last address of one of the private blocks, which the ranges of the code
  leave out.
\<close>

theorem public_v4_addresses:
  assumes "a < 256" "b < 256" "c < 256" "d < 256"
  shows "usable (dotted a b c d) \<longleftrightarrow>
    \<not> list_ex (\<lambda>bl. in_block bl (v4_number a b c d)) special_blocks \<and>
    \<not> list_ex (\<lambda>bl. in_block bl (v4_number a b c d) \<and> v4_number a b c d \<noteq> last_of_block bl) private_blocks"
proof (cases "a = 127")
  case True
  then show ?thesis using assms by (simp add: usable_def ParseIP_dotted global_v4 special_v4)
next
  case False
  then show ?thesis using assms by (simp add: usable_def ParseIP_dotted global_v4 private_v4)
qed

lemma public_v4_addresses_witness:
  "usable (dotted 10 255 255 255) \<and> \<not> usable (dotted 10 255 255 254) \<and> usable (dotted 8 8 8 8)"
  using public_v4_addresses [of 10 255 255 255] public_v4_addresses [of 10 255 255 254] public_v4_addresses [of 8 8 8 8]
  by (simp add: special_blocks_def private_blocks_def in_block_def last_of_block_def v4_number_def)

text \<open>Anyone who reaches the server directly chooses the address it sees.\<close>

lemma cloudflare_header_trusted:
  "Header_Get r CloudflareIPHeader \<noteq> [] \<Longrightarrow> ForRequest r remoteAddr = Header_Get r CloudflareIPHeader"
  by (simp add: ForRequest_def)

lemma direct_client:
  assumes "Header_Get r CloudflareIPHeader = []" "Header_Get r ''X-Forwarded-For'' = []" "Header_Get r ''X-Real-Ip'' = []"
    and "CHR '':'' \<notin> set port" and "host \<noteq> ''[::1]''"
  shows "ForRequest r (host @ '':'' @ port) = host"
proof -
  have "\<not> usable []" by (simp add: usable_def ParseIP_def)
  then show ?thesis using assms
    by (simp add: ForRequest_def TrimSpace_def split_on_append split_on_free butlast_append join_split Let_def)
qed

end
