(* ===== verification/Iprate.thy ===== *)
theory Iprate
  imports Prelude
begin

text \<open>
  \<open>pkg/iprate\<close>: a token bucket for every client address, made on the first attempt and dropped
  by a periodic clean-up an hour after the last one. The buckets are those of
  \<open>golang.org/x/time/rate\<close> and an argument; times are nanoseconds, a rate is a fraction.
\<close>

section \<open>The limiter\<close>

type_synonym rate_Limit = "nat \<times> nat"

record 'b rate_lib =
  rl_NewLimiter :: "rate_Limit \<Rightarrow> int \<Rightarrow> 'b"
  rl_Allow :: "int \<Rightarrow> 'b \<Rightarrow> bool \<times> 'b"

record 'b rateLimiterEntry =
  re_limiter :: 'b
  re_lastSeen :: int

record 'b Limiter =
  lm_ips :: "(string, 'b rateLimiterEntry) fmap"
  lm_r :: rate_Limit
  lm_b :: int
  lm_cleanupInterval :: int

definition minute :: int where "minute = 60 * 1000000000"
definition hour :: int where "hour = 60 * minute"

definition WithCleanupInterval :: "int \<Rightarrow> 'b Limiter \<Rightarrow> 'b Limiter" where
  "WithCleanupInterval d l = l\<lparr>lm_cleanupInterval := d\<rparr>"

definition NewLimiter :: "rate_Limit \<Rightarrow> int \<Rightarrow> ('b Limiter \<Rightarrow> 'b Limiter) list \<Rightarrow> 'b Limiter" where
  "NewLimiter r b opts =
     fold (\<lambda>f. f) opts \<lparr>lm_ips = fmempty, lm_r = r, lm_b = b, lm_cleanupInterval = 5 * minute\<rparr>"

definition cleanup :: "int \<Rightarrow> 'b Limiter \<Rightarrow> 'b Limiter" where
  "cleanup now l = (let expirationTime = now - hour in
     l\<lparr>lm_ips := fmfilter (\<lambda>ip. case fmlookup (lm_ips l) ip of
        Some e \<Rightarrow> \<not> re_lastSeen e < expirationTime | None \<Rightarrow> False) (lm_ips l)\<rparr>)"

text \<open>The entry that \<open>GetLimiter\<close> makes or touches; the pointer it returns is the bucket in the
  map, so that \<open>Allow\<close> takes its token from there.\<close>

definition GetLimiter :: "'b rate_lib \<Rightarrow> int \<Rightarrow> string \<Rightarrow> 'b Limiter \<Rightarrow> 'b Limiter" where
  "GetLimiter R now ip l = (case fmlookup (lm_ips l) ip of
     None \<Rightarrow> l\<lparr>lm_ips := fmupd ip \<lparr>re_limiter = rl_NewLimiter R (lm_r l) (lm_b l), re_lastSeen = now\<rparr> (lm_ips l)\<rparr>
   | Some e \<Rightarrow> l\<lparr>lm_ips := fmupd ip (e\<lparr>re_lastSeen := now\<rparr>) (lm_ips l)\<rparr>)"

definition Allow :: "'b rate_lib \<Rightarrow> int \<Rightarrow> string \<Rightarrow> 'b Limiter \<Rightarrow> bool \<times> 'b Limiter" where
  "Allow R now ip l = (case fmlookup (lm_ips l) ip of
     None \<Rightarrow> (False, l)
   | Some e \<Rightarrow> (case rl_Allow R now (re_limiter e) of
       (ok, b) \<Rightarrow> (ok, l\<lparr>lm_ips := fmupd ip (e\<lparr>re_limiter := b\<rparr>) (lm_ips l)\<rparr>)))"

definition attempt :: "'b rate_lib \<Rightarrow> int \<Rightarrow> int \<Rightarrow> string \<Rightarrow> 'b Limiter \<Rightarrow> bool \<times> 'b Limiter" where
  "attempt R t t' ip l = Allow R t' ip (GetLimiter R t ip l)"

section \<open>One bucket for every client\<close>

text \<open>
  What happens to a limiter: attempts of clients, with the times of the two calls, and the
  ticks of \<open>cleanupLoop\<close>; the log has the verdict of every attempt.
\<close>

datatype lim_event = Attempt string int int | Tick int

fun lim_run :: "'b rate_lib \<Rightarrow> lim_event list \<Rightarrow> 'b Limiter \<Rightarrow> (string \<times> bool) list" where
  "lim_run R [] l = []"
| "lim_run R (Tick t # es) l = lim_run R es (cleanup t l)"
| "lim_run R (Attempt ip t t' # es) l = (case attempt R t t' ip l of (ok, m) \<Rightarrow> (ip, ok) # lim_run R es m)"

text \<open>The abstract limiter of one client: a single bucket that sees the client's attempts only.\<close>

fun bucket_run :: "'b rate_lib \<Rightarrow> int list \<Rightarrow> 'b \<Rightarrow> bool list" where
  "bucket_run R [] b = []"
| "bucket_run R (t # ts) b = (case rl_Allow R t b of (ok, c) \<Rightarrow> ok # bucket_run R ts c)"

fun attempts_of :: "string \<Rightarrow> lim_event list \<Rightarrow> int list" where
  "attempts_of ip [] = []"
| "attempts_of ip (Tick t # es) = attempts_of ip es"
| "attempts_of ip (Attempt i t t' # es) = (if i = ip then t' # attempts_of ip es else attempts_of ip es)"

text \<open>No clean-up more than an hour after an attempt of the client that another one follows.\<close>

fun busy :: "string \<Rightarrow> int option \<Rightarrow> lim_event list \<Rightarrow> bool" where
  "busy ip seen [] = True"
| "busy ip seen (Tick t # es) =
     ((attempts_of ip es = [] \<or> (case seen of None \<Rightarrow> True | Some u \<Rightarrow> t \<le> u + hour)) \<and> busy ip seen es)"
| "busy ip seen (Attempt i t t' # es) = busy ip (if i = ip then Some t else seen) es"

definition verdicts_of :: "string \<Rightarrow> (string \<times> bool) list \<Rightarrow> bool list" where
  "verdicts_of ip log = map snd (filter (\<lambda>e. fst e = ip) log)"

lemma verdicts_of_simps [simp]:
  "verdicts_of ip [] = []"
  "verdicts_of ip ((i, ok) # log) = (if i = ip then ok # verdicts_of ip log else verdicts_of ip log)"
  by (simp_all add: verdicts_of_def)

lemma no_attempts_no_verdicts: "attempts_of ip es = [] \<Longrightarrow> verdicts_of ip (lim_run R es l) = []"
  by (induction R es l rule: lim_run.induct) (auto split: prod.splits if_splits)

lemma limiter_config [simp]:
  "lm_r (cleanup t l) = lm_r l" "lm_b (cleanup t l) = lm_b l"
  "lm_r (snd (attempt R t t' ip l)) = lm_r l" "lm_b (snd (attempt R t t' ip l)) = lm_b l"
  by (auto simp: cleanup_def Let_def attempt_def Allow_def GetLimiter_def split: option.splits prod.splits)

text \<open>The bucket and the time of the last attempt of a client.\<close>

definition entry_is :: "'b rate_lib \<Rightarrow> 'b Limiter \<Rightarrow> string \<Rightarrow> int option \<Rightarrow> 'b \<Rightarrow> bool" where
  "entry_is R l ip seen b \<longleftrightarrow> (case seen of
     None \<Rightarrow> fmlookup (lm_ips l) ip = None \<and> b = rl_NewLimiter R (lm_r l) (lm_b l)
   | Some t \<Rightarrow> fmlookup (lm_ips l) ip = Some \<lparr>re_limiter = b, re_lastSeen = t\<rparr>)"

lemma entry_cleanup:
  "entry_is R l ip seen b \<Longrightarrow> (\<And>u. seen = Some u \<Longrightarrow> t \<le> u + hour) \<Longrightarrow> entry_is R (cleanup t l) ip seen b"
  by (auto simp: entry_is_def cleanup_def Let_def split: option.splits)

lemma entry_attempt_own:
  assumes "entry_is R l ip seen b"
  shows "fst (attempt R t t' ip l) = fst (rl_Allow R t' b) \<and>
    entry_is R (snd (attempt R t t' ip l)) ip (Some t) (snd (rl_Allow R t' b))"
  using assms by (auto simp: entry_is_def attempt_def Allow_def GetLimiter_def split: option.splits prod.splits)

lemma entry_attempt_other:
  "entry_is R l ip seen b \<Longrightarrow> i \<noteq> ip \<Longrightarrow> entry_is R (snd (attempt R t t' i l)) ip seen b"
  by (auto simp: entry_is_def attempt_def Allow_def GetLimiter_def split: option.splits prod.splits)

lemma lim_run_bucket:
  "entry_is R l ip seen b \<Longrightarrow> busy ip seen es \<Longrightarrow>
   verdicts_of ip (lim_run R es l) = bucket_run R (attempts_of ip es) b"
proof (induction R es l arbitrary: seen b rule: lim_run.induct)
  case (1 R l)
  show ?case by simp
next
  case (2 R t es l)
  show ?case
  proof (cases "attempts_of ip es = []")
    case True
    then show ?thesis by (simp add: no_attempts_no_verdicts)
  next
    case False
    with 2 show ?thesis by (auto intro!: "2.IH" entry_cleanup split: option.splits)
  qed
next
  case (3 R i t t' es l)
  obtain ok m where m: "attempt R t t' i l = (ok, m)" by fastforce
  show ?case
  proof (cases "i = ip")
    case True
    with 3 m entry_attempt_own [OF "3.prems"(1), of t t'] show ?thesis by (auto split: prod.splits)
  next
    case False
    with 3 m entry_attempt_other [OF "3.prems"(1) False, of t t'] show ?thesis by auto
  qed
qed

text \<open>C33: The limiter implements one bucket for every client: whatever other clients do and however
  often the clean-up runs, a client's attempts get the verdicts of a single bucket that sees
  only them, as long as no clean-up falls more than an hour after the client's last attempt.\<close>

theorem one_bucket_per_client:
  assumes "busy ip None es"
  shows "verdicts_of ip (lim_run R es (NewLimiter r b [WithCleanupInterval d])) =
    bucket_run R (attempts_of ip es) (rl_NewLimiter R r b)"
  by (rule lim_run_bucket [OF _ assms]) (simp add: entry_is_def NewLimiter_def WithCleanupInterval_def)

text \<open>A bucket of one token that comes back after twenty seconds.\<close>

definition one_token :: "int option rate_lib" where
  "one_token = \<lparr>rl_NewLimiter = (\<lambda>_ _. None),
     rl_Allow = (\<lambda>t b. case b of None \<Rightarrow> (True, Some t)
        | Some u \<Rightarrow> if u + 20000000000 \<le> t then (True, Some t) else (False, b))\<rparr>"

lemma one_bucket_per_client_witness:
  "verdicts_of ''a'' (lim_run one_token [Attempt ''a'' 1 2, Attempt ''b'' 3 4, Tick 5, Attempt ''a'' 6 7]
     (NewLimiter (1, 20) 1 [WithCleanupInterval hour])) = [True, False]"
  using one_bucket_per_client [of "''a''" "[Attempt ''a'' 1 2, Attempt ''b'' 3 4, Tick 5, Attempt ''a'' 6 7]" one_token "(1, 20)" 1 hour]
  by (simp add: hour_def minute_def one_token_def)

text \<open>After a clean-up only the clients of the last hour are remembered.\<close>

lemma cleanup_bounds:
  "fmlookup (lm_ips (cleanup t l)) ip = Some e \<longleftrightarrow> fmlookup (lm_ips l) ip = Some e \<and> t - hour \<le> re_lastSeen e"
  by (auto simp: cleanup_def Let_def split: option.splits if_splits)

end
