(* ===== verification/Admin.thy ===== *)
theory Admin
  imports Caller Ip Iprate
begin

text \<open>
  \<open>internal/admin\<close>: the maintenance route that moves a user to the next SDK instance of its
  group, behind a fixed bearer token whose wrong guesses are counted per client address. The
  state is the world of the API server together with the limiter; every format string of a
  reply is a constructor that holds its arguments.
\<close>

section \<open>Names of SDK instances\<close>

record sdkDetails =
  sd_group :: string
  sd_id :: int

text \<open>\<open>^lbrynet\-([a-z])\-(\d+)\<close>, not anchored at the end: the group and the longest run of digits.\<close>

definition sdkNameMatch :: "string \<Rightarrow> (string \<times> string) option" where
  "sdkNameMatch name = (case TrimPrefix name ''lbrynet-'' of
     g # d # rest \<Rightarrow>
       if HasPrefix name ''lbrynet-'' \<and> CHR ''a'' \<le> g \<and> g \<le> CHR ''z'' \<and> d = CHR ''-'' \<and> takeWhile is_digit rest \<noteq> []
       then Some ([g], takeWhile is_digit rest) else None
   | _ \<Rightarrow> None)"

datatype admin_text =
    AtoiError string
  | UserNotFound
  | WeirdName string
  | UnparsedName string
  | SelectFailed sdkDetails go_error
  | DbFailed go_error
  | UpdateFailed sdkDetails go_error
  | Bumped int string sdkDetails "go_error option" "go_error option"
  | TokenNotConfigured
  | Unauthorized
  | TooManyAttempts

definition parseSDKDetails :: "string \<Rightarrow> admin_text + sdkDetails" where
  "parseSDKDetails name = (case sdkNameMatch name of
     None \<Rightarrow> Inl (WeirdName name)
   | Some (g, ds) \<Rightarrow>
       (case ParseInt 64 ds of
          None \<Rightarrow> Inl (UnparsedName name)
        | Some i \<Rightarrow> Inr \<lparr>sd_group = g, sd_id = i\<rparr>))"

definition bumpID :: "sdkDetails \<Rightarrow> sdkDetails" where
  "bumpID d = d\<lparr>sd_id := wrap64 (sd_id d + 1)\<rparr>"

definition zeroID :: "sdkDetails \<Rightarrow> sdkDetails" where
  "zeroID d = d\<lparr>sd_id := 0\<rparr>"

definition sdk_String :: "sdkDetails \<Rightarrow> string" where
  "sdk_String d = ''lbrynet-'' @ sd_group d @ ''-'' @ Itoa (sd_id d)"

section \<open>Moving a user\<close>

datatype admin_reply = Reply int admin_text | Crash string

definition server_named :: "'w env \<Rightarrow> string \<Rightarrow> ('w, lbrynet_server res) io" where
  "server_named E name = do {
     r \<leftarrow> stmt E Pool DbSelectServer (reads (\<lambda>s. Ok (List.find (\<lambda>v. srv_Name v = name) (w_servers s))));
     State_Monad.return (case r of
       Ok (Some srv) \<Rightarrow> Ok srv | Ok None \<Rightarrow> Err ErrNoRows | Err e \<Rightarrow> Err e | Panic m \<Rightarrow> Panic m)
   }"

text \<open>The instance to move to: the next number, or number 0 if there is none; the details are
  those of the instance that was looked up last.\<close>

definition next_sdk :: "'w env \<Rightarrow> sdkDetails \<Rightarrow> ('w, admin_text + lbrynet_server \<times> sdkDetails) io" where
  "next_sdk E d = (let d1 = bumpID d in do {
     r \<leftarrow> server_named E (sdk_String d1);
     (case r of
        Ok srv \<Rightarrow> State_Monad.return (Inr (srv, d1))
      | Err e \<Rightarrow>
          if error_Is e ErrNoRows then do {
            q \<leftarrow> server_named E (sdk_String (zeroID d1));
            State_Monad.return (case q of
              Ok srv \<Rightarrow> Inr (srv, zeroID d1)
            | Err e2 \<Rightarrow> Inl (SelectFailed (zeroID d1) e2)
            | Panic m \<Rightarrow> Inl (DbFailed (Plain m)))
          }
          else State_Monad.return (Inl (DbFailed e))
      | Panic m \<Rightarrow> State_Monad.return (Inl (DbFailed (Plain m))))
   })"

definition move_user :: "'w env \<Rightarrow> user \<Rightarrow> lbrynet_server \<Rightarrow> lbrynet_server \<Rightarrow> sdkDetails \<Rightarrow> ('w, admin_reply) io" where
  "move_user E user origSDK newSDK d = do {
     w \<leftarrow> update_user E (user\<lparr>usr_ServerID := Some (srv_ID newSDK)\<rparr>);
     (case w of
        Err e \<Rightarrow> State_Monad.return (Reply 500 (UpdateFailed d e))
      | Panic m \<Rightarrow> State_Monad.return (Crash m)
      | Ok _ \<Rightarrow> do {
          loadWalletErr \<leftarrow> LoadWallet E (srv_Address newSDK) (usr_ID user);
          unloadWalletErr \<leftarrow> UnloadWallet E (srv_Address origSDK) (usr_ID user);
          State_Monad.return (Reply 200 (Bumped (usr_ID user) (srv_Name origSDK) d loadWalletErr unloadWalletErr))
        })
   }"

definition BumpSDK :: "'w env \<Rightarrow> string \<Rightarrow> ('w, admin_reply) io" where
  "BumpSDK E user_id = (case ParseInt 64 user_id of
     None \<Rightarrow> State_Monad.return (Reply 404 (AtoiError user_id))
   | Some userID \<Rightarrow> do {
       r \<leftarrow> getDBUser E Pool (ByID userID);
       (case r of
          Err _ \<Rightarrow> State_Monad.return (Reply 404 UserNotFound)
        | Panic m \<Rightarrow> State_Monad.return (Crash m)
        | Ok user \<Rightarrow>
            (case usr_Server user of
               None \<Rightarrow> State_Monad.return (Crash ''nil pointer dereference'')
             | Some origSDK \<Rightarrow>
                 (case parseSDKDetails (srv_Name origSDK) of
                    Inl t \<Rightarrow> State_Monad.return (Reply 500 t)
                  | Inr d \<Rightarrow> do {
                      n \<leftarrow> next_sdk E d;
                      (case n of
                         Inl t \<Rightarrow> State_Monad.return (Reply 500 t)
                       | Inr (newSDK, d') \<Rightarrow> move_user E user origSDK newSDK d')
                    })))
     })"

section \<open>Authorization\<close>

type_synonym ('w, 'b, 'a) adm_io = "('w world \<times> 'b Limiter, 'a) state"

definition on_world :: "('w, 'a) io \<Rightarrow> ('w, 'b, 'a) adm_io" where
  "on_world m = State (\<lambda>(s, l). case run_state m s of (a, t) \<Rightarrow> (a, (t, l)))"

definition on_limiter :: "('b Limiter \<Rightarrow> 'a \<times> 'b Limiter) \<Rightarrow> ('w, 'b, 'a) adm_io" where
  "on_limiter f = State (\<lambda>(s, l). case f l of (a, m) \<Rightarrow> (a, (s, m)))"

lemma run_on_world [simp]:
  "run_state (on_world m) x = (fst (run_state m (fst x)), (snd (run_state m (fst x)), snd x))"
  by (simp add: on_world_def split: prod.split)

lemma run_on_limiter [simp]:
  "run_state (on_limiter f) x = (fst (f (snd x)), (fst x, snd (f (snd x))))"
  by (simp add: on_limiter_def split: prod.split)

definition InstallRoutes_limiter :: "'b Limiter" where
  "InstallRoutes_limiter = NewLimiter (1, 20) 1 [WithCleanupInterval (60 * minute)]"

definition SimpleAdminAuthMiddleware :: "'b rate_lib \<Rightarrow> 'w env \<Rightarrow> string \<Rightarrow> ('w, admin_reply) io
    \<Rightarrow> http_request \<Rightarrow> string \<Rightarrow> ('w, 'b, admin_reply) adm_io" where
  "SimpleAdminAuthMiddleware R E token handler r remoteAddr = (
     if token = [] then State_Monad.return (Reply 500 TokenNotConfigured)
     else
       let clientIP = ForRequest r remoteAddr; authHeader = Header_Get r AuthorizationHeader in
       if \<not> HasPrefix authHeader ''Bearer '' then State_Monad.return (Reply 401 Unauthorized)
       else if TrimPrefix authHeader ''Bearer '' \<noteq> token then do {
         t \<leftarrow> on_world (ext (env_now E));
         on_limiter (\<lambda>l. ((), GetLimiter R t clientIP l));
         t' \<leftarrow> on_world (ext (env_now E));
         ok \<leftarrow> on_limiter (Allow R t' clientIP);
         State_Monad.return (if ok then Reply 401 Unauthorized else Reply 429 TooManyAttempts)
       }
       else on_world handler)"

section \<open>Lemmas\<close>

lemma digits_run: "list_all is_digit ds \<Longrightarrow> takeWhile is_digit (ds @ rest) = ds @ takeWhile is_digit rest"
  by (induction ds) auto

text \<open>Names are read back, and what follows the number is dropped.\<close>

lemma parse_sdk_String:
  assumes "CHR ''a'' \<le> g" "g \<le> CHR ''z''" "0 \<le> i" "i < 2 ^ 63" "takeWhile is_digit rest = []"
  shows "parseSDKDetails (sdk_String \<lparr>sd_group = [g], sd_id = i\<rparr> @ rest) = Inr \<lparr>sd_group = [g], sd_id = i\<rparr>"
proof -
  have ds: "Itoa i = decimal (nat i)" using assms by (simp add: Itoa_def)
  have "takeWhile is_digit (decimal (nat i) @ rest) = decimal (nat i)"
    using assms decimal_all_digits by (simp add: digits_run)
  then have "sdkNameMatch (sdk_String \<lparr>sd_group = [g], sd_id = i\<rparr> @ rest) = Some ([g], Itoa i)"
    using assms(1,2) ds by (simp add: sdkNameMatch_def sdk_String_def TrimPrefix_def HasPrefix_def)
  moreover have "ParseInt 64 (Itoa i) = Some i" using assms by (intro ParseInt_Itoa) auto
  ultimately show ?thesis by (simp add: parseSDKDetails_def)
qed

text \<open>The search for the new instance changes nothing.\<close>

lemma server_named_run:
  assumes "no_others E" "run_state (server_named E n) s = (r, t)"
  shows "w_users t = w_users s \<and> w_servers t = w_servers s \<and> (\<forall>v. r = Ok v \<longrightarrow> v \<in> set (w_servers s) \<and> srv_Name v = n)"
  using assms by (auto simp: server_named_def stmt_def no_others_def find_Some_iff split: option.splits if_splits)

definition successor_of :: "lbrynet_server list \<Rightarrow> sdkDetails \<Rightarrow> lbrynet_server \<Rightarrow> bool" where
  "successor_of servers d v \<longleftrightarrow> v \<in> set servers \<and> (srv_Name v = sdk_String (bumpID d) \<or> srv_Name v = sdk_String (zeroID d))"

lemma next_sdk_run:
  assumes "no_others E" "run_state (next_sdk E d) s = (r, t)"
  shows "w_users t = w_users s \<and> (\<forall>v d'. r = Inr (v, d') \<longrightarrow> successor_of (w_servers s) d v \<and> srv_Name v = sdk_String d')"
proof -
  obtain r1 s1 where r1: "run_state (server_named E (sdk_String (bumpID d))) s = (r1, s1)" by fastforce
  obtain r2 s2 where r2: "run_state (server_named E (sdk_String (zeroID (bumpID d)))) s1 = (r2, s2)" by fastforce
  have zb: "zeroID (bumpID d) = zeroID d" by (simp add: zeroID_def bumpID_def)
  from assms r1 r2 server_named_run [OF assms(1) r1] server_named_run [OF assms(1) r2] show ?thesis
    by (auto simp: next_sdk_def Let_def successor_of_def zb split: res.splits if_splits)
qed

lemma move_user_run:
  assumes "no_others E" "run_state (move_user E u a b d) s = (r, t)"
  shows "w_users t = w_users s \<or>
    (usr_ID u |\<in>| fmdom (w_users s) \<and> w_users t = fmupd (usr_ID u) (row_of (u\<lparr>usr_ServerID := Some (srv_ID b)\<rparr>)) (w_users s))"
  using assms
  by (auto simp: move_user_def update_user_def stmt_def no_others_def LoadWallet_def UnloadWallet_def
      split: option.splits if_splits res.splits)

lemma getDBUser_found:
  assumes "no_others E" "run_state (getDBUser E Pool (ByID i)) s = (Ok u, t)"
  shows "\<exists>row. fmlookup (w_users s) i = Some row \<and> u = load_user (w_servers s) (i, row) \<and>
    w_servers t = w_servers s \<and> w_users t = w_users s"
proof -
  obtain kr where kr: "List.find (matches (ByID i)) (sorted_list_of_fmap (w_users s)) = Some kr"
    "u = load_user (w_servers s) kr" "w_servers t = w_servers s" "w_users t = w_users s"
    using assms by (auto simp: getDBUser_def stmt_def no_others_def split: option.splits if_splits)
  from kr(1) have "kr \<in> set (sorted_list_of_fmap (w_users s))" "fst kr = i"
    by (auto simp: find_Some_iff matches_def)
  with kr show ?thesis by (metis prod.collapse sorted_list_of_fmap_mem)
qed

text \<open>What a bump may do to the table: one row gets the next instance of its group.\<close>

definition bumped :: "lbrynet_server list \<Rightarrow> string \<Rightarrow> users_table \<Rightarrow> users_table \<Rightarrow> bool" where
  "bumped servers user_id m m' \<longleftrightarrow> (\<exists>i row orig d v. ParseInt 64 user_id = Some i \<and> fmlookup m i = Some row \<and>
     server_by_id servers (row_ServerID row) = Some orig \<and> parseSDKDetails (srv_Name orig) = Inr d \<and>
     successor_of servers d v \<and> m' = fmupd i (row\<lparr>row_ServerID := Some (srv_ID v)\<rparr>) m)"

lemma BumpSDK_run:
  assumes "no_others E" "run_state (BumpSDK E user_id) s = (r, t)"
  shows "w_users t = w_users s \<or> bumped (w_servers s) user_id (w_users s) (w_users t)"
proof (cases "ParseInt 64 user_id")
  case None
  with assms show ?thesis by (simp add: BumpSDK_def)
next
  case (Some i)
  obtain g s1 where g: "run_state (getDBUser E Pool (ByID i)) s = (g, s1)" by fastforce
  have same: "w_users s1 = w_users s" using getDBUser_run [OF assms(1) g] by simp
  show ?thesis
  proof (cases "\<exists>u orig d. g = Ok u \<and> usr_Server u = Some orig \<and> parseSDKDetails (srv_Name orig) = Inr d")
    case False
    with assms Some g same show ?thesis by (auto simp: BumpSDK_def split: res.splits option.splits sum.splits)
  next
    case True
    then obtain u orig d where u: "g = Ok u" "usr_Server u = Some orig" "parseSDKDetails (srv_Name orig) = Inr d" by blast
    obtain row where row: "fmlookup (w_users s) i = Some row" "u = load_user (w_servers s) (i, row)" "w_servers s1 = w_servers s"
      using getDBUser_found [OF assms(1)] g u(1) by blast
    obtain n s2 where n: "run_state (next_sdk E d) s1 = (n, s2)" by fastforce
    note found = next_sdk_run [OF assms(1) n]
    show ?thesis
    proof (cases n)
      case (Inl a)
      with assms Some g u n found same show ?thesis by (auto simp: BumpSDK_def)
    next
      case (Inr vd)
      obtain v d' where vd: "vd = (v, d')" by fastforce
      with Inr assms Some g u n have "run_state (move_user E u orig v d') s2 = (r, t)" by (simp add: BumpSDK_def)
      from move_user_run [OF assms(1) this] have "w_users t = w_users s \<or>
          w_users t = fmupd i (row\<lparr>row_ServerID := Some (srv_ID v)\<rparr>) (w_users s)"
        using found same row by (cases row) (auto simp: load_user_def row_of_def)
      then show ?thesis using Some row u found Inr vd unfolding bumped_def
        by (auto simp: load_user_def)
    qed
  qed
qed

text \<open>The limiter changes only the answer to a wrong guess: a right one passes at any rate.\<close>

lemma right_token_never_limited:
  assumes "token \<noteq> []" "Header_Get r AuthorizationHeader = ''Bearer '' @ token"
  shows "run_state (SimpleAdminAuthMiddleware R E token handler r remoteAddr) (s, l) =
    (fst (run_state handler s), (snd (run_state handler s), l))"
proof -
  have "HasPrefix (Header_Get r AuthorizationHeader) ''Bearer ''" "TrimPrefix (Header_Get r AuthorizationHeader) ''Bearer '' = token"
    by (simp_all only: assms(2) HasPrefix_append TrimPrefix_append)
  then show ?thesis using assms(1) by (simp add: SimpleAdminAuthMiddleware_def)
qed

section \<open>Properties\<close>


text \<open>A run: two instances in a group, and user 7 on the first of them.\<close>

definition group_a :: "lbrynet_server list" where
  "group_a = [\<lparr>srv_ID = 1, srv_Name = ''lbrynet-a-1'', srv_Address = ''http://a1'', srv_Private = False\<rparr>,
     \<lparr>srv_ID = 2, srv_Name = ''lbrynet-a-2'', srv_Address = ''http://a2'', srv_Private = False\<rparr>]"

definition admin_world :: "int option \<Rightarrow> unit world" where
  "admin_world v = quiet_world\<lparr>w_servers := group_a,
     w_users := fmupd 7 \<lparr>row_IdpID = None, row_ServerID = v, row_LastSeenAt = None\<rparr> fmempty\<rparr>"

definition admin_request :: http_request where
  "admin_request = \<lparr>rq_Header = fmap_of_list [(AuthorizationHeader, [''Bearer tok''])], rq_ip = [], rq_CurrentUser = None\<rparr>"

lemma bump_run:
  "\<exists>t. run_state (BumpSDK quiet_env ''7'') (admin_world (Some 1)) = (Reply 200 (Bumped 7 ''lbrynet-a-1'' \<lparr>sd_group = ''a'', sd_id = 2\<rparr> None None), t) \<and>
     fmlookup (w_users t) 7 = Some \<lparr>row_IdpID = None, row_ServerID = Some 2, row_LastSeenAt = None\<rparr>"
proof -
  have names: "ParseInt 64 ''7'' = Some 7" "parseSDKDetails ''lbrynet-a-1'' = Inr \<lparr>sd_group = ''a'', sd_id = 1\<rparr>"
    "sdk_String \<lparr>sd_group = ''a'', sd_id = 2\<rparr> = ''lbrynet-a-2''" "bumpID \<lparr>sd_group = ''a'', sd_id = 1\<rparr> = \<lparr>sd_group = ''a'', sd_id = 2\<rparr>"
    by code_simp+
  show ?thesis
    by (simp add: BumpSDK_def names getDBUser_def stmt_def quiet_env_def admin_world_def sorted_one matches_def load_user_def
      server_by_id_def group_a_def next_sdk_def server_named_def Let_def move_user_def update_user_def row_of_def LoadWallet_def UnloadWallet_def)
qed


text \<open>A user without an instance makes the handler panic.\<close>

lemma bump_without_server_crashes:
  "fst (run_state (BumpSDK quiet_env ''7'') (admin_world None)) = Crash ''nil pointer dereference''"
proof -
  have "ParseInt 64 ''7'' = Some 7" by code_simp
  then show ?thesis
    by (simp add: BumpSDK_def getDBUser_def stmt_def quiet_env_def admin_world_def sorted_one matches_def load_user_def server_by_id_def)
qed

end
