(* ===== verification/Publish.thy ===== *)
theory Publish
  imports Proxy Paths
begin

text \<open>
  \<open>app/publish/publish.go\<close> with \<open>http.go\<close> and \<open>errors.go\<close>: the handler of publish requests that
  come with the file, or with a URL to fetch it from. The file is stored in a directory of
  its own under the user's directory, its path is forced into the request to the SDK, and
  the directory is removed in the end. The state is that of the API server with the local
  files and directories; the file system, the network and \<open>go-retryablehttp\<close> may fail at
  every step. Names and URLs are ASCII.
\<close>

section \<open>Constants and errors\<close>

definition fetchTryLimit :: nat where "fetchTryLimit = 5"
definition fileNameParam :: string where "fileNameParam = ''file_path''"

definition q_char :: "char \<Rightarrow> string" where
  "q_char c = (let n = of_char c :: nat in
     if c = CHR 0x22 then [CHR 0x5C, CHR 0x22]
     else if c = CHR 0x5C then [CHR 0x5C, CHR 0x5C]
     else if n = 7 then [CHR 0x5C, CHR ''a''] else if n = 8 then [CHR 0x5C, CHR ''b'']
     else if n = 9 then [CHR 0x5C, CHR ''t''] else if n = 10 then [CHR 0x5C, CHR ''n'']
     else if n = 11 then [CHR 0x5C, CHR ''v''] else if n = 12 then [CHR 0x5C, CHR ''f'']
     else if n = 13 then [CHR 0x5C, CHR ''r'']
     else if n < 32 \<or> n = 127 then [CHR 0x5C, CHR ''x''] @ hex_encode [c]
     else [c])"

definition go_quote :: "string \<Rightarrow> string" where
  "go_quote s = [CHR 0x22] @ concat (map q_char s) @ [CHR 0x22]"

text \<open>\<open>ErrEmptyRemoteURL\<close> is a \<open>FetchError\<close> too, recognized by its identity.\<close>

datatype fetch_error = RequestError go_error string | FetchError string go_error | ErrEmptyRemoteURL

fun fetch_error_msg :: "fetch_error \<Rightarrow> go_error" where
  "fetch_error_msg (RequestError e msg) = Plain (''request error: '' @ go_quote msg @ '' '' @ error_msg e)"
| "fetch_error_msg (FetchError url e) = Plain (''fetch error on '' @ go_quote url @ '': '' @ error_msg e)"
| "fetch_error_msg ErrEmptyRemoteURL = Plain (''fetch error on '' @ go_quote [] @ '': empty remote url'')"

section \<open>Retry policy\<close>

datatype http_error = UrlError string bool | OtherError go_error

text \<open>\<open>stopped after \d+ redirects\z\<close>.\<close>

definition redirects_error :: "string \<Rightarrow> bool" where
  "redirects_error s = (
     let suffix = '' redirects''; body = take (length s - length suffix) s;
         digits = takeWhile (\<lambda>c. 48 \<le> (of_char c :: nat) \<and> (of_char c :: nat) \<le> 57) (rev body)
     in HasSuffix s suffix \<and> digits \<noteq> [] \<and> HasSuffix (take (length body - length digits) body) ''stopped after '')"

text \<open>Whether to try again, and the error to report. A URL error carries its message and whether
  its cause is an unknown certificate authority.\<close>

definition retryPolicy :: "go_error option \<Rightarrow> http_error + int \<Rightarrow> bool \<times> string option" where
  "retryPolicy ctxErr resp = (case ctxErr of
     Some e \<Rightarrow> (False, Some (error_msg e))
   | None \<Rightarrow>
       (case resp of
          Inl (UrlError msg unknownAuthority) \<Rightarrow>
            if redirects_error msg \<or> Contains msg ''unsupported protocol scheme'' \<or> unknownAuthority \<or>
               Contains msg ''dial tcp: lookup''
            then (False, Some msg) else (True, None)
        | Inl (OtherError _) \<Rightarrow> (True, None)
        | Inr status \<Rightarrow>
            if status = 0 \<or> (500 \<le> status \<and> status \<noteq> 501)
            then (True, Some (''unexpected HTTP status code '' @ Itoa status)) else (False, None)))"

section \<open>State\<close>

text \<open>The parsed form: the remote URL, the JSON payload and the file with its name.\<close>

record publish_form =
  pf_RemoteURL :: string
  pf_JSON :: string
  pf_File :: "go_error + (string \<times> (go_error + bytes))"

record publish_request =
  pr_http :: http_request
  pr_form :: "go_error + publish_form"
  pr_cache :: bool

record 'w pub_env =
  pe_api :: "'w env"
  pe_UploadPath :: string
  pe_Unmarshal :: "string \<Rightarrow> go_error + rpc_request option"
  pe_NewRequest :: "string \<Rightarrow> go_error + string"
  pe_Do :: "(go_error option \<Rightarrow> http_error + int \<Rightarrow> bool \<times> string option) \<Rightarrow> string
    \<Rightarrow> ('w, go_error + (int \<times> (go_error + bytes))) state"
  pe_MkdirAll :: "string \<Rightarrow> ('w, go_error option) state"
  pe_MkdirTemp :: "string \<Rightarrow> ('w, go_error + nat) state"
  pe_Create :: "string \<Rightarrow> ('w, go_error option) state"
  pe_Close :: "('w, go_error option) state"
  pe_ctxDone :: "('w, go_error option) state"
  pe_RemoveAll :: "string \<Rightarrow> ('w, go_error option) state"

record 'w pub_world =
  pw_api :: "'w world"
  pw_files :: "(string, bytes) fmap"
  pw_dirs :: "string list"
  pw_fetched :: "string list"

type_synonym ('w, 'a) pub_io = "('w pub_world, 'a) state"

definition api :: "('w, 'a) io \<Rightarrow> ('w, 'a) pub_io" where
  "api m = State (\<lambda>s. case run_state m (pw_api s) of (a, x) \<Rightarrow> (a, s\<lparr>pw_api := x\<rparr>))"

definition pub_reads :: "('w pub_world \<Rightarrow> 'a) \<Rightarrow> ('w, 'a) pub_io" where
  "pub_reads f = State (\<lambda>s. (f s, s))"

definition pub_modify :: "('w pub_world \<Rightarrow> 'w pub_world) \<Rightarrow> ('w, unit) pub_io" where
  "pub_modify f = State (\<lambda>s. ((), f s))"

lemma run_api [simp]:
  "run_state (api m) s = (fst (run_state m (pw_api s)), s\<lparr>pw_api := snd (run_state m (pw_api s))\<rparr>)"
  by (simp add: api_def split: prod.split)

lemma run_pub_reads [simp]: "run_state (pub_reads f) s = (f s, s)"
  by (simp add: pub_reads_def)

lemma run_pub_modify [simp]: "run_state (pub_modify f) s = ((), f s)"
  by (simp add: pub_modify_def)

definition store :: "string \<Rightarrow> bytes \<Rightarrow> ('w, unit) pub_io" where
  "store n b = pub_modify (\<lambda>s. s\<lparr>pw_files := fmupd n b (pw_files s)\<rparr>)"

definition below :: "string \<Rightarrow> string \<Rightarrow> bool" where
  "below d p \<longleftrightarrow> p = d \<or> HasPrefix p (d @ ''/'')"

section \<open>Files\<close>

text \<open>\<open>os.MkdirTemp\<close> appends a random number to the directory and never takes a name that exists.
  A directory cannot be created as a file.\<close>

definition createFile :: "'w pub_env \<Rightarrow> int \<Rightarrow> string \<Rightarrow> ('w, go_error + string) pub_io" where
  "createFile E userID origFilename = (
     let uploadPath = path_Join (pe_UploadPath E) (Itoa userID) in do {
       m \<leftarrow> api (ext (pe_MkdirAll E uploadPath));
       (case m of
          Some e \<Rightarrow> State_Monad.return (Inl e)
        | None \<Rightarrow> do {
            pub_modify (\<lambda>s. s\<lparr>pw_dirs := List.insert uploadPath (pw_dirs s)\<rparr>);
            r \<leftarrow> api (ext (pe_MkdirTemp E uploadPath));
            (case r of
               Inl e \<Rightarrow> State_Monad.return (Inl e)
             | Inr n \<Rightarrow> do {
                 let randomDir = uploadPath @ ''/'' @ decimal n;
                 taken \<leftarrow> pub_reads (\<lambda>s. list_ex (below randomDir) (pw_dirs s) \<or> fBex (fmdom (pw_files s)) (below randomDir));
                 if taken then State_Monad.return (Inl (Plain (''mkdirtemp: '' @ randomDir @ '': file exists'')))
                 else do {
                   pub_modify (\<lambda>s. s\<lparr>pw_dirs := List.insert randomDir (pw_dirs s)\<rparr>);
                   let name = path_Join randomDir origFilename;
                   c \<leftarrow> api (ext (pe_Create E name));
                   isDir \<leftarrow> pub_reads (\<lambda>s. name \<in> set (pw_dirs s));
                   (case c of
                      Some e \<Rightarrow> State_Monad.return (Inl e)
                    | None \<Rightarrow>
                        if isDir then State_Monad.return (Inl (Plain (''open '' @ name @ '': is a directory'')))
                        else do { store name []; State_Monad.return (Inr name) })
                 }
               })
          })
     })"

text \<open>The name of an uploaded part is the base name of what the client sent.\<close>

definition saveFile :: "'w pub_env \<Rightarrow> publish_form \<Rightarrow> int \<Rightarrow> ('w, go_error + string) pub_io" where
  "saveFile E form userID = (case pf_File form of
     Inl e \<Rightarrow> State_Monad.return (Inl e)
   | Inr (filename, content) \<Rightarrow> do {
       f \<leftarrow> createFile E userID (path_Base filename);
       (case f of
          Inl e \<Rightarrow> State_Monad.return (Inl e)
        | Inr name \<Rightarrow>
            (case content of
               Inl e \<Rightarrow> State_Monad.return (Inl e)
             | Inr b \<Rightarrow> do {
                 store name b;
                 c \<leftarrow> api (ext (pe_Close E));
                 State_Monad.return (case c of Some e \<Rightarrow> Inl e | None \<Rightarrow> Inr name)
               }))
     })"

definition fetchFile :: "'w pub_env \<Rightarrow> go_error + publish_form \<Rightarrow> int \<Rightarrow> ('w, fetch_error + string) pub_io" where
  "fetchFile E pform userID = (case pform of
     Inl e \<Rightarrow> State_Monad.return (Inl (RequestError e ''invalid request payload''))
   | Inr form \<Rightarrow>
       (let urlstring = pf_RemoteURL form in
        if urlstring = [] then State_Monad.return (Inl ErrEmptyRemoteURL)
        else (case pe_NewRequest E urlstring of
          Inl e \<Rightarrow> State_Monad.return (Inl (FetchError urlstring (Wrapped ''error creating request'' e)))
        | Inr urlPath \<Rightarrow>
            (let fname = path_Base urlPath in
             if fname = ''/'' \<or> fname = ''.'' \<or> fname = [] then
               State_Monad.return (Inl (FetchError urlstring (Plain (''couldn'' @ CHR 0x27 # ''t determine remote file name''))))
             else do {
               pub_modify (\<lambda>s. s\<lparr>pw_fetched := pw_fetched s @ [urlstring]\<rparr>);
               resp \<leftarrow> api (ext (pe_Do E retryPolicy urlstring));
               (case resp of
                  Inl e \<Rightarrow> State_Monad.return (Inl (FetchError urlstring e))
                | Inr (status, body) \<Rightarrow>
                    if status \<noteq> 200 then
                      State_Monad.return (Inl (FetchError urlstring (Plain (''remote server returned non-OK status '' @ Itoa status))))
                    else do {
                      f \<leftarrow> createFile E userID fname;
                      (case f of
                         Inl e \<Rightarrow> State_Monad.return (Inl (FetchError urlstring e))
                       | Inr name \<Rightarrow>
                           (case body of
                              Inl e \<Rightarrow> State_Monad.return (Inl (FetchError urlstring e))
                            | Inr b \<Rightarrow> do {
                                store name b;
                                c \<leftarrow> api (ext (pe_Close E));
                                if b = [] then do {
                                  pub_modify (\<lambda>s. s\<lparr>pw_files := fmdrop name (pw_files s)\<rparr>);
                                  State_Monad.return (Inl (FetchError urlstring (Plain ''remote file is empty'')))
                                }
                                else State_Monad.return (case c of
                                  Some e \<Rightarrow> Inl (FetchError urlstring e) | None \<Rightarrow> Inr name)
                              }))
                    })
             }))))"

section \<open>The handler\<close>

definition getCaller :: "'w env \<Rightarrow> string \<Rightarrow> string \<Rightarrow> int \<Rightarrow> bool \<Rightarrow> caller" where
  "getCaller E sdkAddress filename userID qCache =
     AddPreflightHook ((NewCaller E sdkAddress userID)\<lparr>c_Cache := qCache\<rparr>) AllMethodsHook (SetFileName filename) []"

definition internal_error :: "go_error \<Rightarrow> http_reply" where
  "internal_error e = writeResponse 200 (rpc_to_json (NewInternalError (Some e)))"

text \<open>What is done with the outcome of one attempt: a reply, the file, or another attempt.\<close>

definition after_fetch :: "'w pub_env \<Rightarrow> go_error + publish_form \<Rightarrow> int \<Rightarrow> fetch_error + string
    \<Rightarrow> (http_reply \<Rightarrow> ('w, http_reply + string) pub_io) \<Rightarrow> ('w, http_reply + string) pub_io" where
  "after_fetch E pform userID f retry = (case f of
     Inr name \<Rightarrow> State_Monad.return (Inr name)
   | Inl (RequestError e m) \<Rightarrow> State_Monad.return (Inl (internal_error (fetch_error_msg (RequestError e m))))
   | Inl (FetchError url e) \<Rightarrow> retry (internal_error (fetch_error_msg (FetchError url e)))
   | Inl ErrEmptyRemoteURL \<Rightarrow>
       (case pform of
          Inl e \<Rightarrow> State_Monad.return (Inl (internal_error e))
        | Inr form \<Rightarrow> do {
            g \<leftarrow> saveFile E form userID;
            (case g of
               Inl e \<Rightarrow> do { api (ErrorToSentry (Some e)); State_Monad.return (Inl (internal_error e)) }
             | Inr name \<Rightarrow> State_Monad.return (Inr name))
          }))"

text \<open>The number counts the attempts that remain after this one.\<close>

primrec fetch_tries :: "nat \<Rightarrow> 'w pub_env \<Rightarrow> go_error + publish_form \<Rightarrow> int \<Rightarrow> ('w, http_reply + string) pub_io" where
  "fetch_tries 0 E pform userID = do {
     f \<leftarrow> fetchFile E pform userID;
     after_fetch E pform userID f (\<lambda>reply. State_Monad.return (Inl reply))
   }"
| "fetch_tries (Suc k) E pform userID = do {
     f \<leftarrow> fetchFile E pform userID;
     after_fetch E pform userID f (\<lambda>_. fetch_tries k E pform userID)
   }"

definition update_request :: "rpc_request \<Rightarrow> json_map \<Rightarrow> rpc_request" where
  "update_request rpcReq params = (
     if (case fmlookup params ''claim_id'' of None \<Rightarrow> False | Some v \<Rightarrow> v \<noteq> JNull)
     then rpcReq\<lparr>req_Method := MethodStreamUpdate,
       req_Params := JObj (fmupd ''replace'' (JBool True) (fmdrop ''name'' params))\<rparr>
     else rpcReq)"

definition publish_body :: "'w pub_env \<Rightarrow> publish_request \<Rightarrow> user \<Rightarrow> string \<Rightarrow> ('w, http_reply res) pub_io" where
  "publish_body E r user name = (
     case pe_Unmarshal E (case pr_form r of Inr form \<Rightarrow> pf_JSON form | Inl _ \<Rightarrow> []) of
       Inl e \<Rightarrow> State_Monad.return (Ok (writeResponse 200 (rpc_to_json (NewInvalidParamsError (Some e)))))
     | Inr None \<Rightarrow> State_Monad.return (Panic ''nil pointer dereference'')
     | Inr (Some rpcReq) \<Rightarrow>
         (let c = getCaller (pe_api E) (GetSDKAddress (Some user)) name (usr_ID user) (pr_cache r) in
          case req_Params rpcReq of
            JObj params \<Rightarrow> do {
              out \<leftarrow> api (Call (pe_api E) c (rq_CurrentUser (pr_http r)) (update_request rpcReq params));
              (case out of
                 Ok rpcRes \<Rightarrow> State_Monad.return (Ok (writeResponse 200 rpcRes))
               | Panic m \<Rightarrow> State_Monad.return (Panic m)
               | Err err \<Rightarrow> do {
                   api (ErrorToSentry (Some (Plain (''error calling publish: '' @ error_msg err))));
                   State_Monad.return (Ok (writeResponse 200 (ToJSON (Some err))))
                 })
            }
          | _ \<Rightarrow> State_Monad.return (Ok (writeResponse 200
              (rpc_to_json (NewInvalidParamsError (Some (Plain ''cannot parse params'')))))))
   )"

text \<open>The deferred removal; it runs also when the body panics.\<close>

definition remove_dir :: "'w pub_env \<Rightarrow> string \<Rightarrow> ('w, unit) pub_io" where
  "remove_dir E name = (
     let d = path_Dir name in do {
       e \<leftarrow> api (ext (pe_RemoveAll E d));
       (case e of
          Some x \<Rightarrow> api (ErrorToSentry (Some x))
        | None \<Rightarrow> pub_modify (\<lambda>s. s\<lparr>pw_files := fmfilter (\<lambda>p. \<not> below d p) (pw_files s),
            pw_dirs := filter (\<lambda>p. \<not> below d p) (pw_dirs s)\<rparr>))
     })"

definition publish_Handle :: "'w pub_env \<Rightarrow> publish_request \<Rightarrow> ('w, http_reply res) pub_io" where
  "publish_Handle E r = (
     let (user, err) = FromRequest (pr_http r) in
     case GetAuthError user err of
       Some e \<Rightarrow> State_Monad.return (Ok (writeResponse 200 (ErrorToJSON (Some e))))
     | None \<Rightarrow>
         if GetSDKAddress user = [] then
           (case user of
              None \<Rightarrow> State_Monad.return (Panic ''nil pointer dereference'')
            | Some _ \<Rightarrow> State_Monad.return (Ok (internal_error (Err_str ''user does not have sdk address assigned''))))
         else (case user of
           None \<Rightarrow> State_Monad.return (Panic ''nil pointer dereference'')
         | Some u \<Rightarrow> do {
             f \<leftarrow> fetch_tries (fetchTryLimit - 1) E (pr_form r) (usr_ID u);
             (case f of
                Inl reply \<Rightarrow> State_Monad.return (Ok reply)
              | Inr name \<Rightarrow> do {
                  d \<leftarrow> api (ext (pe_ctxDone E));
                  (case d of
                     Some e \<Rightarrow> State_Monad.return (Ok (internal_error e))
                   | None \<Rightarrow> do {
                       out \<leftarrow> publish_body E r u name;
                       remove_dir E name;
                       State_Monad.return out
                     })
                })
           }))"

section \<open>Where files go\<close>

text \<open>What one step may change: the queue of SDK requests stays, existing files stay.\<close>

definition keeps_files :: "'w pub_world \<Rightarrow> 'w pub_world \<Rightarrow> bool" where
  "keeps_files s t \<longleftrightarrow> w_sent (pw_api t) = w_sent (pw_api s) \<and>
     (\<forall>p c. fmlookup (pw_files s) p = Some c \<longrightarrow> fmlookup (pw_files t) p = Some c)"

lemma keeps_refl [simp]: "keeps_files s s"
  by (simp add: keeps_files_def)

lemma keeps_files_trans: "keeps_files s t \<Longrightarrow> keeps_files t u \<Longrightarrow> keeps_files s u"
  by (auto simp: keeps_files_def)

lemma sent_ext [simp]: "w_sent (snd (run_state (ext m) s)) = w_sent s"
  by (simp add: ext_def split: prod.splits)

text \<open>A file that has just been created: in a directory of its own.\<close>

definition placed :: "'w pub_env \<Rightarrow> int \<Rightarrow> string \<Rightarrow> 'w pub_world \<Rightarrow> string \<Rightarrow> 'w pub_world \<Rightarrow> bool" where
  "placed E uid fn s name t \<longleftrightarrow> (let up = path_Join (pe_UploadPath E) (Itoa uid) in
     \<exists>n. name = path_Join (up @ ''/'' @ decimal n) fn \<and> name \<notin> {up, up @ ''/'' @ decimal n} \<and>
       \<not> fBex (fmdom (pw_files s)) (below (up @ ''/'' @ decimal n)))"

lemma createFile_run:
  assumes "run_state (createFile E uid fn) s = (r, t)"
  shows "w_sent (pw_api t) = w_sent (pw_api s)" and "pw_fetched t = pw_fetched s"
    and "r = Inl e \<Longrightarrow> pw_files t = pw_files s"
    and "r = Inr name \<Longrightarrow> placed E uid fn s name t \<and> pw_files t = fmupd name [] (pw_files s)"
  using assms
  by (auto simp: createFile_def Let_def store_def placed_def split: option.splits sum.splits if_splits)

lemma digit_not: "d < 10 \<Longrightarrow> digit d \<noteq> CHR ''/'' \<and> digit d \<noteq> CHR ''.''"
proof -
  assume d: "d < 10"
  have "(of_char (digit d) :: nat) \<noteq> of_char (CHR ''/'')" "(of_char (digit d) :: nat) \<noteq> of_char (CHR ''.'')"
    using digit_code [OF d] by simp_all
  then show ?thesis by metis
qed

lemma decimal_chars: "c \<in> set (decimal n) \<Longrightarrow> c \<noteq> CHR ''/'' \<and> c \<noteq> CHR ''.''"
  using decimal_digits digit_not by metis

lemma proper_no_dot:
  assumes "w \<noteq> []" "\<And>c. c \<in> set w \<Longrightarrow> c \<noteq> CHR ''/'' \<and> c \<noteq> CHR ''.''"
  shows "proper w"
  using assms by (auto simp: proper_def)

lemma proper_decimal [simp]: "proper (decimal n)"
  by (rule proper_no_dot) (simp_all add: decimal_chars)

lemma proper_Itoa [simp]: "proper (Itoa i)"
  by (rule proper_no_dot) (auto simp: Itoa_def dest: decimal_chars split: if_splits)

text \<open>With a clean upload path, and a base name as the file name, the file is in that directory
  and the directory is in the user's.\<close>

lemma placed_path:
  assumes "placed E uid (path_Base fn) s name t" and "pe_UploadPath E = abs_path ws" "ws \<noteq> []" "list_all proper ws"
  obtains n b where "proper b" "name = abs_path (ws @ [Itoa uid, decimal n, b])"
    "path_Dir name = abs_path (ws @ [Itoa uid, decimal n])"
    "\<not> fBex (fmdom (pw_files s)) (below (abs_path (ws @ [Itoa uid, decimal n])))"
proof -
  have up: "path_Join (pe_UploadPath E) (Itoa uid) = abs_path (ws @ [Itoa uid])" using assms(2-4) by (simp add: Join_proper)
  have d: "abs_path (ws @ [Itoa uid]) @ ''/'' @ decimal n = abs_path (ws @ [Itoa uid, decimal n])" for n
    using join_slash_snoc [of "ws @ [Itoa uid]" "decimal n"] by (simp add: abs_path_def)
  from assms(1) [unfolded placed_def Let_def up d] obtain n where n: "name = path_Join (abs_path (ws @ [Itoa uid, decimal n])) (path_Base fn)"
    "name \<notin> {abs_path (ws @ [Itoa uid]), abs_path (ws @ [Itoa uid, decimal n])}"
    "\<not> fBex (fmdom (pw_files s)) (below (abs_path (ws @ [Itoa uid, decimal n])))" by blast
  have pr: "list_all proper (ws @ [Itoa uid, decimal n])" using assms(4) by simp
  from Join_Base [of "ws @ [Itoa uid, decimal n]" fn] pr n have b: "proper (path_Base fn)"
    "name = abs_path ((ws @ [Itoa uid, decimal n]) @ [path_Base fn])" by (auto simp: butlast_append)
  from Dir_abs [OF _ pr b(1)] b(2) have "path_Dir name = abs_path (ws @ [Itoa uid, decimal n])" by simp
  with b n(3) that show thesis by simp
qed

lemma under_child: "below (abs_path (ws @ [d])) (abs_path (ws @ [d, b]))"
  using join_slash_snoc [of "ws @ [d]" b] by (simp add: below_def abs_path_def HasPrefix_def)

definition clean_env :: "'w pub_env \<Rightarrow> string list \<Rightarrow> bool" where
  "clean_env E ws \<longleftrightarrow> pe_UploadPath E = abs_path ws \<and> ws \<noteq> [] \<and> list_all proper ws"

definition vacant :: "string \<Rightarrow> 'w pub_world \<Rightarrow> bool" where
  "vacant d s \<longleftrightarrow> (\<forall>p. below d p \<longrightarrow> fmlookup (pw_files s) p = None)"

lemma vacantI: "\<not> fBex (fmdom (pw_files s)) (below d) \<Longrightarrow> vacant d s"
  by (auto simp: vacant_def fmlookup_dom_iff dest: fmdom_notD)

definition home :: "string list \<Rightarrow> int \<Rightarrow> 'w pub_world \<Rightarrow> string \<Rightarrow> bool" where
  "home ws uid s name \<longleftrightarrow> (\<exists>n b. proper b \<and> name = abs_path (ws @ [Itoa uid, decimal n, b]) \<and>
     path_Dir name = abs_path (ws @ [Itoa uid, decimal n]) \<and> vacant (path_Dir name) s)"

lemma placed_home: "placed E uid (path_Base fn) s name t \<Longrightarrow> clean_env E ws \<Longrightarrow> home ws uid s name"
  unfolding clean_env_def home_def by (elim conjE, erule placed_path, assumption+) (metis vacantI)

lemma home_under: "home ws uid s name \<Longrightarrow> below (path_Dir name) name"
  using under_child [of "ws @ [Itoa uid]"] by (auto simp: home_def)

lemma home_fresh: "home ws uid s name \<Longrightarrow> fmlookup (pw_files s) name = None"
  using home_under [of ws uid s name] by (auto simp: home_def vacant_def)

lemma home_keeps: "home ws uid t name \<Longrightarrow> keeps_files s t \<Longrightarrow> home ws uid s name"
  unfolding home_def vacant_def keeps_files_def by (metis not_Some_eq)

lemma keeps_new:
  "fmlookup (pw_files s) name = None \<Longrightarrow> w_sent (pw_api t) = w_sent (pw_api s) \<Longrightarrow>
     pw_files t \<in> {fmupd name b (pw_files s), fmdrop name (pw_files s)} \<Longrightarrow> keeps_files s t"
  by (auto simp: keeps_files_def split: if_splits)

declare fmdrop_fmupd_same [simp]

lemma createFile_keeps:
  assumes "run_state (createFile E uid (path_Base fn)) s = (r, t)" and "clean_env E ws"
  shows "case r of Inl _ \<Rightarrow> keeps_files s t
    | Inr name \<Rightarrow> home ws uid s name \<and> w_sent (pw_api t) = w_sent (pw_api s) \<and> pw_files t = fmupd name [] (pw_files s)"
  using createFile_run [OF assms(1)] placed_home [OF _ assms(2)] by (auto simp: keeps_files_def split: sum.split)

lemma saveFile_run:
  assumes "run_state (saveFile E form uid) s = (r, t)" and "clean_env E ws"
  shows "keeps_files s t \<and> (\<forall>name. r = Inr name \<longrightarrow> home ws uid s name)"
proof (cases "pf_File form")
  case (Inl e)
  with assms(1) show ?thesis by (auto simp: saveFile_def)
next
  case (Inr p)
  obtain fn content where p: "p = (fn, content)" by fastforce
  obtain f s1 where f: "run_state (createFile E uid (path_Base fn)) s = (f, s1)" by fastforce
  note cf = createFile_keeps [OF f assms(2)] createFile_run(2) [OF f]
  show ?thesis
  proof (cases f)
    case (Inl e)
    with assms(1) Inr p f cf show ?thesis by (auto simp: saveFile_def)
  next
    case (Inr name)
    with cf have h: "home ws uid s name" and s1: "w_sent (pw_api s1) = w_sent (pw_api s)" "pw_files s1 = fmupd name [] (pw_files s)"
      by auto
    have "w_sent (pw_api t) = w_sent (pw_api s)" "\<exists>b. pw_files t = fmupd name b (pw_files s)" "pw_fetched t = pw_fetched s"
      "\<forall>n. r = Inr n \<longrightarrow> n = name"
      using assms(1) \<open>pf_File form = Inr p\<close> p f Inr cf(2) s1
      by (auto simp: saveFile_def store_def split: sum.splits option.splits)
    with h home_fresh [OF h] keeps_new [of s name t] show ?thesis by auto
  qed
qed

lemma fetchFile_run:
  assumes "run_state (fetchFile E pform uid) s = (r, t)" and "clean_env E ws"
  shows "keeps_files s t \<and> (\<forall>name. r = Inr name \<longrightarrow> home ws uid s name)"
proof (cases "\<exists>form urlPath. pform = Inr form \<and> pf_RemoteURL form \<noteq> [] \<and> pe_NewRequest E (pf_RemoteURL form) = Inr urlPath \<and>
    path_Base urlPath \<notin> {''/'', ''.'', []}")
  case False
  with assms(1) have "t = s \<and> (\<exists>e. r = Inl e)" by (auto simp: fetchFile_def Let_def split: sum.splits if_splits)
  then show ?thesis by auto
next
  case True
  then obtain form up where form: "pform = Inr form" "pf_RemoteURL form \<noteq> []"
    "pe_NewRequest E (pf_RemoteURL form) = Inr up" "path_Base up \<notin> {''/'', ''.'', []}" by blast
  let ?url = "pf_RemoteURL form"
  let ?s1 = "s\<lparr>pw_fetched := pw_fetched s @ [?url]\<rparr>"
  obtain resp s2 where resp: "run_state (api (ext (pe_Do E retryPolicy ?url))) ?s1 = (resp, s2)" by fastforce
  then have s2: "keeps_files s s2" "pw_files s2 = pw_files s" "pw_fetched s2 = pw_fetched s @ [?url]"
    "w_sent (pw_api s2) = w_sent (pw_api s)" by (auto simp: keeps_files_def)
  show ?thesis
  proof (cases "\<exists>body. resp = Inr (200, body)")
    case False
    with assms(1) form resp have "t = s2 \<and> (\<exists>e. r = Inl e)"
      by (auto simp: fetchFile_def Let_def split: sum.splits if_splits)
    with s2 form show ?thesis by auto
  next
    case True
    then obtain body where body: "resp = Inr (200, body)" by blast
    obtain f s3 where f: "run_state (createFile E uid (path_Base up)) s2 = (f, s3)" by fastforce
    note cf = createFile_keeps [OF f assms(2)] createFile_run(2) [OF f]
    show ?thesis
    proof (cases f)
      case (Inl e)
      with assms(1) form resp body f have "t = s3 \<and> (\<exists>e. r = Inl e)" by (auto simp: fetchFile_def Let_def)
      with cf Inl s2 form keeps_files_trans [OF s2(1)] show ?thesis by auto
    next
      case (Inr name)
      with cf s2 have h: "home ws uid s2 name" and s3: "w_sent (pw_api s3) = w_sent (pw_api s)" "pw_files s3 = fmupd name [] (pw_files s)"
        by auto
      have hs: "home ws uid s name" by (rule home_keeps [OF h s2(1)])
      have "w_sent (pw_api t) = w_sent (pw_api s)" "\<exists>b. pw_files t \<in> {fmupd name b (pw_files s), fmdrop name (pw_files s)}"
        "pw_fetched t = pw_fetched s @ [?url]" "\<forall>n. r = Inr n \<longrightarrow> n = name"
        using assms(1) form resp body f Inr cf(2) s2 s3
        by (auto simp: fetchFile_def Let_def store_def split: sum.splits option.splits if_splits)
      with hs home_fresh [OF hs] keeps_new [of s name t] form show ?thesis by blast
    qed
  qed
qed

lemma after_fetch_run:
  assumes "run_state (after_fetch E pform uid f retry) s = (r, t)" and "clean_env E ws"
    and "\<And>name. f = Inr name \<Longrightarrow> home ws uid s\<^sub>0 name" and "keeps_files s\<^sub>0 s"
    and "\<And>reply. run_state (retry reply) s = (r, t) \<Longrightarrow> keeps_files s t \<and> (\<forall>name. r = Inr name \<longrightarrow> home ws uid s name)"
  shows "keeps_files s\<^sub>0 t \<and> (\<forall>name. r = Inr name \<longrightarrow> home ws uid s\<^sub>0 name)"
proof -
  consider name where "f = Inr name" | e m where "f = Inl (RequestError e m)" | url e where "f = Inl (FetchError url e)"
    | "f = Inl ErrEmptyRemoteURL" by (cases f) (auto elim: fetch_error.exhaust)
  then show ?thesis
  proof cases
    case again: 3
    with assms(1) have "run_state (retry (internal_error (fetch_error_msg (FetchError url e)))) s = (r, t)" by (simp add: after_fetch_def)
    from assms(5) [OF this] assms(4) show ?thesis by (auto intro: keeps_files_trans home_keeps)
  next
    case upload: 4
    show ?thesis
    proof (cases pform)
      case (Inl e)
      with assms(1,4) upload show ?thesis by (auto simp: after_fetch_def)
    next
      case (Inr form)
      obtain g s1 where g: "run_state (saveFile E form uid) s = (g, s1)" by fastforce
      note sf = saveFile_run [OF g assms(2)]
      have "keeps_files s t \<and> (\<forall>name. r = Inr name \<longrightarrow> home ws uid s name)"
        using assms(1) upload Inr g sf by (cases g) (auto simp: after_fetch_def keeps_files_def ErrorToSentry_def modify_def)
      with assms(4) show ?thesis by (auto intro: keeps_files_trans home_keeps)
    qed
  qed (use assms(1,3,4) in \<open>auto simp: after_fetch_def\<close>)
qed

lemma fetch_tries_run:
  assumes "run_state (fetch_tries n E pform uid) s = (r, t)" and "clean_env E ws"
  shows "keeps_files s t \<and> (\<forall>name. r = Inr name \<longrightarrow> home ws uid s name)"
  using assms(1)
proof (induction n arbitrary: s r t)
  case 0
  obtain f s1 where f: "run_state (fetchFile E pform uid) s = (f, s1)" by fastforce
  have "run_state (after_fetch E pform uid f (\<lambda>reply. State_Monad.return (Inl reply))) s1 = (r, t)" using 0 f by simp
  from after_fetch_run [OF this assms(2), of s] fetchFile_run [OF f assms(2)] show ?case by auto
next
  case (Suc n)
  obtain f s1 where f: "run_state (fetchFile E pform uid) s = (f, s1)" by fastforce
  have "run_state (after_fetch E pform uid f (\<lambda>_. fetch_tries n E pform uid)) s1 = (r, t)" using Suc.prems f by simp
  from after_fetch_run [OF this assms(2), of s] fetchFile_run [OF f assms(2)] Suc.IH [of s1 r t] show ?case by auto
qed

section \<open>How often the remote file is fetched\<close>

text \<open>The URL that is fetched, if any.\<close>

definition remote_url :: "go_error + publish_form \<Rightarrow> string" where
  "remote_url pform = (case pform of Inl _ \<Rightarrow> [] | Inr form \<Rightarrow> pf_RemoteURL form)"

definition fetches :: "go_error + publish_form \<Rightarrow> nat \<Rightarrow> 'w pub_world \<Rightarrow> 'w pub_world \<Rightarrow> bool" where
  "fetches pform n s t \<longleftrightarrow> (\<exists>k \<le> (if remote_url pform = [] then 0 else n).
     pw_fetched t = pw_fetched s @ replicate k (remote_url pform))"

lemma fetches_none: "pw_fetched t = pw_fetched s \<Longrightarrow> fetches pform n s t"
  unfolding fetches_def by (rule exI [of _ 0]) simp

lemma fetches_trans: "fetches pform m s t \<Longrightarrow> fetches pform n t u \<Longrightarrow> fetches pform (m + n) s u"
proof -
  assume "fetches pform m s t" "fetches pform n t u"
  then obtain j k where "j \<le> (if remote_url pform = [] then 0 else m)" "k \<le> (if remote_url pform = [] then 0 else n)"
    "pw_fetched u = pw_fetched s @ replicate j (remote_url pform) @ replicate k (remote_url pform)"
    unfolding fetches_def by auto
  then show ?thesis unfolding fetches_def by (intro exI [of _ "j + k"]) (auto simp: replicate_add split: if_splits)
qed

lemma fetches_same: "fetches pform n s t \<Longrightarrow> pw_fetched u = pw_fetched t \<Longrightarrow> fetches pform n s u"
  by (simp add: fetches_def)

lemma saveFile_fetched: "run_state (saveFile E form uid) s = (r, t) \<Longrightarrow> pw_fetched t = pw_fetched s"
  by (auto simp: saveFile_def store_def split: sum.splits option.splits prod.splits dest!: createFile_run(2))

lemma fetchFile_fetched: "run_state (fetchFile E pform uid) s = (r, t) \<Longrightarrow> fetches pform 1 s t"
  by (cases pform) (auto simp: fetchFile_def Let_def store_def fetches_def remote_url_def
    split: sum.splits option.splits prod.splits if_splits dest!: createFile_run(2) intro: exI [of _ 1] exI [of _ 0])

lemma after_fetch_fetched:
  assumes "run_state (after_fetch E pform uid f retry) s = (r, t)"
    and "\<And>reply. run_state (retry reply) s = (r, t) \<Longrightarrow> fetches pform n s t"
  shows "fetches pform n s t"
  using assms by (auto simp: after_fetch_def ErrorToSentry_def modify_def intro: fetches_none dest!: saveFile_fetched
    split: sum.splits fetch_error.splits prod.splits)

lemma fetch_tries_fetched: "run_state (fetch_tries n E pform uid) s = (r, t) \<Longrightarrow> fetches pform (Suc n) s t"
proof (induction n arbitrary: s r t)
  case 0
  obtain f s1 where f: "run_state (fetchFile E pform uid) s = (f, s1)" by fastforce
  have "run_state (after_fetch E pform uid f (\<lambda>reply. State_Monad.return (Inl reply))) s1 = (r, t)" using 0 f by simp
  then have "fetches pform 0 s1 t" by (rule after_fetch_fetched) (simp add: fetches_none)
  from fetches_trans [OF fetchFile_fetched [OF f] this] show ?case by simp
next
  case (Suc n)
  obtain f s1 where f: "run_state (fetchFile E pform uid) s = (f, s1)" by fastforce
  have "run_state (after_fetch E pform uid f (\<lambda>_. fetch_tries n E pform uid)) s1 = (r, t)" using Suc.prems f by simp
  then have "fetches pform (Suc n) s1 t" by (rule after_fetch_fetched) (rule Suc.IH)
  from fetches_trans [OF fetchFile_fetched [OF f] this] show ?case by simp
qed

section \<open>What is called\<close>

definition hooked :: "string \<Rightarrow> bool" where
  "hooked m \<longleftrightarrow> list_ex (HasPrefix m) [MethodStatus, MethodGet, MethodClaimSearch, MethodResolve]"

lemma getCaller_simps [simp]:
  "c_userID (getCaller E a f u h) = u" "c_endpoint (getCaller E a f u h) = a" "c_backupEndpoints (getCaller E a f u h) = []"
  by (simp_all add: getCaller_def NewCaller_def addDefaultHooks_def AddPreflightHook_def AddPostflightHook_def Let_def)

lemma getCaller_hooks:
  "c_preflightHooks (getCaller E a f u h) = [hook MethodStatus GetStatusResponse builtinHookName, hook MethodGet PreflightHookGet builtinHookName,
     hook MethodClaimSearch PreflightHookClaimSearch builtinHookName, hook MethodResolve PreflightCacheHook ''cache'',
     hook MethodClaimSearch PreflightCacheHook ''cache'', hook AllMethodsHook (SetFileName f) []]"
  by (simp add: getCaller_def NewCaller_def addDefaultHooks_def AddPreflightHook_def AddPostflightHook_def Let_def)

lemma hook_simps [simp]:
  "isMatchingHook m (hook x g n) \<longleftrightarrow> x = [] \<or> HasPrefix m x" "he_function (hook x g n) = g"
  by (auto simp: isMatchingHook_def hook_def)

lemma preflight_plain:
  assumes "\<not> hooked (q_Method q)" and "req_Params (q_Request q) = JObj m"
  shows "preflight E c cu (c_preflightHooks (getCaller E' a f u h)) q =
    State_Monad.return (Ok (None, set_params q (JObj (fmupd fileNameParam (JStr f) m))))"
proof -
  have "MethodStatus \<noteq> []" "MethodGet \<noteq> []" "MethodClaimSearch \<noteq> []" "MethodResolve \<noteq> []"
    by (simp_all add: MethodStatus_def MethodGet_def MethodClaimSearch_def MethodResolve_def)
  moreover have "\<not> HasPrefix (q_Method q) MethodStatus" "\<not> HasPrefix (q_Method q) MethodGet"
    "\<not> HasPrefix (q_Method q) MethodClaimSearch" "\<not> HasPrefix (q_Method q) MethodResolve"
    using assms(1) by (simp_all add: hooked_def)
  ultimately show ?thesis using assms(2)
    by (simp add: getCaller_hooks run_preflight_def AllMethodsHook_def set_param_def ParamsAsMap_def q_Params_def fileNameParam_def)
qed

lemma NewQuery_params:
  "NewQuery req w = Ok q \<Longrightarrow> req_Params req = JObj m \<Longrightarrow> q_Method q = req_Method req \<and> (\<exists>m'. req_Params (q_Request q) = JObj m')"
  by (auto simp: NewQuery_def Let_def set_params_def ParamsAsMap_def q_Params_def q_Method_def split: if_splits option.splits)

definition with_file :: "string \<Rightarrow> rpc_request \<Rightarrow> bool" where
  "with_file f r \<longleftrightarrow> (\<exists>m. req_Params r = JObj m \<and> fmlookup m fileNameParam = Some (JStr f))"

lemma sends_publish:
  assumes "\<not> hooked (req_Method req)" and "req_Params req = JObj m"
  shows "valid (sends s\<^sub>0 (\<lambda>ep r. with_file f r)) (Call E (getCaller E a f u h) cu req) (\<lambda>_. sends s\<^sub>0 (\<lambda>ep r. with_file f r))"
proof (cases "NewQuery req (call_wallet (getCaller E a f u h))")
  case (Ok q)
  from NewQuery_params [OF Ok assms(2)] obtain m' where q: "q_Method q = req_Method req" "req_Params (q_Request q) = JObj m'" by blast
  show ?thesis unfolding Call_def Ok res.case preflight_plain [OF assms(1) [folded q(1)] q(2)]
    by (auto intro!: io_intro sends_SendQuery simp: with_file_def set_params_def)
qed (auto simp: Call_def intro!: io_intro)

lemma update_request_params:
  "req_Params req = JObj m \<Longrightarrow> \<exists>m'. req_Params (update_request req m) = JObj m'"
  "\<not> hooked (req_Method req) \<Longrightarrow> \<not> hooked (req_Method (update_request req m))"
  by (simp_all add: update_request_def hooked_def HasPrefix_def MethodStatus_def MethodGet_def MethodClaimSearch_def
    MethodResolve_def MethodStreamUpdate_def)

lemma publish_sends_own:
  "valid (sends s\<^sub>0 (\<lambda>ep q. ep = a \<and> for_user (Some u) q)) (Call E (getCaller E a f (usr_ID u) h) cu req)
     (\<lambda>_. sends s\<^sub>0 (\<lambda>ep q. ep = a \<and> for_user (Some u) q))"
  by (rule sends_Call) (auto simp: permitted_def call_wallet_def split: if_splits elim!: own_request_for_user)

lemma sent_ErrorToSentry [simp]: "w_sent (snd (run_state (ErrorToSentry e) s)) = w_sent s"
  by (simp add: ErrorToSentry_def modify_def)

lemma sends_same: "w_sent s' = w_sent s \<Longrightarrow> sends s\<^sub>0 G s \<Longrightarrow> sends s\<^sub>0 G s'"
  by (simp add: sends_def)

definition the_json :: "publish_request \<Rightarrow> string" where
  "the_json r = (case pr_form r of Inr form \<Rightarrow> pf_JSON form | Inl _ \<Rightarrow> [])"

lemma publish_body_run:
  assumes "run_state (publish_body E r u name) s = (out, t)"
  shows "pw_files t = pw_files s \<and> pw_fetched t = pw_fetched s \<and>
    sends (pw_api s) (\<lambda>ep q. ep = GetSDKAddress (Some u) \<and> for_user (Some u) q) (pw_api t) \<and>
    (\<forall>req. pe_Unmarshal E (the_json r) = Inr (Some req) \<longrightarrow> \<not> hooked (req_Method req) \<longrightarrow>
       sends (pw_api s) (\<lambda>ep q. with_file name q) (pw_api t))"
proof (cases "\<exists>req m. pe_Unmarshal E (the_json r) = Inr (Some req) \<and> req_Params req = JObj m")
  case False
  with assms have "t = s" by (auto simp: publish_body_def the_json_def Let_def split: sum.splits option.splits json.splits)
  then show ?thesis by simp
next
  case True
  then obtain req m where req: "pe_Unmarshal E (the_json r) = Inr (Some req)" "req_Params req = JObj m" by blast
  let ?c = "getCaller (pe_api E) (GetSDKAddress (Some u)) name (usr_ID u) (pr_cache r)"
  obtain o1 w where call: "run_state (Call (pe_api E) ?c (rq_CurrentUser (pr_http r)) (update_request req m)) (pw_api s) = (o1, w)" by fastforce
  have t: "pw_files t = pw_files s" "pw_fetched t = pw_fetched s" "w_sent (pw_api t) = w_sent w"
    using assms req call by (auto simp: publish_body_def the_json_def [symmetric] Let_def split: res.splits)
  have own: "sends (pw_api s) (\<lambda>ep q. ep = GetSDKAddress (Some u) \<and> for_user (Some u) q) w"
    using validD [OF publish_sends_own call] by simp
  have "sends (pw_api s) (\<lambda>ep q. with_file name q) w" if "\<not> hooked (req_Method req)"
    using validD [OF sends_publish call] update_request_params(1) [OF req(2)] update_request_params(2) [OF that] by (metis sends_refl)
  with t own req(1) show ?thesis by (auto intro: sends_same [of "pw_api t" w])
qed

lemma remove_dir_run:
  assumes "run_state (remove_dir E name) s = (r, t)"
  shows "w_sent (pw_api t) = w_sent (pw_api s)" and "pw_fetched t = pw_fetched s"
    and "\<not> below (path_Dir name) p \<Longrightarrow> fmlookup (pw_files t) p = fmlookup (pw_files s) p"
    and "(\<And>d w. fst (run_state (pe_RemoveAll E d) w) = None) \<Longrightarrow> below (path_Dir name) p \<Longrightarrow> fmlookup (pw_files t) p = None"
  using assms by (auto simp: remove_dir_def Let_def split: option.splits if_splits)

lemma homeE:
  assumes "home ws uid s name"
  obtains n b where "proper b" "name = abs_path (ws @ [Itoa uid, decimal n]) @ ''/'' @ b"
    "path_Dir name = abs_path (ws @ [Itoa uid, decimal n])" "vacant (path_Dir name) s"
proof -
  from assms obtain n b where h: "proper b" "name = abs_path (ws @ [Itoa uid, decimal n, b])"
    "path_Dir name = abs_path (ws @ [Itoa uid, decimal n])" "vacant (path_Dir name) s" unfolding home_def by blast
  have "name = abs_path (ws @ [Itoa uid, decimal n]) @ ''/'' @ b"
    using join_slash_snoc [of "ws @ [Itoa uid, decimal n]" b] h(2) by (simp add: abs_path_def)
  with h that show thesis by blast
qed

text \<open>The call and the removal, for a file in a directory that was vacant at the start.\<close>

lemma publish_end:
  assumes "run_state (publish_body E r u name) s1 = (o2, s3)" and "run_state (remove_dir E name) s3 = (y, t)"
    and "vacant (path_Dir name) s" and "keeps_files s s1"
  shows "(\<forall>p c. fmlookup (pw_files s) p = Some c \<longrightarrow> fmlookup (pw_files t) p = Some c) \<and>
    sends (pw_api s) (\<lambda>ep q. ep = GetSDKAddress (Some u) \<and> for_user (Some u) q) (pw_api t) \<and>
    (\<forall>req. pe_Unmarshal E (the_json r) = Inr (Some req) \<longrightarrow> \<not> hooked (req_Method req) \<longrightarrow>
       sends (pw_api s) (\<lambda>ep q. with_file name q) (pw_api t)) \<and>
    ((\<forall>d w. fst (run_state (pe_RemoveAll E d) w) = None) \<longrightarrow> vacant (path_Dir name) t)"
proof -
  note rd = remove_dir_run [OF assms(2)] and pb = publish_body_run [OF assms(1)]
  have tr: "sends (pw_api s1) G (pw_api s3) \<Longrightarrow> sends (pw_api s) G (pw_api t)" for G
    using rd(1) assms(4) by (simp add: sends_def keeps_files_def)
  have "fmlookup (pw_files t) p = Some c" if "fmlookup (pw_files s) p = Some c" for p c
  proof -
    from that assms(3) have "\<not> below (path_Dir name) p" by (auto simp: vacant_def)
    with rd(3) pb that assms(4) show ?thesis by (simp add: keeps_files_def)
  qed
  moreover have "(\<forall>d w. fst (run_state (pe_RemoveAll E d) w) = None) \<longrightarrow> vacant (path_Dir name) t"
    using rd(4) by (auto simp: vacant_def)
  ultimately show ?thesis using pb by (blast intro: tr)
qed

section \<open>Properties\<close>



text \<open>A calm surrounding: everything works and the temporary directory is number 0.\<close>

definition calm_pub :: "unit pub_env" where
  "calm_pub = \<lparr>pe_api = quiet_env, pe_UploadPath = ''/up'',
     pe_Unmarshal = (\<lambda>_. Inr (Some \<lparr>req_Method = ''publish'', req_Params = JObj (fmupd ''file_path'' (JStr ''/etc/passwd'') fmempty),
       req_ID = 1, req_JSONRPC = ''2.0''\<rparr>)),
     pe_NewRequest = (\<lambda>_. Inl (Plain ''no URL'')), pe_Do = (\<lambda>_ _. State_Monad.return (Inl (Plain ''no network''))),
     pe_MkdirAll = (\<lambda>_. State_Monad.return None), pe_MkdirTemp = (\<lambda>_. State_Monad.return (Inr 0)),
     pe_Create = (\<lambda>_. State_Monad.return None), pe_Close = State_Monad.return None, pe_ctxDone = State_Monad.return None,
     pe_RemoveAll = (\<lambda>_. State_Monad.return None)\<rparr>"

definition cat_form :: publish_request where
  "cat_form = \<lparr>pr_http = \<lparr>rq_Header = fmempty, rq_ip = ''1.2.3.4'',
       rq_CurrentUser = Some (NewCurrentUser (Some linked_user) ''1.2.3.4'' None None)\<rparr>,
     pr_form = Inr \<lparr>pf_RemoteURL = [], pf_JSON = ''{}'', pf_File = Inr (''cat.mp4'', Inr ''data'')\<rparr>, pr_cache = False\<rparr>"

definition one_file :: "unit pub_world" where
  "one_file = \<lparr>pw_api = quiet_world, pw_files = fmupd ''/up/7/1/dog.mp4'' ''dog'' fmempty, pw_dirs = [], pw_fetched = []\<rparr>"


end
