(* ===== verification/Tus.thy ===== *)
theory Tus
  imports Publish
begin

text \<open>
  \<open>app/publish/tus.go\<close>: publishing of files that were uploaded in pieces. The TUS library keeps
  the uploads, described by an info record; when the client notifies that the upload is
  complete, the handler moves the file to a place below the user's directory and calls the
  SDK. The library, its locks and the file system are not part of the repository.
\<close>

section \<open>The world outside\<close>

record tus_info =
  ti_ID :: string
  ti_Size :: int
  ti_Offset :: int
  ti_MetaData :: "(string, string) fmap"
  ti_Storage :: "(string, string) fmap"

record 'w tus_env =
  te_pub :: "'w pub_env"
  te_auther :: "'w auther"
  te_provider :: "'w auth_provider"
  te_UsesLocker :: bool
  te_NewLock :: "string \<Rightarrow> ('w, go_error option) state"
  te_Lock :: "string \<Rightarrow> ('w, go_error option) state"
  te_Unlock :: "string \<Rightarrow> ('w, unit) state"
  te_GetUpload :: "string \<Rightarrow> ('w, go_error option) state"
  te_GetInfo :: "string \<Rightarrow> ('w, go_error + tus_info) state"
  te_Rename :: "string \<Rightarrow> string \<Rightarrow> ('w, go_error option) state"
  te_Remove :: "string \<Rightarrow> ('w, go_error option) state"

record tus_request =
  tr_http :: http_request
  tr_id :: string
  tr_body :: string
  tr_cache :: bool

section \<open>Authentication\<close>

definition multiAuthUser :: "'w auther \<Rightarrow> 'w auth_provider \<Rightarrow> http_request \<Rightarrow> ('w, auth_result) io" where
  "multiAuthUser auther provider r = (case au_GetTokenFromRequest auther r of
     Panic m \<Rightarrow> State_Monad.return (Panic m)
   | Err e \<Rightarrow>
       if error_Is e ErrNoAuthInfo then
         (case fmlookup (rq_Header r) LegacyTokenHeader of
            Some (token # _) \<Rightarrow> do {
              a \<leftarrow> provider token (rq_ip r);
              State_Monad.return (case a of
                Ok (user, err) \<Rightarrow>
                  if err \<noteq> None then Ok (None, err) else if user = None then Ok (None, Some ErrNoAuthInfo) else Ok (user, None)
              | Err e \<Rightarrow> Err e
              | Panic m \<Rightarrow> Panic m)
            }
          | Some [] \<Rightarrow> State_Monad.return (Panic ''index out of range'')
          | None \<Rightarrow> State_Monad.return (Ok (None, Some (wrap ErrNoAuthInfo))))
       else State_Monad.return (Ok (None, Some e))
   | Ok token \<Rightarrow> do {
       a \<leftarrow> au_Authenticate auther token (rq_ip r);
       State_Monad.return (case a of
         Ok (user, err) \<Rightarrow>
           if err \<noteq> None then Ok (None, err) else if user = None then Ok (None, Some ErrNoAuthInfo) else Ok (user, None)
       | Err e \<Rightarrow> Err e
       | Panic m \<Rightarrow> Panic m)
     })"

definition preCreateHook :: "'w tus_env \<Rightarrow> http_request \<Rightarrow> ('w, go_error option res) io" where
  "preCreateHook T r = do {
     a \<leftarrow> multiAuthUser (te_auther T) (te_provider T) r;
     State_Monad.return (case a of Ok (_, err) \<Rightarrow> Ok err | Err e \<Rightarrow> Err e | Panic m \<Rightarrow> Panic m)
   }"

definition lockUpload :: "'w tus_env \<Rightarrow> string \<Rightarrow> ('w, go_error option) pub_io" where
  "lockUpload T i = do {
     e \<leftarrow> api (ext (te_NewLock T i));
     (case e of Some x \<Rightarrow> State_Monad.return (Some x) | None \<Rightarrow> api (ext (te_Lock T i)))
   }"

section \<open>Notification\<close>

definition rpc_reply :: "go_error \<Rightarrow> http_reply res" where
  "rpc_reply e = Ok (writeResponse 200 (rpc_to_json e))"

definition json_reply :: "go_error option \<Rightarrow> http_reply res" where
  "json_reply e = Ok (writeResponse 200 (ErrorToJSON e))"

definition dst_dir :: "string \<Rightarrow> int \<Rightarrow> string \<Rightarrow> string" where
  "dst_dir origUploadPath userID i = path_Joins [path_Dir origUploadPath, Itoa userID, i]"

definition dst_file :: "string \<Rightarrow> int \<Rightarrow> string \<Rightarrow> string \<Rightarrow> string" where
  "dst_file origUploadPath userID i origUploadName = path_Joins [dst_dir origUploadPath userID i, origUploadName]"

text \<open>\<open>os.Rename\<close> of a file that is not there fails.\<close>

definition move_upload :: "'w tus_env \<Rightarrow> string \<Rightarrow> string \<Rightarrow> string \<Rightarrow> ('w, go_error option) pub_io" where
  "move_upload T orig dstDir dst = do {
     m \<leftarrow> api (ext (pe_MkdirAll (te_pub T) dstDir));
     (case m of
        Some e \<Rightarrow> State_Monad.return (Some e)
      | None \<Rightarrow> do {
          pub_modify (\<lambda>s. s\<lparr>pw_dirs := List.insert dstDir (pw_dirs s)\<rparr>);
          content \<leftarrow> pub_reads (\<lambda>s. fmlookup (pw_files s) orig);
          n \<leftarrow> api (ext (te_Rename T orig dst));
          (case (n, content) of
             (Some e, _) \<Rightarrow> State_Monad.return (Some e)
           | (None, None) \<Rightarrow> State_Monad.return (Some (Plain (''rename '' @ orig @ '' '' @ dst @ '': no such file or directory'')))
           | (None, Some c) \<Rightarrow> do {
               pub_modify (\<lambda>s. s\<lparr>pw_files := fmupd dst c (fmdrop orig (pw_files s))\<rparr>);
               State_Monad.return None
             })
        })
   }"

definition report_error :: "go_error option \<Rightarrow> ('w, unit) pub_io" where
  "report_error e = (case e of None \<Rightarrow> State_Monad.return () | Some x \<Rightarrow> api (ErrorToSentry (Some x)))"

text \<open>Removal of the info file and of the directory; failures are only reported.\<close>

definition discard :: "'w tus_env \<Rightarrow> string \<Rightarrow> string \<Rightarrow> ('w, unit) pub_io" where
  "discard T infoFile dstDir = do {
     e \<leftarrow> api (ext (te_Remove T infoFile));
     (case e of
        Some x \<Rightarrow> report_error (Some x)
      | None \<Rightarrow> pub_modify (\<lambda>s. s\<lparr>pw_files := fmdrop infoFile (pw_files s)\<rparr>));
     d \<leftarrow> api (ext (pe_RemoveAll (te_pub T) dstDir));
     (case d of
        Some x \<Rightarrow> report_error (Some x)
      | None \<Rightarrow> pub_modify (\<lambda>s. s\<lparr>pw_files := fmfilter (\<lambda>p. \<not> below dstDir p) (pw_files s),
          pw_dirs := filter (\<lambda>p. \<not> below dstDir p) (pw_dirs s)\<rparr>))
   }"

text \<open>The call, once the file has been moved.\<close>

definition notify_sdk :: "'w tus_env \<Rightarrow> tus_request \<Rightarrow> user \<Rightarrow> tus_info \<Rightarrow> string \<Rightarrow> string \<Rightarrow> string \<Rightarrow> ('w, http_reply res) pub_io" where
  "notify_sdk T r user info orig dstDir dst = (
     case pe_Unmarshal (te_pub T) (tr_body r) of
       Inl e \<Rightarrow> State_Monad.return (rpc_reply (NewJSONParseError (Some e)))
     | Inr None \<Rightarrow> State_Monad.return (Panic ''nil pointer dereference'')
     | Inr (Some rpcReq) \<Rightarrow>
         (case req_Params rpcReq of
            JObj params \<Rightarrow> do {
              let c = getCaller (pe_api (te_pub T)) (GetSDKAddress (Some user)) dst (usr_ID user) (tr_cache r);
              out \<leftarrow> api (Call (pe_api (te_pub T)) c (rq_CurrentUser (tr_http r)) (update_request rpcReq params));
              (case out of
                 Panic m \<Rightarrow> State_Monad.return (Panic m)
               | Err err \<Rightarrow> do {
                   api (ErrorToSentry (Some (Plain (''error calling publish: '' @ error_msg err))));
                   State_Monad.return (Ok (writeResponse 200 (ToJSON (Some err))))
                 }
               | Ok rpcRes \<Rightarrow> do {
                   discard T (path_Joins [path_Dir orig, ti_ID info] @ ''.info'') dstDir;
                   State_Monad.return (Ok (writeResponse 200 rpcRes))
                 })
            }
          | _ \<Rightarrow> State_Monad.return (rpc_reply (NewInvalidParamsError (Some (Plain ''cannot parse params''))))))"

definition notify_upload :: "'w tus_env \<Rightarrow> tus_request \<Rightarrow> user \<Rightarrow> tus_info \<Rightarrow> ('w, http_reply res) pub_io" where
  "notify_upload T r user info = (
     if ti_Offset info \<noteq> ti_Size info then State_Monad.return (json_reply (Some (Plain ''upload is still in process'')))
     else if ti_MetaData info = fmempty then State_Monad.return (json_reply (Some (Plain ''file metadata is required'')))
     else (case fmlookup (ti_MetaData info) ''filename'' of
       Some (n # ns) \<Rightarrow>
         (case fmlookup (ti_Storage info) ''Path'' of
            Some (p # ps) \<Rightarrow>
              (let orig = p # ps; dstDir = dst_dir orig (usr_ID user) (ti_ID info);
                   dst = dst_file orig (usr_ID user) (ti_ID info) (n # ns) in do {
                 e \<leftarrow> move_upload T orig dstDir dst;
                 (case e of
                    Some x \<Rightarrow> State_Monad.return (json_reply (Some x))
                  | None \<Rightarrow> notify_sdk T r user info orig dstDir dst)
               })
          | _ \<Rightarrow> State_Monad.return (json_reply None))
     | _ \<Rightarrow> State_Monad.return (json_reply (Some (Plain ''file name is required'')))))"

definition notify_locked :: "'w tus_env \<Rightarrow> tus_request \<Rightarrow> user \<Rightarrow> ('w, http_reply res) pub_io" where
  "notify_locked T r user = do {
     g \<leftarrow> api (ext (te_GetUpload T (tr_id r)));
     (case g of
        Some e \<Rightarrow> State_Monad.return (rpc_reply (NewInternalError (Some e)))
      | None \<Rightarrow> do {
          i \<leftarrow> api (ext (te_GetInfo T (tr_id r)));
          (case i of
             Inl e \<Rightarrow> State_Monad.return (rpc_reply (NewInternalError (Some e)))
           | Inr info \<Rightarrow> notify_upload T r user info)
        })
   }"

definition Notify :: "'w tus_env \<Rightarrow> tus_request \<Rightarrow> ('w, http_reply res) pub_io" where
  "Notify T r = do {
     a \<leftarrow> api (multiAuthUser (te_auther T) (te_provider T) (tr_http r));
     (case a of
        Err e \<Rightarrow> State_Monad.return (Err e)
      | Panic m \<Rightarrow> State_Monad.return (Panic m)
      | Ok (user, err) \<Rightarrow>
          (case GetAuthError user err of
             Some e \<Rightarrow> State_Monad.return (json_reply (Some e))
           | None \<Rightarrow>
               (case user of
                  None \<Rightarrow> State_Monad.return (Panic ''nil pointer dereference'')
                | Some u \<Rightarrow>
                    if GetSDKAddress user = [] then
                      State_Monad.return (rpc_reply (NewInternalError (Some (Err_str ''user does not have sdk address assigned''))))
                    else if tr_id r = [] then
                      State_Monad.return (rpc_reply (NewInvalidParamsError (Some (Plain ''file id is required''))))
                    else if te_UsesLocker T then do {
                      l \<leftarrow> lockUpload T (tr_id r);
                      (case l of
                         Some e \<Rightarrow> do {
                           api (ErrorToSentry (Some e));
                           State_Monad.return (rpc_reply (NewInternalError (Some e)))
                         }
                       | None \<Rightarrow> do {
                           out \<leftarrow> notify_locked T r u;
                           api (ext (te_Unlock T (tr_id r)));
                           State_Monad.return out
                         })
                    }
                    else notify_locked T r u)))
   }"

section \<open>Lemmas\<close>

lemma multiAuthUser_universal: "multiAuthUser = UniversalFromRequest"
  by (intro ext) (auto simp: multiAuthUser_def UniversalFromRequest_def found_or_refused_def
    split: res.splits option.splits list.splits intro!: arg_cong [where f = "State_Monad.bind _"])

text \<open>A step that sends nothing to an SDK.\<close>

definition silent :: "('w, 'a) pub_io \<Rightarrow> bool" where
  "silent m \<longleftrightarrow> (\<forall>s. w_sent (pw_api (snd (run_state m s))) = w_sent (pw_api s))"

lemma silent_intros:
  "silent (State_Monad.return x)" "silent (api (World.ext io))" "silent (api (ErrorToSentry e))" "silent (pub_reads f)"
  "(\<And>s. w_sent (pw_api (g s)) = w_sent (pw_api s)) \<Longrightarrow> silent (pub_modify g)"
  "silent m \<Longrightarrow> (\<And>x. silent (k x)) \<Longrightarrow> silent (State_Monad.bind m k)"
  by (auto simp: silent_def split: prod.splits) (metis snd_conv)+

lemma silentD: "silent m \<Longrightarrow> run_state m s = (x, t) \<Longrightarrow> w_sent (pw_api t) = w_sent (pw_api s)"
  by (metis silent_def snd_conv)

lemma silent_report: "silent (report_error e)"
  unfolding report_error_def by (cases e) (auto intro: silent_intros)

lemma silent_move: "silent (move_upload T orig d f)"
  unfolding move_upload_def by (auto intro!: silent_intros split: option.splits prod.splits)

lemma silent_discard: "silent (discard T i d)"
  unfolding discard_def by (auto intro!: silent_intros silent_report split: option.splits)

text \<open>What is sent for an upload, and when.\<close>

definition sends_file :: "'w tus_env \<Rightarrow> tus_request \<Rightarrow> user \<Rightarrow> string \<Rightarrow> 'w world \<Rightarrow> 'w world \<Rightarrow> bool" where
  "sends_file T r u dst w w' \<longleftrightarrow> sends w (\<lambda>ep q. ep = GetSDKAddress (Some u) \<and> for_user (Some u) q) w' \<and>
     (\<forall>req. pe_Unmarshal (te_pub T) (tr_body r) = Inr (Some req) \<longrightarrow> \<not> hooked (req_Method req) \<longrightarrow>
        sends w (\<lambda>ep q. with_file dst q) w')"

lemma sends_file_same: "w_sent w = w_sent x \<Longrightarrow> w_sent w' = w_sent x' \<Longrightarrow> sends_file T r u dst x x' \<Longrightarrow> sends_file T r u dst w w'"
  by (simp add: sends_file_def sends_def)

lemma sends_file_from: "w_sent w = w_sent x \<Longrightarrow> sends_file T r u dst x w' \<Longrightarrow> sends_file T r u dst w w'"
  by (rule sends_file_same) simp_all

lemma notify_sdk_sent:
  assumes "pe_Unmarshal (te_pub T) (tr_body r) = Inr (Some req)" "req_Params req = JObj m"
    and "run_state (Call (pe_api (te_pub T)) (getCaller (pe_api (te_pub T)) (GetSDKAddress (Some u)) dst (usr_ID u) (tr_cache r))
      (rq_CurrentUser (tr_http r)) (update_request req m)) (pw_api s) = (o1, w)"
  shows "w_sent (pw_api (snd (run_state (notify_sdk T r u info orig d dst) s))) = w_sent w"
  using assms by (auto simp: notify_sdk_def Let_def split: res.splits prod.splits dest!: silentD [OF silent_discard])

lemma notify_sdk_run: "sends_file T r u dst (pw_api s) (pw_api (snd (run_state (notify_sdk T r u info orig d dst) s)))"
proof (cases "\<exists>req m. pe_Unmarshal (te_pub T) (tr_body r) = Inr (Some req) \<and> req_Params req = JObj m")
  case False
  then have "snd (run_state (notify_sdk T r u info orig d dst) s) = s"
    by (auto simp: notify_sdk_def Let_def split: sum.splits option.splits json.splits)
  then show ?thesis by (simp add: sends_file_def)
next
  case True
  then obtain req m where req: "pe_Unmarshal (te_pub T) (tr_body r) = Inr (Some req)" "req_Params req = JObj m" by blast
  let ?E = "pe_api (te_pub T)"
  let ?c = "getCaller ?E (GetSDKAddress (Some u)) dst (usr_ID u) (tr_cache r)"
  obtain o1 w where call: "run_state (Call ?E ?c (rq_CurrentUser (tr_http r)) (update_request req m)) (pw_api s) = (o1, w)" by fastforce
  note same = notify_sdk_sent [OF req call, of info orig d]
  have "sends (pw_api s) (\<lambda>ep q. ep = GetSDKAddress (Some u) \<and> for_user (Some u) q) w"
    using validD [OF publish_sends_own call] by simp
  moreover have "sends (pw_api s) (\<lambda>ep q. with_file dst q) w" if "\<not> hooked (req_Method req)"
    using validD [OF sends_publish call] update_request_params(1) [OF req(2)] update_request_params(2) [OF that] by (metis sends_refl)
  ultimately have "sends_file T r u dst (pw_api s) w" using req by (auto simp: sends_file_def)
  with same show ?thesis by (auto intro: sends_file_same)
qed

text \<open>The upload is complete, named, and its file is there.\<close>

definition publishable :: "(string, bytes) fmap \<Rightarrow> tus_info \<Rightarrow> string \<Rightarrow> string \<Rightarrow> bool" where
  "publishable files info orig fn \<longleftrightarrow> ti_Offset info = ti_Size info \<and> fmlookup (ti_MetaData info) ''filename'' = Some fn \<and> fn \<noteq> [] \<and>
     fmlookup (ti_Storage info) ''Path'' = Some orig \<and> orig \<noteq> [] \<and> fmlookup files orig \<noteq> None"

lemma move_upload_run:
  "run_state (move_upload T orig d f) s = (None, t) \<Longrightarrow> fmlookup (pw_files s) orig \<noteq> None"
  by (auto simp: move_upload_def split: option.splits)

lemma notify_upload_run:
  assumes "run_state (notify_upload T r u info) s = (out, t)" and "w_sent (pw_api t) \<noteq> w_sent (pw_api s)"
  shows "\<exists>orig fn. publishable (pw_files s) info orig fn \<and>
    sends_file T r u (dst_file orig (usr_ID u) (ti_ID info) fn) (pw_api s) (pw_api t)"
proof -
  obtain n ns p ps where info: "ti_Offset info = ti_Size info" "fmlookup (ti_MetaData info) ''filename'' = Some (n # ns)"
    "fmlookup (ti_Storage info) ''Path'' = Some (p # ps)" "ti_MetaData info \<noteq> fmempty"
    using assms by (auto simp: notify_upload_def split: if_splits option.splits list.splits)
  let ?d = "dst_dir (p # ps) (usr_ID u) (ti_ID info)" and ?f = "dst_file (p # ps) (usr_ID u) (ti_ID info) (n # ns)"
  obtain e s1 where mv: "run_state (move_upload T (p # ps) ?d ?f) s = (e, s1)" by fastforce
  note quiet = silentD [OF silent_move mv]
  have e: "e = None" using assms mv info quiet by (cases e) (auto simp: notify_upload_def Let_def)
  with assms(1) mv info have t: "t = snd (run_state (notify_sdk T r u info (p # ps) ?d ?f) s1)" by (simp add: notify_upload_def Let_def)
  have "sends_file T r u ?f (pw_api s) (pw_api t)"
    unfolding t by (rule sends_file_from [OF quiet [symmetric] notify_sdk_run])
  moreover have "publishable (pw_files s) info (p # ps) (n # ns)" using info move_upload_run [OF mv [unfolded e]] by (simp add: publishable_def)
  ultimately show ?thesis by blast
qed

lemma notify_locked_run:
  assumes "run_state (notify_locked T r u) s = (out, t)" and "w_sent (pw_api t) \<noteq> w_sent (pw_api s)"
  shows "\<exists>info x orig fn. fst (run_state (te_GetInfo T (tr_id r)) x) = Inr info \<and> publishable (pw_files s) info orig fn \<and>
    sends_file T r u (dst_file orig (usr_ID u) (ti_ID info) fn) (pw_api s) (pw_api t)"
proof -
  let ?g = "run_state (api (World.ext (te_GetUpload T (tr_id r)))) s"
  let ?i = "run_state (api (World.ext (te_GetInfo T (tr_id r)))) (snd ?g)"
  have same: "w_sent (pw_api (snd ?i)) = w_sent (pw_api s)" "pw_files (snd ?i) = pw_files s" by simp_all
  obtain info where info: "fst ?i = Inr info" and t: "run_state (notify_upload T r u info) (snd ?i) = (out, t)"
    using assms by (auto simp: notify_locked_def split: option.splits sum.splits)
  have "w_sent (pw_api t) \<noteq> w_sent (pw_api (snd ?i))" using assms(2) same by simp
  from notify_upload_run [OF t this] same obtain orig fn where p: "publishable (pw_files s) info orig fn"
    "sends_file T r u (dst_file orig (usr_ID u) (ti_ID info) fn) (pw_api (snd ?i)) (pw_api t)" by auto
  from sends_file_from [OF same(1) [symmetric] p(2)] p(1) info show ?thesis by auto
qed

section \<open>Properties\<close>

text \<open>C28: a notification publishes only a complete upload, in the name of the user who notifies.
  If anything is sent to an SDK after authentication, then a user was authenticated, the
  upload is complete and named, its file was there; everything sent goes to that user's SDK
  and names that user's wallet where one is needed; and unless the client's method has a
  built-in hook, it carries the place the file was moved to as its \<open>file_path\<close>.\<close>

theorem notify_publishes_complete:
  assumes "run_state (Notify T r) s = (out, t)"
    and "run_state (multiAuthUser (te_auther T) (te_provider T) (tr_http r)) (pw_api s) = (a, w)"
    and "w_sent (pw_api t) \<noteq> w_sent w"
  shows "\<exists>u info x orig fn. a = Ok (Some u, None) \<and> GetSDKAddress (Some u) \<noteq> [] \<and>
    fst (run_state (te_GetInfo T (tr_id r)) x) = Inr info \<and> publishable (pw_files s) info orig fn \<and>
    sends_file T r u (dst_file orig (usr_ID u) (ti_ID info) fn) w (pw_api t)"
proof -
  let ?s = "s\<lparr>pw_api := w\<rparr>"
  obtain u where u: "a = Ok (Some u, None)" "GetSDKAddress (Some u) \<noteq> []" "tr_id r \<noteq> []"
    using assms by (auto simp: Notify_def GetAuthError_def split: res.splits option.splits if_splits)
  let ?l = "run_state (lockUpload T (tr_id r)) ?s"
  have ls: "w_sent (pw_api (snd ?l)) = w_sent w" "pw_files (snd ?l) = pw_files s"
    by (auto simp: lockUpload_def split: option.splits)
  show ?thesis
  proof (cases "te_UsesLocker T")
    case False
    with assms(1,2) u have "run_state (notify_locked T r u) ?s = (out, t)" by (simp add: Notify_def GetAuthError_def)
    from notify_locked_run [OF this] assms(3) u show ?thesis by auto
  next
    case True
    obtain o1 s2 where nl: "run_state (notify_locked T r u) (snd ?l) = (o1, s2)" by fastforce
    have "w_sent (pw_api t) = w_sent (pw_api s2)"
      using assms u True nl ls by (auto simp: Notify_def GetAuthError_def split: option.splits prod.splits)
    with notify_locked_run [OF nl] assms(3) ls obtain info x orig fn where
      "fst (run_state (te_GetInfo T (tr_id r)) x) = Inr info" "publishable (pw_files s) info orig fn"
      "sends_file T r u (dst_file orig (usr_ID u) (ti_ID info) fn) (pw_api (snd ?l)) (pw_api s2)" by auto
    with u ls \<open>w_sent (pw_api t) = w_sent (pw_api s2)\<close> show ?thesis by (metis sends_file_same)
  qed
qed

text \<open>The name in the metadata is the client's and is not made a base name: it can lead out of the
  user's directory, to any place the server may write.\<close>

theorem notify_destination_escapes:
  "dst_file ''/storage/upload1'' 7 ''upload1'' ''../../../etc/cron.d/x'' = ''/etc/cron.d/x''"
  by code_simp

text \<open>A run: a complete upload of one file, notified by a user known by OAuth.\<close>

definition publish_request_7 :: rpc_request where
  "publish_request_7 = \<lparr>req_Method = ''publish'', req_Params = JObj fmempty, req_ID = 1, req_JSONRPC = ''2.0''\<rparr>"

definition calm_tus :: "unit tus_env" where
  "calm_tus = \<lparr>te_pub = calm_pub\<lparr>pe_Unmarshal := (\<lambda>_. Inr (Some publish_request_7))\<rparr>,
     te_auther = \<lparr>au_Authenticate = (\<lambda>_ _. State_Monad.return (Ok (Some linked_user, None))), au_GetTokenFromRequest = (\<lambda>_. Ok ''token'')\<rparr>,
     te_provider = nilProvider, te_UsesLocker = False, te_NewLock = (\<lambda>_. State_Monad.return None), te_Lock = (\<lambda>_. State_Monad.return None),
     te_Unlock = (\<lambda>_. State_Monad.return ()), te_GetUpload = (\<lambda>_. State_Monad.return None),
     te_GetInfo = (\<lambda>i. State_Monad.return (Inr \<lparr>ti_ID = i, ti_Size = 3, ti_Offset = 3, ti_MetaData = fmupd ''filename'' ''cat.mp4'' fmempty,
       ti_Storage = fmupd ''Path'' ''/up/x'' fmempty\<rparr>)),
     te_Rename = (\<lambda>_ _. State_Monad.return None), te_Remove = (\<lambda>_. State_Monad.return None)\<rparr>"

definition cat_notice :: tus_request where
  "cat_notice = \<lparr>tr_http = \<lparr>rq_Header = fmempty, rq_ip = ''1.2.3.4'', rq_CurrentUser = None\<rparr>, tr_id = ''x'', tr_body = ''{}'', tr_cache = False\<rparr>"

definition one_upload :: "unit pub_world" where
  "one_upload = \<lparr>pw_api = quiet_world, pw_files = fmupd ''/up/x'' ''cat'' fmempty, pw_dirs = [], pw_fetched = []\<rparr>"

lemma publish_admitted:
  "NewQuery publish_request_7 (WalletID 7) = Ok \<lparr>q_Request = publish_request_7\<lparr>req_Params := JObj (fmupd ParamWalletID (JStr (WalletID 7)) fmempty)\<rparr>, q_WalletID = WalletID 7\<rparr>"
proof -
  have "WalletID 7 \<noteq> []" by code_simp
  moreover have "TrimSpace ''publish'' \<noteq> []" "methodInList ''publish'' walletSpecificMethods" "MethodAcceptsWallet ''publish''" by code_simp+
  ultimately show ?thesis
    by (simp add: NewQuery_def publish_request_7_def Let_def q_Method_def forbiddenParams_def param_def ParamsAsMap_def
      q_Params_def IsAuthenticated_def set_params_def)
qed

lemma publish_sent:
  "w_sent (snd (run_state (Call quiet_env (getCaller quiet_env ''http://sdk1'' f 7 False) cu publish_request_7) w)) \<noteq> []"
proof -
  let ?c = "getCaller quiet_env ''http://sdk1'' f 7 False"
  let ?q = "\<lparr>q_Request = publish_request_7\<lparr>req_Params := JObj (fmupd ParamWalletID (JStr (WalletID 7)) fmempty)\<rparr>, q_WalletID = WalletID 7\<rparr>"
  have plain: "\<not> hooked (q_Method ?q)"
    by (simp add: hooked_def HasPrefix_def q_Method_def publish_request_7_def MethodStatus_def MethodGet_def MethodClaimSearch_def MethodResolve_def)
  have post: "c_postflightHooks ?c = []"
    by (simp add: getCaller_def NewCaller_def addDefaultHooks_def AddPreflightHook_def Let_def quiet_env_def quiet_settings_def)
  have w: "call_wallet ?c = WalletID 7" by (simp add: call_wallet_def)
  have pre: "preflight quiet_env ?c cu (c_preflightHooks ?c) ?q =
      State_Monad.return (Ok (None, set_params ?q (JObj (fmupd fileNameParam (JStr f) (fmupd ParamWalletID (JStr (WalletID 7)) fmempty)))))"
    by (rule preflight_plain [OF plain]) simp
  have raw: "run_state (CallRaw quiet_env ep q) x = (Inr ok_response, x\<lparr>w_sent := w_sent x @ [(ep, q)]\<rparr>)" for ep q x
    by (simp add: CallRaw_def quiet_env_def modify_def)
  have fine: "\<not> isErrWalletNotLoaded quiet_env ok_response" "\<not> isErrWalletAlreadyLoaded quiet_env ok_response"
    by (simp_all add: isErrWalletNotLoaded_def isErrWalletAlreadyLoaded_def convertToError_def ok_response_def)
  show ?thesis by (simp add: Call_def w publish_admitted pre SendQuery_def walletLoadRetries_def numeral_3_eq_3 raw fine post)
qed

theorem notify_publishes_complete_witness:
  "\<exists>u orig fn t. snd (run_state (Notify calm_tus cat_notice) one_upload) = t \<and> w_sent (pw_api t) \<noteq> [] \<and>
     sends_file calm_tus cat_notice u (dst_file orig (usr_ID u) ''x'' fn) quiet_world (pw_api t)"
proof -
  let ?m = "run_state (Notify calm_tus cat_notice) one_upload"
  have auth: "run_state (multiAuthUser (te_auther calm_tus) (te_provider calm_tus) (tr_http cat_notice)) (pw_api one_upload)
      = (Ok (Some linked_user, None), quiet_world)"
    by (simp add: multiAuthUser_def calm_tus_def one_upload_def)
  have sdk: "GetSDKAddress (Some linked_user) = ''http://sdk1''" by (simp add: GetSDKAddress_def GetLbrynetServer_def linked_user_def sdk1_def)
  have tus: "te_GetUpload calm_tus i = State_Monad.return None" "\<not> te_UsesLocker calm_tus" "te_Rename calm_tus p q = State_Monad.return None"
    "pe_MkdirAll (te_pub calm_tus) p = State_Monad.return None" "pe_api (te_pub calm_tus) = quiet_env"
    "pe_Unmarshal (te_pub calm_tus) b = Inr (Some publish_request_7)" "te_Remove calm_tus p = State_Monad.return None"
    "pe_RemoveAll (te_pub calm_tus) p = State_Monad.return None"
    "te_GetInfo calm_tus i = State_Monad.return (Inr \<lparr>ti_ID = i, ti_Size = 3, ti_Offset = 3, ti_MetaData = fmupd ''filename'' ''cat.mp4'' fmempty,
       ti_Storage = fmupd ''Path'' ''/up/x'' fmempty\<rparr>)" for i p q b
    by (simp_all add: calm_tus_def calm_pub_def)
  have up: "update_request publish_request_7 fmempty = publish_request_7" "req_Params publish_request_7 = JObj fmempty"
    by (simp_all add: update_request_def publish_request_7_def)
  have id7: "usr_ID linked_user = 7" by (simp add: linked_user_def)
  have notice: "tr_id cat_notice = ''x''" "\<not> tr_cache cat_notice" by (simp_all add: cat_notice_def)
  have call: "w_sent (pw_api (snd (run_state (notify_sdk calm_tus cat_notice linked_user info p d f) s))) \<noteq> []" for info p d f s
    using notify_sdk_sent [where r = cat_notice and u = linked_user and dst = f and s = s and info = info and orig = p and d = d,
        OF tus(6) up(2) surjective_pairing] publish_sent
    by (simp add: tus(5) sdk id7 up(1) notice)
  have "fmlookup (pw_files one_upload) ''/up/x'' \<noteq> None" by (simp add: one_upload_def)
  then have sent: "w_sent (pw_api (snd ?m)) \<noteq> []"
    using call by (auto simp: Notify_def auth GetAuthError_def sdk notify_locked_def tus notice notify_upload_def Let_def move_upload_def
      split: option.splits)
  have "w_sent (pw_api (snd ?m)) \<noteq> w_sent quiet_world" using sent by (simp add: quiet_world_def)
  from notify_publishes_complete [OF surjective_pairing auth this] obtain u orig fn
    where "sends_file calm_tus cat_notice u (dst_file orig (usr_ID u) ''x'' fn) quiet_world (pw_api (snd ?m))"
    by (auto simp: tus notice)
  with sent show ?thesis by blast
qed

end
