(* ===== verification/Geopublish.thy ===== *)
theory Geopublish
  imports Tus Forklift
begin

text \<open>
  \<open>app/geopublish\<close>: publishing, version three. Resumable uploads are recorded in the \<open>uploads\<close>
  table as they come in; the notification moves the file, stores the query in
  \<open>publish_queries\<close> and queues a task; the worker (\<open>forklift/carriage.go\<close>) analyzes the file,
  splits it into blobs, uploads those, calls the user's SDK and writes the result to a bus;
  a listener stores the result, which the client polls. Steps of the handlers are atomic; the
  TUS library, \<open>asynq\<close>, Redis, the stream encoder and the reflector are arguments.
\<close>

section \<open>Tables and messages\<close>

datatype geo_status = UpCreated | UpUploading | UpReceived | UpTerminated | UpAbandoned | UpFailed | UpFinished

datatype pq_state = PqReceived | PqForwarded | PqFailed | PqSucceeded

record geo_upload =
  gu_UserID :: "int option"
  gu_Path :: string
  gu_Size :: int
  gu_Received :: int
  gu_Status :: geo_status
  gu_Error :: string

record publish_query =
  pq_Status :: pq_state
  pq_Error :: string
  pq_Query :: rpc_request
  pq_Response :: "rpc_response option"

record upload_payload =
  pl_UploadID :: string
  pl_Path :: string
  pl_UserID :: int
  pl_Request :: "rpc_request option"

record upload_result =
  rs_UploadID :: string
  rs_UserID :: int
  rs_SDHash :: string
  rs_Response :: "rpc_response option"
  rs_Error :: string
  rs_Retry :: bool

datatype geo_op = GSelectUpload | GInsertUpload | GUpdateUpload | GSelectQuery | GInsertQuery | GUpdateQuery

record 'w geo_env =
  ge_tus :: "'w tus_env"
  ge_fault :: "geo_op \<Rightarrow> ('w, go_error option) state"
  ge_Enqueue :: "upload_payload \<Rightarrow> ('w, go_error option) state"
  ge_blobsPath :: string
  ge_probe :: probe
  ge_Encode :: "bytes \<Rightarrow> string \<Rightarrow> ('w, go_error + encoded) state"
  ge_Reflect :: "string \<Rightarrow> ('w, go_error + nat) state"
  ge_RPush :: "('w, go_error option) state"
  ge_BLPop :: "('w, go_error option) state"

text \<open>The tables are keyed by their primary keys, the upload's id; the queue and the bus are in
  the order of sending.\<close>

record 'w geo_world =
  gw_pub :: "'w pub_world"
  gw_uploads :: "(string, geo_upload) fmap"
  gw_queries :: "(string, publish_query) fmap"
  gw_queue :: "upload_payload list"
  gw_results :: "upload_result list"
  gw_blobs :: "string list"

type_synonym ('w, 'a) geo_io = "('w geo_world, 'a) state"

definition on_pub :: "('w, 'a) pub_io \<Rightarrow> ('w, 'a) geo_io" where
  "on_pub m = State (\<lambda>s. case run_state m (gw_pub s) of (a, x) \<Rightarrow> (a, s\<lparr>gw_pub := x\<rparr>))"

definition geo_ext :: "('w, 'a) state \<Rightarrow> ('w, 'a) geo_io" where
  "geo_ext m = on_pub (api (World.ext m))"

definition geo_reads :: "('w geo_world \<Rightarrow> 'a) \<Rightarrow> ('w, 'a) geo_io" where
  "geo_reads f = State (\<lambda>s. (f s, s))"

definition geo_modify :: "('w geo_world \<Rightarrow> 'w geo_world) \<Rightarrow> ('w, unit) geo_io" where
  "geo_modify f = State (\<lambda>s. ((), f s))"

lemma run_on_pub [simp]:
  "run_state (on_pub m) s = (fst (run_state m (gw_pub s)), s\<lparr>gw_pub := snd (run_state m (gw_pub s))\<rparr>)"
  by (simp add: on_pub_def split: prod.split)

lemma run_geo_reads [simp]: "run_state (geo_reads f) s = (f s, s)"
  by (simp add: geo_reads_def)

lemma run_geo_modify [simp]: "run_state (geo_modify f) s = ((), f s)"
  by (simp add: geo_modify_def)

section \<open>The database (db.go)\<close>

text \<open>A statement fails, or has its effect.\<close>

definition geo_stmt :: "'w geo_env \<Rightarrow> geo_op \<Rightarrow> ('w, go_error + 'a) geo_io \<Rightarrow> ('w, go_error + 'a) geo_io" where
  "geo_stmt G op body = do {
     e \<leftarrow> geo_ext (ge_fault G op);
     (case e of Some x \<Rightarrow> State_Monad.return (Inl x) | None \<Rightarrow> body)
   }"

definition udb_get :: "'w geo_env \<Rightarrow> string \<Rightarrow> int \<Rightarrow> ('w, go_error + geo_upload) geo_io" where
  "udb_get G i userID = geo_stmt G GSelectUpload (do {
     row \<leftarrow> geo_reads (\<lambda>s. fmlookup (gw_uploads s) i);
     State_Monad.return (case row of
       Some u \<Rightarrow> if 0 < userID \<and> gu_UserID u \<noteq> Some userID then Inl ErrNoRows else Inr u
     | None \<Rightarrow> Inl ErrNoRows)
   })"

definition udb_getQuery :: "'w geo_env \<Rightarrow> string \<Rightarrow> ('w, go_error + publish_query) geo_io" where
  "udb_getQuery G i = geo_stmt G GSelectQuery (do {
     q \<leftarrow> geo_reads (\<lambda>s. fmlookup (gw_queries s) i);
     State_Monad.return (case q of Some x \<Rightarrow> Inr x | None \<Rightarrow> Inl ErrNoRows)
   })"

text \<open>\<open>Update\<close> of the whitelisted columns of one row; a row that is gone is not an error.\<close>

definition update_upload :: "'w geo_env \<Rightarrow> string \<Rightarrow> (geo_upload \<Rightarrow> geo_upload) \<Rightarrow> ('w, go_error option) geo_io" where
  "update_upload G i f = do {
     r \<leftarrow> geo_stmt G GUpdateUpload (do {
       geo_modify (\<lambda>s. case fmlookup (gw_uploads s) i of
         Some u \<Rightarrow> s\<lparr>gw_uploads := fmupd i (f u) (gw_uploads s)\<rparr> | None \<Rightarrow> s);
       State_Monad.return (Inr ())
     });
     State_Monad.return (case r of Inl e \<Rightarrow> Some e | Inr _ \<Rightarrow> None)
   }"

definition markUploadCreated :: "'w geo_env \<Rightarrow> tus_info \<Rightarrow> user \<Rightarrow> ('w, go_error option) geo_io" where
  "markUploadCreated G info user = do {
     r \<leftarrow> geo_stmt G GInsertUpload (do {
       taken \<leftarrow> geo_reads (\<lambda>s. ti_ID info |\<in>| fmdom (gw_uploads s));
       if taken then State_Monad.return (Inl (PgError pgUniqueConstraintViolation ''duplicate key''))
       else do {
         geo_modify (\<lambda>s. s\<lparr>gw_uploads := fmupd (ti_ID info)
           \<lparr>gu_UserID = Some (usr_ID user), gu_Path = [], gu_Size = ti_Size info, gu_Received = 0,
            gu_Status = UpCreated, gu_Error = []\<rparr> (gw_uploads s)\<rparr>);
         State_Monad.return (Inr ())
       }
     });
     State_Monad.return (case r of Inl e \<Rightarrow> Some e | Inr _ \<Rightarrow> None)
   }"

definition markUploadProgress :: "'w geo_env \<Rightarrow> tus_info \<Rightarrow> user \<Rightarrow> ('w, go_error option) geo_io" where
  "markUploadProgress G info user = do {
     g \<leftarrow> udb_get G (ti_ID info) (usr_ID user);
     (case g of
        Inl e \<Rightarrow> State_Monad.return (Some e)
      | Inr _ \<Rightarrow> update_upload G (ti_ID info) (\<lambda>u. u\<lparr>gu_Status := UpUploading, gu_Received := ti_Offset info\<rparr>))
   }"

definition markUploadTerminated :: "'w geo_env \<Rightarrow> tus_info \<Rightarrow> user \<Rightarrow> ('w, go_error option) geo_io" where
  "markUploadTerminated G info user = do {
     g \<leftarrow> udb_get G (ti_ID info) (usr_ID user);
     (case g of
        Inl e \<Rightarrow> State_Monad.return (Some e)
      | Inr _ \<Rightarrow> update_upload G (ti_ID info) (\<lambda>u. u\<lparr>gu_Status := UpTerminated\<rparr>))
   }"

definition markUploadFailed :: "'w geo_env \<Rightarrow> string \<Rightarrow> string \<Rightarrow> ('w, go_error option) geo_io" where
  "markUploadFailed G i e = update_upload G i (\<lambda>u. u\<lparr>gu_Status := UpFailed, gu_Error := e\<rparr>)"

text \<open>The file is removed, not the directory made for it.\<close>

definition markUploadFinished :: "'w geo_env \<Rightarrow> string \<Rightarrow> geo_upload \<Rightarrow> ('w, go_error option) geo_io" where
  "markUploadFinished G i up = do {
     e \<leftarrow> update_upload G i (\<lambda>u. u\<lparr>gu_Status := UpFinished\<rparr>);
     (case e of
        Some x \<Rightarrow> State_Monad.return (Some x)
      | None \<Rightarrow> do {
          d \<leftarrow> geo_ext (pe_RemoveAll (te_pub (ge_tus G)) (gu_Path up));
          (case d of
             Some x \<Rightarrow> State_Monad.return (Some x)
           | None \<Rightarrow> do {
               on_pub (pub_modify (\<lambda>s. s\<lparr>pw_files := fmfilter (\<lambda>p. \<not> below (gu_Path up) p) (pw_files s)\<rparr>));
               State_Monad.return None
             })
        })
   }"

definition EnqueueUploadProcessTask :: "'w geo_env \<Rightarrow> upload_payload \<Rightarrow> ('w, go_error option) geo_io" where
  "EnqueueUploadProcessTask G p = do {
     e \<leftarrow> geo_ext (ge_Enqueue G p);
     (case e of
        Some x \<Rightarrow> State_Monad.return (Some x)
      | None \<Rightarrow> do { geo_modify (\<lambda>s. s\<lparr>gw_queue := gw_queue s @ [p]\<rparr>); State_Monad.return None })
   }"

definition ErrDuplicateTask :: go_error where "ErrDuplicateTask = Plain ''task already exists''"

definition insert_publish_query :: "'w geo_env \<Rightarrow> string \<Rightarrow> rpc_request \<Rightarrow> ('w, go_error option) geo_io" where
  "insert_publish_query G i request = do {
     r \<leftarrow> geo_stmt G GInsertQuery (do {
       taken \<leftarrow> geo_reads (\<lambda>s. i |\<in>| fmdom (gw_queries s));
       if taken then State_Monad.return (Inl (PgError pgUniqueConstraintViolation ''duplicate key''))
       else do {
         geo_modify (\<lambda>s. s\<lparr>gw_queries := fmupd i
           \<lparr>pq_Status = PqReceived, pq_Error = [], pq_Query = request, pq_Response = None\<rparr> (gw_queries s)\<rparr>);
         State_Monad.return (Inr ())
       }
     });
     State_Monad.return (case r of Inl e \<Rightarrow> Some (Wrapped ''failed to insert into foreign table'' e) | Inr _ \<Rightarrow> None)
   }"

definition enqueue_or_fail :: "'w geo_env \<Rightarrow> upload_payload \<Rightarrow> ('w, go_error option) geo_io" where
  "enqueue_or_fail G p = do {
     e \<leftarrow> EnqueueUploadProcessTask G p;
     (case e of
        None \<Rightarrow> State_Monad.return None
      | Some err \<Rightarrow>
          if error_Is err ErrDuplicateTask then State_Monad.return (Some (Err_str ''duplicate task''))
          else do {
            d \<leftarrow> markUploadFailed G (pl_UploadID p) (error_msg err);
            State_Monad.return (Some (Wrapped ''enqueuing failed'' (case d of
              None \<Rightarrow> err | Some x \<Rightarrow> Plain (error_msg err @ '' (db update failed as well: '' @ error_msg x @ '')''))))
          })
   }"

definition queue_upload :: "'w geo_env \<Rightarrow> upload_payload \<Rightarrow> rpc_request \<Rightarrow> ('w, go_error option) geo_io" where
  "queue_upload G p request = do {
     e \<leftarrow> update_upload G (pl_UploadID p) (\<lambda>u. u\<lparr>gu_Status := UpReceived, gu_Path := pl_Path p\<rparr>);
     (case e of
        Some x \<Rightarrow> State_Monad.return (Some x)
      | None \<Rightarrow> do {
          q \<leftarrow> insert_publish_query G (pl_UploadID p) request;
          (case q of
             Some x \<Rightarrow> State_Monad.return (Some x)
           | None \<Rightarrow> enqueue_or_fail G p)
        })
   }"

definition processUpload :: "'w geo_env \<Rightarrow> string \<Rightarrow> user \<Rightarrow> string \<Rightarrow> rpc_request \<Rightarrow> ('w, go_error option) geo_io" where
  "processUpload G i user path request = do {
     g \<leftarrow> udb_get G i (usr_ID user);
     (case g of
        Inl e \<Rightarrow> State_Monad.return (Some e)
      | Inr up \<Rightarrow> queue_upload G
          \<lparr>pl_UploadID = i, pl_Path = path,
           pl_UserID = (case gu_UserID up of Some n \<Rightarrow> n | None \<Rightarrow> 0), pl_Request = Some request\<rparr> request)
   }"

text \<open>The listener's work on one result.\<close>

definition query_outcome :: "rpc_response \<Rightarrow> string \<Rightarrow> publish_query \<Rightarrow> publish_query" where
  "query_outcome rpcRes callErr q = q\<lparr>pq_Response := Some rpcRes, pq_Error := callErr,
     pq_Status := (if res_Error rpcRes \<noteq> None \<or> callErr \<noteq> [] then PqFailed else PqSucceeded)\<rparr>"

definition update_query :: "'w geo_env \<Rightarrow> string \<Rightarrow> publish_query \<Rightarrow> ('w, go_error + unit) geo_io" where
  "update_query G i q = geo_stmt G GUpdateQuery (do {
     geo_modify (\<lambda>s. if i |\<in>| fmdom (gw_queries s) then s\<lparr>gw_queries := fmupd i q (gw_queries s)\<rparr> else s);
     State_Monad.return (Inr ())
   })"

definition store_outcome :: "'w geo_env \<Rightarrow> string \<Rightarrow> geo_upload \<Rightarrow> rpc_response \<Rightarrow> string \<Rightarrow> ('w, go_error option) geo_io" where
  "store_outcome G i up res callErr = do {
     r \<leftarrow> udb_getQuery G i;
     (case r of
        Inl e \<Rightarrow> State_Monad.return (Some (Wrapped (''cannot get query with id='' @ i) e))
      | Inr q \<Rightarrow> do {
          _ \<leftarrow> markUploadFinished G i up;
          u \<leftarrow> update_query G i (query_outcome res callErr q);
          State_Monad.return (case u of Inl e \<Rightarrow> Some e | Inr _ \<Rightarrow> None)
        })
   }"

definition saveUploadProcessingResult :: "'w geo_env \<Rightarrow> string \<Rightarrow> rpc_response option \<Rightarrow> string \<Rightarrow> ('w, go_error option) geo_io" where
  "saveUploadProcessingResult G i rpcRes callErr = do {
     g \<leftarrow> udb_get G i 0;
     (case g of
        Inl e \<Rightarrow> State_Monad.return (Some e)
      | Inr up \<Rightarrow>
          (case rpcRes of
             None \<Rightarrow> markUploadFailed G i callErr
           | Some res \<Rightarrow> store_outcome G i up res callErr))
   }"

text \<open>One round of the listener; it waits while the bus is empty, and drops a result that could
  not be saved.\<close>

definition listen_result :: "'w geo_env \<Rightarrow> ('w, go_error option) geo_io" where
  "listen_result G = do {
     e \<leftarrow> geo_ext (ge_BLPop G);
     (case e of
        Some x \<Rightarrow> State_Monad.return (Some (Wrapped ''message reading error'' x))
      | None \<Rightarrow> do {
          rs \<leftarrow> geo_reads gw_results;
          (case rs of
             [] \<Rightarrow> State_Monad.return None
           | r # rest \<Rightarrow> do {
               geo_modify (\<lambda>s. s\<lparr>gw_results := rest\<rparr>);
               saveUploadProcessingResult G (rs_UploadID r) (rs_Response r) (rs_Error r)
             })
        })
   }"

text \<open>The signals of the TUS handler, each with the headers of the request that caused it. A panic ends
  the server; here it is an error of the signal, and what follows is a server started again.\<close>

datatype geo_signal = CreatedUploads | UploadProgress | TerminatedUploads

definition geo_user :: "'w geo_env \<Rightarrow> http_request \<Rightarrow> ('w, auth_result) geo_io" where
  "geo_user G r = on_pub (api (UniversalFromRequest (te_auther (ge_tus G)) (te_provider (ge_tus G)) r))"

definition guardUser :: "'w geo_env \<Rightarrow> (user \<Rightarrow> ('w, go_error option) geo_io) \<Rightarrow> http_request \<Rightarrow> ('w, go_error option) geo_io" where
  "guardUser G mf r = do {
     a \<leftarrow> geo_user G r;
     (case a of
        Ok (Some user, None) \<Rightarrow> mf user
      | Ok (_, Some e) \<Rightarrow> State_Monad.return (Some e)
      | Ok (None, None) \<Rightarrow> State_Monad.return (Some (Plain ''nil pointer dereference''))
      | Err e \<Rightarrow> State_Monad.return (Some e)
      | Panic m \<Rightarrow> State_Monad.return (Some (Plain m)))
   }"

definition listen_signal :: "'w geo_env \<Rightarrow> geo_signal \<Rightarrow> tus_info \<Rightarrow> http_request \<Rightarrow> ('w, go_error option) geo_io" where
  "listen_signal G k info r = guardUser G (\<lambda>user. case k of
     CreatedUploads \<Rightarrow> markUploadCreated G info user
   | UploadProgress \<Rightarrow> markUploadProgress G info user
   | TerminatedUploads \<Rightarrow> markUploadTerminated G info user) r"

section \<open>Handlers (geopublish.go)\<close>

datatype geo_body = NoBody | Rpc rpc_response | Stored "rpc_response option"

datatype geo_reply = GeoReply int geo_body

definition geo_error :: "go_error option \<Rightarrow> geo_reply res" where
  "geo_error e = Ok (GeoReply 200 (Rpc (ErrorToJSON e)))"

text \<open>The rest of \<open>Notify\<close> once the file has been moved.\<close>

definition geo_accept :: "'w geo_env \<Rightarrow> tus_request \<Rightarrow> user \<Rightarrow> tus_info \<Rightarrow> string \<Rightarrow> string \<Rightarrow> ('w, geo_reply res) geo_io" where
  "geo_accept G r user info orig dst = (
     case pe_Unmarshal (te_pub (ge_tus G)) (tr_body r) of
       Inl e \<Rightarrow> State_Monad.return (geo_error (Some (NewJSONParseError (Some e))))
     | Inr None \<Rightarrow> State_Monad.return (Panic ''nil pointer dereference'')
     | Inr (Some rpcReq) \<Rightarrow>
         (case req_Params rpcReq of
            JObj rpcparams \<Rightarrow> do {
              let infoFile = path_Joins [path_Dir orig, ti_ID info] @ ''.info'';
              e \<leftarrow> geo_ext (te_Remove (ge_tus G) infoFile);
              on_pub (case e of
                 Some x \<Rightarrow> report_error (Some x)
               | None \<Rightarrow> pub_modify (\<lambda>s. s\<lparr>pw_files := fmdrop infoFile (pw_files s)\<rparr>));
              p \<leftarrow> processUpload G (ti_ID info) user dst (update_request rpcReq rpcparams);
              State_Monad.return (case p of
                Some x \<Rightarrow> geo_error (Some x)
              | None \<Rightarrow> Ok (GeoReply 202 NoBody))
            }
          | _ \<Rightarrow> State_Monad.return (geo_error (Some (NewInvalidParamsError (Some (Plain ''cannot parse params'')))))))"

definition geo_notify_upload :: "'w geo_env \<Rightarrow> tus_request \<Rightarrow> user \<Rightarrow> tus_info \<Rightarrow> ('w, geo_reply res) geo_io" where
  "geo_notify_upload G r user info = (
     if ti_Offset info \<noteq> ti_Size info then State_Monad.return (geo_error (Some (Plain ''upload is still in process'')))
     else if ti_MetaData info = fmempty then State_Monad.return (geo_error (Some (Plain ''file metadata is required'')))
     else (case fmlookup (ti_MetaData info) ''filename'' of
       Some (n # ns) \<Rightarrow>
         (case fmlookup (ti_Storage info) ''Path'' of
            Some (p # ps) \<Rightarrow>
              (let orig = p # ps; dstDir = dst_dir orig (usr_ID user) (ti_ID info);
                   dst = dst_file orig (usr_ID user) (ti_ID info) (n # ns) in do {
                 e \<leftarrow> on_pub (move_upload (ge_tus G) orig dstDir dst);
                 (case e of
                    Some x \<Rightarrow> State_Monad.return (geo_error (Some x))
                  | None \<Rightarrow> geo_accept G r user info orig dst)
               })
          | _ \<Rightarrow> State_Monad.return (geo_error None))
     | _ \<Rightarrow> State_Monad.return (geo_error (Some (Plain ''file name is required'')))))"

definition geo_notify_locked :: "'w geo_env \<Rightarrow> tus_request \<Rightarrow> user \<Rightarrow> ('w, geo_reply res) geo_io" where
  "geo_notify_locked G r user = do {
     g \<leftarrow> geo_ext (te_GetUpload (ge_tus G) (tr_id r));
     (case g of
        Some e \<Rightarrow> State_Monad.return (geo_error (Some e))
      | None \<Rightarrow> do {
          i \<leftarrow> geo_ext (te_GetInfo (ge_tus G) (tr_id r));
          (case i of
             Inl e \<Rightarrow> State_Monad.return (geo_error (Some e))
           | Inr info \<Rightarrow> geo_notify_upload G r user info)
        })
   }"

definition geo_Notify :: "'w geo_env \<Rightarrow> tus_request \<Rightarrow> ('w, geo_reply res) geo_io" where
  "geo_Notify G r = do {
     a \<leftarrow> geo_user G (tr_http r);
     (case a of
        Err e \<Rightarrow> State_Monad.return (Err e)
      | Panic m \<Rightarrow> State_Monad.return (Panic m)
      | Ok (user, err) \<Rightarrow>
          (case GetAuthError user err of
             Some e \<Rightarrow> State_Monad.return (geo_error (Some e))
           | None \<Rightarrow>
               (case user of
                  None \<Rightarrow> State_Monad.return (Panic ''nil pointer dereference'')
                | Some u \<Rightarrow>
                    if GetSDKAddress user = [] then
                      State_Monad.return (geo_error (Some (Err_str ''user does not have sdk address assigned'')))
                    else if tr_id r = [] then
                      State_Monad.return (geo_error (Some (NewInvalidParamsError (Some (Plain ''file id is required'')))))
                    else do {
                      l \<leftarrow> on_pub (lockUpload (ge_tus G) (tr_id r));
                      (case l of
                         Some e \<Rightarrow> do {
                           on_pub (report_error (Some e));
                           State_Monad.return (geo_error (Some e))
                         }
                       | None \<Rightarrow> do {
                           out \<leftarrow> geo_notify_locked G r u;
                           geo_ext (te_Unlock (ge_tus G) (tr_id r));
                           State_Monad.return out
                         })
                    })))
   }"

text \<open>Before an upload is created the TUS handler asks for the user and goes on if there is no error.\<close>

definition geo_preCreateHook :: "'w geo_env \<Rightarrow> http_request \<Rightarrow> ('w, go_error option res) geo_io" where
  "geo_preCreateHook G r = do {
     a \<leftarrow> geo_user G r;
     State_Monad.return (case a of Ok (_, err) \<Rightarrow> Ok err | Err e \<Rightarrow> Err e | Panic m \<Rightarrow> Panic m)
   }"

definition geo_Status :: "'w geo_env \<Rightarrow> tus_request \<Rightarrow> ('w, geo_reply res) geo_io" where
  "geo_Status G r = (
     if tr_id r = [] then State_Monad.return (Ok (GeoReply 404 NoBody))
     else do {
       a \<leftarrow> geo_user G (tr_http r);
       (case a of
          Err e \<Rightarrow> State_Monad.return (Err e)
        | Panic m \<Rightarrow> State_Monad.return (Panic m)
        | Ok (_, Some _) \<Rightarrow> State_Monad.return (Ok (GeoReply 403 NoBody))
        | Ok (None, None) \<Rightarrow> State_Monad.return (Panic ''nil pointer dereference'')
        | Ok (Some user, None) \<Rightarrow> do {
            g \<leftarrow> udb_get G (tr_id r) (usr_ID user);
            (case g of
               Inl e \<Rightarrow> State_Monad.return (if error_Is e ErrNoRows then Ok (GeoReply 404 NoBody) else geo_error (Some e))
             | Inr _ \<Rightarrow> do {
                 q \<leftarrow> udb_getQuery G (tr_id r);
                 State_Monad.return (case q of
                   Inl e \<Rightarrow> Ok (GeoReply 404 (Rpc (ErrorToJSON (Some (Wrapped ''error getting publish query'' e)))))
                 | Inr pq \<Rightarrow>
                     (case pq_Status pq of
                        PqSucceeded \<Rightarrow> Ok (GeoReply 200 (Stored (pq_Response pq)))
                      | PqFailed \<Rightarrow>
                          if pq_Response pq = None then Ok (GeoReply 200 (Stored (pq_Response pq)))
                          else geo_error (Some (Err_str (pq_Error pq)))
                      | _ \<Rightarrow> Ok (GeoReply 202 NoBody)))
               })
          })
     })"

section \<open>The worker (forklift/carriage.go)\<close>

definition ErrUpload :: go_error where "ErrUpload = Plain ''several errors detected uploading blobs''"

definition geo_Split :: "'w geo_env \<Rightarrow> string \<Rightarrow> string \<Rightarrow> string \<Rightarrow> ('w, go_error + encoded) geo_io" where
  "geo_Split G filePath blobPath encodedFileName = do {
     file \<leftarrow> geo_reads (\<lambda>s. fmlookup (pw_files (gw_pub s)) filePath);
     (case file of
        None \<Rightarrow> State_Monad.return (Inl (Plain ''cannot open source''))
      | Some content \<Rightarrow> do {
          m \<leftarrow> geo_ext (pe_MkdirAll (te_pub (ge_tus G)) blobPath);
          (case m of
             Some e \<Rightarrow> State_Monad.return (Inl (Wrapped ''cannot create directory for blobs'' e))
           | None \<Rightarrow> do {
               geo_modify (\<lambda>s. s\<lparr>gw_blobs := List.insert blobPath (gw_blobs s)\<rparr>);
               r \<leftarrow> geo_ext (ge_Encode G content encodedFileName);
               State_Monad.return (case r of Inl e \<Rightarrow> Inl (Wrapped ''cannot encode stream'' e) | Inr x \<Rightarrow> Inr x)
             })
        })
   }"

definition geo_Upload :: "'w geo_env \<Rightarrow> string \<Rightarrow> ('w, go_error + nat) geo_io" where
  "geo_Upload G finalPath = do {
     there \<leftarrow> geo_reads (\<lambda>s. finalPath \<in> set (gw_blobs s));
     if \<not> there then State_Monad.return (Inl (Plain ''cannot stat source blobs''))
     else do {
       r \<leftarrow> geo_ext (ge_Reflect G finalPath);
       State_Monad.return (case r of Inl e \<Rightarrow> Inl (Wrapped ''cannot upload blobs'' e) | Inr n \<Rightarrow> Inr n)
     }
   }"

text \<open>The parameters of the call: those of the client, overwritten by what is known of the file.\<close>

definition geo_patch :: "string \<Rightarrow> stream_info \<Rightarrow> encoded \<Rightarrow> json_map" where
  "geo_patch fileName info src = (
     let mt = (case si_MediaType info of Some t \<Rightarrow> t | None \<Rightarrow> defaultType);
         fn = (if path_Ext fileName = [] then fileName @ mt_Extension mt else fileName);
         p = fmap_of_list [(''file_size'', JNum (Itoa (int (en_Size src)))), (''file_name'', JStr fn),
               (''file_hash'', JStr (hex_encode (en_Hash src))), (''sd_hash'', JStr (hex_encode (en_SdHash src)))]
     in case si_MediaInfo info of
          None \<Rightarrow> p
        | Some m \<Rightarrow> p ++\<^sub>f fmap_of_list [(''width'', JNum (Itoa (mi_Width m))), (''height'', JNum (Itoa (mi_Height m))),
              (''duration'', JNum (Itoa (mi_Duration m)))])"

definition geo_params :: "json_map \<Rightarrow> json_map \<Rightarrow> json_map" where
  "geo_params pp patch = fmdrop ''file_path'' (pp ++\<^sub>f patch)"

text \<open>\<open>Process\<close> returns the result and the text of its error. The call, once the blobs are stored:\<close>

definition geo_call :: "'w geo_env \<Rightarrow> upload_payload \<Rightarrow> upload_result \<Rightarrow> json_map
    \<Rightarrow> ('w, (upload_result \<times> string option) res) geo_io" where
  "geo_call G p r patch = (let E = pe_api (te_pub (ge_tus G)) in do {
     u \<leftarrow> on_pub (api (getDBUser E Pool (ByID (pl_UserID p))));
     (case u of
        Err e \<Rightarrow> State_Monad.return (Ok (r, Some (''error getting sdk address for user '' @ Itoa (pl_UserID p) @ '': '' @ error_msg e)))
      | Panic m \<Rightarrow> State_Monad.return (Panic m)
      | Ok user \<Rightarrow>
          (case (usr_Server user, pl_Request p) of
             (Some srv, Some request) \<Rightarrow>
               (case req_Params request of
                  JObj pp \<Rightarrow> do {
                    out \<leftarrow> on_pub (api (Call E (NewCaller E (srv_Address srv) (pl_UserID p)) None
                             (request\<lparr>req_Params := JObj (geo_params pp patch)\<rparr>)));
                    State_Monad.return (case out of
                      Panic m \<Rightarrow> Panic m
                    | Err e \<Rightarrow> Ok (r\<lparr>rs_Retry := True\<rparr>, Some (''error calling sdk: '' @ error_msg e))
                    | Ok res \<Rightarrow>
                        (case res_Error res of
                           Some x \<Rightarrow> Ok (r\<lparr>rs_Response := Some res\<rparr>, Some (''sdk returned an error: '' @ err_Message x))
                         | None \<Rightarrow> Ok (r\<lparr>rs_Response := Some res\<rparr>, None)))
                  }
                | _ \<Rightarrow> State_Monad.return (Panic ''interface conversion''))
           | _ \<Rightarrow> State_Monad.return (Panic ''nil pointer dereference'')))
   })"

definition remove_blobs :: "string \<Rightarrow> ('w, unit) geo_io" where
  "remove_blobs p = geo_modify (\<lambda>s. s\<lparr>gw_blobs := removeAll p (gw_blobs s)\<rparr>)"

definition geo_reflect :: "'w geo_env \<Rightarrow> upload_payload \<Rightarrow> upload_result \<Rightarrow> string \<Rightarrow> json_map
    \<Rightarrow> ('w, (upload_result \<times> string option) res) geo_io" where
  "geo_reflect G p r blobPath patch = do {
     u \<leftarrow> geo_Upload G blobPath;
     (case u of
        Inl e \<Rightarrow> State_Monad.return (Ok (r, Some (error_msg e)))
      | Inr n \<Rightarrow>
          if 0 < n then State_Monad.return (Ok (r\<lparr>rs_Retry := True\<rparr>, Some (error_msg ErrUpload @ '' ('' @ decimal n @ '')'')))
          else geo_call G p r patch)
   }"

definition Process :: "'w geo_env \<Rightarrow> upload_payload \<Rightarrow> ('w, (upload_result \<times> string option) res) geo_io" where
  "Process G p = (
     let r = \<lparr>rs_UploadID = pl_UploadID p, rs_UserID = pl_UserID p, rs_SDHash = [], rs_Response = None, rs_Error = [], rs_Retry = False\<rparr>;
         blobPath = path_Join (ge_blobsPath G) (pl_UploadID p); fileName = path_Base (pl_Path p) in do {
       files \<leftarrow> geo_reads (\<lambda>s. pw_files (gw_pub s));
       (case Analyze (ge_probe G) files (pl_Path p) [] of
          (None, err) \<Rightarrow> State_Monad.return (Ok (r, Some (''error analyzing file: '' @ (case err of Some e \<Rightarrow> error_msg e | None \<Rightarrow> ''%!w(<nil>)''))))
        | (Some info, _) \<Rightarrow> do {
            st \<leftarrow> geo_Split G (pl_Path p) blobPath fileName;
            (case st of
               Inl e \<Rightarrow> State_Monad.return (Ok (r, Some (''error splitting file: '' @ error_msg e)))
             | Inr src \<Rightarrow> do {
                 out \<leftarrow> geo_reflect G p (r\<lparr>rs_SDHash := hex_encode (en_SdHash src)\<rparr>) blobPath (geo_patch fileName info src);
                 remove_blobs blobPath;
                 State_Monad.return out
               })
          })
     })"

text \<open>What \<open>asynq\<close> sees: a task that is done, is to be tried again, or is given up.\<close>

datatype geo_outcome = TaskDone | TaskRetry go_error | TaskSkip string

definition write_result :: "'w geo_env \<Rightarrow> upload_result \<Rightarrow> ('w, go_error option) geo_io" where
  "write_result G r = do {
     e \<leftarrow> geo_ext (ge_RPush G);
     (case e of
        Some x \<Rightarrow> State_Monad.return (Some x)
      | None \<Rightarrow> do { geo_modify (\<lambda>s. s\<lparr>gw_results := gw_results s @ [r]\<rparr>); State_Monad.return None })
   }"

definition report_result :: "'w geo_env \<Rightarrow> upload_result \<Rightarrow> ('w, geo_outcome) geo_io" where
  "report_result G r = (
     if rs_Error r \<noteq> [] then
       (let perr = ''upload processing failed: '' @ rs_Error r in
        if rs_Retry r then State_Monad.return (TaskRetry (Plain perr))
        else do {
          e \<leftarrow> write_result G r;
          State_Monad.return (TaskSkip (case e of
            None \<Rightarrow> perr | Some x \<Rightarrow> perr @ '' (also error writing result: '' @ error_msg x @ '')''))
        })
     else do {
       e \<leftarrow> write_result G r;
       State_Monad.return (case e of None \<Rightarrow> TaskDone | Some x \<Rightarrow> TaskRetry (Wrapped ''error writing result'' x))
     })"

definition ProcessTask :: "'w geo_env \<Rightarrow> go_error + upload_payload \<Rightarrow> ('w, geo_outcome) geo_io" where
  "ProcessTask G t = (case t of
     Inl e \<Rightarrow> State_Monad.return (TaskSkip (''json.Unmarshal failed: '' @ error_msg e))
   | Inr p \<Rightarrow> do {
       x \<leftarrow> Process G p;
       (case x of
          Panic m \<Rightarrow> State_Monad.return (TaskRetry (Plain (''panic: '' @ m)))
        | Err e \<Rightarrow> State_Monad.return (TaskRetry e)
        | Ok (r, err) \<Rightarrow> report_result G (case err of Some m \<Rightarrow> r\<lparr>rs_Error := m\<rparr> | None \<Rightarrow> r))
     })"

definition geo_RetryDelay :: "int \<Rightarrow> go_error \<Rightarrow> int" where
  "geo_RetryDelay n err = (if error_Is err ErrUpload then n * (60 * second) else 10 * second)"

end
