(* ===== verification/GeoFlow.thy ===== *)
theory GeoFlow
  imports Geopublish
begin

text \<open>
  Publishing, version three, as a state machine: the handlers of \<open>Geopublish\<close> interleave in any
  order, tasks may run again, and the tables, the queue and the bus of results stay
  consistent; the SDK is called for the owner of an upload only; results that reach the bus
  settle the query that the client polls.
\<close>

section \<open>Consistency of tables, queue and bus\<close>

definition owned :: "'w geo_world \<Rightarrow> string \<Rightarrow> int \<Rightarrow> bool" where
  "owned s i u \<longleftrightarrow> (\<exists>row. fmlookup (gw_uploads s) i = Some row \<and> gu_UserID row = Some u)"

definition asked :: "'w geo_world \<Rightarrow> string \<Rightarrow> rpc_request \<Rightarrow> bool" where
  "asked s i req \<longleftrightarrow> (\<exists>q. fmlookup (gw_queries s) i = Some q \<and> pq_Query q = req)"

text \<open>The outcome of a query agrees with its status; a result without an error has a response
  without an error.\<close>

definition query_ok :: "publish_query \<Rightarrow> bool" where
  "query_ok q \<longleftrightarrow> (case pq_Status q of
     PqReceived \<Rightarrow> pq_Response q = None
   | PqForwarded \<Rightarrow> False
   | PqFailed \<Rightarrow> pq_Response q \<noteq> None \<and> pq_Error q \<noteq> []
   | PqSucceeded \<Rightarrow> pq_Error q = [] \<and> (\<exists>res. pq_Response q = Some res \<and> res_Error res = None))"

definition result_ok :: "upload_result \<Rightarrow> bool" where
  "result_ok r \<longleftrightarrow> (rs_Error r = [] \<longleftrightarrow> (\<exists>res. rs_Response r = Some res \<and> res_Error res = None))"

definition task_ok :: "'w geo_world \<Rightarrow> upload_payload \<Rightarrow> bool" where
  "task_ok s p \<longleftrightarrow> owned s (pl_UploadID p) (pl_UserID p) \<and> (\<exists>req. pl_Request p = Some req \<and> asked s (pl_UploadID p) req)"

definition bus_ok :: "'w geo_world \<Rightarrow> upload_result \<Rightarrow> bool" where
  "bus_ok s r \<longleftrightarrow> owned s (rs_UploadID r) (rs_UserID r) \<and> fmlookup (gw_queries s) (rs_UploadID r) \<noteq> None \<and> result_ok r"

definition geo_ok :: "'w geo_world \<Rightarrow> bool" where
  "geo_ok s \<longleftrightarrow>
     (\<forall>i row. fmlookup (gw_uploads s) i = Some row \<longrightarrow> gu_UserID row \<noteq> None) \<and>
     (\<forall>i q. fmlookup (gw_queries s) i = Some q \<longrightarrow> fmlookup (gw_uploads s) i \<noteq> None \<and> query_ok q) \<and>
     (\<forall>p \<in> set (gw_queue s). task_ok s p) \<and> (\<forall>r \<in> set (gw_results s). bus_ok s r)"

lemmas geo_preds = geo_ok_def owned_def asked_def task_ok_def bus_ok_def

lemma geo_preds_pub [simp]:
  "owned (s\<lparr>gw_pub := x\<rparr>) i u = owned s i u" "asked (s\<lparr>gw_pub := x\<rparr>) i q = asked s i q"
  "task_ok (s\<lparr>gw_pub := x\<rparr>) p = task_ok s p" "bus_ok (s\<lparr>gw_pub := x\<rparr>) r = bus_ok s r"
  "geo_ok (s\<lparr>gw_pub := x\<rparr>) = geo_ok s"
  "owned (s\<lparr>gw_blobs := b\<rparr>) i u = owned s i u" "asked (s\<lparr>gw_blobs := b\<rparr>) i q = asked s i q"
  "task_ok (s\<lparr>gw_blobs := b\<rparr>) p = task_ok s p" "bus_ok (s\<lparr>gw_blobs := b\<rparr>) r = bus_ok s r"
  "geo_ok (s\<lparr>gw_blobs := b\<rparr>) = geo_ok s"
  by (simp_all add: geo_preds)

text \<open>Predicates that do not look at the files, the services and the API server.\<close>

definition steady :: "('w geo_world \<Rightarrow> bool) \<Rightarrow> bool" where
  "steady P \<longleftrightarrow> (\<forall>s x b. P (s\<lparr>gw_pub := x\<rparr>) = P s \<and> P (s\<lparr>gw_blobs := b\<rparr>) = P s)"

lemma steadyI: "(\<And>s x. P (s\<lparr>gw_pub := x\<rparr>) = P s) \<Longrightarrow> (\<And>s b. P (s\<lparr>gw_blobs := b\<rparr>) = P s) \<Longrightarrow> steady P"
  by (simp add: steady_def)

lemma steady_on_pub: "steady P \<Longrightarrow> valid P (on_pub m) (\<lambda>_. P)"
  by (simp add: steady_def valid_def)

lemma steady_ext: "steady P \<Longrightarrow> valid P (geo_ext m) (\<lambda>_. P)"
  unfolding geo_ext_def by (rule steady_on_pub)

lemma steady_reads: "valid P (geo_reads f) (\<lambda>_. P)"
  by (simp add: valid_def)

lemma valid_geo_stmt:
  assumes "steady P" "valid P body Q" "\<And>e s. P s \<Longrightarrow> Q (Inl e) s"
  shows "valid P (geo_stmt G op body) Q"
  unfolding geo_stmt_def using assms
  by (intro valid_bind [OF steady_ext]) (auto intro!: io_intro split: option.splits)

section \<open>Statements\<close>

lemma udb_get_valid:
  assumes "steady P"
  shows "valid P (udb_get G i u) (\<lambda>r s. P s \<and> (\<forall>row. r = Inr row \<longrightarrow> fmlookup (gw_uploads s) i = Some row \<and> (0 < u \<longrightarrow> gu_UserID row = Some u)))"
  unfolding udb_get_def by (rule valid_geo_stmt [OF assms]) (auto simp: valid_def split: option.splits)

lemma udb_getQuery_valid:
  assumes "steady P"
  shows "valid P (udb_getQuery G i) (\<lambda>r s. P s \<and> (\<forall>q. r = Inr q \<longrightarrow> fmlookup (gw_queries s) i = Some q))"
  unfolding udb_getQuery_def by (rule valid_geo_stmt [OF assms]) (auto simp: valid_def split: option.splits)

lemma update_upload_valid:
  assumes "steady P" "\<And>s row. P s \<Longrightarrow> fmlookup (gw_uploads s) i = Some row \<Longrightarrow> P (s\<lparr>gw_uploads := fmupd i (f row) (gw_uploads s)\<rparr>)"
  shows "valid P (update_upload G i f) (\<lambda>_. P)"
  unfolding update_upload_def
  by (intro valid_bind [OF valid_geo_stmt [OF assms(1), where Q = "\<lambda>_. P"]] io_intro)
     (auto simp: valid_def assms(2) split: option.splits)

lemma valid_list:
  "(xs = [] \<Longrightarrow> valid P m Q) \<Longrightarrow> (\<And>y ys. xs = y # ys \<Longrightarrow> valid P (f y ys) Q) \<Longrightarrow> valid P (case xs of [] \<Rightarrow> m | y # ys \<Rightarrow> f y ys) Q"
  by (cases xs) auto

section \<open>Processing\<close>

text \<open>The result belongs to the task and is complete once its error is filled in.\<close>

definition returned :: "upload_payload \<Rightarrow> (upload_result \<times> string option) res \<Rightarrow> bool" where
  "returned p x \<longleftrightarrow> (\<forall>r err. x = Ok (r, err) \<longrightarrow> rs_UploadID r = pl_UploadID p \<and> rs_UserID r = pl_UserID p \<and> rs_Error r = [] \<and>
     (case err of
        Some m \<Rightarrow> m \<noteq> [] \<and> (\<forall>res. rs_Response r = Some res \<longrightarrow> res_Error res \<noteq> None)
      | None \<Rightarrow> \<exists>res. rs_Response r = Some res \<and> res_Error res = None))"

definition fresh_result :: "upload_payload \<Rightarrow> upload_result \<Rightarrow> bool" where
  "fresh_result p r \<longleftrightarrow> rs_UploadID r = pl_UploadID p \<and> rs_UserID r = pl_UserID p \<and> rs_Error r = [] \<and> rs_Response r = None"

lemma geo_call_valid:
  assumes "fresh_result p r" "steady P"
  shows "valid P (geo_call G p r patch) (\<lambda>x t. P t \<and> returned p x)"
  unfolding geo_call_def Let_def using assms
  by (intro valid_bind [OF steady_on_pub [OF assms(2)]] io_intro valid_json_obj)
     (auto simp: fresh_result_def returned_def split: res.splits option.splits)

lemma geo_reflect_valid:
  assumes "fresh_result p r" "steady P"
  shows "valid P (geo_reflect G p r b patch) (\<lambda>x t. P t \<and> returned p x)"
proof -
  have "valid P (geo_Upload G b) (\<lambda>u t. P t \<and> (\<forall>e. u = Inl e \<longrightarrow> error_msg e \<noteq> []))"
    unfolding geo_Upload_def
    by (intro valid_bind [OF steady_reads] valid_bind [OF steady_ext [OF assms(2)]] valid_if valid_return) (auto split: sum.splits)
  moreover have "valid (\<lambda>t. P t \<and> (\<forall>e. u = Inl e \<longrightarrow> error_msg e \<noteq> []))
      (case u of Inl e \<Rightarrow> State_Monad.return (Ok (r, Some (error_msg e)))
       | Inr n \<Rightarrow> if 0 < n then State_Monad.return (Ok (r\<lparr>rs_Retry := True\<rparr>, Some (error_msg ErrUpload @ '' ('' @ decimal n @ '')'')))
          else geo_call G p r patch) (\<lambda>x t. P t \<and> returned p x)" for u
    using assms geo_call_valid [OF assms, of G patch]
    by (cases u) (auto intro!: valid_return simp: returned_def fresh_result_def)
  ultimately show ?thesis unfolding geo_reflect_def by (rule valid_bind)
qed

lemma Process_valid:
  assumes "steady P"
  shows "valid P (Process G p) (\<lambda>x t. P t \<and> returned p x)"
proof -
  have split: "valid P (geo_Split G f b n) (\<lambda>_. P)" for f b n
    unfolding geo_Split_def
    by (intro io_intro steady_reads steady_ext [OF assms]) (use assms in \<open>auto simp: valid_def steady_def\<close>)
  have "valid (\<lambda>t. P t \<and> returned p x) (do { remove_blobs b; State_Monad.return x }) (\<lambda>x t. P t \<and> returned p x)" for b x
    using assms by (auto simp: remove_blobs_def valid_def steady_def)
  then have "valid P (do { out \<leftarrow> geo_reflect G p r b patch; remove_blobs b; State_Monad.return out })
      (\<lambda>x t. P t \<and> returned p x)" if "fresh_result p r" for r b patch
    by (rule valid_bind [OF geo_reflect_valid [OF that assms]])
  note reflect = this
  show ?thesis unfolding Process_def Let_def
    by (intro valid_bind [OF steady_reads] valid_prod valid_option valid_bind [OF split] valid_sum valid_return)
       (simp_all add: reflect fresh_result_def, simp_all add: returned_def)
qed

section \<open>Invariants of the handlers\<close>

text \<open>
  The contract between the statements on the tables, the queue and the bus and the handlers
  that run them: an invariant at least as strong as consistency that survives each kind of
  statement survives every handler.
\<close>

definition new_query :: "rpc_request \<Rightarrow> publish_query" where
  "new_query req = \<lparr>pq_Status = PqReceived, pq_Error = [], pq_Query = req, pq_Response = None\<rparr>"

locale geo_invariant =
  fixes I :: "'w geo_world \<Rightarrow> bool"
  assumes ok: "I s \<Longrightarrow> geo_ok s"
    and steady: "steady I"
    and I_update: "I s \<Longrightarrow> fmlookup (gw_uploads s) i = Some row \<Longrightarrow> gu_UserID row' = gu_UserID row \<Longrightarrow>
      I (s\<lparr>gw_uploads := fmupd i row' (gw_uploads s)\<rparr>)"
    and I_create: "I s \<Longrightarrow> fmlookup (gw_uploads s) i = None \<Longrightarrow> gu_UserID row' \<noteq> None \<Longrightarrow>
      I (s\<lparr>gw_uploads := fmupd i row' (gw_uploads s)\<rparr>)"
    and I_query: "I s \<Longrightarrow> fmlookup (gw_uploads s) i \<noteq> None \<Longrightarrow> fmlookup (gw_queries s) i = None \<Longrightarrow>
      I (s\<lparr>gw_queries := fmupd i (new_query req) (gw_queries s)\<rparr>)"
    and I_outcome: "I s \<Longrightarrow> fmlookup (gw_queries s) i = Some q \<Longrightarrow> (e = [] \<longleftrightarrow> res_Error res = None) \<Longrightarrow>
      I (s\<lparr>gw_queries := fmupd i (query_outcome res e q) (gw_queries s)\<rparr>)"
    and I_queue: "I s \<Longrightarrow> \<forall>p \<in> set ps. task_ok s p \<Longrightarrow> I (s\<lparr>gw_queue := ps\<rparr>)"
    and I_results: "I s \<Longrightarrow> \<forall>r \<in> set rs. bus_ok s r \<Longrightarrow> I (s\<lparr>gw_results := rs\<rparr>)"
begin

lemma queue_task: "I s \<Longrightarrow> p \<in> set (gw_queue s) \<Longrightarrow> task_ok s p"
  using ok by (auto simp: geo_ok_def)

lemma bus_result: "I s \<Longrightarrow> r \<in> set (gw_results s) \<Longrightarrow> bus_ok s r"
  using ok by (auto simp: geo_ok_def)

lemma steady_owned: "steady (\<lambda>s. I s \<and> owned s i n)"
  using steady by (simp add: steady_def)

lemma inv_update:
  assumes "\<And>row. gu_UserID (f row) = gu_UserID row"
  shows "valid (\<lambda>s. I s \<and> owned s i n) (update_upload G i f) (\<lambda>_ s. I s \<and> owned s i n)"
    and "valid I (update_upload G i f) (\<lambda>_. I)"
proof -
  have own: "owned (s\<lparr>gw_uploads := fmupd i (f row) (gw_uploads s)\<rparr>) i n"
    if "owned s i n" "fmlookup (gw_uploads s) i = Some row" for s :: "'w geo_world" and row
    using that assms by (auto simp: owned_def)
  show "valid (\<lambda>s. I s \<and> owned s i n) (update_upload G i f) (\<lambda>_ s. I s \<and> owned s i n)"
    by (rule update_upload_valid [OF steady_owned]) (auto simp: own assms intro: I_update)
  show "valid I (update_upload G i f) (\<lambda>_. I)"
    by (rule update_upload_valid [OF steady]) (auto simp: assms intro: I_update)
qed

lemma inv_get: "valid I (udb_get G i u) (\<lambda>_. I)"
  by (rule valid_post [OF udb_get_valid [OF steady]]) auto

lemma inv_created: "valid I (markUploadCreated G info u) (\<lambda>_. I)"
  unfolding markUploadCreated_def
  by (intro valid_bind [OF valid_geo_stmt [where P = I and Q = "\<lambda>_. I"]] valid_return)
     (auto simp: valid_def fmdom_notI steady intro!: I_create)

lemma inv_marks:
  "valid I (markUploadProgress G info u) (\<lambda>_. I)" "valid I (markUploadTerminated G info u) (\<lambda>_. I)"
  "valid I (markUploadFailed G i e) (\<lambda>_. I)"
  unfolding markUploadProgress_def markUploadTerminated_def markUploadFailed_def
  by (intro valid_bind [OF inv_get] io_intro inv_update; simp)+

lemma inv_insert_query:
  "valid (\<lambda>s. I s \<and> owned s i n) (insert_publish_query G i req)
     (\<lambda>e s. I s \<and> owned s i n \<and> (e = None \<longrightarrow> asked s i req))"
proof -
  have ins: "I (s\<lparr>gw_queries := fmupd i (new_query req) (gw_queries s)\<rparr>) \<and> owned (s\<lparr>gw_queries := fmupd i (new_query req) (gw_queries s)\<rparr>) i n \<and>
      asked (s\<lparr>gw_queries := fmupd i (new_query req) (gw_queries s)\<rparr>) i req"
    if "I s" "owned s i n" "i |\<notin>| fmdom (gw_queries s)" for s
    using that by (auto simp: owned_def asked_def new_query_def [of req] fmdom_notD intro!: I_query [unfolded new_query_def])
  have "valid (\<lambda>s. I s \<and> owned s i n) (geo_stmt G GInsertQuery (do {
       taken \<leftarrow> geo_reads (\<lambda>s. i |\<in>| fmdom (gw_queries s));
       if taken then State_Monad.return (Inl (PgError pgUniqueConstraintViolation ''duplicate key''))
       else do { geo_modify (\<lambda>s. s\<lparr>gw_queries := fmupd i (new_query req) (gw_queries s)\<rparr>); State_Monad.return (Inr ()) } }))
     (\<lambda>r s. I s \<and> owned s i n \<and> (r = Inr () \<longrightarrow> asked s i req))"
    by (rule valid_geo_stmt [OF steady_owned]) (auto simp: valid_def ins)
  then show ?thesis unfolding insert_publish_query_def new_query_def
    by (rule valid_bind) (auto simp: valid_def split: sum.splits)
qed

lemma inv_enqueue: "valid (\<lambda>s. I s \<and> task_ok s p) (enqueue_or_fail G p) (\<lambda>_. I)"
proof -
  have add: "I (s\<lparr>gw_queue := gw_queue s @ [p]\<rparr>)" if "I s" "task_ok s p" for s
    using that queue_task by (intro I_queue) auto
  have "valid (\<lambda>s. I s \<and> task_ok s p) (EnqueueUploadProcessTask G p) (\<lambda>_. I)"
    unfolding EnqueueUploadProcessTask_def
    by (intro valid_bind [OF steady_ext [where P = "\<lambda>s. I s \<and> task_ok s p"]])
       (use steady in \<open>auto simp: valid_def add steady_def split: option.splits\<close>)
  then show ?thesis unfolding enqueue_or_fail_def by (rule valid_bind) (intro io_intro inv_marks)
qed

lemma inv_queue_upload:
  assumes "pl_Request p = Some req"
  shows "valid (\<lambda>s. I s \<and> owned s (pl_UploadID p) (pl_UserID p)) (queue_upload G p req) (\<lambda>_. I)"
proof -
  have "valid (\<lambda>s. I s \<and> owned s (pl_UploadID p) (pl_UserID p) \<and> (q = None \<longrightarrow> asked s (pl_UploadID p) req))
      (case q of Some x \<Rightarrow> State_Monad.return (Some x) | None \<Rightarrow> enqueue_or_fail G p) (\<lambda>_. I)" for q
    using assms by (cases q) (auto simp: valid_def task_ok_def intro: validD [OF inv_enqueue] split: prod.splits)
  then have "valid (\<lambda>s. I s \<and> owned s (pl_UploadID p) (pl_UserID p)) (case e of Some x \<Rightarrow> State_Monad.return (Some x)
      | None \<Rightarrow> do { q \<leftarrow> insert_publish_query G (pl_UploadID p) req;
          (case q of Some x \<Rightarrow> State_Monad.return (Some x) | None \<Rightarrow> enqueue_or_fail G p) }) (\<lambda>_. I)" for e
    by (cases e) (auto intro: valid_return valid_bind [OF inv_insert_query])
  then show ?thesis unfolding queue_upload_def by (intro valid_bind [OF inv_update(1)]) simp_all
qed

lemma inv_processUpload: "valid I (processUpload G i u path req) (\<lambda>_. I)"
proof -
  have get: "valid I (udb_get G i (usr_ID u))
      (\<lambda>r s. I s \<and> (\<forall>row. r = Inr row \<longrightarrow> owned s i (case gu_UserID row of Some n \<Rightarrow> n | None \<Rightarrow> 0)))"
    by (rule valid_post [OF udb_get_valid [OF steady]]) (fastforce dest: ok simp: geo_ok_def owned_def split: option.splits)
  show ?thesis unfolding processUpload_def
    by (rule valid_bind [OF get]) (auto simp: valid_def dest: validD [OF inv_queue_upload, rotated] split: sum.splits prod.splits)
qed

lemma inv_Notify: "valid I (geo_Notify G r) (\<lambda>_. I)"
  unfolding geo_Notify_def geo_notify_locked_def geo_notify_upload_def geo_accept_def geo_user_def Let_def
  by (intro io_intro valid_list valid_json_obj steady_ext [OF steady] steady_on_pub [OF steady] inv_processUpload)

lemma inv_Status: "valid I (geo_Status G r) (\<lambda>_. I)"
proof -
  have "valid I (udb_getQuery G i) (\<lambda>_. I)" for i
    by (rule valid_post [OF udb_getQuery_valid [OF steady]]) auto
  then show ?thesis unfolding geo_Status_def geo_user_def
    by (intro io_intro inv_get steady_on_pub [OF steady])
qed

lemma inv_hook: "valid I (geo_preCreateHook G q) (\<lambda>_. I)"
  unfolding geo_preCreateHook_def geo_user_def by (intro io_intro steady_on_pub [OF steady])

lemma inv_signal: "valid I (listen_signal G k info r) (\<lambda>_. I)"
  unfolding listen_signal_def guardUser_def geo_user_def
  by (cases k) (auto intro!: io_intro steady_on_pub [OF steady] inv_created inv_marks)

lemma inv_write: "valid (\<lambda>s. I s \<and> bus_ok s r) (write_result G r) (\<lambda>_. I)"
proof -
  have "I (s\<lparr>gw_results := gw_results s @ [r]\<rparr>)" if "I s" "bus_ok s r" for s
    using that bus_result by (intro I_results) auto
  then show ?thesis unfolding write_result_def
    by (intro valid_bind [OF steady_ext [where P = "\<lambda>s. I s \<and> bus_ok s r"]])
       (use steady in \<open>auto simp: valid_def steady_def split: option.splits\<close>)
qed

lemma inv_report: "valid (\<lambda>s. I s \<and> bus_ok s r) (report_result G r) (\<lambda>_. I)"
  unfolding report_result_def Let_def
  by (intro valid_if valid_bind [OF inv_write] valid_return) simp_all

lemma inv_ProcessTask: "valid (\<lambda>s. I s \<and> task_ok s p) (ProcessTask G (Inr p)) (\<lambda>_. I)"
proof -
  have st: "steady (\<lambda>s. I s \<and> task_ok s p)" using steady by (simp add: steady_def)
  have "valid (\<lambda>s. (I s \<and> task_ok s p) \<and> returned p x) (case x of
       Panic m \<Rightarrow> State_Monad.return (TaskRetry (Plain (''panic: '' @ m))) | Err e \<Rightarrow> State_Monad.return (TaskRetry e)
     | Ok (r, err) \<Rightarrow> report_result G (case err of Some m \<Rightarrow> r\<lparr>rs_Error := m\<rparr> | None \<Rightarrow> r)) (\<lambda>_. I)" for x
  proof (cases "\<exists>r err. x = Ok (r, err)")
    case False
    then show ?thesis by (cases x) (auto intro: valid_return)
  next
    case True
    then obtain r err where x: "x = Ok (r, err)" by blast
    define r' where "r' = (case err of Some m \<Rightarrow> r\<lparr>rs_Error := m\<rparr> | None \<Rightarrow> r)"
    have "bus_ok s r'" if "task_ok s p" "returned p x" for s :: "'w geo_world"
      using that x by (auto simp: r'_def returned_def bus_ok_def task_ok_def asked_def result_ok_def split: option.splits)
    then show ?thesis unfolding x by (auto simp: valid_def x simp flip: r'_def intro: validD [OF inv_report] split: prod.splits)
  qed
  then show ?thesis unfolding ProcessTask_def sum.case by (intro valid_bind [OF Process_valid [OF st]])
qed

text \<open>A result taken from the bus.\<close>

lemma inv_save:
  assumes "\<And>res. rpcRes = Some res \<Longrightarrow> e = [] \<longleftrightarrow> res_Error res = None"
  shows "valid I (saveUploadProcessingResult G i rpcRes e) (\<lambda>_. I)"
proof -
  have fin: "valid (\<lambda>s. I s \<and> fmlookup (gw_queries s) i = Some q) (markUploadFinished G i up) (\<lambda>_ s. I s \<and> fmlookup (gw_queries s) i = Some q)" for q up
    unfolding markUploadFinished_def
    by (intro io_intro update_upload_valid steady_ext steady_on_pub) (use steady in \<open>auto simp: steady_def intro: I_update\<close>)
  have store: "valid (\<lambda>s. I s \<and> fmlookup (gw_queries s) i = Some q) (update_query G i (query_outcome res e q)) (\<lambda>_. I)"
    if "rpcRes = Some res" for q res
    unfolding update_query_def
    by (rule valid_geo_stmt) (use steady assms [OF that] in \<open>auto simp: steady_def valid_def intro: I_outcome\<close>)
  have "valid I (store_outcome G i up res e) (\<lambda>_. I)" if "rpcRes = Some res" for up res
    unfolding store_outcome_def
  proof (rule valid_bind [OF udb_getQuery_valid [OF steady]])
    fix r :: "go_error + publish_query"
    show "valid (\<lambda>s. I s \<and> (\<forall>q. r = Inr q \<longrightarrow> fmlookup (gw_queries s) i = Some q)) (case r of
         Inl x \<Rightarrow> State_Monad.return (Some (Wrapped (''cannot get query with id='' @ i) x))
       | Inr q \<Rightarrow> do { _ \<leftarrow> markUploadFinished G i up; u \<leftarrow> update_query G i (query_outcome res e q);
           State_Monad.return (case u of Inl x \<Rightarrow> Some x | Inr _ \<Rightarrow> None) }) (\<lambda>_. I)"
      by (cases r) (auto intro!: valid_return valid_bind [OF fin] valid_bind [OF store [OF that]])
  qed
  then show ?thesis unfolding saveUploadProcessingResult_def
    by (cases rpcRes) (auto intro!: valid_bind [OF inv_get] valid_sum valid_return inv_marks)
qed

lemma inv_listen: "valid I (listen_result G) (\<lambda>_. I)"
proof (rule validI)
  fix s x t assume s: "I s" and run: "run_state (listen_result G) s = (x, t)"
  obtain e s1 where pop: "run_state (geo_ext (ge_BLPop G)) s = (e, s1)" by fastforce
  have s1: "I s1" using validD [OF steady_ext [OF steady] pop s] .
  show "I t"
  proof (cases "e = None \<and> gw_results s1 \<noteq> []")
    case False
    with run s1 pop show ?thesis by (auto simp: listen_result_def split: option.splits list.splits)
  next
    case True
    then obtain r rest where r: "gw_results s1 = r # rest" by (cases "gw_results s1") auto
    have "I (s1\<lparr>gw_results := rest\<rparr>)" using bus_result [OF s1] r by (intro I_results s1) auto
    moreover have "run_state (saveUploadProcessingResult G (rs_UploadID r) (rs_Response r) (rs_Error r)) (s1\<lparr>gw_results := rest\<rparr>) = (x, t)"
      using run True r pop by (auto simp: listen_result_def split: list.splits)
    moreover have "rs_Error r = [] \<longleftrightarrow> res_Error res = None" if "rs_Response r = Some res" for res
      using that bus_result [OF s1, of r] r by (auto simp: bus_ok_def result_ok_def)
    ultimately show ?thesis using validD [OF inv_save] by blast
  qed
qed

end

interpretation consistent: geo_invariant geo_ok
  by unfold_locales (auto intro: steadyI simp: geo_preds new_query_def query_ok_def query_outcome_def split: if_splits)

text \<open>An upload keeps its owner, and a stored query its request.\<close>

lemma owned_statements:
  "owned s i u \<Longrightarrow> fmlookup (gw_uploads s) j = Some row \<Longrightarrow> gu_UserID row' = gu_UserID row \<Longrightarrow>
     owned (s\<lparr>gw_uploads := fmupd j row' (gw_uploads s)\<rparr>) i u"
  "owned s i u \<Longrightarrow> fmlookup (gw_uploads s) j = None \<Longrightarrow> owned (s\<lparr>gw_uploads := fmupd j row' (gw_uploads s)\<rparr>) i u"
  "owned (s\<lparr>gw_queries := qs\<rparr>) i u = owned s i u" "owned (s\<lparr>gw_queue := ps\<rparr>) i u = owned s i u"
  "owned (s\<lparr>gw_results := rs\<rparr>) i u = owned s i u"
  by (auto simp: owned_def)

lemma asked_statements:
  "asked s i req \<Longrightarrow> fmlookup (gw_queries s) j = None \<Longrightarrow> asked (s\<lparr>gw_queries := fmupd j q (gw_queries s)\<rparr>) i req"
  "asked s i req \<Longrightarrow> fmlookup (gw_queries s) j = Some q \<Longrightarrow> asked (s\<lparr>gw_queries := fmupd j (query_outcome res e q) (gw_queries s)\<rparr>) i req"
  "asked (s\<lparr>gw_uploads := us\<rparr>) i req = asked s i req" "asked (s\<lparr>gw_queue := ps\<rparr>) i req = asked s i req"
  "asked (s\<lparr>gw_results := rs\<rparr>) i req = asked s i req"
  by (auto simp: asked_def query_outcome_def)

lemmas geo_ok_statements = consistent.I_update consistent.I_create consistent.I_query consistent.I_outcome
  consistent.I_queue consistent.I_results

interpretation keeps_owner: geo_invariant "\<lambda>s. geo_ok s \<and> owned s i u" for i u
  by unfold_locales (auto intro: steadyI geo_ok_statements owned_statements simp: owned_statements(3,4,5))

interpretation keeps_query: geo_invariant "\<lambda>s. geo_ok s \<and> asked s i req" for i req
  by unfold_locales (auto intro: steadyI geo_ok_statements asked_statements simp: asked_statements(3,4,5))

section \<open>The state machine\<close>

text \<open>A task that is done or given up leaves the queue; one that is to be tried again stays until
  \<open>asynq\<close> archives it.\<close>

definition leave_queue :: "upload_payload \<Rightarrow> geo_outcome \<Rightarrow> 'w geo_world \<Rightarrow> 'w geo_world" where
  "leave_queue p out t = (case out of TaskRetry _ \<Rightarrow> t | _ \<Rightarrow> t\<lparr>gw_queue := remove1 p (gw_queue t)\<rparr>)"

inductive geo_step :: "'w geo_env \<Rightarrow> 'w geo_world \<Rightarrow> 'w geo_world \<Rightarrow> bool" for G where
  notify: "run_state (geo_Notify G r) s = (x, t) \<Longrightarrow> geo_step G s t"
| status: "run_state (geo_Status G r) s = (y, t) \<Longrightarrow> geo_step G s t"
| hook: "run_state (geo_preCreateHook G q) s = (z, t) \<Longrightarrow> geo_step G s t"
| signal: "run_state (listen_signal G k info q) s = (e, t) \<Longrightarrow> geo_step G s t"
| work: "p \<in> set (gw_queue s) \<Longrightarrow> run_state (ProcessTask G (Inr p)) s = (out, t) \<Longrightarrow> geo_step G s (leave_queue p out t)"
| archive: "geo_step G s (s\<lparr>gw_queue := remove1 p (gw_queue s)\<rparr>)"
| save: "run_state (listen_result G) s = (e, t) \<Longrightarrow> geo_step G s t"

inductive geo_reachable :: "'w geo_env \<Rightarrow> 'w geo_world \<Rightarrow> bool" for G where
  start: "gw_uploads s = fmempty \<Longrightarrow> gw_queries s = fmempty \<Longrightarrow> gw_queue s = [] \<Longrightarrow> gw_results s = [] \<Longrightarrow> geo_reachable G s"
| step: "geo_reachable G s \<Longrightarrow> geo_step G s t \<Longrightarrow> geo_reachable G t"

context geo_invariant
begin

lemma inv_remove: "I s \<Longrightarrow> I (s\<lparr>gw_queue := remove1 p (gw_queue s)\<rparr>)"
  using set_remove1_subset [of p "gw_queue s"] by (intro I_queue) (auto intro: queue_task)

lemma inv_step: "geo_step G s t \<Longrightarrow> I s \<Longrightarrow> I t"
proof (induction rule: geo_step.induct)
  case (work p s out t)
  then have "I t" using validD [OF inv_ProcessTask] queue_task by blast
  then show ?case by (auto simp: leave_queue_def inv_remove split: geo_outcome.splits)
qed (auto intro: validD [OF inv_Notify] validD [OF inv_Status] validD [OF inv_hook] validD [OF inv_signal] validD [OF inv_listen] inv_remove)

end

lemma reachable_ok: "geo_reachable G s \<Longrightarrow> geo_ok s"
proof (induction rule: geo_reachable.induct)
  case (step s t)
  then show ?case using consistent.inv_step by blast
qed (simp add: geo_ok_def)

section \<open>What reaches the SDK\<close>

lemma NewCaller_simps [simp]:
  "c_userID (NewCaller E a u) = u" "c_endpoint (NewCaller E a u) = a" "c_backupEndpoints (NewCaller E a u) = []"
  by (simp_all add: NewCaller_def addDefaultHooks_def AddPreflightHook_def AddPostflightHook_def Let_def)

lemma preflight_unhooked:
  assumes "\<not> hooked (q_Method q)"
  shows "preflight E c cu (c_preflightHooks (NewCaller E' a u)) q = State_Monad.return (Ok (None, q))"
proof -
  have "MethodStatus \<noteq> []" "MethodGet \<noteq> []" "MethodClaimSearch \<noteq> []" "MethodResolve \<noteq> []"
    by (simp_all add: MethodStatus_def MethodGet_def MethodClaimSearch_def MethodResolve_def)
  with assms show ?thesis
    by (simp add: hooked_def NewCaller_def addDefaultHooks_def AddPreflightHook_def AddPostflightHook_def Let_def)
qed

lemma sends_Call_unhooked:
  assumes "\<not> hooked (req_Method req)" and "\<And>q. NewQuery req (call_wallet (NewCaller E a u)) = Ok q \<Longrightarrow> H a (q_Request q)"
  shows "valid (sends s\<^sub>0 H) (Call E (NewCaller E a u) cu req) (\<lambda>_. sends s\<^sub>0 H)"
proof (cases "NewQuery req (call_wallet (NewCaller E a u))")
  case (Ok q)
  have "\<not> hooked (q_Method q)" using assms(1) NewQuery_cases(2) [OF Ok] by simp
  then show ?thesis unfolding Call_def Ok res.case
    by (auto simp: preflight_unhooked intro!: io_intro sends_SendQuery assms(2) [OF Ok])
qed (auto simp: Call_def intro!: io_intro)

lemma sends_conj: "sends s\<^sub>0 P s \<Longrightarrow> sends s\<^sub>0 Q s \<Longrightarrow> sends s\<^sub>0 (\<lambda>ep r. P ep r \<and> Q ep r) s"
  by (fastforce simp: sends_def)

text \<open>A request that describes the encoded file and names no path.\<close>

definition describes :: "encoded \<Rightarrow> rpc_request \<Rightarrow> bool" where
  "describes src q \<longleftrightarrow> (\<exists>m. req_Params q = JObj m \<and> fmlookup m ''file_path'' = None \<and>
     fmlookup m ''sd_hash'' = Some (JStr (hex_encode (en_SdHash src))) \<and>
     fmlookup m ''file_hash'' = Some (JStr (hex_encode (en_Hash src))) \<and>
     fmlookup m ''file_size'' = Some (JNum (Itoa (int (en_Size src)))))"

lemma geo_params_describe:
  assumes "req_Params q = JObj (geo_params pp (geo_patch fn info src)) \<or>
    req_Params q = JObj (fmupd ParamWalletID w (geo_params pp (geo_patch fn info src)))"
  shows "describes src q"
  using assms
  by (auto simp: describes_def geo_params_def geo_patch_def Let_def ParamWalletID_def fmlookup_of_list split: option.splits)

definition owner_call :: "int \<Rightarrow> rpc_request \<Rightarrow> encoded \<Rightarrow> rpc_request \<Rightarrow> bool" where
  "owner_call u req src q \<longleftrightarrow> (\<exists>v. usr_ID v = u \<and> for_user (Some v) q) \<and>
     (\<not> hooked (req_Method req) \<longrightarrow> req_Method q = req_Method req \<and> describes src q)"

lemma sends_owner_call:
  assumes "req_Params req = JObj pp"
  shows "valid (sends s\<^sub>0 (\<lambda>_. owner_call u req src))
    (Call E (NewCaller E a u) cu (req\<lparr>req_Params := JObj (geo_params pp (geo_patch fn info src))\<rparr>))
    (\<lambda>_. sends s\<^sub>0 (\<lambda>_. owner_call u req src))"
proof (rule validI)
  let ?req = "req\<lparr>req_Params := JObj (geo_params pp (geo_patch fn info src))\<rparr>"
  fix s x t assume s: "sends s\<^sub>0 (\<lambda>_. owner_call u req src) s" and run: "run_state (Call E (NewCaller E a u) cu ?req) s = (x, t)"
  let ?v = "new_user u None"
  have vid: "usr_ID ?v = u" by (simp add: new_user_def)
  have "valid (sends s (\<lambda>_ q. for_user (Some ?v) q)) (Call E (NewCaller E a u) cu ?req) (\<lambda>_. sends s (\<lambda>_ q. for_user (Some ?v) q))"
    by (rule sends_Call) (auto simp: permitted_def call_wallet_def new_user_def split: if_splits elim!: own_request_for_user)
  from validD [OF this run] have own: "sends s (\<lambda>_ q. for_user (Some ?v) q) t" by simp
  have "sends s (\<lambda>_. owner_call u req src) t"
  proof (cases "hooked (req_Method req)")
    case True
    with vid show ?thesis by (intro sends_mono [OF own]) (auto simp: owner_call_def)
  next
    case False
    have "req_Method (q_Request q) = req_Method req \<and> describes src (q_Request q)"
      if "NewQuery ?req (call_wallet (NewCaller E a u)) = Ok q" for q
      using NewQuery_cases(3) [OF that] by (auto intro!: geo_params_describe)
    with False have "valid (sends s (\<lambda>_ q. req_Method q = req_Method req \<and> describes src q)) (Call E (NewCaller E a u) cu ?req)
        (\<lambda>_. sends s (\<lambda>_ q. req_Method q = req_Method req \<and> describes src q))"
      by (intro sends_Call_unhooked) auto
    from sends_conj [OF own validD [OF this run]] show ?thesis
      by (rule sends_mono) (use vid in \<open>auto simp: owner_call_def\<close>)
  qed
  with s show "sends s\<^sub>0 (\<lambda>_. owner_call u req src) t" by (rule sends_trans)
qed

text \<open>The descriptor is that of the uploaded file.\<close>

definition encodes :: "'w geo_env \<Rightarrow> (string, bytes) fmap \<Rightarrow> string \<Rightarrow> encoded \<Rightarrow> bool" where
  "encodes G files path src \<longleftrightarrow> (\<exists>content n x. fmlookup files path = Some content \<and> fst (run_state (ge_Encode G content n) x) = Inr src)"

abbreviation sent_by :: "'w geo_world \<Rightarrow> (string \<times> rpc_request) list" where
  "sent_by s \<equiv> w_sent (pw_api (gw_pub s))"

definition quiet :: "('w, 'a) geo_io \<Rightarrow> bool" where
  "quiet m \<longleftrightarrow> (\<forall>s. sent_by (snd (run_state m s)) = sent_by s)"

lemma quietD: "quiet m \<Longrightarrow> run_state m s = (x, t) \<Longrightarrow> sent_by t = sent_by s"
  by (metis quiet_def snd_conv)

lemma quiet_intros:
  "quiet (State_Monad.return x)" "quiet (geo_ext e)" "quiet (geo_reads f)"
  "(\<And>s. sent_by (g s) = sent_by s) \<Longrightarrow> quiet (geo_modify g)"
  "quiet m \<Longrightarrow> (\<And>x. quiet (k x)) \<Longrightarrow> quiet (State_Monad.bind m k)"
  by (auto simp: quiet_def geo_ext_def split: prod.splits) (metis snd_conv)+

lemma geo_Split_run:
  assumes "run_state (geo_Split G f b n) s = (r, t)"
  shows "sent_by t = sent_by s" and "r = Inr src \<Longrightarrow> encodes G (pw_files (gw_pub s)) f src"
  using assms by (auto simp: geo_Split_def geo_ext_def encodes_def split: option.splits sum.splits)

lemma quiet_upload: "quiet (geo_Upload G b)" and quiet_blobs: "quiet (remove_blobs b)"
  unfolding geo_Upload_def remove_blobs_def by (auto intro!: quiet_intros)

lemma quiet_report: "quiet (report_result G r)"
  unfolding report_result_def write_result_def Let_def by (auto intro!: quiet_intros split: option.splits)

definition api_sends :: "'w geo_world \<Rightarrow> (string \<Rightarrow> rpc_request \<Rightarrow> bool) \<Rightarrow> 'w geo_world \<Rightarrow> bool" where
  "api_sends s H t \<longleftrightarrow> sends (pw_api (gw_pub s)) H (pw_api (gw_pub t))"

lemma api_sends_quiet: "api_sends s H t \<Longrightarrow> quiet m \<Longrightarrow> run_state m t = (x, t') \<Longrightarrow> api_sends s H t'"
  by (auto simp: api_sends_def sends_def dest: quietD)

lemma api_sends_on_pub:
  "valid (sends (pw_api (gw_pub s)) H) io (\<lambda>_. sends (pw_api (gw_pub s)) H) \<Longrightarrow> valid (api_sends s H) (on_pub (api io)) (\<lambda>_. api_sends s H)"
  by (auto simp: valid_def api_sends_def split: prod.splits) (metis fst_conv snd_conv surj_pair)

lemma geo_call_sends:
  assumes "pl_Request p = Some req"
  shows "valid (api_sends s (\<lambda>_. owner_call (pl_UserID p) req src)) (geo_call G p r (geo_patch fn info src))
    (\<lambda>_. api_sends s (\<lambda>_. owner_call (pl_UserID p) req src))"
proof -
  have get: "valid (sends w H) (getDBUser E Pool b) (\<lambda>_. sends w H)" for w H E b
    unfolding getDBUser_def by (intro io_intro)
  have call: "valid (api_sends s (\<lambda>_. owner_call (pl_UserID p) req src))
      (on_pub (api (Call E (NewCaller E a (pl_UserID p)) None (req\<lparr>req_Params := JObj (geo_params pp (geo_patch fn info src))\<rparr>))))
      (\<lambda>_. api_sends s (\<lambda>_. owner_call (pl_UserID p) req src))" if "req_Params req = JObj pp" for E a pp
    by (rule api_sends_on_pub [OF sends_owner_call [OF that]])
  show ?thesis unfolding geo_call_def Let_def assms
    by (intro valid_bind_keep [OF api_sends_on_pub [OF get]] valid_res valid_return valid_prod valid_option valid_json_obj)
       (auto intro!: valid_bind_keep [OF call] valid_return)
qed

lemma geo_reflect_sends:
  assumes "pl_Request p = Some req"
  shows "valid (api_sends s (\<lambda>_. owner_call (pl_UserID p) req src)) (geo_reflect G p r b (geo_patch fn info src))
    (\<lambda>_. api_sends s (\<lambda>_. owner_call (pl_UserID p) req src))"
  unfolding geo_reflect_def
  by (intro valid_bind_keep [OF validI [OF api_sends_quiet [OF _ quiet_upload]]] valid_sum valid_if valid_return geo_call_sends [OF assms])

lemma Process_sends:
  assumes "pl_Request p = Some req" "run_state (Process G p) s = (x, t)"
  shows "sent_by t = sent_by s \<or> (\<exists>src. encodes G (pw_files (gw_pub s)) (pl_Path p) src \<and>
    api_sends s (\<lambda>_. owner_call (pl_UserID p) req src) t)"
proof -
  let ?b = "path_Join (ge_blobsPath G) (pl_UploadID p)" and ?n = "path_Base (pl_Path p)"
  obtain r1 s1 where sp: "run_state (geo_Split G (pl_Path p) ?b ?n) s = (r1, s1)" by fastforce
  note split = geo_Split_run [OF sp]
  show ?thesis
  proof (cases "(\<exists>info e. Analyze (ge_probe G) (pw_files (gw_pub s)) (pl_Path p) [] = (Some info, e)) \<and> (\<exists>src. r1 = Inr src)")
    case False
    then have "t = s \<or> t = s1" using assms(2) sp by (auto simp: Process_def Let_def split: prod.splits option.splits sum.splits)
    with split(1) show ?thesis by auto
  next
    case True
    then obtain info e src where an: "Analyze (ge_probe G) (pw_files (gw_pub s)) (pl_Path p) [] = (Some info, e)" and src: "r1 = Inr src" by blast
    have "\<exists>r. snd (run_state (remove_blobs ?b) (snd (run_state (geo_reflect G p r ?b (geo_patch ?n info src)) s1))) = t"
      using assms(2) sp an src by (auto simp: Process_def Let_def split: prod.splits) (metis snd_conv)
    then obtain r where ref: "snd (run_state (remove_blobs ?b) (snd (run_state (geo_reflect G p r ?b (geo_patch ?n info src)) s1))) = t" by blast
    have "api_sends s (\<lambda>_. owner_call (pl_UserID p) req src) s1" using split(1) by (simp add: api_sends_def sends_def)
    from validD [OF geo_reflect_sends [OF assms(1)] surjective_pairing this]
    have "api_sends s (\<lambda>_. owner_call (pl_UserID p) req src) (snd (run_state (geo_reflect G p r ?b (geo_patch ?n info src)) s1))" .
    from api_sends_quiet [OF this quiet_blobs surjective_pairing] ref split(2) [OF src] show ?thesis by auto
  qed
qed

section \<open>Results settle queries\<close>

definition no_geo_faults :: "'w geo_env \<Rightarrow> bool" where
  "no_geo_faults G \<longleftrightarrow> (\<forall>op x. fst (run_state (ge_fault G op) x) = None) \<and> (\<forall>x. fst (run_state (ge_BLPop G) x) = None)"

text \<open>The listener takes so many results off the bus.\<close>

primrec drain :: "nat \<Rightarrow> 'w geo_env \<Rightarrow> ('w, unit) geo_io" where
  "drain 0 G = State_Monad.return ()"
| "drain (Suc n) G = do { _ \<leftarrow> listen_result G; drain n G }"

text \<open>What a result does to the stored queries.\<close>

definition settle :: "upload_result \<Rightarrow> (string, publish_query) fmap \<Rightarrow> (string, publish_query) fmap" where
  "settle r qs = (case (rs_Response r, fmlookup qs (rs_UploadID r)) of
     (Some res, Some q) \<Rightarrow> fmupd (rs_UploadID r) (query_outcome res (rs_Error r) q) qs
   | _ \<Rightarrow> qs)"

lemma udb_get_calm:
  assumes "no_geo_faults G" "fmlookup (gw_uploads s) i = Some row" "0 < u \<Longrightarrow> gu_UserID row = Some u"
  shows "\<exists>x. run_state (udb_get G i u) s = (Inr row, s\<lparr>gw_pub := x\<rparr>)"
  using assms by (auto simp: udb_get_def geo_stmt_def geo_ext_def no_geo_faults_def)

lemma udb_getQuery_calm:
  assumes "no_geo_faults G" "fmlookup (gw_queries s) i = Some q"
  shows "\<exists>x. run_state (udb_getQuery G i) s = (Inr q, s\<lparr>gw_pub := x\<rparr>)"
  using assms by (auto simp: udb_getQuery_def geo_stmt_def geo_ext_def no_geo_faults_def)

text \<open>Steps that leave queries, queue and bus alone.\<close>

definition uploads_only :: "'w geo_world \<Rightarrow> 'w geo_world \<Rightarrow> bool" where
  "uploads_only s t \<longleftrightarrow> gw_queries t = gw_queries s \<and> gw_results t = gw_results s"

lemma steady_uploads_only: "steady (uploads_only s)"
  by (rule steadyI) (simp_all add: uploads_only_def)

lemma uploads_only_steps:
  "valid (uploads_only s) (update_upload G i f) (\<lambda>_. uploads_only s)"
  "valid (uploads_only s) (markUploadFinished G i up) (\<lambda>_. uploads_only s)"
proof -
  show up: "valid (uploads_only s) (update_upload G i f) (\<lambda>_. uploads_only s)" for f
    by (rule update_upload_valid [OF steady_uploads_only]) (simp add: uploads_only_def)
  show "valid (uploads_only s) (markUploadFinished G i up) (\<lambda>_. uploads_only s)"
    unfolding markUploadFinished_def
    by (intro io_intro up steady_ext [OF steady_uploads_only] steady_on_pub [OF steady_uploads_only])
qed

lemma update_query_calm:
  assumes "no_geo_faults G" "run_state (update_query G i q) s = (e, t)" "fmlookup (gw_queries s) i \<noteq> None"
  shows "gw_queries t = fmupd i q (gw_queries s) \<and> gw_results t = gw_results s"
proof -
  have "i |\<in>| fmdom (gw_queries s)" using assms(3) by (auto simp: fmlookup_dom_iff)
  with assms show ?thesis by (auto simp: update_query_def geo_stmt_def geo_ext_def no_geo_faults_def)
qed

lemma store_outcome_calm:
  assumes "no_geo_faults G" "fmlookup (gw_queries s) i = Some q" "run_state (store_outcome G i up res e) s = (x, t)"
  shows "gw_queries t = fmupd i (query_outcome res e q) (gw_queries s) \<and> gw_results t = gw_results s"
proof -
  obtain y where q: "run_state (udb_getQuery G i) s = (Inr q, s\<lparr>gw_pub := y\<rparr>)" using udb_getQuery_calm [OF assms(1,2)] by blast
  obtain f s1 where f: "run_state (markUploadFinished G i up) (s\<lparr>gw_pub := y\<rparr>) = (f, s1)" by fastforce
  obtain u s2 where u: "run_state (update_query G i (query_outcome res e q)) s1 = (u, s2)" by fastforce
  have s1: "gw_queries s1 = gw_queries s \<and> gw_results s1 = gw_results s"
    using validD [OF uploads_only_steps(2) f, of s] by (simp add: uploads_only_def)
  have "t = s2" using assms(3) q f u by (simp add: store_outcome_def)
  with update_query_calm [OF assms(1) u] s1 assms(2) show ?thesis by simp
qed

lemma save_calm:
  assumes "no_geo_faults G" "bus_ok s r"
    and "run_state (saveUploadProcessingResult G (rs_UploadID r) (rs_Response r) (rs_Error r)) s = (x, t)"
  shows "gw_queries t = settle r (gw_queries s) \<and> gw_results t = gw_results s"
proof -
  obtain row q where row: "fmlookup (gw_uploads s) (rs_UploadID r) = Some row" and q: "fmlookup (gw_queries s) (rs_UploadID r) = Some q"
    using assms(2) by (auto simp: bus_ok_def owned_def)
  obtain y where g: "run_state (udb_get G (rs_UploadID r) 0) s = (Inr row, s\<lparr>gw_pub := y\<rparr>)" using udb_get_calm [OF assms(1) row, of 0] by auto
  show ?thesis
  proof (cases "rs_Response r")
    case None
    then have "run_state (markUploadFailed G (rs_UploadID r) (rs_Error r)) (s\<lparr>gw_pub := y\<rparr>) = (x, t)"
      using assms(3) g by (simp add: saveUploadProcessingResult_def)
    with validD [OF uploads_only_steps(1) this [unfolded markUploadFailed_def], of s] None show ?thesis
      by (simp add: uploads_only_def settle_def)
  next
    case (Some res)
    then have "run_state (store_outcome G (rs_UploadID r) row res (rs_Error r)) (s\<lparr>gw_pub := y\<rparr>) = (x, t)"
      using assms(3) g by (simp add: saveUploadProcessingResult_def)
    from store_outcome_calm [OF assms(1) _ this, of q] q Some show ?thesis by (simp add: settle_def)
  qed
qed

lemma listen_calm:
  assumes "no_geo_faults G" "geo_ok s" "gw_results s = r # rest" "run_state (listen_result G) s = (x, t)"
  shows "gw_queries t = settle r (gw_queries s) \<and> gw_results t = rest \<and> geo_ok t"
proof -
  obtain y where pop: "run_state (geo_ext (ge_BLPop G)) s = (None, s\<lparr>gw_pub := y\<rparr>)"
    using assms(1) by (simp add: geo_ext_def no_geo_faults_def)
  let ?s = "s\<lparr>gw_pub := y, gw_results := rest\<rparr>"
  have "bus_ok ?s r" using assms(2,3) by (auto simp: geo_ok_def bus_ok_def owned_def)
  moreover have "run_state (saveUploadProcessingResult G (rs_UploadID r) (rs_Response r) (rs_Error r)) ?s = (x, t)"
    using assms(3,4) pop by (simp add: listen_result_def)
  ultimately show ?thesis using save_calm [OF assms(1)] validD [OF consistent.inv_listen assms(4,2)] by fastforce
qed

lemma drain_calm:
  assumes "no_geo_faults G"
  shows "geo_ok s \<Longrightarrow> gw_results s = rs \<Longrightarrow> run_state (drain (length rs) G) s = (x, t) \<Longrightarrow>
    gw_queries t = fold settle rs (gw_queries s) \<and> gw_results t = [] \<and> geo_ok t"
proof (induction rs arbitrary: s)
  case (Cons r rs)
  obtain y s1 where l: "run_state (listen_result G) s = (y, s1)" by fastforce
  with Cons.prems have "run_state (drain (length rs) G) s1 = (x, t)" by simp
  with Cons.IH [of s1] listen_calm [OF assms Cons.prems(1,2) l] show ?case by simp
qed simp

context geo_invariant
begin

lemma inv_drain: "valid I (drain n G) (\<lambda>_. I)"
  by (induction n) (auto intro!: valid_return valid_bind_keep [OF inv_listen])

end

lemma settle_lookup:
  "fmlookup (settle r qs) i = None \<longleftrightarrow> fmlookup qs i = None"
  "rs_Response r = Some res \<Longrightarrow> fmlookup qs (rs_UploadID r) = Some q \<Longrightarrow>
     fmlookup (settle r qs) (rs_UploadID r) = Some (query_outcome res (rs_Error r) q)"
  by (auto simp: settle_def split: option.splits)

lemma fold_settle_lookup: "fmlookup (fold settle rs qs) i = None \<longleftrightarrow> fmlookup qs i = None"
  by (induction rs arbitrary: qs) (simp_all add: settle_lookup(1))

text \<open>A task that is done has put a result without an error on the bus.\<close>

lemma done_result:
  assumes "run_state (ProcessTask G (Inr p)) s = (TaskDone, t)"
  shows "\<exists>r res. gw_results t = gw_results s @ [r] \<and> rs_UploadID r = pl_UploadID p \<and> rs_Error r = [] \<and>
    rs_Response r = Some res \<and> res_Error res = None"
proof -
  have st: "steady (\<lambda>w. gw_results w = gw_results s)" by (rule steadyI) simp_all
  obtain z s1 where z: "run_state (Process G p) s = (z, s1)" by fastforce
  from validD [OF Process_valid [OF st] z] have ret: "returned p z" and same: "gw_results s1 = gw_results s" by simp_all
  obtain r err where re: "z = Ok (r, err)" using assms z by (cases z) (auto simp: ProcessTask_def)
  define r' where "r' = (case err of Some m \<Rightarrow> r\<lparr>rs_Error := m\<rparr> | None \<Rightarrow> r)"
  have run: "run_state (report_result G r') s1 = (TaskDone, t)" using assms z re by (simp add: ProcessTask_def r'_def)
  then have "rs_Error r' = []" "gw_results t = gw_results s1 @ [r']"
    by (auto simp: report_result_def write_result_def geo_ext_def Let_def split: if_splits option.splits)
  then show ?thesis using ret re same by (auto simp: r'_def returned_def split: option.splits)
qed

lemma settled_status:
  assumes "no_geo_faults G" "fst (run_state (geo_user G (tr_http r)) u) = Ok (Some v, None)" "tr_id r \<noteq> []"
    and "owned u (tr_id r) (usr_ID v)" "fmlookup (gw_queries u) (tr_id r) = Some q" "pq_Status q = PqSucceeded"
  shows "fst (run_state (geo_Status G r) u) = Ok (GeoReply 200 (Stored (pq_Response q)))"
proof -
  obtain a where a: "run_state (geo_user G (tr_http r)) u = (Ok (Some v, None), u\<lparr>gw_pub := a\<rparr>)" using assms(2) by (simp add: geo_user_def)
  obtain row where row: "fmlookup (gw_uploads u) (tr_id r) = Some row" "gu_UserID row = Some (usr_ID v)" using assms(4) by (auto simp: owned_def)
  obtain b where b: "run_state (udb_get G (tr_id r) (usr_ID v)) (u\<lparr>gw_pub := a\<rparr>) = (Inr row, u\<lparr>gw_pub := a, gw_pub := b\<rparr>)"
    using udb_get_calm [OF assms(1), of "u\<lparr>gw_pub := a\<rparr>" "tr_id r" row "usr_ID v"] row by auto
  obtain c where c: "run_state (udb_getQuery G (tr_id r)) (u\<lparr>gw_pub := b\<rparr>) = (Inr q, u\<lparr>gw_pub := b, gw_pub := c\<rparr>)"
    using udb_getQuery_calm [OF assms(1), of "u\<lparr>gw_pub := b\<rparr>"] assms(5) by auto
  show ?thesis using assms(3,6) a b c by (simp add: geo_Status_def)
qed

section \<open>Properties\<close>

text \<open>C29: publishing by resumable upload stays consistent. Whatever the handlers, the worker and the
  listener do and in which order, every upload has an owner; every stored query belongs to an
  upload and its outcome agrees with its status; every queued task and every result on the
  bus names the owner of its upload, and a task carries the request that is stored; and no
  step changes an upload's owner or a stored request.\<close>

theorem geopublish_consistent:
  assumes "geo_reachable G s"
  shows "geo_ok s \<and> (\<forall>t. geo_step G s t \<longrightarrow> (\<forall>i u. owned s i u \<longrightarrow> owned t i u) \<and> (\<forall>i req. asked s i req \<longrightarrow> asked t i req))"
  using reachable_ok [OF assms] keeps_owner.inv_step keeps_query.inv_step by blast

text \<open>C30: the worker publishes in the name of the owner of the upload. For every task that is ever in
  the queue, whatever it sends to an SDK is for the user who owns the upload and names that
  user's wallet where one is needed; and unless the method of the stored request has a
  built-in hook, it has that method, and describes the blobs made from the uploaded file:
  their descriptor, hash and size, and no path.\<close>

theorem geopublish_for_owner:
  assumes "geo_reachable G s" and "p \<in> set (gw_queue s)" and "run_state (ProcessTask G (Inr p)) s = (out, t)"
    and "sent_by t \<noteq> sent_by s"
  shows "\<exists>u req src. owned s (pl_UploadID p) u \<and> asked s (pl_UploadID p) req \<and> encodes G (pw_files (gw_pub s)) (pl_Path p) src \<and>
    sends (pw_api (gw_pub s)) (\<lambda>_. owner_call u req src) (pw_api (gw_pub t))"
proof -
  obtain req where task: "owned s (pl_UploadID p) (pl_UserID p)" "asked s (pl_UploadID p) req" "pl_Request p = Some req"
    using consistent.queue_task [OF reachable_ok [OF assms(1)] assms(2)] by (auto simp: task_ok_def)
  obtain x s1 where x: "run_state (Process G p) s = (x, s1)" by fastforce
  have t: "sent_by t = sent_by s1"
    using assms(3) x by (cases x) (auto simp: ProcessTask_def dest: quietD [OF quiet_report] split: prod.splits)
  with Process_sends [OF task(3) x] assms(4) obtain src where "encodes G (pw_files (gw_pub s)) (pl_Path p) src"
    "api_sends s (\<lambda>_. owner_call (pl_UserID p) req src) s1" by auto
  with task t show ?thesis by (auto simp: api_sends_def sends_def)
qed

text \<open>C31: a task that ends well settles its query. If the worker is done with a task, then as soon as
  the listener has taken the results that are waiting off the bus, polling by the owner of
  the upload is answered with status 200 and a response of the SDK without an error. (The
  database and Redis answer; other services may do as they like.)\<close>

theorem geopublish_settles:
  assumes "geo_reachable G s" and "p \<in> set (gw_queue s)" and "run_state (ProcessTask G (Inr p)) s = (TaskDone, t)"
    and "no_geo_faults G" and "run_state (drain (length (gw_results t)) G) t = (y, u)"
    and "fst (run_state (geo_user G (tr_http r)) u) = Ok (Some v, None)" and "usr_ID v = pl_UserID p"
    and "tr_id r = pl_UploadID p" and "tr_id r \<noteq> []"
  shows "\<exists>res. res_Error res = None \<and> fst (run_state (geo_Status G r) u) = Ok (GeoReply 200 (Stored (Some res)))"
proof -
  have ok: "geo_ok s" "task_ok s p" using reachable_ok [OF assms(1)] consistent.queue_task assms(2) by auto
  obtain x res where x: "gw_results t = gw_results s @ [x]" "rs_UploadID x = pl_UploadID p" "rs_Error x = []"
    "rs_Response x = Some res" "res_Error res = None" using done_result [OF assms(3)] by blast
  have own: "geo_ok t" "owned t (pl_UploadID p) (pl_UserID p)"
    using validD [OF keeps_owner.inv_ProcessTask assms(3)] ok by (auto simp: task_ok_def)
  then have "bus_ok t x" using x by (simp add: geo_ok_def)
  then obtain q where "fmlookup (fold settle (gw_results s) (gw_queries t)) (pl_UploadID p) = Some q"
    using x(2) fold_settle_lookup by (fastforce simp: bus_ok_def)
  moreover have "gw_queries u = settle x (fold settle (gw_results s) (gw_queries t))"
    using drain_calm [OF assms(4) own(1) refl assms(5)] x(1) by simp
  ultimately have q: "fmlookup (gw_queries u) (tr_id r) = Some (query_outcome res [] q)"
    using settle_lookup(2) [OF x(4)] x(2,3) assms(8) by metis
  have "owned u (tr_id r) (usr_ID v)" using validD [OF keeps_owner.inv_drain assms(5)] own assms(7,8) by auto
  from settled_status [OF assms(4,6,9) this q] x(5) show ?thesis by (simp add: query_outcome_def)
qed

section \<open>A run\<close>

text \<open>One upload by user 7: created, notified, processed, saved.\<close>

definition calm_geo :: "unit geo_env" where
  "calm_geo = \<lparr>ge_tus = calm_tus, ge_fault = (\<lambda>_. State_Monad.return None), ge_Enqueue = (\<lambda>_. State_Monad.return None),
     ge_blobsPath = ''/blobs'', ge_probe = \<lparr>pr_Match = (\<lambda>_. None), pr_ProbeURL = (\<lambda>_ _. Inl (Plain ''no probe''))\<rparr>,
     ge_Encode = (\<lambda>c _. State_Monad.return (Inr \<lparr>en_SdHash = ''sd'', en_Size = length c, en_Hash = ''h''\<rparr>)),
     ge_Reflect = (\<lambda>_. State_Monad.return (Inr 0)), ge_RPush = State_Monad.return None, ge_BLPop = State_Monad.return None\<rparr>"

definition geo_start :: "unit geo_world" where
  "geo_start = \<lparr>gw_pub = \<lparr>pw_api = linked_world, pw_files = fmupd ''/up/x'' ''cat'' fmempty, pw_dirs = [], pw_fetched = []\<rparr>,
     gw_uploads = fmempty, gw_queries = fmempty, gw_queue = [], gw_results = [], gw_blobs = []\<rparr>"

definition cat_info :: tus_info where
  "cat_info = \<lparr>ti_ID = ''x'', ti_Size = 3, ti_Offset = 3, ti_MetaData = fmupd ''filename'' ''cat.mp4'' fmempty,
     ti_Storage = fmupd ''Path'' ''/up/x'' fmempty\<rparr>"

lemma calm_geo_simps:
  "ge_tus calm_geo = calm_tus" "ge_fault calm_geo op = State_Monad.return None" "ge_Enqueue calm_geo pl = State_Monad.return None"
  "ge_blobsPath calm_geo = ''/blobs''" "ge_RPush calm_geo = State_Monad.return None" "ge_BLPop calm_geo = State_Monad.return None"
  "ge_Encode calm_geo c n = State_Monad.return (Inr \<lparr>en_SdHash = ''sd'', en_Size = length c, en_Hash = ''h''\<rparr>)"
  "ge_Reflect calm_geo b = State_Monad.return (Inr 0)"
  "te_GetUpload calm_tus i = State_Monad.return None" "te_Rename calm_tus p q = State_Monad.return None"
  "te_NewLock calm_tus i = State_Monad.return None" "te_Lock calm_tus i = State_Monad.return None" "te_Unlock calm_tus i = State_Monad.return ()"
  "pe_MkdirAll (te_pub calm_tus) p = State_Monad.return None" "pe_api (te_pub calm_tus) = quiet_env"
  "pe_Unmarshal (te_pub calm_tus) b = Inr (Some publish_request_7)" "te_Remove calm_tus p = State_Monad.return None"
  "pe_RemoveAll (te_pub calm_tus) p = State_Monad.return None" "te_GetInfo calm_tus ''x'' = State_Monad.return (Inr cat_info)"
  by (simp_all add: calm_geo_def calm_tus_def calm_pub_def cat_info_def)

lemma calm_user: "run_state (geo_user calm_geo r) s = (Ok (Some linked_user, None), s)"
  by (simp add: geo_user_def UniversalFromRequest_def found_or_refused_def calm_geo_def calm_tus_def)

definition created_upload :: geo_upload where
  "created_upload = \<lparr>gu_UserID = Some 7, gu_Path = [], gu_Size = 3, gu_Received = 0, gu_Status = UpCreated, gu_Error = []\<rparr>"

lemma created_run:
  "run_state (listen_signal calm_geo CreatedUploads cat_info (tr_http cat_notice)) geo_start =
     (None, geo_start\<lparr>gw_uploads := fmupd ''x'' created_upload fmempty\<rparr>)"
  by (simp add: listen_signal_def guardUser_def calm_user markUploadCreated_def geo_stmt_def geo_ext_def calm_geo_simps cat_info_def
    created_upload_def geo_start_def linked_user_def)

definition cat_path :: string where "cat_path = ''/up/7/x/cat.mp4''"

definition cat_task :: upload_payload where
  "cat_task = \<lparr>pl_UploadID = ''x'', pl_Path = cat_path, pl_UserID = 7, pl_Request = Some publish_request_7\<rparr>"

definition notified :: "unit geo_world" where
  "notified = geo_start\<lparr>gw_pub := (gw_pub geo_start)\<lparr>pw_files := fmupd cat_path ''cat'' fmempty, pw_dirs := [''/up/7/x'']\<rparr>,
     gw_uploads := fmupd ''x'' (created_upload\<lparr>gu_Status := UpReceived, gu_Path := cat_path\<rparr>) fmempty,
     gw_queries := fmupd ''x'' (new_query publish_request_7) fmempty, gw_queue := [cat_task]\<rparr>"

lemma notified_run:
  "run_state (geo_Notify calm_geo cat_notice) (geo_start\<lparr>gw_uploads := fmupd ''x'' created_upload fmempty\<rparr>) =
     (Ok (GeoReply 202 NoBody), notified)"
proof -
  have paths: "dst_dir ''/up/x'' 7 ''x'' = ''/up/7/x''" "dst_file ''/up/x'' 7 ''x'' ''cat.mp4'' = cat_path"
    "path_Joins [path_Dir ''/up/x'', ''x''] = ''/up/x''" unfolding cat_path_def by code_simp+
  have user: "usr_ID linked_user = 7" "GetSDKAddress (Some linked_user) \<noteq> []" "GetAuthError (Some linked_user) None = None"
    by (simp_all add: linked_user_def GetSDKAddress_def GetLbrynetServer_def sdk1_def GetAuthError_def)
  have req: "update_request publish_request_7 fmempty = publish_request_7" "req_Params publish_request_7 = JObj fmempty"
    by (simp_all add: update_request_def publish_request_7_def)
  have notice: "tr_id cat_notice = ''x''" by (simp add: cat_notice_def)
  have info: "ti_ID cat_info = ''x''" "ti_Offset cat_info = ti_Size cat_info" "ti_MetaData cat_info \<noteq> fmempty"
    "fmlookup (ti_MetaData cat_info) ''filename'' = Some ''cat.mp4''" "fmlookup (ti_Storage cat_info) ''Path'' = Some ''/up/x''"
    by (auto simp: cat_info_def dest: arg_cong [where f = "\<lambda>m. fmlookup m ''filename''"])
  have lock: "run_state (lockUpload calm_tus i) s = (None, s)" for i s by (simp add: lockUpload_def calm_geo_simps)
  have "fmdrop ''/up/x.info'' (fmupd cat_path ''cat'' fmempty) = fmupd cat_path ''cat'' fmempty"
    by (rule fmap_ext) (simp add: cat_path_def)
  then show ?thesis
    by (simp add: geo_Notify_def calm_user user notice calm_geo_simps lock geo_notify_locked_def geo_ext_def geo_notify_upload_def info Let_def
      paths move_upload_def geo_start_def geo_accept_def req processUpload_def udb_get_def geo_stmt_def created_upload_def queue_upload_def
      update_upload_def insert_publish_query_def enqueue_or_fail_def EnqueueUploadProcessTask_def notified_def new_query_def cat_task_def)
qed

lemma sdk_call_run:
  assumes "fmlookup m ''account_id'' = None" "fmlookup m ''new_sdk_server'' = None"
  shows "\<exists>t. run_state (Call quiet_env (NewCaller quiet_env ''http://sdk1'' 7) cu (publish_request_7\<lparr>req_Params := JObj m\<rparr>)) w = (Ok ok_response, t) \<and>
    w_sent t \<noteq> w_sent w"
proof -
  let ?c = "NewCaller quiet_env ''http://sdk1'' 7" and ?r = "publish_request_7\<lparr>req_Params := JObj m\<rparr>"
  have "TrimSpace ''publish'' \<noteq> []" "methodInList ''publish'' walletSpecificMethods" "MethodAcceptsWallet ''publish''" "WalletID 7 \<noteq> []"
    by code_simp+
  with assms have nq: "NewQuery ?r (WalletID 7) = Ok \<lparr>q_Request = publish_request_7\<lparr>req_Params := JObj (fmupd ParamWalletID (JStr (WalletID 7)) m)\<rparr>, q_WalletID = WalletID 7\<rparr>"
    by (simp add: NewQuery_def publish_request_7_def Let_def q_Method_def forbiddenParams_def param_def ParamsAsMap_def
      q_Params_def IsAuthenticated_def set_params_def ParamNewSDKServer_def ParamAccountID_def)
  have plain: "\<not> hooked (q_Method \<lparr>q_Request = publish_request_7\<lparr>req_Params := j\<rparr>, q_WalletID = i\<rparr>)" for j i
    by (simp add: hooked_def HasPrefix_def q_Method_def publish_request_7_def MethodStatus_def MethodGet_def MethodClaimSearch_def MethodResolve_def)
  have post: "c_postflightHooks ?c = []"
    by (simp add: NewCaller_def addDefaultHooks_def AddPreflightHook_def Let_def quiet_env_def quiet_settings_def)
  have w: "call_wallet ?c = WalletID 7" by (simp add: call_wallet_def)
  have raw: "run_state (CallRaw quiet_env ep q) x = (Inr ok_response, x\<lparr>w_sent := w_sent x @ [(ep, q)]\<rparr>)" for ep q x
    by (simp add: CallRaw_def quiet_env_def modify_def)
  have fine: "\<not> isErrWalletNotLoaded quiet_env ok_response" "\<not> isErrWalletAlreadyLoaded quiet_env ok_response"
    by (simp_all add: isErrWalletNotLoaded_def isErrWalletAlreadyLoaded_def convertToError_def ok_response_def)
  have pre: "preflight quiet_env ?c cu (c_preflightHooks ?c) \<lparr>q_Request = publish_request_7\<lparr>req_Params := j\<rparr>, q_WalletID = i\<rparr> =
      State_Monad.return (Ok (None, \<lparr>q_Request = publish_request_7\<lparr>req_Params := j\<rparr>, q_WalletID = i\<rparr>))" for j i
    by (rule preflight_unhooked) (rule plain)
  show ?thesis
    by (simp add: Call_def w nq pre SendQuery_def walletLoadRetries_def numeral_3_eq_3 raw fine post)
qed

lemma cat_processed: "\<exists>t. run_state (ProcessTask calm_geo (Inr cat_task)) notified = (TaskDone, t) \<and> sent_by t \<noteq> sent_by notified"
proof -
  obtain info e where an: "Analyze (ge_probe calm_geo) (fmupd cat_path ''cat'' fmempty) cat_path [] = (Some info, e)"
    by (auto simp: Analyze_def Let_def)
  have sel: "pl_Path cat_task = cat_path" "pl_UploadID cat_task = ''x''" "pl_UserID cat_task = 7" "pl_Request cat_task = Some publish_request_7"
    by (simp_all add: cat_task_def)
  have "fmlookup (geo_params fmempty (geo_patch n info src)) k = None" if "k = ''account_id'' \<or> k = ''new_sdk_server''" for n src k
    using that by (auto simp: geo_params_def geo_patch_def Let_def fmlookup_of_list split: option.splits)
  note call = sdk_call_run [OF this this]
  have user: "run_state (getDBUser quiet_env Pool (ByID 7)) linked_world = (Ok linked_user, linked_world)"
    by (simp add: getDBUser_def stmt_def quiet_env_def linked_world_def sorted_one matches_def load_user_def server_by_id_def linked_user_def
      quiet_world_def sdk1_def)
  have sdk: "usr_Server linked_user = Some sdk1" "srv_Address sdk1 = ''http://sdk1''" "res_Error ok_response = None"
    by (simp_all add: linked_user_def sdk1_def ok_response_def)
  have files: "pw_files (gw_pub notified) = fmupd cat_path ''cat'' fmempty" "pw_api (gw_pub notified) = linked_world"
    by (simp_all add: notified_def geo_start_def)
  let ?p = "geo_params fmempty (geo_patch (path_Base cat_path) info \<lparr>en_SdHash = ''sd'', en_Size = Suc (Suc (Suc 0)), en_Hash = ''h''\<rparr>)"
  have same: "linked_world\<lparr>w_ext := ()\<rparr> = linked_world" by simp
  obtain t where "run_state (Call quiet_env (NewCaller quiet_env ''http://sdk1'' 7) None (publish_request_7\<lparr>req_Params := JObj ?p\<rparr>)) linked_world = (Ok ok_response, t)"
    "w_sent t \<noteq> w_sent linked_world" using call by blast
  moreover have "req_Params publish_request_7 = JObj fmempty" by (simp add: publish_request_7_def)
  ultimately show ?thesis
    by (simp add: ProcessTask_def Process_def Let_def files an sel geo_Split_def geo_ext_def calm_geo_simps geo_reflect_def geo_Upload_def
      geo_call_def same user sdk remove_blobs_def report_result_def write_result_def)
qed

lemma calm_reachable: "geo_reachable calm_geo (geo_start\<lparr>gw_uploads := fmupd ''x'' created_upload fmempty\<rparr>)" "geo_reachable calm_geo notified"
proof -
  have "geo_reachable calm_geo geo_start" by (rule geo_reachable.start) (simp_all add: geo_start_def)
  then show "geo_reachable calm_geo (geo_start\<lparr>gw_uploads := fmupd ''x'' created_upload fmempty\<rparr>)"
    using geo_step.signal [OF created_run] by (rule geo_reachable.step)
  then show "geo_reachable calm_geo notified" using geo_step.notify [OF notified_run] by (rule geo_reachable.step)
qed

lemma calm_no_faults: "no_geo_faults calm_geo"
  by (simp add: no_geo_faults_def calm_geo_simps)

lemma cat_queued: "cat_task \<in> set (gw_queue notified)"
  by (simp add: notified_def)

theorem geopublish_consistent_witness:
  "owned (geo_start\<lparr>gw_uploads := fmupd ''x'' created_upload fmempty\<rparr>) ''x'' 7 \<and> geo_ok notified \<and> owned notified ''x'' 7"
proof -
  let ?s = "geo_start\<lparr>gw_uploads := fmupd ''x'' created_upload fmempty\<rparr>"
  have "owned ?s ''x'' 7" by (simp add: owned_def created_upload_def)
  with geopublish_consistent [OF calm_reachable(1)] geopublish_consistent [OF calm_reachable(2)] geo_step.notify [OF notified_run]
  show ?thesis by blast
qed

theorem geopublish_for_owner_witness:
  "\<exists>t u req src. sent_by t \<noteq> sent_by notified \<and> owned notified ''x'' u \<and> asked notified ''x'' req \<and>
     encodes calm_geo (fmupd cat_path ''cat'' fmempty) cat_path src \<and>
     sends linked_world (\<lambda>_. owner_call u req src) (pw_api (gw_pub t))"
proof -
  have sel: "pl_Path cat_task = cat_path" "pl_UploadID cat_task = ''x''" by (simp_all add: cat_task_def)
  have files: "pw_files (gw_pub notified) = fmupd cat_path ''cat'' fmempty" "pw_api (gw_pub notified) = linked_world"
    by (simp_all add: notified_def geo_start_def)
  obtain t where t: "run_state (ProcessTask calm_geo (Inr cat_task)) notified = (TaskDone, t)" "sent_by t \<noteq> sent_by notified"
    using cat_processed by blast
  from geopublish_for_owner [OF calm_reachable(2) cat_queued t] t(2) show ?thesis unfolding sel files by blast
qed

theorem geopublish_settles_witness:
  "\<exists>t u res. run_state (ProcessTask calm_geo (Inr cat_task)) notified = (TaskDone, t) \<and>
     u = snd (run_state (drain (length (gw_results t)) calm_geo) t) \<and>
     res_Error res = None \<and> fst (run_state (geo_Status calm_geo cat_notice) u) = Ok (GeoReply 200 (Stored (Some res)))"
proof -
  obtain t where t: "run_state (ProcessTask calm_geo (Inr cat_task)) notified = (TaskDone, t)" using cat_processed by blast
  obtain y u where u: "run_state (drain (length (gw_results t)) calm_geo) t = (y, u)" by (metis surj_pair)
  have user: "fst (run_state (geo_user calm_geo (tr_http cat_notice)) u) = Ok (Some linked_user, None)" by (simp add: calm_user)
  have ids: "usr_ID linked_user = pl_UserID cat_task" "tr_id cat_notice = pl_UploadID cat_task" "tr_id cat_notice \<noteq> []"
    by (simp_all add: linked_user_def cat_task_def cat_notice_def)
  from geopublish_settles [OF calm_reachable(2) cat_queued t calm_no_faults u user ids] t u show ?thesis by auto
qed

section \<open>What does not settle\<close>

text \<open>A result without a response leaves the stored query as it is: the upload is marked as failed, but
  polling reads the query and goes on answering that the upload is being processed.\<close>

lemma failed_processing_never_settles:
  assumes "run_state (saveUploadProcessingResult G i None msg) s = (e, t)"
  shows "gw_queries t = gw_queries s"
proof -
  let ?P = "\<lambda>w. gw_queries w = gw_queries s"
  have st: "steady ?P" by (rule steadyI) simp_all
  have get: "valid ?P (udb_get G i 0) (\<lambda>_. ?P)" by (rule valid_post [OF udb_get_valid [OF st]]) simp
  have mark: "valid ?P (markUploadFailed G i msg) (\<lambda>_. ?P)"
    unfolding markUploadFailed_def by (rule update_upload_valid [OF st]) simp
  have "valid ?P (saveUploadProcessingResult G i None msg) (\<lambda>_. ?P)"
    unfolding saveUploadProcessingResult_def option.case by (intro valid_bind_keep [OF get] valid_sum mark valid_return)
  from validD [OF this assms] show ?thesis by simp
qed

text \<open>The error a failed task returns does not wrap \<open>ErrUpload\<close>, so the delay that grows with the
  number of attempts is never chosen for it.\<close>

lemma failed_blobs_retried_soon:
  assumes "rs_Error r \<noteq> []" "rs_Retry r"
  shows "\<exists>err. run_state (report_result G r) s = (TaskRetry err, s) \<and> geo_RetryDelay n err = 10 * second"
  using assms by (simp add: report_result_def Let_def geo_RetryDelay_def ErrUpload_def)

text \<open>When Redis refuses the result of a publish that went through, the whole task, the call to the SDK
  included, is tried again.\<close>

lemma lost_result_repeats_publish:
  assumes "rs_Error r = []" "fst (run_state (geo_ext (ge_RPush G)) s) = Some x"
  shows "fst (run_state (report_result G r) s) = TaskRetry (Wrapped ''error writing result'' x)"
  using assms by (auto simp: report_result_def write_result_def split: prod.splits)

end
