(* ===== verification/Watchman.thy ===== *)
theory Watchman
  imports Ip "HOL-Library.Word"
begin

text \<open>
  \<open>apps/watchman\<close>: the service that collects playback reports. A report is validated, turned
  into a row and put on a channel; a single goroutine collects rows into a batch and writes
  the batch to ClickHouse at every tick. Integers of reports are the 32-bit integers of the
  code, those of rows have the widths of the columns. The decoder of request bodies, the
  geographical database, the parser of time stamps, the clock and the database are parameters.
\<close>

section \<open>Reports (gen/reporter, gen/http/reporter/server)\<close>

type_synonym int32 = "32 word"

record AddRequestBody =
  ab_URL :: "string option"
  ab_Duration :: "int32 option"
  ab_Position :: "int32 option"
  ab_RelPosition :: "int32 option"
  ab_RebufCount :: "int32 option"
  ab_RebufDuration :: "int32 option"
  ab_Protocol :: "string option"
  ab_Cache :: "string option"
  ab_Player :: "string option"
  ab_UserID :: "string option"
  ab_Bandwidth :: "int32 option"
  ab_Bitrate :: "int32 option"
  ab_Device :: "string option"

record PlaybackReport =
  rp_URL :: string
  rp_Duration :: int32
  rp_Position :: int32
  rp_RelPosition :: int32
  rp_RebufCount :: int32
  rp_RebufDuration :: int32
  rp_Protocol :: string
  rp_Cache :: "string option"
  rp_Player :: string
  rp_UserID :: string
  rp_Bandwidth :: "int32 option"
  rp_Bitrate :: "int32 option"
  rp_Device :: string

text \<open>The length of a text in runes, as \<open>utf8.RuneCountInString\<close> counts them: a byte that begins no
  valid encoding is a rune of its own.\<close>

definition cont_byte :: "nat \<Rightarrow> nat \<Rightarrow> char \<Rightarrow> bool" where
  "cont_byte lo hi c \<longleftrightarrow> lo \<le> of_char c \<and> of_char c \<le> hi"

definition rune_width :: "string \<Rightarrow> nat" where
  "rune_width s = (case s of
     b0 # b1 # rest \<Rightarrow>
       (let n = (of_char b0 :: nat); c = cont_byte 0x80 0xBF in
        if 0xC2 \<le> n \<and> n \<le> 0xDF \<and> c b1 then 2
        else case rest of
          b2 # rest' \<Rightarrow>
            if (n = 0xE0 \<and> cont_byte 0xA0 0xBF b1 \<or> 0xE1 \<le> n \<and> n \<le> 0xEF \<and> n \<noteq> 0xED \<and> c b1 \<or> n = 0xED \<and> cont_byte 0x80 0x9F b1) \<and> c b2 then 3
            else (case rest' of
              b3 # _ \<Rightarrow>
                if (n = 0xF0 \<and> cont_byte 0x90 0xBF b1 \<or> 0xF1 \<le> n \<and> n \<le> 0xF3 \<and> c b1 \<or> n = 0xF4 \<and> cont_byte 0x80 0x8F b1) \<and> c b2 \<and> c b3
                then 4 else 1
            | [] \<Rightarrow> 1)
        | [] \<Rightarrow> 1)
   | _ \<Rightarrow> 1)"

function RuneCountInString :: "string \<Rightarrow> nat" where
  "RuneCountInString s = (if s = [] then 0 else Suc (RuneCountInString (drop (rune_width s) s)))"
  by auto

lemma rune_width_pos: "0 < rune_width s"
  by (simp add: rune_width_def Let_def split: list.splits)

termination RuneCountInString
  by (relation "measure length") (use rune_width_pos in auto)

declare RuneCountInString.simps [simp del]

datatype field_error =
    MissingField string
  | InvalidLength string nat nat bool
  | InvalidRange string int int bool
  | InvalidEnumValue string string

definition required :: "string \<Rightarrow> 'a option \<Rightarrow> field_error list" where
  "required n x = (if x = None then [MissingField n] else [])"

definition longest :: "string \<Rightarrow> nat \<Rightarrow> string option \<Rightarrow> field_error list" where
  "longest n k x = (case x of
     Some v \<Rightarrow> if RuneCountInString v > k then [InvalidLength n (RuneCountInString v) k False] else [] | None \<Rightarrow> [])"

definition shortest :: "string \<Rightarrow> nat \<Rightarrow> string option \<Rightarrow> field_error list" where
  "shortest n k x = (case x of
     Some v \<Rightarrow> if RuneCountInString v < k then [InvalidLength n (RuneCountInString v) k True] else [] | None \<Rightarrow> [])"

definition at_least :: "string \<Rightarrow> int \<Rightarrow> int32 option \<Rightarrow> field_error list" where
  "at_least n k x = (case x of Some v \<Rightarrow> if sint v < k then [InvalidRange n (sint v) k True] else [] | None \<Rightarrow> [])"

definition at_most :: "string \<Rightarrow> int \<Rightarrow> int32 option \<Rightarrow> field_error list" where
  "at_most n k x = (case x of Some v \<Rightarrow> if sint v > k then [InvalidRange n (sint v) k False] else [] | None \<Rightarrow> [])"

definition one_of :: "string \<Rightarrow> string list \<Rightarrow> string option \<Rightarrow> field_error list" where
  "one_of n vs x = (case x of Some v \<Rightarrow> if v \<notin> set vs then [InvalidEnumValue n v] else [] | None \<Rightarrow> [])"

definition protocols :: "string list" where "protocols = [''stb'', ''hls'', ''lvs'']"
definition caches :: "string list" where "caches = [''local'', ''player'', ''miss'']"
definition devices :: "string list" where "devices = [''ios'', ''adr'', ''web'', ''dsk'', ''stb'']"

text \<open>Merged errors are a list; no error is the empty list.\<close>

definition ValidateAddRequestBody :: "AddRequestBody \<Rightarrow> field_error list" where
  "ValidateAddRequestBody body =
     required ''url'' (ab_URL body) @ required ''duration'' (ab_Duration body) @ required ''position'' (ab_Position body) @
     required ''rel_position'' (ab_RelPosition body) @ required ''rebuf_count'' (ab_RebufCount body) @
     required ''rebuf_duration'' (ab_RebufDuration body) @ required ''protocol'' (ab_Protocol body) @
     required ''player'' (ab_Player body) @ required ''user_id'' (ab_UserID body) @ required ''device'' (ab_Device body) @
     longest ''body.url'' 512 (ab_URL body) @
     at_least ''body.duration'' 0 (ab_Duration body) @ at_most ''body.duration'' 60000 (ab_Duration body) @
     at_least ''body.position'' 0 (ab_Position body) @
     at_least ''body.rel_position'' 0 (ab_RelPosition body) @ at_most ''body.rel_position'' 100 (ab_RelPosition body) @
     at_least ''body.rebuf_count'' 0 (ab_RebufCount body) @
     at_least ''body.rebuf_duration'' 0 (ab_RebufDuration body) @ at_most ''body.rebuf_duration'' 60000 (ab_RebufDuration body) @
     one_of ''body.protocol'' protocols (ab_Protocol body) @ one_of ''body.cache'' caches (ab_Cache body) @
     longest ''body.player'' 128 (ab_Player body) @
     shortest ''body.user_id'' 1 (ab_UserID body) @ longest ''body.user_id'' 45 (ab_UserID body) @
     one_of ''body.device'' devices (ab_Device body)"

text \<open>The pointers are dereferenced: a field that is missing is a panic.\<close>

definition NewAddPlaybackReport :: "AddRequestBody \<Rightarrow> PlaybackReport res" where
  "NewAddPlaybackReport b = (
     case (ab_URL b, ab_Duration b, ab_Position b, ab_RelPosition b, ab_RebufCount b, ab_RebufDuration b, ab_Protocol b, ab_Player b, ab_UserID b, ab_Device b) of
       (Some u, Some d, Some p, Some rp, Some rc, Some rd, Some pr, Some pl, Some us, Some de) \<Rightarrow>
         Ok \<lparr>rp_URL = u, rp_Duration = d, rp_Position = p, rp_RelPosition = rp, rp_RebufCount = rc, rp_RebufDuration = rd,
             rp_Protocol = pr, rp_Cache = ab_Cache b, rp_Player = pl, rp_UserID = us, rp_Bandwidth = ab_Bandwidth b,
             rp_Bitrate = ab_Bitrate b, rp_Device = de\<rparr>
     | _ \<Rightarrow> Panic ''nil pointer dereference'')"

section \<open>Rows (olapdb)\<close>

record playback_row =
  row_URL :: string
  row_Duration :: "32 word"
  row_Timestamp :: int
  row_Position :: "32 word"
  row_RelPosition :: "8 word"
  row_RebufCount :: "8 word"
  row_RebufDuration :: "32 word"
  row_Protocol :: string
  row_Cache :: string
  row_Player :: string
  row_UserID :: string
  row_Bandwidth :: "32 word"
  row_Bitrate :: "32 word"
  row_Device :: string
  row_Area :: string
  row_SubArea :: string
  row_IP :: string

text \<open>The replacement of \<open>,.*$\<close> by nothing: the match begins at the first comma with no newline after
  it, since the dot stops at newlines and the dollar sign stands for the end of the text.\<close>

fun trim_player :: "string \<Rightarrow> string" where
  "trim_player [] = []"
| "trim_player (c # s) = (if c = CHR '','' \<and> CHR 0x0A \<notin> set s then [] else c # trim_player s)"

record BatchWriter =
  bw_width :: nat
  bw_capacity :: nat
  bw_interval :: int
  bw_batch :: "playback_row list"
  bw_rcvChan :: "playback_row list"
  bw_closed :: bool
  bw_counter :: nat
  bw_stop :: bool
  bw_stopChan :: "bool list"

text \<open>\<open>City\<close> answers with the code of the country and those of its subdivisions. \<open>Exec\<close> adds a row to the
  transaction in progress, whose rows are in the table once \<open>Commit\<close> has succeeded.\<close>

record 'w wm_env =
  we_Decode :: "string \<Rightarrow> go_error + AddRequestBody"
  we_Now :: "('w, int) state"
  we_Parse :: "string \<Rightarrow> go_error + int"
  we_City :: "net_IP option \<Rightarrow> go_error + string \<times> string list"
  we_database :: string
  we_BeginTx :: "('w, go_error option) state"
  we_Prepare :: "string \<Rightarrow> ('w, go_error option) state"
  we_Exec :: "playback_row \<Rightarrow> ('w, go_error option) state"
  we_Commit :: "('w, go_error option) state"

record 'w wm_world =
  wm_writer :: BatchWriter
  wm_table :: "playback_row list"
  wm_ext :: 'w

type_synonym ('w, 'a) wm_io = "('w wm_world, 'a) state"

definition wm_call :: "('w, 'a) state \<Rightarrow> ('w, 'a) wm_io" where
  "wm_call m = State (\<lambda>s. case run_state m (wm_ext s) of (a, x) \<Rightarrow> (a, s\<lparr>wm_ext := x\<rparr>))"

definition wm_reads :: "('w wm_world \<Rightarrow> 'a) \<Rightarrow> ('w, 'a) wm_io" where
  "wm_reads f = State (\<lambda>s. (f s, s))"

definition wm_update :: "(BatchWriter \<Rightarrow> BatchWriter) \<Rightarrow> ('w, unit) wm_io" where
  "wm_update f = State (\<lambda>s. ((), s\<lparr>wm_writer := f (wm_writer s)\<rparr>))"

lemma run_wm [simp]:
  "run_state (wm_call m) s = (case run_state m (wm_ext s) of (a, x) \<Rightarrow> (a, s\<lparr>wm_ext := x\<rparr>))"
  "run_state (wm_reads f) s = (f s, s)" "run_state (wm_update g) s = ((), s\<lparr>wm_writer := g (wm_writer s)\<rparr>)"
  by (simp_all add: wm_call_def wm_reads_def wm_update_def)

definition getArea :: "'w wm_env \<Rightarrow> string \<Rightarrow> string \<times> string" where
  "getArea W ip = (case we_City W (ParseIP ip) of
     Inl _ \<Rightarrow> ([], [])
   | Inr (country, subdivisions) \<Rightarrow>
       (ToLower country, ToLower (if length subdivisions \<ge> 2 then subdivisions ! 1 else [])))"

definition report_row :: "'w wm_env \<Rightarrow> PlaybackReport \<Rightarrow> string \<Rightarrow> int \<Rightarrow> playback_row" where
  "report_row W r addr t = (case getArea W addr of (area, subarea) \<Rightarrow>
     \<lparr>row_URL = rp_URL r, row_Duration = rp_Duration r, row_Timestamp = t, row_Position = rp_Position r,
      row_RelPosition = ucast (rp_RelPosition r), row_RebufCount = ucast (rp_RebufCount r), row_RebufDuration = rp_RebufDuration r,
      row_Protocol = rp_Protocol r, row_Cache = (case rp_Cache r of Some c \<Rightarrow> c | None \<Rightarrow> ''miss''), row_Player = trim_player (rp_Player r),
      row_UserID = rp_UserID r, row_Bandwidth = (case rp_Bandwidth r of Some b \<Rightarrow> b | None \<Rightarrow> 0),
      row_Bitrate = (case rp_Bitrate r of Some b \<Rightarrow> b | None \<Rightarrow> 0), row_Device = rp_Device r, row_Area = area, row_SubArea = subarea,
      row_IP = addr\<rparr>)"

definition prepareArgs :: "'w wm_env \<Rightarrow> PlaybackReport \<Rightarrow> string \<Rightarrow> string \<Rightarrow> ('w, go_error + playback_row) wm_io" where
  "prepareArgs W r addr ts = (
     if ts \<noteq> [] then State_Monad.return (case we_Parse W ts of Inl e \<Rightarrow> Inl e | Inr t \<Rightarrow> Inr (report_row W r addr t))
     else do { t \<leftarrow> wm_call (we_Now W); State_Monad.return (Inr (report_row W r addr t)) })"

text \<open>The statement, white space aside.\<close>

definition prepareInsertQuery :: "string \<Rightarrow> string \<Rightarrow> string" where
  "prepareInsertQuery database values = ''INSERT INTO '' @ database @ ''.playback (URL, Duration, Timestamp, Position, RelPosition, RebufCount, '' @
     ''RebufDuration, Protocol, Cache, Player, UserID, Bandwidth, Bitrate, Device, Area, SubArea, IP) VALUES '' @ values"

section \<open>The batch writer (olapdb/batch.go)\<close>

definition NewBatchWriter :: "int \<Rightarrow> nat \<Rightarrow> BatchWriter" where
  "NewBatchWriter interval width = \<lparr>bw_width = width, bw_capacity = 100000, bw_interval = interval, bw_batch = [], bw_rcvChan = [],
     bw_closed = False, bw_counter = 0, bw_stop = False, bw_stopChan = []\<rparr>"

definition full_chan :: "BatchWriter \<Rightarrow> bool" where
  "full_chan b \<longleftrightarrow> length (bw_rcvChan b) \<ge> bw_capacity b * 3"

text \<open>A handler that finds the channel full waits; it goes on as one that is called when there is room.\<close>

datatype write_result = Sent | Refused go_error | Waiting | Crashed string

definition bw_Write :: "'w wm_env \<Rightarrow> PlaybackReport \<Rightarrow> string \<Rightarrow> string \<Rightarrow> ('w, write_result) wm_io" where
  "bw_Write W r addr ts = do {
     a \<leftarrow> prepareArgs W r addr ts;
     (case a of
        Inl e \<Rightarrow> State_Monad.return (Refused e)
      | Inr args \<Rightarrow> do {
          b \<leftarrow> wm_reads wm_writer;
          if bw_closed b then State_Monad.return (Crashed ''send on closed channel'')
          else if full_chan b then State_Monad.return Waiting
          else do {
            wm_update (\<lambda>b. b\<lparr>bw_rcvChan := bw_rcvChan b @ [args]\<rparr>);
            State_Monad.return Sent
          }
        })
   }"

fun exec_rows :: "'w wm_env \<Rightarrow> playback_row list \<Rightarrow> ('w, go_error option) wm_io" where
  "exec_rows W [] = State_Monad.return None"
| "exec_rows W (row # rows) = do {
     e \<leftarrow> wm_call (we_Exec W row);
     (case e of Some x \<Rightarrow> State_Monad.return (Some x) | None \<Rightarrow> exec_rows W rows)
   }"

definition batch_tx :: "'w wm_env \<Rightarrow> ('w, go_error option) wm_io" where
  "batch_tx W = do {
     b \<leftarrow> wm_reads wm_writer;
     e \<leftarrow> wm_call (we_BeginTx W);
     (case e of
        Some x \<Rightarrow> State_Monad.return (Some (Wrapped ''cannot begin'' x))
      | None \<Rightarrow> do {
          e \<leftarrow> wm_call (we_Prepare W (prepareInsertQuery (we_database W) (''(?'' @ concat (replicate (bw_width b - 1) '', ?'') @ '')'')));
          (case e of
             Some x \<Rightarrow> State_Monad.return (Some (Wrapped ''cannot prepare'' x))
           | None \<Rightarrow> do {
               e \<leftarrow> exec_rows W (bw_batch b);
               (case e of
                  Some x \<Rightarrow> State_Monad.return (Some x)
                | None \<Rightarrow> do {
                    e \<leftarrow> wm_call (we_Commit W);
                    (case e of
                       Some x \<Rightarrow> State_Monad.return (Some (Wrapped ''cannot commit'' x))
                     | None \<Rightarrow> do {
                         State (\<lambda>s. ((), s\<lparr>wm_table := wm_table s @ bw_batch b\<rparr>));
                         State_Monad.return None
                       })
                  })
             })
        })
   }"

text \<open>The batch is emptied on every way out. (The width is at least 1.)\<close>

definition writeBatch :: "'w wm_env \<Rightarrow> ('w, go_error option) wm_io" where
  "writeBatch W = do {
     e \<leftarrow> batch_tx W;
     wm_update (\<lambda>b. b\<lparr>bw_batch := []\<rparr>);
     State_Monad.return e
   }"

text \<open>One turn of the loop of \<open>Start\<close>, with the case that \<open>select\<close> has chosen. Receiving from the empty
  channel waits, or gives nil once the channel is closed; either way nothing changes.\<close>

datatype select_case = Received | Ticked

definition Start_turn :: "'w wm_env \<Rightarrow> select_case \<Rightarrow> ('w, unit) wm_io" where
  "Start_turn W c = (case c of
     Received \<Rightarrow> do {
       b \<leftarrow> wm_reads wm_writer;
       (case bw_rcvChan b of
          [] \<Rightarrow> State_Monad.return ()
        | el # rest \<Rightarrow> wm_update (\<lambda>b. b\<lparr>bw_rcvChan := rest, bw_batch := bw_batch b @ [el], bw_counter := bw_counter b + 1\<rparr>))
     }
   | Ticked \<Rightarrow> do {
       b \<leftarrow> wm_reads wm_writer;
       if bw_counter b = 0 then State_Monad.return ()
       else do { _ \<leftarrow> writeBatch W; wm_update (\<lambda>b. b\<lparr>bw_counter := 0\<rparr>) }
     })"

definition Start_end :: "'w wm_env \<Rightarrow> ('w, unit) wm_io" where
  "Start_end W = do {
     b \<leftarrow> wm_reads wm_writer;
     _ \<leftarrow> (if bw_counter b > 0 then writeBatch W else State_Monad.return None);
     wm_update (\<lambda>b. b\<lparr>bw_stopChan := bw_stopChan b @ [True]\<rparr>)
   }"

text \<open>The goroutine, for the given choices; it is left early only if \<open>stop\<close> is set.\<close>

primrec Start_loop :: "'w wm_env \<Rightarrow> select_case list \<Rightarrow> ('w, unit) wm_io" where
  "Start_loop W [] = State_Monad.return ()"
| "Start_loop W (c # cs) = do {
     stop \<leftarrow> wm_reads (\<lambda>s. bw_stop (wm_writer s));
     if stop then Start_end W else do { Start_turn W c; Start_loop W cs }
   }"

definition bw_Stop :: "('w, unit res) wm_io" where
  "bw_Stop = do {
     b \<leftarrow> wm_reads wm_writer;
     if bw_closed b then State_Monad.return (Panic ''close of closed channel'')
     else do { wm_update (\<lambda>b. b\<lparr>bw_closed := True\<rparr>); State_Monad.return (Ok ()) }
   }"

section \<open>The service (reporter.go, middleware.go)\<close>

text \<open>The host of \<open>net.SplitHostPort\<close>, or nothing where it returns an error.\<close>

definition SplitHost :: "string \<Rightarrow> string option" where
  "SplitHost hp = (
     if CHR '':'' \<notin> set hp then None
     else let i = length hp - length (takeWhile (\<lambda>c. c \<noteq> CHR '':'') (rev hp)) - 1 in
       if hd hp = CHR ''['' then
         (let e = length (takeWhile (\<lambda>c. c \<noteq> CHR '']'') hp) in
          if e + 1 = i \<and> CHR ''['' \<notin> set (drop 1 hp) \<and> CHR '']'' \<notin> set (drop (e + 1) hp) then Some (drop 1 (take e hp)) else None)
       else if CHR '':'' \<in> set (take i hp) \<or> CHR ''['' \<in> set hp \<or> CHR '']'' \<in> set hp then None
       else Some (take i hp))"

definition from_request :: "http_request \<Rightarrow> string \<Rightarrow> string" where
  "from_request r remoteAddr = (
     let f = Header_Get r ''X-Forwarded-For'' in
     if f \<noteq> [] then f else case SplitHost remoteAddr of Some ip \<Rightarrow> ip | None \<Rightarrow> remoteAddr)"

datatype add_reply =
    StatusCreated
  | MultiFieldError string
  | InvalidBody "field_error list"
  | BadPayload go_error
  | AddFailed go_error
  | AddWaits
  | AddCrash string

definition reporter_Add :: "'w wm_env \<Rightarrow> PlaybackReport \<Rightarrow> string option \<Rightarrow> ('w, add_reply) wm_io" where
  "reporter_Add W p addr = (
     if sint (rp_RebufDuration p) > sint (rp_Duration p) then
       State_Monad.return (MultiFieldError ''rebufferung duration cannot be larger than duration'')
     else case addr of
       None \<Rightarrow> State_Monad.return (AddCrash ''interface conversion'')
     | Some a \<Rightarrow> do {
         w \<leftarrow> bw_Write W p a [];
         State_Monad.return (case w of
           Sent \<Rightarrow> StatusCreated | Refused e \<Rightarrow> AddFailed e | Waiting \<Rightarrow> AddWaits | Crashed m \<Rightarrow> AddCrash m)
       })"

text \<open>The request goes through the middleware, the decoder and the endpoint.\<close>

definition DecodeAddRequest :: "'w wm_env \<Rightarrow> string \<Rightarrow> add_reply + PlaybackReport" where
  "DecodeAddRequest W body = (case we_Decode W body of
     Inl e \<Rightarrow> Inl (BadPayload e)
   | Inr b \<Rightarrow>
       if ValidateAddRequestBody b \<noteq> [] then Inl (InvalidBody (ValidateAddRequestBody b))
       else case NewAddPlaybackReport b of Ok p \<Rightarrow> Inr p | Err e \<Rightarrow> Inl (AddFailed e) | Panic m \<Rightarrow> Inl (AddCrash m))"

definition add_handler :: "'w wm_env \<Rightarrow> http_request \<Rightarrow> string \<Rightarrow> string \<Rightarrow> ('w, add_reply) wm_io" where
  "add_handler W r remoteAddr body = (case DecodeAddRequest W body of
     Inl x \<Rightarrow> State_Monad.return x
   | Inr p \<Rightarrow> reporter_Add W p (Some (from_request r remoteAddr)))"

section \<open>Runs\<close>

abbreviation chan_of :: "'w wm_world \<Rightarrow> playback_row list" where
  "chan_of s \<equiv> bw_rcvChan (wm_writer s)"

text \<open>The service as a whole, with the rows it has accepted: requests, turns of the goroutine and the end
  come in any order.\<close>

inductive wm_run :: "'w wm_env \<Rightarrow> playback_row list \<Rightarrow> 'w wm_world \<Rightarrow> bool" for W where
  start: "wm_writer s = NewBatchWriter i n \<Longrightarrow> 0 < n \<Longrightarrow> wm_table s = [] \<Longrightarrow> wm_run W [] s"
| report: "wm_run W acc s \<Longrightarrow> run_state (add_handler W r remoteAddr body) s = (x, t) \<Longrightarrow>
    wm_run W (acc @ drop (length (chan_of s)) (chan_of t)) t"
| loop: "wm_run W acc s \<Longrightarrow> run_state (Start_loop W [c]) s = (u, t) \<Longrightarrow> wm_run W acc t"
| stop: "wm_run W acc s \<Longrightarrow> run_state bw_Stop s = (v, t) \<Longrightarrow> wm_run W acc t"

definition same_store :: "'w wm_world \<Rightarrow> 'w wm_world \<Rightarrow> bool" where
  "same_store s t \<longleftrightarrow> wm_writer t = wm_writer s \<and> wm_table t = wm_table s"

lemma same_store_ext [simp]: "same_store s (t\<lparr>wm_ext := x\<rparr>) = same_store s t" "same_store (s\<lparr>wm_ext := x\<rparr>) t = same_store s t" "same_store s s"
  by (simp_all add: same_store_def)

lemma exec_rows_same: "same_store s (snd (run_state (exec_rows W rows) s))"
proof (induction rows arbitrary: s)
  case (Cons row rows)
  obtain e x where "run_state (we_Exec W row) (wm_ext s) = (e, x)" by fastforce
  with Cons.IH [of "s\<lparr>wm_ext := x\<rparr>"] show ?case by (cases e) simp_all
qed simp

text \<open>Whatever the database does, the batch is empty afterwards; its rows are in the table exactly if
  there was no error.\<close>

lemma writeBatch_run:
  assumes "run_state (writeBatch W) s = (e, t)"
  shows "wm_writer t = (wm_writer s)\<lparr>bw_batch := []\<rparr>"
    and "wm_table t = wm_table s @ (if e = None then bw_batch (wm_writer s) else [])"
proof -
  obtain t' where run: "run_state (batch_tx W) s = (e, t')" and t: "t = t'\<lparr>wm_writer := (wm_writer t')\<lparr>bw_batch := []\<rparr>\<rparr>"
    using assms by (auto simp: writeBatch_def split: prod.splits)
  have "wm_writer t' = wm_writer s" "wm_table t' = wm_table s @ (if e = None then bw_batch (wm_writer s) else [])"
    using run exec_rows_same [of _ W "bw_batch (wm_writer s)"]
    by (auto simp: batch_tx_def same_store_def split: prod.splits option.splits) (metis snd_conv same_store_def same_store_ext)+
  then show "wm_writer t = (wm_writer s)\<lparr>bw_batch := []\<rparr>" "wm_table t = wm_table s @ (if e = None then bw_batch (wm_writer s) else [])"
    by (simp_all add: t)
qed

definition no_wm_faults :: "'w wm_env \<Rightarrow> bool" where
  "no_wm_faults W \<longleftrightarrow> (\<forall>x. fst (run_state (we_BeginTx W) x) = None \<and> (\<forall>q. fst (run_state (we_Prepare W q) x) = None) \<and>
     (\<forall>row. fst (run_state (we_Exec W row) x) = None) \<and> fst (run_state (we_Commit W) x) = None)"

lemma no_wm_faultsD:
  assumes "no_wm_faults W"
  shows "run_state (we_BeginTx W) x = (e, y) \<Longrightarrow> e = None" "run_state (we_Prepare W q) x = (e, y) \<Longrightarrow> e = None"
    "run_state (we_Exec W row) x = (e, y) \<Longrightarrow> e = None" "run_state (we_Commit W) x = (e, y) \<Longrightarrow> e = None"
  using assms unfolding no_wm_faults_def by (metis fst_conv)+

lemma exec_rows_calm: "no_wm_faults W \<Longrightarrow> run_state (exec_rows W rows) s = (e, t) \<Longrightarrow> e = None"
  by (induction rows arbitrary: s) (auto split: prod.splits option.splits dest: no_wm_faultsD(3))

lemma writeBatch_calm: "no_wm_faults W \<Longrightarrow> run_state (writeBatch W) s = (e, t) \<Longrightarrow> e = None"
  by (auto simp: writeBatch_def batch_tx_def split: prod.splits option.splits dest: no_wm_faultsD exec_rows_calm)

section \<open>Where a report is\<close>

text \<open>The rows accepted so far are those of the batches that have been written or given up, then the
  current batch, then the channel; the table has the batches that were written.\<close>

definition kept :: "playback_row list \<Rightarrow> (bool \<times> playback_row list) list \<Rightarrow> 'w wm_world \<Rightarrow> bool" where
  "kept acc batches s \<longleftrightarrow>
     acc = concat (map snd batches) @ bw_batch (wm_writer s) @ chan_of s \<and>
     wm_table s = concat (map snd (filter fst batches)) \<and>
     bw_counter (wm_writer s) = length (bw_batch (wm_writer s)) \<and>
     length (chan_of s) \<le> 300000 \<and> bw_capacity (wm_writer s) = 100000 \<and> \<not> bw_stop (wm_writer s) \<and> bw_stopChan (wm_writer s) = []"

lemma kept_turn:
  assumes "kept acc bs s" "run_state (Start_loop W [c]) s = (u, t)"
  shows "\<exists>bs'. kept acc bs' t \<and> (no_wm_faults W \<and> (\<forall>b \<in> set bs. fst b) \<longrightarrow> (\<forall>b \<in> set bs'. fst b))"
proof (cases c)
  case Received
  with assms show ?thesis by (cases "chan_of s") (auto simp: kept_def Start_turn_def)
next
  case Ticked
  show ?thesis
  proof (cases "bw_counter (wm_writer s) = 0")
    case True
    with Ticked assms show ?thesis by (auto simp: kept_def Start_turn_def)
  next
    case False
    obtain e w where w: "run_state (writeBatch W) s = (e, w)" by fastforce
    have t: "t = w\<lparr>wm_writer := (wm_writer w)\<lparr>bw_counter := 0\<rparr>\<rparr>"
      using assms False Ticked w by (auto simp: Start_turn_def kept_def)
    have "kept acc (bs @ [(e = None, bw_batch (wm_writer s))]) t"
      using assms(1) writeBatch_run [OF w] by (simp add: t kept_def)
    with writeBatch_calm [OF _ w] show ?thesis by (intro exI [of _ "bs @ [(e = None, bw_batch (wm_writer s))]"]) auto
  qed
qed

text \<open>A request adds one row to the channel or nothing at all.\<close>

lemma bw_Write_run:
  assumes "run_state (bw_Write W r addr []) s = (x, t)"
  shows "if x = Sent then \<exists>now. wm_writer t = (wm_writer s)\<lparr>bw_rcvChan := chan_of s @ [report_row W r addr now]\<rparr> \<and> wm_table t = wm_table s \<and>
      \<not> full_chan (wm_writer s) \<and> \<not> bw_closed (wm_writer s)
    else same_store s t"
  using assms by (auto simp: bw_Write_def prepareArgs_def same_store_def split: prod.splits if_splits)

lemma add_handler_run:
  assumes "run_state (add_handler W r remoteAddr body) s = (x, t)"
  shows "if x = StatusCreated then \<exists>p now. DecodeAddRequest W body = Inr p \<and> sint (rp_RebufDuration p) \<le> sint (rp_Duration p) \<and>
      wm_writer t = (wm_writer s)\<lparr>bw_rcvChan := chan_of s @ [report_row W p (from_request r remoteAddr) now]\<rparr> \<and> wm_table t = wm_table s \<and>
      \<not> full_chan (wm_writer s)
    else same_store s t"
proof (cases "DecodeAddRequest W body")
  case (Inl y)
  moreover have "y \<noteq> StatusCreated" using Inl by (auto simp: DecodeAddRequest_def split: sum.splits if_splits res.splits)
  ultimately show ?thesis using assms by (auto simp: add_handler_def)
next
  case (Inr p)
  obtain w t' where w: "run_state (bw_Write W p (from_request r remoteAddr) []) s = (w, t')" by fastforce
  show ?thesis
  proof (cases "sint (rp_RebufDuration p) > sint (rp_Duration p)")
    case True
    with assms Inr show ?thesis by (auto simp: add_handler_def reporter_Add_def)
  next
    case False
    with assms Inr w have t: "t' = t" "x = StatusCreated \<longleftrightarrow> w = Sent"
      by (auto simp: add_handler_def reporter_Add_def split: write_result.splits)
    show ?thesis using bw_Write_run [OF w] False Inr unfolding t by (cases w) auto
  qed
qed

lemma kept_report:
  assumes "kept acc bs s" "run_state (add_handler W r remoteAddr body) s = (x, t)"
  shows "kept (acc @ drop (length (chan_of s)) (chan_of t)) bs t"
  using assms(1) add_handler_run [OF assms(2)] by (auto simp: kept_def full_chan_def same_store_def split: if_splits)

lemma kept_stop: "kept acc bs s \<Longrightarrow> run_state bw_Stop s = (v, t) \<Longrightarrow> kept acc bs t"
  by (auto simp: bw_Stop_def kept_def split: if_splits)

lemma run_kept:
  assumes "wm_run W acc s"
  shows "\<exists>bs. kept acc bs s \<and> (no_wm_faults W \<longrightarrow> (\<forall>b \<in> set bs. fst b))"
  using assms
proof (induction rule: wm_run.induct)
  case (start s i n)
  then have "kept [] [] s" by (simp add: kept_def NewBatchWriter_def)
  then show ?case by (intro exI [of _ "[]"]) simp
next
  case (loop acc s c u t)
  then show ?case using kept_turn by blast
qed (blast intro: kept_report kept_stop)+

lemma run_kept_calm:
  assumes "wm_run W acc s" "no_wm_faults W"
  shows "acc = wm_table s @ bw_batch (wm_writer s) @ chan_of s" "bw_counter (wm_writer s) = length (bw_batch (wm_writer s))" "\<not> bw_stop (wm_writer s)"
proof -
  obtain bs where bs: "kept acc bs s" "\<forall>b \<in> set bs. fst b" using run_kept [OF assms(1)] assms(2) by blast
  then have "filter fst bs = bs" by (simp add: filter_id_conv)
  with bs show "acc = wm_table s @ bw_batch (wm_writer s) @ chan_of s" "bw_counter (wm_writer s) = length (bw_batch (wm_writer s))" "\<not> bw_stop (wm_writer s)"
    by (auto simp: kept_def)
qed

section \<open>The goroutine\<close>

lemma turn_never_stops:
  assumes "run_state (Start_turn W c) s = (u, t)"
  shows "bw_stop (wm_writer t) = bw_stop (wm_writer s)" "bw_stopChan (wm_writer t) = bw_stopChan (wm_writer s)"
    "bw_closed (wm_writer t) = bw_closed (wm_writer s)"
  using assms by (auto simp: Start_turn_def writeBatch_run(1) split: select_case.splits list.splits if_splits prod.splits)

lemma Start_loop_Cons:
  assumes "\<not> bw_stop (wm_writer s)" "run_state (Start_loop W (c # cs)) s = (u, t)"
  obtains v s' where "run_state (Start_turn W c) s = (v, s')" "run_state (Start_loop W cs) s' = (u, t)" "\<not> bw_stop (wm_writer s')"
proof -
  obtain v s' where v: "run_state (Start_turn W c) s = (v, s')" by (metis surj_pair)
  with assms turn_never_stops(1) [OF v] show ?thesis by (intro that [of v s']) auto
qed

lemma run_loop: "wm_run W acc s \<Longrightarrow> run_state (Start_loop W cs) s = (u, t) \<Longrightarrow> wm_run W acc t"
proof (induction cs arbitrary: s)
  case (Cons c cs)
  have "\<not> bw_stop (wm_writer s)" using run_kept [OF Cons.prems(1)] by (auto simp: kept_def)
  then obtain v s' where v: "run_state (Start_turn W c) s = (v, s')" "run_state (Start_loop W cs) s' = (u, t)" "\<not> bw_stop (wm_writer s)"
    using Start_loop_Cons [OF _ Cons.prems(2)] by metis
  then have "run_state (Start_loop W [c]) s = ((), s')" by simp
  with wm_run.loop [OF Cons.prems(1)] Cons.IH v(2) show ?case by blast
qed simp

text \<open>As many turns as there are rows on the channel empty it; the tick that follows empties the batch.\<close>

lemma drain_and_tick:
  "\<not> bw_stop (wm_writer s) \<Longrightarrow> bw_counter (wm_writer s) = length (bw_batch (wm_writer s)) \<Longrightarrow> length (chan_of s) = n \<Longrightarrow>
   run_state (Start_loop W (replicate n Received @ [Ticked])) s = (u, t) \<Longrightarrow> bw_batch (wm_writer t) = [] \<and> chan_of t = []"
proof (induction n arbitrary: s)
  case 0
  then have "run_state (Start_turn W Ticked) s = ((), t)" by simp
  with 0 show ?case by (auto simp: Start_turn_def writeBatch_run(1) split: if_splits prod.splits)
next
  case (Suc n)
  then obtain el rest where c: "chan_of s = el # rest" by (cases "chan_of s") auto
  let ?s = "s\<lparr>wm_writer := (wm_writer s)\<lparr>bw_rcvChan := rest, bw_batch := bw_batch (wm_writer s) @ [el], bw_counter := bw_counter (wm_writer s) + 1\<rparr>\<rparr>"
  from Suc.prems c have "run_state (Start_loop W (replicate n Received @ [Ticked])) ?s = (u, t)" by (simp add: Start_turn_def)
  with Suc.IH [of ?s] Suc.prems c show ?case by simp
qed

section \<open>Widths\<close>

lemma uint_of_sint: "uint (x :: int32) = sint x mod 2 ^ 32"
  by (simp add: uint_sint take_bit_eq_mod)

lemma uint_pos: assumes "0 \<le> sint (x :: int32)" shows "uint x = sint x"
  using assms sint_lt [of x] by (simp add: uint_of_sint)

lemma uint_byte: "uint (ucast (x :: int32) :: 8 word) = sint x mod 256"
proof -
  have "uint (ucast x :: 8 word) = uint x mod 256" by (simp add: unsigned_ucast_eq take_bit_eq_mod)
  then show ?thesis by (simp add: uint_of_sint mod_mod_cancel)
qed

lemma no_field_error:
  "required n x = [] \<longleftrightarrow> (\<exists>v. x = Some v)"
  "longest n k (Some v) = [] \<longleftrightarrow> RuneCountInString v \<le> k" "shortest n k (Some v) = [] \<longleftrightarrow> k \<le> RuneCountInString v"
  "at_least n i (Some w) = [] \<longleftrightarrow> i \<le> sint w" "at_most n i (Some w) = [] \<longleftrightarrow> sint w \<le> i"
  "one_of n vs (Some v) = [] \<longleftrightarrow> v \<in> set vs"
  by (auto simp: required_def longest_def shortest_def at_least_def at_most_def one_of_def)

text \<open>What a row should say of a valid report. Counts are stored in a byte and bandwidths as unsigned
  numbers; all other numbers fit.\<close>

definition row_says :: "AddRequestBody \<Rightarrow> string \<Rightarrow> playback_row \<Rightarrow> bool" where
  "row_says b addr row \<longleftrightarrow>
     ab_URL b = Some (row_URL row) \<and> RuneCountInString (row_URL row) \<le> 512 \<and>
     map_option sint (ab_Duration b) = Some (uint (row_Duration row)) \<and> uint (row_Duration row) \<le> 60000 \<and>
     map_option sint (ab_Position b) = Some (uint (row_Position row)) \<and> uint (row_Position row) < 2 ^ 31 \<and>
     map_option sint (ab_RelPosition b) = Some (uint (row_RelPosition row)) \<and> uint (row_RelPosition row) \<le> 100 \<and>
     map_option (\<lambda>c. sint c mod 256) (ab_RebufCount b) = Some (uint (row_RebufCount row)) \<and>
     map_option sint (ab_RebufDuration b) = Some (uint (row_RebufDuration row)) \<and> uint (row_RebufDuration row) \<le> uint (row_Duration row) \<and>
     ab_Protocol b = Some (row_Protocol row) \<and> row_Protocol row \<in> set protocols \<and>
     row_Cache row = (case ab_Cache b of Some c \<Rightarrow> c | None \<Rightarrow> ''miss'') \<and> row_Cache row \<in> set caches \<and>
     map_option trim_player (ab_Player b) = Some (row_Player row) \<and>
     ab_UserID b = Some (row_UserID row) \<and> 1 \<le> RuneCountInString (row_UserID row) \<and> RuneCountInString (row_UserID row) \<le> 45 \<and>
     uint (row_Bandwidth row) = (case ab_Bandwidth b of Some v \<Rightarrow> sint v mod 2 ^ 32 | None \<Rightarrow> 0) \<and>
     uint (row_Bitrate row) = (case ab_Bitrate b of Some v \<Rightarrow> sint v mod 2 ^ 32 | None \<Rightarrow> 0) \<and>
     ab_Device b = Some (row_Device row) \<and> row_Device row \<in> set devices \<and> row_IP row = addr"

lemma valid_row:
  assumes "DecodeAddRequest W body = Inr p" "sint (rp_RebufDuration p) \<le> sint (rp_Duration p)"
  shows "\<exists>b. we_Decode W body = Inr b \<and> row_says b addr (report_row W p addr now)"
proof -
  obtain b where b: "we_Decode W body = Inr b" "ValidateAddRequestBody b = []" "NewAddPlaybackReport b = Ok p"
    using assms(1) by (auto simp: DecodeAddRequest_def split: sum.splits if_splits res.splits)
  then obtain u d ps rp rc rd pr pl us de where some: "ab_URL b = Some u" "ab_Duration b = Some d" "ab_Position b = Some ps"
    "ab_RelPosition b = Some rp" "ab_RebufCount b = Some rc" "ab_RebufDuration b = Some rd" "ab_Protocol b = Some pr"
    "ab_Player b = Some pl" "ab_UserID b = Some us" "ab_Device b = Some de"
    by (auto simp: ValidateAddRequestBody_def no_field_error(1))
  note ranges = b(2) [unfolded ValidateAddRequestBody_def some append_is_Nil_conv no_field_error]
  have byte: "uint (ucast rp :: 8 word) = sint rp" using ranges by (simp add: uint_byte)
  have cache: "(case ab_Cache b of Some c \<Rightarrow> c | None \<Rightarrow> ''miss'') \<in> set caches"
    using ranges by (cases "ab_Cache b") (simp_all add: no_field_error caches_def)
  have p: "p = \<lparr>rp_URL = u, rp_Duration = d, rp_Position = ps, rp_RelPosition = rp, rp_RebufCount = rc, rp_RebufDuration = rd,
      rp_Protocol = pr, rp_Cache = ab_Cache b, rp_Player = pl, rp_UserID = us, rp_Bandwidth = ab_Bandwidth b, rp_Bitrate = ab_Bitrate b, rp_Device = de\<rparr>"
    using b(3) some by (simp add: NewAddPlaybackReport_def)
  have pos: "uint d = sint d" "uint ps = sint ps" "uint rd = sint rd" "sint ps < 2147483648"
    using ranges sint_lt [of ps] by (simp_all add: uint_pos)
  have "row_says b addr (report_row W p addr now)"
    using ranges assms(2) cache unfolding row_says_def report_row_def
    by (simp add: some p pos byte uint_byte split: prod.splits option.splits) (auto simp: uint_of_sint)
  with b(1) show ?thesis by blast
qed

section \<open>Properties\<close>


text \<open>C36: every report that was accepted gets into the table. In whatever state the service is, if the
  database answers, then after the goroutine has received what waits on the channel the next
  tick leaves nothing to write: the table has all rows accepted so far, in their order.\<close>

theorem reports_written:
  assumes "wm_run W acc s" and "no_wm_faults W"
    and "run_state (Start_loop W (replicate (length (chan_of s)) Received @ [Ticked])) s = (u, t)"
  shows "wm_table t = acc \<and> bw_batch (wm_writer t) = [] \<and> chan_of t = []"
proof -
  have "bw_batch (wm_writer t) = [] \<and> chan_of t = []"
    using drain_and_tick [OF run_kept_calm(3,2) [OF assms(1,2)] refl assms(3)] .
  with run_kept_calm(1) [OF run_loop [OF assms(1,3)] assms(2)] show ?thesis by simp
qed

text \<open>C37: a report that is answered with 201 has become one row that says what the report says: every
  field passed the validation, durations, positions and the relative position are stored
  with their values and in their bounds, the rebuffering time is no longer than the
  interval; the count of rebufferings is stored modulo 256, bandwidth and bitrate modulo
  2 ^ 32. Any other answer leaves the writer and the table alone.\<close>

theorem report_stored_in_bounds:
  assumes "run_state (add_handler W r remoteAddr body) s = (x, t)"
  shows "if x = StatusCreated
    then \<exists>b row. we_Decode W body = Inr b \<and> row_says b (from_request r remoteAddr) row \<and>
      wm_writer t = (wm_writer s)\<lparr>bw_rcvChan := chan_of s @ [row]\<rparr> \<and> wm_table t = wm_table s
    else wm_writer t = wm_writer s \<and> wm_table t = wm_table s"
proof (cases "x = StatusCreated")
  case True
  with add_handler_run [OF assms] obtain p now where p: "DecodeAddRequest W body = Inr p" "sint (rp_RebufDuration p) \<le> sint (rp_Duration p)"
    "wm_writer t = (wm_writer s)\<lparr>bw_rcvChan := chan_of s @ [report_row W p (from_request r remoteAddr) now]\<rparr>" "wm_table t = wm_table s" by auto
  moreover obtain b where "we_Decode W body = Inr b" "row_says b (from_request r remoteAddr) (report_row W p (from_request r remoteAddr) now)"
    using valid_row [OF p(1,2)] by blast
  ultimately show ?thesis using True by auto
qed (use add_handler_run [OF assms] in \<open>simp add: same_store_def\<close>)

section \<open>A run\<close>

definition good_body :: AddRequestBody where
  "good_body = \<lparr>ab_URL = Some ''@a#1/b#2'', ab_Duration = Some 30000, ab_Position = Some 90000, ab_RelPosition = Some 50,
     ab_RebufCount = Some 300, ab_RebufDuration = Some 1500, ab_Protocol = Some ''hls'', ab_Cache = None, ab_Player = Some ''sg-p2, proxy'',
     ab_UserID = Some ''432521'', ab_Bandwidth = Some (- 1), ab_Bitrate = None, ab_Device = Some ''web''\<rparr>"

definition calm_wm :: "unit wm_env" where
  "calm_wm = \<lparr>we_Decode = (\<lambda>_. Inr good_body), we_Now = State_Monad.return 1000, we_Parse = (\<lambda>_. Inl (Plain ''cannot parse'')),
     we_City = (\<lambda>_. Inr (''US'', [''CA''])), we_database = ''watchman'', we_BeginTx = State_Monad.return None,
     we_Prepare = (\<lambda>_. State_Monad.return None), we_Exec = (\<lambda>_. State_Monad.return None), we_Commit = State_Monad.return None\<rparr>"

definition wm_start :: "unit wm_world" where
  "wm_start = \<lparr>wm_writer = NewBatchWriter 2000000000 16, wm_table = [], wm_ext = ()\<rparr>"

definition player_request :: http_request where
  "player_request = \<lparr>rq_Header = fmempty, rq_ip = [], rq_CurrentUser = None\<rparr>"

definition good_row :: playback_row where
  "good_row = \<lparr>row_URL = ''@a#1/b#2'', row_Duration = 30000, row_Timestamp = 1000, row_Position = 90000, row_RelPosition = 50,
     row_RebufCount = 44, row_RebufDuration = 1500, row_Protocol = ''hls'', row_Cache = ''miss'', row_Player = ''sg-p2'',
     row_UserID = ''432521'', row_Bandwidth = - 1, row_Bitrate = 0, row_Device = ''web'', row_Area = ''us'', row_SubArea = [],
     row_IP = ''1.2.3.4''\<rparr>"

definition wm_reported :: "unit wm_world" where
  "wm_reported = wm_start\<lparr>wm_writer := (wm_writer wm_start)\<lparr>bw_rcvChan := [good_row]\<rparr>\<rparr>"

lemma good_report: "run_state (add_handler calm_wm player_request ''1.2.3.4:80'' ''{}'') wm_start = (StatusCreated, wm_reported)"
proof -
  have valid: "ValidateAddRequestBody good_body = []" by code_simp
  have addr: "from_request player_request ''1.2.3.4:80'' = ''1.2.3.4''" by code_simp
  have area: "ToLower ''US'' = ''us''" "ToLower [] = []" by code_simp+
  have env: "we_Decode calm_wm ''{}'' = Inr good_body" "we_Now calm_wm = State_Monad.return 1000" "getArea calm_wm a = (''us'', [])" for a
    by (simp_all add: calm_wm_def getArea_def area)
  obtain p where p: "NewAddPlaybackReport good_body = Ok p" "\<not> sint (rp_RebufDuration p) > sint (rp_Duration p)" "report_row calm_wm p ''1.2.3.4'' 1000 = good_row"
    by (simp add: NewAddPlaybackReport_def good_body_def report_row_def env good_row_def)
  have room: "\<not> full_chan (wm_writer wm_start)" "\<not> bw_closed (wm_writer wm_start)" "chan_of wm_start = []"
    by (simp_all add: wm_start_def NewBatchWriter_def full_chan_def)
  show ?thesis
    by (simp add: add_handler_def DecodeAddRequest_def env valid p reporter_Add_def addr bw_Write_def prepareArgs_def room wm_reported_def)
qed

lemma wm_reported_run: "wm_run calm_wm [good_row] wm_reported"
proof -
  have "wm_run calm_wm [] wm_start" by (rule wm_run.start [where i = 2000000000 and n = 16]) (simp_all add: wm_start_def)
  from wm_run.report [OF this good_report] show ?thesis by (simp add: wm_reported_def wm_start_def NewBatchWriter_def)
qed


theorem reports_written_witness:
  "wm_table (snd (run_state (Start_loop calm_wm [Received, Ticked]) wm_reported)) = [good_row]"
proof -
  have calm: "no_wm_faults calm_wm" by (simp add: no_wm_faults_def calm_wm_def)
  have one: "replicate (length (chan_of wm_reported)) Received @ [Ticked] = [Received, Ticked]"
    by (simp add: wm_reported_def)
  from reports_written [OF wm_reported_run calm surjective_pairing] show ?thesis by (simp only: one)
qed

theorem report_stored_in_bounds_witness:
  "\<exists>row. row_says good_body ''1.2.3.4'' row \<and> chan_of wm_reported = [row]"
proof -
  have "from_request player_request ''1.2.3.4:80'' = ''1.2.3.4''" by code_simp
  with report_stored_in_bounds [OF good_report] show ?thesis by (auto simp: wm_reported_def wm_start_def NewBatchWriter_def calm_wm_def)
qed

section \<open>Observations\<close>

text \<open>The count of rebufferings has no upper bound in the validation and is stored in a byte.\<close>

lemma rebuffer_count_wraps: "uint (ucast (256 :: int32) :: 8 word) = 0"
  by (simp add: uint_byte)

text \<open>A single row that the database refuses takes its whole batch along: no row of it is written, and
  none is kept for the next time.\<close>

lemma exec_rows_refused:
  assumes "row \<in> set rows" "\<And>x. fst (run_state (we_Exec W row) x) \<noteq> None"
  shows "fst (run_state (exec_rows W rows) s) \<noteq> None"
  using assms(1)
proof (induction rows arbitrary: s)
  case (Cons a rows)
  obtain e x where "run_state (we_Exec W a) (wm_ext s) = (e, x)" by fastforce
  with Cons assms(2) [of "wm_ext s"] show ?case by (cases e) auto
qed simp

lemma refused_row_loses_batch:
  assumes "row \<in> set (bw_batch (wm_writer s))" "\<And>x. fst (run_state (we_Exec W row) x) \<noteq> None"
    and "run_state (writeBatch W) s = (e, t)"
  shows "e \<noteq> None \<and> wm_table t = wm_table s \<and> bw_batch (wm_writer t) = []"
proof -
  have "\<exists>w w'. run_state (exec_rows W (bw_batch (wm_writer s))) w = (None, w')" if "e = None"
    using assms(3) that by (auto simp: writeBatch_def batch_tx_def split: prod.splits option.splits)
  then have "e \<noteq> None" using exec_rows_refused [OF assms(1,2)] by (metis fst_conv)
  with writeBatch_run [OF assms(3)] show ?thesis by simp
qed

text \<open>The header that may hold a list of addresses is stored as it is, as the address of the client.\<close>

lemma forwarded_header_stored: "Header_Get r ''X-Forwarded-For'' \<noteq> [] \<Longrightarrow> from_request r remoteAddr = Header_Get r ''X-Forwarded-For''"
  by (simp add: from_request_def)

text \<open>\<open>Stop\<close> closes the channel, but nothing ever sets \<open>stop\<close>: the goroutine does not leave its loop, the
  code after it that writes the rest is not reached, and nobody is told that it has ended.\<close>

lemma stop_never_ends:
  assumes "wm_run W acc s" "run_state (Start_loop W cs) s = (u, t)"
  shows "\<not> bw_stop (wm_writer t) \<and> bw_stopChan (wm_writer t) = []"
  using run_kept [OF run_loop [OF assms]] by (auto simp: kept_def)

text \<open>Without newlines the player's name is what comes before the first comma.\<close>

lemma trim_player_comma: "CHR 0x0A \<notin> set s \<Longrightarrow> trim_player s = takeWhile (\<lambda>c. c \<noteq> CHR '','') s"
  by (induction s) auto

end
