(* ===== verification/Redislocker.thy ===== *)
theory Redislocker
  imports Errors
begin

text \<open>
  \<open>pkg/redislocker\<close>: the lock that the handlers of resumable uploads take on an upload. The lock is
  a mutex of \<open>redsync\<close>, a key in Redis that expires after 100 seconds; within one process the
  locker also remembers whom to ask for a release.
\<close>

section \<open>The locker\<close>

text \<open>
  The mutexes of \<open>redsync\<close>, by number. \<open>rs_owner\<close> is what Redis knows of a key: the mutex that has it
  and when it expires; \<open>rs_now\<close> is the time there. The contract is that of its documentation:
  a mutex gets a key only when nobody has it or it has expired, for the time it asked for,
  and gives back only what is its own; attempts that fail change nothing; time goes on. The
  two errors are those of \<open>tusd\<close>.
\<close>

record 'w redsync =
  rs_LockContext :: "nat \<Rightarrow> string \<Rightarrow> int \<Rightarrow> ('w, go_error option) state"
  rs_Unlock :: "nat \<Rightarrow> string \<Rightarrow> ('w, bool \<times> go_error option) state"
  rs_ctxDone :: "('w, bool) state"
  rs_owner :: "'w \<Rightarrow> string \<Rightarrow> (nat \<times> int) option"
  rs_now :: "'w \<Rightarrow> int"
  rs_ErrLockTimeout :: go_error
  rs_ErrFileLocked :: go_error

definition taken :: "'w redsync \<Rightarrow> 'w \<Rightarrow> string \<Rightarrow> nat \<Rightarrow> int \<Rightarrow> bool" where
  "taken R w n m t \<longleftrightarrow> (\<exists>u. rs_owner R w n = Some (m, u) \<and> t < u)"

definition lock_contract :: "'w redsync \<Rightarrow> bool" where
  "lock_contract R \<longleftrightarrow> (\<forall>m n d w e w'. run_state (rs_LockContext R m n d) w = (e, w') \<longrightarrow> rs_now R w \<le> rs_now R w' \<and>
     (\<forall>k. k \<noteq> n \<longrightarrow> rs_owner R w' k = rs_owner R w k) \<and>
     (if e = None then (\<exists>t u. rs_now R w \<le> t \<and> t \<le> rs_now R w' \<and> (\<forall>m'. \<not> taken R w n m' t) \<and> rs_owner R w' n = Some (m, u) \<and> t + d \<le> u)
      else rs_owner R w' n = rs_owner R w n))"

definition unlock_contract :: "'w redsync \<Rightarrow> bool" where
  "unlock_contract R \<longleftrightarrow> (\<forall>m n w x w'. run_state (rs_Unlock R m n) w = (x, w') \<longrightarrow> rs_now R w \<le> rs_now R w' \<and>
     (\<forall>k. (k \<noteq> n \<or> map_option fst (rs_owner R w k) \<noteq> Some m) \<longrightarrow> rs_owner R w' k = rs_owner R w k))"

definition ctx_contract :: "'w redsync \<Rightarrow> bool" where
  "ctx_contract R \<longleftrightarrow> (\<forall>w x w'. run_state (rs_ctxDone R) w = (x, w') \<longrightarrow> rs_now R w \<le> rs_now R w' \<and> rs_owner R w' = rs_owner R w)"

definition redsync_contract :: "'w redsync \<Rightarrow> bool" where
  "redsync_contract R \<longleftrightarrow> lock_contract R \<and> unlock_contract R \<and> ctx_contract R"

definition lockTimeout :: int where "lockTimeout = 100 * 1000000000"

text \<open>A callback is a number; \<open>lk_asked\<close> has those that were called.\<close>

record 'w locker =
  lk_holders :: "(string, nat) fmap"
  lk_asked :: "nat list"
  lk_ext :: 'w

type_synonym ('w, 'a) lk_io = "('w locker, 'a) state"

definition lk_call :: "('w, 'a) state \<Rightarrow> ('w, 'a) lk_io" where
  "lk_call m = State (\<lambda>s. case run_state m (lk_ext s) of (a, x) \<Rightarrow> (a, s\<lparr>lk_ext := x\<rparr>))"

definition lk_update :: "('w locker \<Rightarrow> 'w locker) \<Rightarrow> ('w, unit) lk_io" where
  "lk_update f = State (\<lambda>s. ((), f s))"

lemma run_lk [simp]:
  "run_state (lk_call m) s = (case run_state m (lk_ext s) of (a, x) \<Rightarrow> (a, s\<lparr>lk_ext := x\<rparr>))"
  "run_state (lk_update f) s = ((), f s)"
  by (simp_all add: lk_call_def lk_update_def)

record mutex_lock =
  lo_name :: string
  lo_mutex :: nat

definition NewLock :: "string \<Rightarrow> nat \<Rightarrow> mutex_lock" where
  "NewLock name m = \<lparr>lo_name = name, lo_mutex = m\<rparr>"

definition ask_release :: "string \<Rightarrow> 'w locker \<Rightarrow> 'w locker" where
  "ask_release n s = (case fmlookup (lk_holders s) n of Some existing \<Rightarrow> s\<lparr>lk_asked := lk_asked s @ [existing]\<rparr> | None \<Rightarrow> s)"

definition lock_Lock :: "'w redsync \<Rightarrow> mutex_lock \<Rightarrow> nat \<Rightarrow> ('w, go_error option) lk_io" where
  "lock_Lock R l requestRelease = do {
     lk_update (ask_release (lo_name l));
     e \<leftarrow> lk_call (rs_LockContext R (lo_mutex l) (lo_name l) lockTimeout);
     (case e of
        Some err \<Rightarrow> do {
          d \<leftarrow> lk_call (rs_ctxDone R);
          State_Monad.return (Some (Suffixed (if d then rs_ErrLockTimeout R else rs_ErrFileLocked R) (''file '' @ lo_name l @ '': '' @ error_msg err)))
        }
      | None \<Rightarrow> do {
          lk_update (\<lambda>s. s\<lparr>lk_holders := fmupd (lo_name l) requestRelease (lk_holders s)\<rparr>);
          State_Monad.return None
        })
   }"

definition lock_Unlock :: "'w redsync \<Rightarrow> mutex_lock \<Rightarrow> ('w, go_error option) lk_io" where
  "lock_Unlock R l = do {
     lk_update (\<lambda>s. s\<lparr>lk_holders := fmdrop (lo_name l) (lk_holders s)\<rparr>);
     (ok, err) \<leftarrow> lk_call (rs_Unlock R (lo_mutex l) (lo_name l));
     State_Monad.return (case err of
       Some x \<Rightarrow> Some (Wrapped (''cannot unlock file '' @ lo_name l) x)
     | None \<Rightarrow> if ok then None else Some (Plain (''cannot unlock file '' @ lo_name l @ '': %!w(<nil>)'')))
   }"

section \<open>Runs\<close>

text \<open>A lock that was obtained and not yet given back: its mutex and name, and the times when \<open>Lock\<close> was
  called and when it returned.\<close>

record held_lock =
  hl_mutex :: nat
  hl_name :: string
  hl_called :: int
  hl_returned :: int

text \<open>Requests of one process take and give back locks in any order; in between time goes on and other
  processes do as they like with keys that are not theirs to keep.\<close>

definition others_step :: "'w redsync \<Rightarrow> held_lock list \<Rightarrow> 'w \<Rightarrow> 'w \<Rightarrow> bool" where
  "others_step R held w w' \<longleftrightarrow> rs_now R w \<le> rs_now R w' \<and>
     (\<forall>h \<in> set held. \<forall>u. rs_owner R w (hl_name h) = Some (hl_mutex h, u) \<and> rs_now R w' < u \<longrightarrow> rs_owner R w' (hl_name h) = Some (hl_mutex h, u))"

inductive lk_run :: "'w redsync \<Rightarrow> held_lock list \<Rightarrow> 'w locker \<Rightarrow> bool" for R where
  start: "lk_holders s = fmempty \<Longrightarrow> lk_run R [] s"
| locked: "lk_run R held s \<Longrightarrow> m \<notin> hl_mutex ` set held \<Longrightarrow> run_state (lock_Lock R (NewLock n m) cb) s = (None, t) \<Longrightarrow>
    lk_run R (\<lparr>hl_mutex = m, hl_name = n, hl_called = rs_now R (lk_ext s), hl_returned = rs_now R (lk_ext t)\<rparr> # held) t"
| refused: "lk_run R held s \<Longrightarrow> run_state (lock_Lock R l cb) s = (Some e, t) \<Longrightarrow> lk_run R held t"
| unlocked: "lk_run R held s \<Longrightarrow> h \<in> set held \<Longrightarrow> run_state (lock_Unlock R (NewLock (hl_name h) (hl_mutex h))) s = (e, t) \<Longrightarrow>
    lk_run R (filter (\<lambda>g. hl_mutex g \<noteq> hl_mutex h) held) t"
| others: "lk_run R held s \<Longrightarrow> others_step R held (lk_ext s) w \<Longrightarrow> lk_run R held (s\<lparr>lk_ext := w\<rparr>)"

text \<open>A lock has its key in Redis for as long as it was asked for.\<close>

definition keeps_key :: "'w redsync \<Rightarrow> 'w \<Rightarrow> held_lock \<Rightarrow> bool" where
  "keeps_key R w h \<longleftrightarrow> hl_returned h \<le> rs_now R w \<and>
     (rs_now R w < hl_called h + lockTimeout \<longrightarrow> (\<exists>u. rs_owner R w (hl_name h) = Some (hl_mutex h, u) \<and> hl_called h + lockTimeout \<le> u))"

fun in_turn :: "held_lock list \<Rightarrow> bool" where
  "in_turn [] = True"
| "in_turn (h # hs) = ((\<forall>g \<in> set hs. hl_mutex g \<noteq> hl_mutex h \<and> (hl_name g = hl_name h \<longrightarrow> hl_called g + lockTimeout \<le> hl_returned h)) \<and> in_turn hs)"

definition lk_inv :: "'w redsync \<Rightarrow> held_lock list \<Rightarrow> 'w locker \<Rightarrow> bool" where
  "lk_inv R held s \<longleftrightarrow> (\<forall>h \<in> set held. keeps_key R (lk_ext s) h) \<and> in_turn held"

lemma in_turn_filter: "in_turn hs \<Longrightarrow> in_turn (filter P hs)"
  by (induction hs) auto

lemma in_turnD:
  "in_turn hs \<Longrightarrow> g \<in> set hs \<Longrightarrow> h \<in> set hs \<Longrightarrow> hl_name g = hl_name h \<Longrightarrow> hl_mutex g \<noteq> hl_mutex h \<Longrightarrow>
   hl_called g + lockTimeout \<le> hl_returned h \<or> hl_called h + lockTimeout \<le> hl_returned g"
  by (induction hs) auto

lemma lock_run:
  assumes "run_state (lock_Lock R l cb) s = (e, t)"
  obtains x w where "run_state (rs_LockContext R (lo_mutex l) (lo_name l) lockTimeout) (lk_ext s) = (x, w)" "x = None \<longleftrightarrow> e = None"
    "if x = None then lk_ext t = w else \<exists>d. run_state (rs_ctxDone R) w = (d, lk_ext t)"
proof -
  have same: "lk_ext (ask_release n s) = lk_ext s" for n by (simp add: ask_release_def split: option.splits)
  obtain x w where x: "run_state (rs_LockContext R (lo_mutex l) (lo_name l) lockTimeout) (lk_ext s) = (x, w)" by fastforce
  with assms same show ?thesis by (intro that [OF x]) (auto simp: lock_Lock_def split: option.splits prod.splits)
qed

lemma unlock_run:
  assumes "run_state (lock_Unlock R l) s = (e, t)"
  obtains x where "run_state (rs_Unlock R (lo_mutex l) (lo_name l)) (lk_ext s) = (x, lk_ext t)"
  using assms that by (auto simp: lock_Unlock_def split: prod.splits)

lemma keeps_key_same:
  "keeps_key R w h \<Longrightarrow> rs_now R w \<le> rs_now R w' \<Longrightarrow> rs_owner R w' (hl_name h) = rs_owner R w (hl_name h) \<Longrightarrow> keeps_key R w' h"
  by (auto simp: keeps_key_def)

lemma locked_inv:
  assumes "redsync_contract R" "lk_inv R held s" "m \<notin> hl_mutex ` set held" "run_state (lock_Lock R (NewLock n m) cb) s = (None, t)"
  shows "lk_inv R (\<lparr>hl_mutex = m, hl_name = n, hl_called = rs_now R (lk_ext s), hl_returned = rs_now R (lk_ext t)\<rparr> # held) t"
proof -
  let ?w = "lk_ext s" and ?w' = "lk_ext t"
  have lock: "run_state (rs_LockContext R m n lockTimeout) ?w = (None, ?w')"
    using lock_run [OF assms(4)] by (auto simp: NewLock_def)
  with assms(1) have now: "rs_now R ?w \<le> rs_now R ?w'" and other: "\<And>k. k \<noteq> n \<Longrightarrow> rs_owner R ?w' k = rs_owner R ?w k"
    unfolding redsync_contract_def lock_contract_def by blast+
  from assms(1) lock obtain x u where x: "rs_now R ?w \<le> x" "x \<le> rs_now R ?w'" "\<And>m'. \<not> taken R ?w n m' x" "rs_owner R ?w' n = Some (m, u)" "x + lockTimeout \<le> u"
    unfolding redsync_contract_def lock_contract_def by (metis (full_types))
  have waited: "hl_called h + lockTimeout \<le> rs_now R ?w'" if h: "h \<in> set held" "hl_name h = n" for h
  proof (rule ccontr)
    assume "\<not> hl_called h + lockTimeout \<le> rs_now R ?w'"
    then have "rs_now R ?w < hl_called h + lockTimeout" "x < hl_called h + lockTimeout" using now x(2) by auto
    then have "taken R ?w n (hl_mutex h) x" using assms(2) h by (fastforce simp: lk_inv_def keeps_key_def taken_def)
    with x(3) show False by blast
  qed
  have "keeps_key R ?w' h" if h: "h \<in> set held" for h
    using keeps_key_same [OF _ now other] waited [OF h] assms(2) h now by (cases "hl_name h = n") (auto simp: lk_inv_def keeps_key_def)
  moreover have "keeps_key R ?w' \<lparr>hl_mutex = m, hl_name = n, hl_called = rs_now R ?w, hl_returned = rs_now R ?w'\<rparr>"
    using x(1,4,5) by (auto simp: keeps_key_def)
  ultimately show ?thesis using assms(2,3) waited by (auto simp: lk_inv_def)
qed

lemma refused_inv:
  assumes "redsync_contract R" "lk_inv R held s" "run_state (lock_Lock R l cb) s = (Some e, t)"
  shows "lk_inv R held t"
proof -
  obtain x w d where x: "run_state (rs_LockContext R (lo_mutex l) (lo_name l) lockTimeout) (lk_ext s) = (Some x, w)" "run_state (rs_ctxDone R) w = (d, lk_ext t)"
    using lock_run [OF assms(3)] by (metis not_Some_eq)
  have "rs_now R (lk_ext s) \<le> rs_now R w" "rs_owner R w k = rs_owner R (lk_ext s) k" for k
    using assms(1) x(1) unfolding redsync_contract_def lock_contract_def by (metis option.distinct(1))+
  moreover have "rs_now R w \<le> rs_now R (lk_ext t)" "rs_owner R (lk_ext t) = rs_owner R w"
    using assms(1) x(2) unfolding redsync_contract_def ctx_contract_def by blast+
  ultimately show ?thesis using assms(2) unfolding lk_inv_def by (auto intro: keeps_key_same order_trans)
qed

lemma unlocked_inv:
  assumes "redsync_contract R" "lk_inv R held s" "run_state (lock_Unlock R (NewLock (hl_name h) (hl_mutex h))) s = (e, t)"
  shows "lk_inv R (filter (\<lambda>g. hl_mutex g \<noteq> hl_mutex h) held) t"
proof -
  obtain x where x: "run_state (rs_Unlock R (hl_mutex h) (hl_name h)) (lk_ext s) = (x, lk_ext t)"
    using unlock_run [OF assms(3)] by (auto simp: NewLock_def)
  have now: "rs_now R (lk_ext s) \<le> rs_now R (lk_ext t)"
    and own: "\<And>k. k \<noteq> hl_name h \<or> map_option fst (rs_owner R (lk_ext s) k) \<noteq> Some (hl_mutex h) \<Longrightarrow> rs_owner R (lk_ext t) k = rs_owner R (lk_ext s) k"
    using assms(1) x unfolding redsync_contract_def unlock_contract_def by blast+
  have "keeps_key R (lk_ext t) g" if "g \<in> set held" "hl_mutex g \<noteq> hl_mutex h" for g
    using assms(2) that now own [of "hl_name g"] unfolding lk_inv_def keeps_key_def by fastforce
  then show ?thesis using assms(2) by (auto simp: lk_inv_def in_turn_filter)
qed

lemma run_inv:
  assumes "redsync_contract R"
  shows "lk_run R held s \<Longrightarrow> lk_inv R held s"
proof (induction rule: lk_run.induct)
  case (start s)
  show ?case by (simp add: lk_inv_def)
next
  case (others held s w)
  then show ?case unfolding lk_inv_def others_step_def keeps_key_def by fastforce
qed (blast intro: locked_inv [OF assms] refused_inv [OF assms] unlocked_inv [OF assms])+

section \<open>Properties\<close>

text \<open>C38: an upload is locked by one request at a time. If \<open>redsync\<close> keeps its contract, then in every
  run, whatever other processes do, of two locks on the same name that were obtained and not
  given back at least one was asked for 100 seconds ago or earlier.\<close>

theorem lock_exclusive:
  assumes "redsync_contract R" and "lk_run R held s"
    and "g \<in> set held" and "h \<in> set held" and "hl_name g = hl_name h"
    and "rs_now R (lk_ext s) < hl_called g + lockTimeout" and "rs_now R (lk_ext s) < hl_called h + lockTimeout"
  shows "hl_mutex g = hl_mutex h"
proof (rule ccontr)
  assume "hl_mutex g \<noteq> hl_mutex h"
  moreover have inv: "lk_inv R held s" using run_inv [OF assms(1,2)] .
  ultimately have "hl_called g + lockTimeout \<le> hl_returned h \<or> hl_called h + lockTimeout \<le> hl_returned g"
    using in_turnD [OF _ assms(3,4,5)] by (simp add: lk_inv_def)
  moreover have "hl_returned g \<le> rs_now R (lk_ext s)" "hl_returned h \<le> rs_now R (lk_ext s)"
    using inv assms(3,4) by (auto simp: lk_inv_def keeps_key_def)
  ultimately show False using assms(6,7) by linarith
qed

text \<open>A Redis server with a clock that moves one second at every attempt.\<close>

definition one_redis :: "((string, nat \<times> int) fmap \<times> int) redsync" where
  "one_redis = \<lparr>
     rs_LockContext = (\<lambda>m n d. State (\<lambda>(keys, now). case fmlookup keys n of
       Some (m', u) \<Rightarrow> if now < u then (Some (Plain ''lock already taken''), (keys, now + 1000000000)) else (None, (fmupd n (m, now + d) keys, now))
     | None \<Rightarrow> (None, (fmupd n (m, now + d) keys, now)))),
     rs_Unlock = (\<lambda>m n. State (\<lambda>(keys, now). if map_option fst (fmlookup keys n) = Some m then ((True, None), (fmdrop n keys, now))
       else ((False, None), (keys, now)))),
     rs_ctxDone = State_Monad.return False, rs_owner = (\<lambda>(keys, _). fmlookup keys), rs_now = snd,
     rs_ErrLockTimeout = Plain ''lock timeout'', rs_ErrFileLocked = Plain ''file locked''\<rparr>"

lemma one_redis_contract: "redsync_contract one_redis"
proof -
  have "lock_contract one_redis"
    unfolding lock_contract_def
    by (auto simp: one_redis_def taken_def split: option.splits if_splits intro!: exI)
  moreover have "unlock_contract one_redis" by (auto simp: unlock_contract_def one_redis_def split: if_splits)
  moreover have "ctx_contract one_redis" by (auto simp: ctx_contract_def one_redis_def)
  ultimately show ?thesis by (simp add: redsync_contract_def)
qed

definition cat_lock :: held_lock where "cat_lock = \<lparr>hl_mutex = 1, hl_name = ''x'', hl_called = 0, hl_returned = 0\<rparr>"

definition cat_locker :: "((string, nat \<times> int) fmap \<times> int) locker" where
  "cat_locker = \<lparr>lk_holders = fmupd ''x'' 5 fmempty, lk_asked = [], lk_ext = (fmupd ''x'' (1, lockTimeout) fmempty, 0)\<rparr>"

theorem lock_exclusive_witness:
  "lk_run one_redis [cat_lock] cat_locker \<and> (\<exists>g h. {g, h} = set [cat_lock] \<and> hl_mutex g = hl_mutex h) \<and>
   fst (run_state (lock_Lock one_redis (NewLock ''x'' 2) 6) cat_locker) \<noteq> None"
proof -
  let ?s = "\<lparr>lk_holders = fmempty, lk_asked = [], lk_ext = (fmempty, 0)\<rparr> :: ((string, nat \<times> int) fmap \<times> int) locker"
  have "lk_run one_redis [] ?s" by (rule lk_run.start) simp
  moreover have "run_state (lock_Lock one_redis (NewLock ''x'' 1) 5) ?s = (None, cat_locker)"
    by (simp add: lock_Lock_def NewLock_def one_redis_def ask_release_def cat_locker_def)
  ultimately have run: "lk_run one_redis [cat_lock] cat_locker"
    using lk_run.locked [of one_redis "[]" ?s 1 "''x''" 5 cat_locker] by (simp add: one_redis_def cat_lock_def cat_locker_def)
  have live: "rs_now one_redis (lk_ext cat_locker) < hl_called cat_lock + lockTimeout"
    by (simp add: one_redis_def cat_locker_def cat_lock_def lockTimeout_def)
  have "\<exists>g h. {g, h} = set [cat_lock] \<and> hl_mutex g = hl_mutex h"
    using lock_exclusive [OF one_redis_contract run _ _ refl live live] by (intro exI [of _ cat_lock]) auto
  moreover have "fst (run_state (lock_Lock one_redis (NewLock ''x'' 2) 6) cat_locker) \<noteq> None"
    by (simp add: lock_Lock_def NewLock_def one_redis_def ask_release_def cat_locker_def lockTimeout_def)
  ultimately show ?thesis using run by blast
qed

section \<open>Observations\<close>

text \<open>Whoever tries to lock asks the holder in the same process first, whether or not the lock is
  obtained.\<close>

lemma holder_asked:
  assumes "fmlookup (lk_holders s) (lo_name l) = Some cb'" "run_state (lock_Lock R l cb) s = (e, t)"
  shows "lk_asked t = lk_asked s @ [cb']" "fmlookup (lk_holders t) (lo_name l) = Some (if e = None then cb else cb')"
  using assms by (auto simp: lock_Lock_def ask_release_def split: prod.splits option.splits)

text \<open>A request that gives its lock back after it has expired forgets the holder of whoever has the lock
  by then, and returns an error.\<close>

lemma late_unlock_forgets_holder:
  assumes "run_state (lock_Unlock R l) s = (e, t)"
  shows "fmlookup (lk_holders t) (lo_name l) = None"
  using assms by (auto simp: lock_Unlock_def split: prod.splits)

end
