(* ===== verification/Responses.thy ===== *)
theory Responses
  imports Errors
begin

text \<open>
  Writing HTTP responses: \<open>internal/responses\<close>, the recorder and \<open>ErrorLoggingMiddleware\<close> of
  \<open>internal/monitor/middleware.go\<close> and the default headers of \<open>server/server.go\<close>. What a handler
  does to the \<open>http.ResponseWriter\<close> it is given is the list of its calls, in order. The writer
  of \<open>net/http\<close> and the recorder give such a list its meaning, each in its own way; what the
  server adds on its own account (date, length, a sniffed content type) is left out.
\<close>

section \<open>Headers\<close>

definition upper_char :: "char \<Rightarrow> char" where
  "upper_char c = (let n = of_char c :: nat in if 97 \<le> n \<and> n \<le> 122 then char_of (n - 32) else c)"

definition token_char :: "char \<Rightarrow> bool" where
  "token_char c \<longleftrightarrow> (let n = of_char c :: nat in
     48 \<le> n \<and> n \<le> 57 \<or> 65 \<le> n \<and> n \<le> 90 \<or> 97 \<le> n \<and> n \<le> 122 \<or>
     n \<in> {33, 35, 36, 37, 38, 39, 42, 43, 45, 46, 94, 95, 96, 124, 126})"

fun canon_from :: "bool \<Rightarrow> string \<Rightarrow> string" where
  "canon_from up [] = []"
| "canon_from up (c # cs) = (if up then upper_char c else lower_char c) # canon_from (c = CHR ''-'') cs"

definition CanonicalHeaderKey :: "string \<Rightarrow> string" where
  "CanonicalHeaderKey k = (if list_all token_char k then canon_from True k else k)"

type_synonym header = "(string, string list) fmap"

definition Header_Add :: "string \<Rightarrow> string \<Rightarrow> header \<Rightarrow> header" where
  "Header_Add k v h = append_value (CanonicalHeaderKey k) v h"

definition Header_Set :: "string \<Rightarrow> string \<Rightarrow> header \<Rightarrow> header" where
  "Header_Set k v h = fmupd (CanonicalHeaderKey k) [v] h"

section \<open>Calls of a response writer\<close>

datatype write_op = W_Add string string | W_Set string string | W_WriteHeader int | W_Write bytes

primrec header_op :: "write_op \<Rightarrow> header \<Rightarrow> header" where
  "header_op (W_Add k v) h = Header_Add k v h"
| "header_op (W_Set k v) h = Header_Set k v h"
| "header_op (W_WriteHeader code) h = h"
| "header_op (W_Write buf) h = h"

text \<open>The outcome of a handler: its calls, and the panic it ended in if any.\<close>

type_synonym outcome = "write_op list \<times> panic_value option"

definition AddJSONContentType :: "write_op list" where
  "AddJSONContentType = [W_Add ''content-type'' ''application/json; charset=utf-8'']"

text \<open>\<open>json.MarshalIndent\<close> is the argument: it yields the bytes or an error.\<close>

definition WriteJSON :: "('d \<Rightarrow> go_error + bytes) \<Rightarrow> 'd \<Rightarrow> write_op list" where
  "WriteJSON MarshalIndent d = (case MarshalIndent d of
     Inl err \<Rightarrow> [W_Write (''error marshaling object: '' @ error_msg err)]
   | Inr rb \<Rightarrow> AddJSONContentType @ [W_Write rb])"

text \<open>\<open>JSONRPCSerialize\<close>: the deferred \<open>Recover\<close> sets a variable that is not a named result, so a
  panic of the encoder ends in the zero values, no bytes and no error.\<close>

definition JSONRPCSerialize :: "(rpc_response \<Rightarrow> bytes res) \<Rightarrow> rpc_response \<Rightarrow> bytes \<times> go_error option" where
  "JSONRPCSerialize MarshalIndent r = (case MarshalIndent r of
     Ok b \<Rightarrow> (b, None)
   | Err e \<Rightarrow> ([], Some e)
   | Panic m \<Rightarrow> ([], None))"

section \<open>The writer of net/http\<close>

record http_response =
  hs_handlerHeader :: header
  hs_wroteHeader :: bool
  hs_status :: int
  hs_informational :: "int list"
  hs_header :: header
  hs_contentLength :: int
  hs_written :: int
  hs_body :: bytes

definition fresh_response :: http_response where
  "fresh_response = \<lparr>hs_handlerHeader = fmempty, hs_wroteHeader = False, hs_status = 0, hs_informational = [],
     hs_header = fmempty, hs_contentLength = -1, hs_written = 0, hs_body = []\<rparr>"

definition declared_length :: "header \<Rightarrow> int" where
  "declared_length h = (case fmlookup h ''Content-Length'' of
     Some (v # _) \<Rightarrow> (case ParseInt 64 v of Some n \<Rightarrow> if 0 \<le> n then n else -1 | None \<Rightarrow> -1)
   | _ \<Rightarrow> -1)"

definition net_WriteHeader :: "int \<Rightarrow> http_response \<Rightarrow> http_response res" where
  "net_WriteHeader code w = (
     if hs_wroteHeader w then Ok w
     else if code < 100 \<or> 999 < code then Panic (''invalid WriteHeader code '' @ Itoa code)
     else if 100 \<le> code \<and> code \<le> 199 \<and> code \<noteq> 101
     then Ok (w\<lparr>hs_informational := hs_informational w @ [code]\<rparr>)
     else Ok (w\<lparr>hs_wroteHeader := True, hs_status := code, hs_header := hs_handlerHeader w,
       hs_contentLength := declared_length (hs_handlerHeader w)\<rparr>))"

definition bodyAllowedForStatus :: "int \<Rightarrow> bool" where
  "bodyAllowedForStatus status \<longleftrightarrow> \<not> (100 \<le> status \<and> status \<le> 199) \<and> status \<noteq> 204 \<and> status \<noteq> 304"

definition net_Write :: "bytes \<Rightarrow> http_response \<Rightarrow> http_response res" where
  "net_Write buf w = (case net_WriteHeader 200 w of
     Ok w' \<Rightarrow>
       if buf = [] \<or> \<not> bodyAllowedForStatus (hs_status w') then Ok w'
       else let w'' = w'\<lparr>hs_written := hs_written w' + int (length buf)\<rparr> in
         if hs_contentLength w'' \<noteq> -1 \<and> hs_contentLength w'' < hs_written w'' then Ok w''
         else Ok (w''\<lparr>hs_body := hs_body w'' @ buf\<rparr>)
   | x \<Rightarrow> x)"

primrec net_op :: "write_op \<Rightarrow> http_response \<Rightarrow> http_response res" where
  "net_op (W_Add k v) w = Ok (w\<lparr>hs_handlerHeader := Header_Add k v (hs_handlerHeader w)\<rparr>)"
| "net_op (W_Set k v) w = Ok (w\<lparr>hs_handlerHeader := Header_Set k v (hs_handlerHeader w)\<rparr>)"
| "net_op (W_WriteHeader code) w = net_WriteHeader code w"
| "net_op (W_Write buf) w = net_Write buf w"

fun net_ops :: "write_op list \<Rightarrow> http_response \<Rightarrow> http_response res" where
  "net_ops [] w = Ok w"
| "net_ops (x # xs) w = (case net_op x w of Ok w' \<Rightarrow> net_ops xs w' | y \<Rightarrow> y)"

text \<open>What the client receives once the handler has returned: the informational codes, the status,
  the headers and the body. A handler that wrote nothing has answered 200.\<close>

record http_answer =
  an_informational :: "int list"
  an_status :: int
  an_header :: header
  an_body :: bytes

definition net_answer :: "write_op list \<Rightarrow> http_answer res" where
  "net_answer ops = (case net_ops (ops @ [W_Write []]) fresh_response of
     Ok w \<Rightarrow> Ok \<lparr>an_informational = hs_informational w, an_status = hs_status w,
       an_header = hs_header w, an_body = hs_body w\<rparr>
   | Err e \<Rightarrow> Err e
   | Panic m \<Rightarrow> Panic m)"

section \<open>The recorder\<close>

record responseRecorder =
  rr_StatusCode :: int
  rr_Body :: "bytes option"
  rr_headerMap :: header
  rr_wroteHeader :: bool

definition new_recorder :: responseRecorder where
  "new_recorder = \<lparr>rr_StatusCode = 0, rr_Body = None, rr_headerMap = fmempty, rr_wroteHeader = False\<rparr>"

definition rr_WriteHeader :: "int \<Rightarrow> responseRecorder \<Rightarrow> responseRecorder" where
  "rr_WriteHeader code rr = (if rr_wroteHeader rr then rr
     else rr\<lparr>rr_StatusCode := code, rr_wroteHeader := True\<rparr>)"

definition rr_Write :: "bytes \<Rightarrow> responseRecorder \<Rightarrow> responseRecorder" where
  "rr_Write buf rr = (
     let rr' = rr_WriteHeader 200 rr;
         b = (case rr_Body rr' of None \<Rightarrow> [] | Some x \<Rightarrow> x)
     in rr'\<lparr>rr_Body := Some (b @ buf)\<rparr>)"

primrec rr_op :: "write_op \<Rightarrow> responseRecorder \<Rightarrow> responseRecorder" where
  "rr_op (W_Add k v) rr = rr\<lparr>rr_headerMap := Header_Add k v (rr_headerMap rr)\<rparr>"
| "rr_op (W_Set k v) rr = rr\<lparr>rr_headerMap := Header_Set k v (rr_headerMap rr)\<rparr>"
| "rr_op (W_WriteHeader code) rr = rr_WriteHeader code rr"
| "rr_op (W_Write buf) rr = rr_Write buf rr"

definition recorded :: "write_op list \<Rightarrow> responseRecorder" where
  "recorded ops = fold rr_op ops new_recorder"

text \<open>Go visits the entries of a map in an order that is not specified; \<open>iter\<close> is the order of
  this visit.\<close>

type_synonym map_order = "header \<Rightarrow> (string \<times> string list) list"

definition send :: "map_order \<Rightarrow> responseRecorder \<Rightarrow> write_op list" where
  "send iter rr =
     map (\<lambda>(k, v). W_Add k v) (pairs_of (iter (rr_headerMap rr)))
     @ (if 0 < rr_StatusCode rr then [W_WriteHeader (rr_StatusCode rr)] else [])
     @ (case rr_Body rr of None \<Rightarrow> [] | Some b \<Rightarrow> [W_Write b])"

section \<open>ErrorLoggingMiddleware\<close>

text \<open>What the middleware needs of the rest: the order of map visits, \<open>json.Marshal\<close> of a response,
  whether this is a production server, and the stack trace of an error.\<close>

record monitor_env =
  mo_iter :: map_order
  mo_Marshal :: "rpc_response \<Rightarrow> bytes"
  mo_isProduction :: bool
  mo_Trace :: "go_error \<Rightarrow> string"

definition panic_response :: "monitor_env \<Rightarrow> go_error \<Rightarrow> rpc_response" where
  "panic_response M recoveredErr = (
     let stack = (if \<not> mo_isProduction M then mo_Trace M recoveredErr else []) in
     \<lparr>res_JSONRPC = ''2.0'', res_Result = JNull,
      res_Error = Some \<lparr>err_Code = -1, err_Message = error_msg recoveredErr, err_Data = JStr stack\<rparr>, res_ID = 0\<rparr>)"

text \<open>The handler's outcome becomes the calls on the real writer, and the error that is reported to
  Sentry if there is one.\<close>

definition ErrorLogging :: "monitor_env \<Rightarrow> outcome \<Rightarrow> write_op list \<times> go_error option" where
  "ErrorLogging M out = (case out of (ops, panic) \<Rightarrow>
     (case Recover panic None of
        None \<Rightarrow> (send (mo_iter M) (recorded ops), None)
      | Some recoveredErr \<Rightarrow>
          (AddJSONContentType @ [W_WriteHeader 500, W_Write (mo_Marshal M (panic_response M recoveredErr))],
           Some recoveredErr)))"

text \<open>\<open>defaultHeadersMiddleware\<close> sets its headers, in the order of a visit of the map, before the
  handler runs.\<close>

definition default_headers :: "(string \<times> string) list" where
  "default_headers = [(''Server'', ''api.odysee.com''), (''Access-Control-Allow-Origin'', ''*''),
     (''Access-Control-Allow-Headers'', ''content-type'')]"

definition defaultHeaders :: "(string \<times> string) list \<Rightarrow> outcome \<Rightarrow> outcome" where
  "defaultHeaders hs out = (map (\<lambda>(k, v). W_Set k v) hs @ fst out, snd out)"

section \<open>Lemmas\<close>

text \<open>The codes of letters, as numbers.\<close>

definition lower_letter :: "char \<Rightarrow> bool" where
  "lower_letter c \<longleftrightarrow> 97 \<le> (of_char c :: nat) \<and> (of_char c :: nat) \<le> 122"

definition upper_letter :: "char \<Rightarrow> bool" where
  "upper_letter c \<longleftrightarrow> 65 \<le> (of_char c :: nat) \<and> (of_char c :: nat) \<le> 90"

lemma upper_char_cases:
  "\<not> lower_letter c \<Longrightarrow> upper_char c = c" "lower_letter c \<Longrightarrow> upper_letter (upper_char c)"
  by (auto simp: upper_char_def lower_letter_def upper_letter_def Let_def)

lemma lower_char_cases:
  "\<not> upper_letter c \<Longrightarrow> lower_char c = c" "upper_letter c \<Longrightarrow> lower_letter (lower_char c)"
  by (auto simp: lower_char_def lower_letter_def upper_letter_def Let_def)

lemma letters:
  "upper_letter c \<Longrightarrow> \<not> lower_letter c" "upper_letter c \<Longrightarrow> token_char c" "lower_letter c \<Longrightarrow> token_char c"
  "\<not> upper_letter CHR ''-''" "\<not> lower_letter CHR ''-''"
  by (simp_all add: lower_letter_def upper_letter_def token_char_def Let_def)

lemma canon_char [simp]:
  "lower_char (lower_char c) = lower_char c" "upper_char (upper_char c) = upper_char c"
  by (metis lower_char_cases letters(1)) (metis upper_char_cases letters(1))

lemma token_letter: "token_char c \<Longrightarrow> token_char (lower_char c)" "token_char c \<Longrightarrow> token_char (upper_char c)"
  by (metis lower_char_cases letters(3)) (metis upper_char_cases letters(2))

lemma canon_dash [simp]: "lower_char c = CHR ''-'' \<longleftrightarrow> c = CHR ''-''" "upper_char c = CHR ''-'' \<longleftrightarrow> c = CHR ''-''"
  by (metis lower_char_cases letters(4,5)) (metis upper_char_cases letters(4,5))

lemma canon_from_idem: "canon_from b (canon_from b k) = canon_from b k"
  by (induction b k rule: canon_from.induct) auto

lemma token_canon_from: "list_all token_char k \<Longrightarrow> list_all token_char (canon_from b k)"
  by (induction b k rule: canon_from.induct) (auto intro: token_letter)

lemma Canonical_idem [simp]: "CanonicalHeaderKey (CanonicalHeaderKey k) = CanonicalHeaderKey k"
  by (simp add: CanonicalHeaderKey_def canon_from_idem token_canon_from)

text \<open>The maps that \<open>Add\<close> and \<open>Set\<close> build: keys are canonical and no key is without a value.\<close>

definition wf_header :: "header \<Rightarrow> bool" where
  "wf_header h \<longleftrightarrow> (\<forall>k vs. fmlookup h k = Some vs \<longrightarrow> CanonicalHeaderKey k = k \<and> vs \<noteq> [])"

lemma wf_header_op: "wf_header h \<Longrightarrow> wf_header (header_op x h)"
  by (cases x) (auto simp: wf_header_def Header_Add_def append_value_def Header_Set_def Let_def)

lemma wf_header_ops: "wf_header h \<Longrightarrow> wf_header (fold header_op xs h)"
  by (induction xs arbitrary: h) (auto intro: wf_header_op)

primrec is_header :: "write_op \<Rightarrow> bool" where
  "is_header (W_Add k v) = True"
| "is_header (W_Set k v) = True"
| "is_header (W_WriteHeader c) = False"
| "is_header (W_Write b) = False"

primrec sets_length :: "write_op \<Rightarrow> bool" where
  "sets_length (W_Add k v) = (CanonicalHeaderKey k = ''Content-Length'')"
| "sets_length (W_Set k v) = (CanonicalHeaderKey k = ''Content-Length'')"
| "sets_length (W_WriteHeader c) = False"
| "sets_length (W_Write b) = False"

primrec final_code :: "write_op \<Rightarrow> bool" where
  "final_code (W_Add k v) = True"
| "final_code (W_Set k v) = True"
| "final_code (W_WriteHeader c) = (200 \<le> c \<and> c \<le> 999)"
| "final_code (W_Write b) = True"

text \<open>A handler that is done with its headers before it starts to answer.\<close>

definition settled :: "write_op list \<Rightarrow> bool" where
  "settled ops \<longleftrightarrow> list_all (\<lambda>x. \<not> is_header x) (dropWhile is_header ops)"

lemma header_op_other: "\<not> is_header x \<Longrightarrow> header_op x h = h"
  by (cases x) auto

lemma no_length: "list_all (\<lambda>x. \<not> sets_length x) xs \<Longrightarrow> fmlookup h ''Content-Length'' = None \<Longrightarrow>
    fmlookup (fold header_op xs h) ''Content-Length'' = None"
proof (induction xs arbitrary: h)
  case (Cons x xs)
  from Cons.prems have "fmlookup (header_op x h) ''Content-Length'' = None"
    by (cases x) (auto simp: Header_Add_def append_value_def Header_Set_def Let_def)
  with Cons show ?case by simp
qed simp

lemma rr_headers: "list_all is_header xs \<Longrightarrow> fold rr_op xs rr = rr\<lparr>rr_headerMap := fold header_op xs (rr_headerMap rr)\<rparr>"
proof (induction xs arbitrary: rr)
  case (Cons x xs)
  then show ?case by (cases x) auto
qed simp

lemma net_headers: "list_all is_header xs \<Longrightarrow>
    net_ops (xs @ ys) w = net_ops ys (w\<lparr>hs_handlerHeader := fold header_op xs (hs_handlerHeader w)\<rparr>)"
proof (induction xs arbitrary: w)
  case (Cons x xs)
  then show ?case by (cases x) auto
qed simp

text \<open>The bytes and the status of the calls after the headers.\<close>

fun payload :: "write_op list \<Rightarrow> bytes" where
  "payload [] = []"
| "payload (W_Write b # xs) = b @ payload xs"
| "payload (_ # xs) = payload xs"

lemma net_body:
  assumes "hs_wroteHeader w" "hs_contentLength w = -1" "list_all (\<lambda>x. \<not> is_header x) xs"
  shows "net_ops xs w = Ok (if bodyAllowedForStatus (hs_status w)
    then w\<lparr>hs_written := hs_written w + int (length (payload xs)), hs_body := hs_body w @ payload xs\<rparr> else w)"
  using assms
proof (induction xs arbitrary: w)
  case (Cons x xs)
  then show ?case
    by (cases x) (auto simp: net_Write_def net_WriteHeader_def Let_def)
qed simp

lemma rr_body:
  assumes "rr_wroteHeader rr" "list_all (\<lambda>x. \<not> is_header x) xs"
  shows "\<exists>b. fold rr_op xs rr = rr\<lparr>rr_Body := b\<rparr> \<and>
    (case b of None \<Rightarrow> [] | Some x \<Rightarrow> x) = (case rr_Body rr of None \<Rightarrow> [] | Some x \<Rightarrow> x) @ payload xs"
  using assms
proof (induction xs arbitrary: rr)
  case Nil
  show ?case by (intro exI [of _ "rr_Body rr"]) simp
next
  case (Cons x xs)
  show ?case
  proof (cases x)
    case (W_WriteHeader c)
    with Cons show ?thesis by (simp add: rr_WriteHeader_def)
  next
    case (W_Write b)
    with Cons.prems have "rr_wroteHeader (rr_op x rr)" by (simp add: rr_Write_def rr_WriteHeader_def Let_def)
    from Cons.IH [OF this] Cons.prems W_Write show ?thesis
      by (auto simp: rr_Write_def rr_WriteHeader_def Let_def)
  qed (use Cons.prems in auto)
qed

lemma add_calls:
  assumes "\<And>k v. (k, v) \<in> set ps \<Longrightarrow> CanonicalHeaderKey k = k"
  shows "fold header_op (map (\<lambda>(k, v). W_Add k v) ps) h = fold (\<lambda>(k, v). append_value k v) ps h"
  using assms
proof (induction ps arbitrary: h)
  case (Cons x ps)
  obtain a b where x: "x = (a, b)" by fastforce
  from Cons.prems [of a b] x have "CanonicalHeaderKey a = a" by simp
  with Cons.IH [of "append_value a b h"] Cons.prems x show ?case by (auto simp: Header_Add_def)
qed simp

text \<open>Calls after the headers begin with an explicit or an implicit \<open>WriteHeader\<close>.\<close>

lemma first_call:
  assumes "list_all (\<lambda>x. \<not> is_header x) ws" "list_all final_code ws" "ws \<noteq> []"
  obtains c ws' where "200 \<le> c" "c \<le> 999" "list_all (\<lambda>x. \<not> is_header x) ws'"
    "\<And>zs w. net_ops (ws @ zs) w = net_ops (W_WriteHeader c # ws' @ zs) w"
    "\<And>rr. fold rr_op ws rr = fold rr_op ws' (rr_WriteHeader c rr)"
proof -
  from assms(3) obtain x xs where ws: "ws = x # xs" by (cases ws) auto
  show thesis
  proof (cases x)
    case (W_WriteHeader c)
    with assms ws show ?thesis by (intro that [of c xs]) auto
  next
    case (W_Write b)
    have "net_ops (ws @ zs) w = net_ops (W_WriteHeader 200 # ws @ zs) w" for zs w
      by (auto simp: ws W_Write net_Write_def net_WriteHeader_def Let_def)
    moreover have "fold rr_op ws rr = fold rr_op ws (rr_WriteHeader 200 rr)" for rr
      by (simp add: ws W_Write rr_Write_def rr_WriteHeader_def)
    ultimately show ?thesis using assms by (intro that [of 200 ws]) auto
  qed (use assms ws in auto)
qed

text \<open>What the client gets from such calls.\<close>

definition first_status :: "write_op list \<Rightarrow> int" where
  "first_status ops = (case dropWhile is_header ops of W_WriteHeader c # _ \<Rightarrow> c | _ \<Rightarrow> 200)"

lemma answered:
  assumes "settled ops" "list_all final_code ops" "list_all (\<lambda>x. \<not> sets_length x) ops"
  shows "net_answer ops = Ok \<lparr>an_informational = [], an_status = first_status ops,
    an_header = fold header_op (takeWhile is_header ops) fmempty,
    an_body = (if bodyAllowedForStatus (first_status ops) then payload (dropWhile is_header ops) else [])\<rparr>"
proof -
  define hs ws where "hs = takeWhile is_header ops" and "ws = dropWhile is_header ops @ [W_Write []]"
  have hs: "list_all is_header hs" by (auto simp: hs_def list_all_iff dest: set_takeWhileD)
  define h where "h = fold header_op hs fmempty"
  let ?w = "fresh_response\<lparr>hs_handlerHeader := h\<rparr>" and ?c = "first_status ops"
  have ops: "ops @ [W_Write []] = hs @ ws" by (simp add: hs_def ws_def)
  have ws: "list_all (\<lambda>x. \<not> is_header x) ws" "list_all final_code ws"
    using assms(1,2) by (auto simp: settled_def ws_def list_all_iff dest: set_dropWhileD)
  have h: "declared_length h = -1"
  proof -
    have "list_all (\<lambda>x. \<not> sets_length x) hs" using assms(3) by (auto simp: hs_def list_all_iff dest: set_takeWhileD)
    then show ?thesis by (simp add: no_length declared_length_def h_def)
  qed
  have pay: "payload (xs @ [W_Write []]) = payload xs" for xs by (induction xs rule: payload.induct) auto
  define w1 where "w1 = ?w\<lparr>hs_wroteHeader := True, hs_status := ?c, hs_header := h, hs_contentLength := -1\<rparr>"
  have code: "200 \<le> ?c" "?c \<le> 999"
    using ws(2) by (auto simp: first_status_def ws_def split: list.split write_op.split)
  have start: "net_WriteHeader ?c ?w = Ok w1"
    using code by (simp add: net_WriteHeader_def w1_def fresh_response_def h)
  have again: "net_WriteHeader c w1 = Ok w1" for c by (simp add: net_WriteHeader_def w1_def)
  obtain x xs where x: "ws = x # xs" by (cases ws) (auto simp: ws_def)
  have "\<not> is_header x" using ws(1) x by simp
  moreover have "?c = (case x of W_WriteHeader c \<Rightarrow> c | _ \<Rightarrow> 200)"
    using x unfolding ws_def first_status_def by (cases "dropWhile is_header ops") (auto simp del: dropWhile_eq_Nil_conv)
  ultimately have "net_op x ?w = net_op x w1" using start again by (cases x) (simp_all add: net_Write_def)
  then have "net_ops ws ?w = net_ops ws w1" by (simp add: x)
  also have "\<dots> = Ok (if bodyAllowedForStatus ?c
      then w1\<lparr>hs_written := int (length (payload ws)), hs_body := payload ws\<rparr> else w1)"
    by (subst net_body) (use ws in \<open>auto simp: w1_def fresh_response_def\<close>)
  finally show ?thesis
    unfolding net_answer_def ops net_headers [OF hs]
    by (auto simp: fresh_response_def h_def hs_def w1_def ws_def pay)
qed

section \<open>Visiting a map\<close>

text \<open>What Go promises of a visit of a map: every entry once.\<close>

locale map_iteration =
  fixes iter :: map_order
  assumes once: "distinct (map fst (iter m))"
    and entries: "fmap_of_list (iter m) = m"
begin

lemma rebuild:
  assumes "wf_header h"
  shows "fold header_op (map (\<lambda>(k, v). W_Add k v) (pairs_of (iter h))) fmempty = h"
proof -
  have look: "fmlookup h a = Some vs" if "(a, vs) \<in> set (iter h)" for a vs
    using that once [of h] entries [of h] by (metis fmlookup_of_list map_of_is_SomeI)
  have "fold header_op (map (\<lambda>(k, v). W_Add k v) (pairs_of (iter h))) fmempty =
      fold (\<lambda>(k, v). append_value k v) (pairs_of (iter h)) fmempty"
    by (rule add_calls) (use look assms in \<open>auto simp: pairs_of_def wf_header_def\<close>)
  also have "\<dots> = h" by (rule append_all [OF once entries]) (use assms in \<open>auto simp: wf_header_def\<close>)
  finally show ?thesis .
qed

lemma send_headers:
  assumes "wf_header (rr_headerMap rr)"
  shows "net_ops (send iter rr @ zs) fresh_response =
    net_ops ((if 0 < rr_StatusCode rr then [W_WriteHeader (rr_StatusCode rr)] else [])
      @ (case rr_Body rr of None \<Rightarrow> [] | Some b \<Rightarrow> [W_Write b]) @ zs)
     (fresh_response\<lparr>hs_handlerHeader := rr_headerMap rr\<rparr>)"
proof -
  have "list_all is_header (map (\<lambda>(k, v). W_Add k v) xs)" for xs
    by (auto simp: list_all_iff)
  from net_headers [OF this] rebuild [OF assms] show ?thesis
    by (simp add: send_def fresh_response_def)
qed

lemma transparent:
  assumes "settled ops" "list_all final_code ops" "list_all (\<lambda>x. \<not> sets_length x) ops"
  shows "net_answer (send iter (recorded ops)) = net_answer ops"
proof -
  define hs ws where "hs = takeWhile is_header ops" and "ws = dropWhile is_header ops"
  have ops: "ops = hs @ ws" by (simp add: hs_def ws_def)
  have hs: "list_all is_header hs" by (auto simp: hs_def list_all_iff dest: set_takeWhileD)
  have ws: "list_all (\<lambda>x. \<not> is_header x) ws" using assms(1) by (simp add: settled_def ws_def)
  define h where "h = fold header_op hs fmempty"
  have wf: "wf_header h" unfolding h_def by (rule wf_header_ops) (simp add: wf_header_def)
  have len: "declared_length h = -1"
    using no_length [of hs fmempty] assms(3) by (simp add: declared_length_def h_def ops)
  have rec: "recorded ops = fold rr_op ws (new_recorder\<lparr>rr_headerMap := h\<rparr>)"
    by (simp add: recorded_def ops rr_headers [OF hs] h_def new_recorder_def)
  let ?w = "fresh_response\<lparr>hs_handlerHeader := h\<rparr>"
  have direct: "net_ops (ops @ zs) fresh_response = net_ops (ws @ zs) ?w" for zs
    by (simp add: ops net_headers [OF hs] h_def fresh_response_def)
  have "net_ops (send iter (recorded ops) @ [W_Write []]) fresh_response = net_ops (ops @ [W_Write []]) fresh_response"
  proof (cases "ws = []")
    case True
    then show ?thesis using send_headers [of "recorded ops" "[W_Write []]"] wf
      by (simp add: direct rec new_recorder_def)
  next
    case False
    from assms(2) have "list_all final_code ws" by (simp add: ops)
    from first_call [OF ws this False] obtain c ws' where c: "200 \<le> c" "c \<le> 999"
      and ws': "list_all (\<lambda>x. \<not> is_header x) ws'"
      and net: "\<And>zs w. net_ops (ws @ zs) w = net_ops (W_WriteHeader c # ws' @ zs) w"
      and rr: "\<And>rr. fold rr_op ws rr = fold rr_op ws' (rr_WriteHeader c rr)" by metis
    let ?rr = "rr_WriteHeader c (new_recorder\<lparr>rr_headerMap := h\<rparr>)"
    from rr_body [of ?rr ws'] ws' obtain b where b: "recorded ops = ?rr\<lparr>rr_Body := b\<rparr>"
      and pay: "(case b of None \<Rightarrow> [] | Some x \<Rightarrow> x) = payload ws'"
      by (auto simp: rec rr rr_WriteHeader_def new_recorder_def)
    define w1 where "w1 = ?w\<lparr>hs_wroteHeader := True, hs_status := c, hs_header := h, hs_contentLength := -1\<rparr>"
    have start: "net_WriteHeader c ?w = Ok w1"
      using c by (simp add: net_WriteHeader_def w1_def fresh_response_def len)
    have pays: "payload (ws' @ [W_Write []]) = payload ws'"
      by (induction ws' rule: payload.induct) auto
    have "net_ops (ws' @ [W_Write []]) w1 =
        net_ops ((case b of None \<Rightarrow> [] | Some x \<Rightarrow> [W_Write x]) @ [W_Write []]) w1"
      using ws' pay by (subst (1 2) net_body) (auto simp: w1_def pays split: option.splits)
    then show ?thesis using send_headers [of "recorded ops" "[W_Write []]"] wf c
      by (simp add: direct net start b rr_WriteHeader_def new_recorder_def)
  qed
  then show ?thesis by (simp add: net_answer_def)
qed

end

interpretation key_order: map_iteration sorted_list_of_fmap
  by unfold_locales (simp_all add: sorted_entries)

section \<open>Properties\<close>

lemma panic_calls:
  "ErrorLogging M (ops, Some p) = (let e = the (Recover (Some p) None) in
     (AddJSONContentType @ [W_WriteHeader 500, W_Write (mo_Marshal M (panic_response M e))], Some e))"
  by (cases p) (simp_all add: ErrorLogging_def Recover_def Let_def)

lemma json_content_type: "CanonicalHeaderKey ''content-type'' = ''Content-Type''"
  by code_simp

text \<open>A panic of the handler never reaches the server: the client gets a 500 whose only header says that
  it is JSON and whose body is the error, whatever the handler had written before it panicked.\<close>

lemma panic_answer:
  fixes p :: panic_value
  defines "e \<equiv> the (Recover (Some p) None)"
  shows "net_answer (fst (ErrorLogging M (ops, Some p))) = Ok \<lparr>an_informational = [], an_status = 500,
    an_header = fmupd ''Content-Type'' [''application/json; charset=utf-8''] fmempty,
    an_body = mo_Marshal M (panic_response M e)\<rparr>"
  by (simp add: panic_calls e_def Let_def AddJSONContentType_def net_answer_def fresh_response_def Header_Add_def append_value_def
      json_content_type net_WriteHeader_def net_Write_def declared_length_def bodyAllowedForStatus_def)

text \<open>C9: recording a response and sending it later is invisible to the client. For a handler that returns,
  sets its headers before it starts to answer, declares no length of its own and uses proper final
  status codes, the client of the wrapped handler receives the same status, headers and body as that
  of the bare handler, in whatever order Go visits the header map; nothing is reported to Sentry.\<close>

theorem recorder_transparent:
  assumes "map_iteration (mo_iter M)" and "settled ops" and "list_all final_code ops"
    and "list_all (\<lambda>x. \<not> sets_length x) ops"
  shows "net_answer (fst (ErrorLogging M (ops, None))) = net_answer ops \<and> snd (ErrorLogging M (ops, None)) = None"
  using map_iteration.transparent [OF assms] by (simp add: ErrorLogging_def Recover_def)

definition sample_calls :: "write_op list" where
  "sample_calls = [W_Set ''server'' ''api.odysee.com'', W_Add ''vary'' ''a'', W_Add ''Vary'' ''b'', W_WriteHeader 404,
     W_Write ''not '', W_Write ''found'', W_WriteHeader 200]"

definition sample_monitor :: monitor_env where
  "sample_monitor = \<lparr>mo_iter = sorted_list_of_fmap, mo_Marshal = (\<lambda>r. case res_Error r of Some e \<Rightarrow> err_Message e | None \<Rightarrow> []),
     mo_isProduction = True, mo_Trace = (\<lambda>_. ''trace'')\<rparr>"

theorem recorder_transparent_witness:
  "net_answer (fst (ErrorLogging sample_monitor (sample_calls, None))) = Ok \<lparr>an_informational = [], an_status = 404,
     an_header = fmupd ''Vary'' [''a'', ''b''] (fmupd ''Server'' [''api.odysee.com''] fmempty), an_body = ''not found''\<rparr>"
proof -
  have canon: "CanonicalHeaderKey ''server'' = ''Server''" "CanonicalHeaderKey ''vary'' = ''Vary''" "CanonicalHeaderKey ''Vary'' = ''Vary''"
    by code_simp+
  have "settled sample_calls" "list_all final_code sample_calls" "list_all (\<lambda>x. \<not> sets_length x) sample_calls"
    by (simp_all add: sample_calls_def settled_def canon)
  with recorder_transparent [of sample_monitor sample_calls] key_order.map_iteration_axioms
  have "net_answer (fst (ErrorLogging sample_monitor (sample_calls, None))) = net_answer sample_calls"
    by (simp add: sample_monitor_def)
  also have "\<dots> = Ok \<lparr>an_informational = [], an_status = 404,
     an_header = fmupd ''Vary'' [''a'', ''b''] (fmupd ''Server'' [''api.odysee.com''] fmempty), an_body = ''not found''\<rparr>"
    by (simp add: sample_calls_def net_answer_def fresh_response_def Header_Add_def append_value_def Header_Set_def canon net_WriteHeader_def
        net_Write_def declared_length_def bodyAllowedForStatus_def)
  finally show ?thesis .
qed

section \<open>Observations\<close>

text \<open>The recorder keeps a header that is set after the answer has begun; \<open>net/http\<close> would drop it. And it
  keeps the first code it is given, so that an informational code is followed by 200, whatever the
  handler answered.\<close>

lemma late_header_kept:
  "map_option (\<lambda>a. fmlookup (an_header a) ''X'') (case net_answer [W_Write ''b'', W_Set ''X'' ''v''] of Ok a \<Rightarrow> Some a | _ \<Rightarrow> None)
     = Some None"
  "map_option (\<lambda>a. fmlookup (an_header a) ''X'')
     (case net_answer (send sorted_list_of_fmap (recorded [W_Write ''b'', W_Set ''X'' ''v''])) of Ok a \<Rightarrow> Some a | _ \<Rightarrow> None)
     = Some (Some [''v''])"
proof -
  have x: "CanonicalHeaderKey ''X'' = ''X''" by code_simp
  show "map_option (\<lambda>a. fmlookup (an_header a) ''X'') (case net_answer [W_Write ''b'', W_Set ''X'' ''v''] of Ok a \<Rightarrow> Some a | _ \<Rightarrow> None)
     = Some None"
    by (simp add: net_answer_def fresh_response_def Header_Set_def net_WriteHeader_def net_Write_def
        declared_length_def bodyAllowedForStatus_def)
  have "sorted_list_of_fmap (fmupd ''X'' [''v''] fmempty) = [(''X'', [''v''])]"
    by (simp add: sorted_list_of_fmap_def sorted_list_of_fset.rep_eq)
  then show "map_option (\<lambda>a. fmlookup (an_header a) ''X'')
     (case net_answer (send sorted_list_of_fmap (recorded [W_Write ''b'', W_Set ''X'' ''v''])) of Ok a \<Rightarrow> Some a | _ \<Rightarrow> None)
     = Some (Some [''v''])"
    by (simp add: send_def pairs_of_def recorded_def new_recorder_def rr_Write_def rr_WriteHeader_def net_answer_def fresh_response_def Header_Set_def
        Header_Add_def append_value_def net_WriteHeader_def net_Write_def declared_length_def bodyAllowedForStatus_def x)
qed

lemma informational_loses_status:
  "net_answer (send iter (recorded [W_WriteHeader 103, W_WriteHeader 404])) =
     net_answer (map (\<lambda>(k, v). W_Add k v) (pairs_of (iter fmempty)) @ [W_WriteHeader 103])"
  by (simp add: send_def recorded_def new_recorder_def rr_WriteHeader_def)

text \<open>A panic inside the encoder leaves a response of no bytes and no error.\<close>

lemma serialize_panic_silent: "MarshalIndent r = Panic m \<Longrightarrow> JSONRPCSerialize MarshalIndent r = ([], None)"
  by (simp add: JSONRPCSerialize_def)

end
