(* ===== verification/Status.thy ===== *)
theory Status
  imports Proxy Ip
begin

text \<open>
  \<open>internal/status\<close>: the status page, which asks an SDK to resolve a known stream and reports how
  that went, and \<open>whoami\<close>, which tells clients what the server knows of them. Time stamps are
  left out; the list of configured servers is a parameter.
\<close>

section \<open>The status page\<close>

definition statusOK :: string where "statusOK = ''ok''"
definition statusNotReady :: string where "statusNotReady = ''not_ready''"
definition statusOffline :: string where "statusOffline = ''offline''"
definition statusFailing :: string where "statusFailing = ''failing''"

definition resolveURL :: string where "resolveURL = ''what#19b9c243bea0c45175e6a6027911abbad53e983e''"

record serverItem =
  sv_Name :: string
  sv_Status :: string
  sv_Error :: string

record userData =
  ud_ID :: int
  ud_AssignedLbrynetServer :: string

record statusResponse =
  sr_Services :: "(string, serverItem list) fmap"
  sr_GeneralState :: string
  sr_User :: "userData option"

text \<open>The server that is asked: a random one, or that of the user.\<close>

definition status_server :: "'w env \<Rightarrow> (string \<times> string) list \<Rightarrow> http_request \<Rightarrow> ('w, (lbrynet_server \<times> int) res) io" where
  "status_server E servers r = do {
     rt \<leftarrow> NewRouter E servers;
     (case FromRequest r of
        (Some user, None) \<Rightarrow> State_Monad.return (case GetLbrynetServer (Some user) of
          None \<Rightarrow> Panic ''nil pointer dereference'' | Some srv \<Rightarrow> Ok (srv, usr_ID user))
      | _ \<Rightarrow> do {
          (srv, _) \<leftarrow> RandomServer E rt;
          State_Monad.return (case srv of Ok s \<Rightarrow> Ok (s, 0) | Err e \<Rightarrow> Err e | Panic m \<Rightarrow> Panic m)
        })
   }"

definition status_of :: "lbrynet_server \<Rightarrow> user option \<Rightarrow> rpc_response res \<Rightarrow> statusResponse res" where
  "status_of srv user out = (
     let answer = (\<lambda>item general u. Ok \<lparr>sr_Services = fmupd ''lbrynet'' [item] fmempty, sr_GeneralState = general, sr_User = u\<rparr>);
         item = \<lparr>sv_Name = srv_Name srv, sv_Status = statusOK, sv_Error = []\<rparr>
     in case out of
       Panic m \<Rightarrow> Panic m
     | Err e \<Rightarrow> answer (item\<lparr>sv_Error := error_msg e, sv_Status := statusOffline\<rparr>) statusFailing None
     | Ok res \<Rightarrow>
         (case res_Error res of
            Some x \<Rightarrow> answer (item\<lparr>sv_Error := err_Message x, sv_Status := statusNotReady\<rparr>) statusFailing None
          | None \<Rightarrow> answer item statusOK
              (case user of Some u \<Rightarrow> Some \<lparr>ud_ID = usr_ID u, ud_AssignedLbrynetServer = srv_Name srv\<rparr> | None \<Rightarrow> None)))"

definition StatusV2 :: "'w env \<Rightarrow> (string \<times> string) list \<Rightarrow> http_request \<Rightarrow> bool \<Rightarrow> ('w, statusResponse res) io" where
  "StatusV2 E servers r hasCache = do {
     x \<leftarrow> status_server E servers r;
     (case x of
        Err e \<Rightarrow> State_Monad.return (Err e)
      | Panic m \<Rightarrow> State_Monad.return (Panic m)
      | Ok (srv, userID) \<Rightarrow> do {
          let c = NewCaller E (srv_Address srv) userID;
          out \<leftarrow> Call E (if hasCache then c\<lparr>c_Cache := True\<rparr> else c) (rq_CurrentUser r)
            (NewRequest MethodResolve (fmap_of_list [(''urls'', JStr resolveURL)]));
          State_Monad.return (status_of srv (fst (FromRequest r)) out)
        })
   }"

section \<open>Who am I\<close>

record whoAmIResponse =
  wa_DetectedIP :: string
  wa_UserID :: string
  wa_SDK :: string
  wa_RequestHeaders :: "(string, string) fmap"
  wa_RemoteIP :: string

definition secret_header :: "string \<Rightarrow> bool" where
  "secret_header k \<longleftrightarrow> k = AuthorizationHeader \<or> k = LegacyTokenHeader \<or> k = ''Cookie''"

definition shown_headers :: "http_request \<Rightarrow> (string, string) fmap" where
  "shown_headers r = fmmap_keys (\<lambda>k _. Header_Get r k) (fmfilter (\<lambda>k. \<not> secret_header k) (rq_Header r))"

definition WhoAmI :: "http_request \<Rightarrow> string \<Rightarrow> whoAmIResponse res" where
  "WhoAmI r remoteAddr = (
     let answer = (\<lambda>i sdk. Ok \<lparr>wa_DetectedIP = ForRequest r remoteAddr, wa_UserID = i, wa_SDK = sdk,
           wa_RequestHeaders = shown_headers r, wa_RemoteIP = remoteAddr\<rparr>)
     in case GetCurrentUserData (rq_CurrentUser r) of
       Inl _ \<Rightarrow> answer [] []
     | Inr cu \<Rightarrow>
         (case cu_user cu of
            None \<Rightarrow> answer [] []
          | Some u \<Rightarrow> (case usr_Server u of
              None \<Rightarrow> Panic ''nil pointer dereference''
            | Some srv \<Rightarrow> answer (Itoa (usr_ID u)) (srv_Name srv))))"

section \<open>Lemmas\<close>

lemma sends_status_server: "valid (sends s\<^sub>0 G) (status_server E servers r) (\<lambda>_. sends s\<^sub>0 G)"
  unfolding status_server_def NewRouter_def RandomServer_def by (intro io_intro)

lemma status_server_user:
  assumes "run_state (status_server E servers r) s = (Ok (srv, n), t)"
  shows "case FromRequest r of (Some u, None) \<Rightarrow> usr_Server u = Some srv \<and> n = usr_ID u | _ \<Rightarrow> n = 0"
  using assms by (auto simp: status_server_def GetLbrynetServer_def split: prod.splits option.splits res.splits)

lemma NewCaller_sel:
  "c_userID (NewCaller E a u) = u" "c_endpoint (NewCaller E a u) = a" "c_backupEndpoints (NewCaller E a u) = []"
  by (simp_all add: NewCaller_def addDefaultHooks_def AddPreflightHook_def AddPostflightHook_def Let_def)

lemma status_of_shape:
  assumes "status_of srv user out = Ok resp"
  obtains item where "sr_Services resp = fmupd ''lbrynet'' [item] fmempty" "sv_Name item = srv_Name srv"
    "sr_GeneralState resp = statusOK \<longleftrightarrow> sv_Status item = statusOK"
    "sr_User resp \<noteq> None \<longrightarrow> sr_GeneralState resp = statusOK \<and> map_option ud_ID (sr_User resp) = map_option usr_ID user"
proof -
  have "fmlookup (sr_Services resp) ''lbrynet'' \<noteq> None" using assms
    by (auto simp: status_of_def Let_def split: res.splits option.splits)
  then obtain items where "fmlookup (sr_Services resp) ''lbrynet'' = Some items" by auto
  with assms show ?thesis
    by (intro that [of "hd items"])
       (auto simp: status_of_def Let_def statusOK_def statusFailing_def statusOffline_def statusNotReady_def split: res.splits option.splits)
qed

text \<open>The status page asks one server, the user's own where a user is authenticated, in that user's wallet
  if any, and reports this server; the general state is ok exactly if the call was answered
  without an error, and a user is only shown then.\<close>

lemma status_page_truthful:
  assumes "run_state (StatusV2 E servers r hasCache) s = (Ok resp, t)"
  shows "\<exists>srv n item. sr_Services resp = fmupd ''lbrynet'' [item] fmempty \<and> sv_Name item = srv_Name srv \<and>
    (case FromRequest r of (Some u, None) \<Rightarrow> usr_Server u = Some srv \<and> n = usr_ID u | _ \<Rightarrow> n = 0) \<and>
    (sr_GeneralState resp = statusOK \<longleftrightarrow> sv_Status item = statusOK) \<and>
    (sr_User resp \<noteq> None \<longrightarrow> sr_GeneralState resp = statusOK \<and> map_option ud_ID (sr_User resp) = map_option usr_ID (fst (FromRequest r))) \<and>
    sends s (\<lambda>ep q. ep = srv_Address srv \<and> own_request (if n = 0 then [] else WalletID n) q) t"
proof -
  obtain x s1 where x: "run_state (status_server E servers r) s = (x, s1)" by fastforce
  then obtain srv n where sn: "x = Ok (srv, n)" using assms by (cases x) (auto simp: StatusV2_def)
  let ?c = "NewCaller E (srv_Address srv) n"
  let ?G = "\<lambda>ep q. ep = srv_Address srv \<and> own_request (if n = 0 then [] else WalletID n) q"
  define c where "c = (if hasCache then ?c\<lparr>c_Cache := True\<rparr> else ?c)"
  have c: "c_userID c = n" "c_endpoint c = srv_Address srv" "c_backupEndpoints c = []"
    by (simp_all add: c_def NewCaller_sel)
  obtain out where out: "run_state (Call E c (rq_CurrentUser r) (NewRequest MethodResolve (fmap_of_list [(''urls'', JStr resolveURL)]))) s1 = (out, t)"
    "status_of srv (fst (FromRequest r)) out = Ok resp"
    using assms x sn by (auto simp: StatusV2_def c_def Let_def split: prod.splits)
  have "sends s ?G s1" using validD [OF sends_status_server x] by simp
  then have "sends s ?G t"
    using validD [OF sends_Call out(1)] by (auto simp: permitted_def call_wallet_def c)
  moreover obtain item where "sr_Services resp = fmupd ''lbrynet'' [item] fmempty" "sv_Name item = srv_Name srv"
    "sr_GeneralState resp = statusOK \<longleftrightarrow> sv_Status item = statusOK"
    "sr_User resp \<noteq> None \<longrightarrow> sr_GeneralState resp = statusOK \<and> map_option ud_ID (sr_User resp) = map_option usr_ID (fst (FromRequest r))"
    using status_of_shape [OF out(2)] .
  ultimately show ?thesis using status_server_user [OF x [unfolded sn]]
    by (intro exI [of _ srv] exI [of _ n] exI [of _ item] conjI)
qed

text \<open>\<open>whoami\<close> tells nobody the credentials of a request: it shows exactly the other headers, each with its
  first value.\<close>

lemma whoami_hides_credentials:
  assumes "WhoAmI r remoteAddr = Ok w"
  shows "fmlookup (wa_RequestHeaders w) k = (if secret_header k \<or> fmlookup (rq_Header r) k = None then None else Some (Header_Get r k))"
proof -
  have "wa_RequestHeaders w = shown_headers r"
    using assms by (auto simp: WhoAmI_def Let_def split: sum.splits option.splits)
  then show ?thesis by (auto simp: shown_headers_def split: option.splits)
qed

text \<open>Both crash for a user without a server.\<close>

lemma no_server_crashes:
  assumes "FromRequest r = (Some u, None)" "usr_Server u = None"
  shows "fst (run_state (StatusV2 E servers r hasCache) s) = Panic ''nil pointer dereference''"
    and "WhoAmI r remoteAddr = Panic ''nil pointer dereference''"
  using assms by (auto simp: StatusV2_def status_server_def GetLbrynetServer_def WhoAmI_def FromRequest_def Let_def split: prod.splits sum.splits)

text \<open>A user whose authentication ended in an error is shown with the server that was drawn for the check.\<close>

lemma random_server_shown_as_assigned:
  assumes "FromRequest r = (Some u, Some e)" "out = Ok res" "res_Error res = None"
  shows "\<exists>resp. status_of srv (fst (FromRequest r)) out = Ok resp \<and> sr_User resp = Some \<lparr>ud_ID = usr_ID u, ud_AssignedLbrynetServer = srv_Name srv\<rparr>"
  using assms by (simp add: status_of_def)

end
