(* ===== verification/Api.thy ===== *)
theory Api
  imports Responses Publish Status
begin

text \<open>
  \<open>api/routes.go\<close>: the server put together. A handler takes a request with its context and yields
  the calls it makes on its response writer and the panic it ends in, if any; a middleware maps
  handlers to handlers. The chain of \<open>defaultMiddlewares\<close> stands around the handlers of the proxy,
  of uploads and of the status pages, the middlewares of \<open>server.NewServer\<close> stand around the chain,
  and \<open>net/http\<close> turns the calls that come out into the client's answer. Foreign code is a
  parameter: \<open>rs/cors\<close> as a middleware, \<open>gorilla/mux\<close> as the choice of a route, the JSON encoder.
\<close>

section \<open>Requests in context\<close>

text \<open>The client's request with what middlewares attach: \<open>ar_http\<close> holds the headers, the detected
  address and the current user; the flags say that the timer, the router and the cache are there.\<close>

record api_request =
  ar_http :: http_request
  ar_Method :: string
  ar_remoteAddr :: string
  ar_body :: http_body
  ar_form :: "go_error + publish_form"
  ar_timer :: bool
  ar_router :: bool
  ar_cache :: bool

type_synonym 'w handler = "api_request \<Rightarrow> ('w, outcome) pub_io"
type_synonym 'w middleware = "'w handler \<Rightarrow> 'w handler"

record 'w route =
  ro_Path :: string
  ro_Methods :: "string list"
  ro_Matcher :: "api_request \<Rightarrow> bool"
  ro_Handler :: "'w handler"

record 'w api_env =
  ae_pub :: "'w pub_env"
  ae_monitor :: monitor_env
  ae_MarshalIndent :: "rpc_response \<Rightarrow> bytes"
  ae_MarshalStatus :: "statusResponse \<Rightarrow> bytes"
  ae_MarshalWhoAmI :: "whoAmIResponse \<Rightarrow> go_error + bytes"
  ae_Unmarshal :: "bytes \<Rightarrow> go_error + rpc_request option"
  ae_servers :: "(string \<times> string) list"
  ae_OauthClientID :: string
  ae_InternalAPIHost :: string
  ae_cors :: "'w middleware"
  ae_match :: "'w route list \<Rightarrow> api_request \<Rightarrow> 'w route option"
  ae_unmatched :: "api_request \<Rightarrow> write_op list"

section \<open>Chains of middlewares\<close>

text \<open>\<open>middleware.Chain\<close> goes from the last middleware to the first.\<close>

definition Chain :: "'w middleware list \<Rightarrow> 'w middleware" where
  "Chain mws next = fold (\<lambda>mw h. mw h) (rev mws) next"

definition Apply :: "'w middleware \<Rightarrow> 'w handler \<Rightarrow> 'w handler" where
  "Apply mw handler = mw handler"

definition MeasureMiddleware :: "'w middleware" where
  "MeasureMiddleware next r = next (r\<lparr>ar_timer := True\<rparr>)"

definition ip_layer :: "'w middleware" where
  "ip_layer next r = next (r\<lparr>ar_http := ip_Middleware (ar_remoteAddr r) (ar_http r)\<rparr>)"

definition AddToRequest :: "'w middleware" where
  "AddToRequest fn r = fn (r\<lparr>ar_router := True\<rparr>)"

definition AddCacheToRequest :: "'w middleware" where
  "AddCacheToRequest fn r = fn (r\<lparr>ar_cache := True\<rparr>)"

text \<open>A run-time panic carries an error.\<close>

definition crash :: "string \<Rightarrow> panic_value option" where
  "crash m = Some (PanicError (Plain m))"

text \<open>A middleware of \<open>app/auth\<close> passes on the request it has completed.\<close>

definition auth_layer :: "(http_request \<Rightarrow> ('w, http_request res) io) \<Rightarrow> 'w middleware" where
  "auth_layer mw next r = do {
     x \<leftarrow> api (mw (ar_http r));
     (case x of
        Ok q \<Rightarrow> next (r\<lparr>ar_http := q\<rparr>)
      | Err e \<Rightarrow> State_Monad.return ([], Some (PanicError e))
      | Panic m \<Rightarrow> State_Monad.return ([], crash m))
   }"

definition oauthAuther :: "'w api_env \<Rightarrow> 'w auther" where
  "oauthAuther A = OauthAuthenticator (pe_api (ae_pub A)) (ae_OauthClientID A)"

definition legacyProvider :: "'w api_env \<Rightarrow> 'w auth_provider" where
  "legacyProvider A = NewIAPIProvider (pe_api (ae_pub A)) (ae_InternalAPIHost A)"

definition defaultMiddlewares :: "'w api_env \<Rightarrow> 'w middleware" where
  "defaultMiddlewares A = Chain
     [MeasureMiddleware, ae_cors A, ip_layer, AddToRequest,
      auth_layer (Middleware (oauthAuther A)), auth_layer (LegacyMiddleware (legacyProvider A)), AddCacheToRequest]"

section \<open>Handlers\<close>

definition emptyHandler :: "'w handler" where
  "emptyHandler r = State_Monad.return ([], None)"

text \<open>\<open>proxy.Handle\<close> declares JSON first, and writes its reply in one piece; the status 200 is implicit.\<close>

definition reply_calls :: "'w api_env \<Rightarrow> write_op list \<Rightarrow> http_reply res \<Rightarrow> outcome" where
  "reply_calls A hs x = (case x of
     Ok reply \<Rightarrow> (hs @ (if hr_status reply = 200 then [] else [W_WriteHeader (hr_status reply)])
       @ [W_Write (ae_MarshalIndent A (hr_response reply))], None)
   | Err e \<Rightarrow> (hs, Some (PanicError e))
   | Panic m \<Rightarrow> (hs, crash m))"

definition proxy_handler :: "'w api_env \<Rightarrow> 'w handler" where
  "proxy_handler A r = do {
     x \<leftarrow> api (Handle (pe_api (ae_pub A)) (ae_Unmarshal A)
       \<lparr>px_http = ar_http r, px_body = ar_body r, px_router = ar_router r, px_cache = ar_cache r\<rparr>);
     State_Monad.return (reply_calls A AddJSONContentType x)
   }"

definition CanHandle :: "api_request \<Rightarrow> bool" where
  "CanHandle r = (case ar_form r of Inl err \<Rightarrow> False | Inr form \<Rightarrow> pf_JSON form \<noteq> [])"

definition upload_handler :: "'w api_env \<Rightarrow> 'w handler" where
  "upload_handler A r = do {
     x \<leftarrow> publish_Handle (ae_pub A) \<lparr>pr_http = ar_http r, pr_form = ar_form r, pr_cache = ar_cache r\<rparr>;
     State_Monad.return (reply_calls A [] x)
   }"

definition status_handler :: "'w api_env \<Rightarrow> 'w handler" where
  "status_handler A r = do {
     x \<leftarrow> api (StatusV2 (pe_api (ae_pub A)) (ae_servers A) (ar_http r) (ar_cache r));
     State_Monad.return (case x of
       Ok response \<Rightarrow> (AddJSONContentType @ [W_WriteHeader 200, W_Write (ae_MarshalStatus A response)], None)
     | Err e \<Rightarrow> ([], Some (PanicError e))
     | Panic m \<Rightarrow> ([], crash m))
   }"

definition whoami_handler :: "'w api_env \<Rightarrow> 'w handler" where
  "whoami_handler A r = State_Monad.return (case WhoAmI (ar_http r) (ar_remoteAddr r) of
     Ok w \<Rightarrow> (WriteJSON (ae_MarshalWhoAmI A) w, None)
   | Err e \<Rightarrow> ([], Some (PanicError e))
   | Panic m \<Rightarrow> ([], crash m))"

section \<open>Routes\<close>

text \<open>A route without methods takes every method; the path of the last one is that of the subrouter.\<close>

definition v1_proxy_routes :: "'w api_env \<Rightarrow> 'w route list" where
  "v1_proxy_routes A =
     [\<lparr>ro_Path = ''/api/v1/proxy'', ro_Methods = [], ro_Matcher = CanHandle, ro_Handler = upload_handler A\<rparr>,
      \<lparr>ro_Path = ''/api/v1/proxy'', ro_Methods = [''POST''], ro_Matcher = (\<lambda>_. True), ro_Handler = proxy_handler A\<rparr>,
      \<lparr>ro_Path = ''/api/v1/proxy'', ro_Methods = [''OPTIONS''], ro_Matcher = (\<lambda>_. True), ro_Handler = emptyHandler\<rparr>]"

definition status_routes :: "'w api_env \<Rightarrow> 'w route list" where
  "status_routes A =
     [\<lparr>ro_Path = ''/api/v2/status'', ro_Methods = [''GET''], ro_Matcher = (\<lambda>_. True), ro_Handler = status_handler A\<rparr>,
      \<lparr>ro_Path = ''/api/v2/whoami'', ro_Methods = [''GET''], ro_Matcher = (\<lambda>_. True), ro_Handler = whoami_handler A\<rparr>,
      \<lparr>ro_Path = ''/api/v2'', ro_Methods = [''OPTIONS''], ro_Matcher = (\<lambda>_. True), ro_Handler = emptyHandler\<rparr>]"

section \<open>The server\<close>

text \<open>\<open>ErrorLoggingMiddleware\<close> and \<open>defaultHeadersMiddleware\<close> around a handler: the calls that reach
  the real writer. A panic is reported to Sentry.\<close>

definition server_stack :: "'w api_env \<Rightarrow> 'w handler \<Rightarrow> api_request \<Rightarrow> ('w, write_op list) pub_io" where
  "server_stack A h r = do {
     out \<leftarrow> h r;
     let (calls, report) = ErrorLogging (ae_monitor A) (defaultHeaders default_headers out);
     _ \<leftarrow> (case report of
        None \<Rightarrow> State_Monad.return ()
      | Some e \<Rightarrow> api (ErrorToSentry (Some e)));
     State_Monad.return calls
   }"

definition serve_route :: "'w api_env \<Rightarrow> 'w route \<Rightarrow> api_request \<Rightarrow> ('w, http_answer res) pub_io" where
  "serve_route A route r = do {
     calls \<leftarrow> server_stack A (defaultMiddlewares A (ro_Handler route)) r;
     State_Monad.return (net_answer calls)
   }"

text \<open>A request to the server. The router chooses among the routes in the order of their installation;
  what it answers when none fits is its own affair, and no middleware is involved.\<close>

definition route_accepts :: "'w route \<Rightarrow> api_request \<Rightarrow> bool" where
  "route_accepts route r \<longleftrightarrow> (ro_Methods route = [] \<or> ar_Method r \<in> set (ro_Methods route)) \<and> ro_Matcher route r"

definition serve_api :: "'w api_env \<Rightarrow> api_request \<Rightarrow> ('w, http_answer res) pub_io" where
  "serve_api A r = (case ae_match A (v1_proxy_routes A @ status_routes A) r of
     None \<Rightarrow> State_Monad.return (net_answer (ae_unmatched A r))
   | Some route \<Rightarrow> serve_route A route r)"

section \<open>What the foreign code promises\<close>

text \<open>\<open>rs/cors\<close> answers a preflight request itself, with headers and 204, and otherwise adds headers and
  passes the request on. \<open>gorilla/mux\<close> chooses one of the installed routes, and one that accepts.\<close>

definition cors_passes :: "'w middleware \<Rightarrow> bool" where
  "cors_passes c \<longleftrightarrow> (\<forall>next r. \<exists>hs. list_all is_header hs \<and> list_all (\<lambda>x. \<not> sets_length x) hs \<and>
     (c next r = State_Monad.return (hs @ [W_WriteHeader 204], None) \<or>
      c next r = do { out \<leftarrow> next r; State_Monad.return (hs @ fst out, snd out) }))"

definition match_installed :: "('w route list \<Rightarrow> api_request \<Rightarrow> 'w route option) \<Rightarrow> bool" where
  "match_installed m \<longleftrightarrow> (\<forall>routes r route. m routes r = Some route \<longrightarrow> route \<in> set routes \<and> route_accepts route r)"

section \<open>Logins send nothing\<close>

interpretation sent_kept: tx_invariant E "\<lambda>s. w_sent s = l" for E l
  by unfold_locales simp_all

lemma sent_inTx:
  "valid (\<lambda>s. w_sent s = l) (inTx E (ensure_local_user E u)) (\<lambda>_ s. w_sent s = l)"
  unfolding inTx_def
  by (rule valid_post [OF inTx_loop_rule [where I = "\<lambda>s. w_sent s = l" and J = "\<lambda>s. w_sent s = l"
        and K = "\<lambda>s. w_sent s = l"]], rule sent_kept.inv_ensure_local_user)
     (auto simp: clear_tx_def rollback_tx_def)

lemma sent_legacy: "valid (\<lambda>s. w_sent s = l) (NewIAPIProvider E h tok ip) (\<lambda>_ s. w_sent s = l)"
proof -
  have "valid (\<lambda>s. w_sent s = l) (GetUserWithSDKServer E h tok ip) (\<lambda>_ s. w_sent s = l)"
    by (rule valid_post [OF valid_GetUserWithSDKServer [where J = "\<lambda>s. w_sent s = l" and K = "\<lambda>s. w_sent s = l"]])
       (auto intro: valid_post [OF sent_inTx])
  then show ?thesis unfolding NewIAPIProvider_def by (rule valid_bind) (rule valid_return)
qed

lemma sent_kept_ext: "valid (\<lambda>s. w_sent s = l) (ext c) (\<lambda>_ s. w_sent s = l)"
  by (rule valid_ext) simp

lemma sent_Authenticate: "valid (\<lambda>s. w_sent s = l) (Authenticate E cid tok ip) (\<lambda>_ s. w_sent s = l)"
  unfolding Authenticate_def Let_def extractUserInfo_def GetDBUserG_def oauth_by_remote_id_def update_user_def oauth_create_def
  by (intro io_intro sent_kept_ext sent_inTx sent_kept.inv_getDBUser sent_kept.inv_stmt valid_remote_user(2) valid_modify; simp)

lemma sent_Middleware: "valid (\<lambda>s. w_sent s = l) (Middleware (OauthAuthenticator E cid) r) (\<lambda>_ s. w_sent s = l)"
  unfolding Middleware_def OauthAuthenticator_def auther.simps
  by (intro valid_res valid_return valid_bind_keep [OF sent_Authenticate])

lemma sent_LegacyMiddleware: "valid (\<lambda>s. w_sent s = l) (LegacyMiddleware (NewIAPIProvider E h) r) (\<lambda>_ s. w_sent s = l)"
  unfolding LegacyMiddleware_def Let_def by (intro io_intro sent_legacy)

lemma sent_auth_chain:
  "valid (\<lambda>s. w_sent s = l) (auth_chain (OauthAuthenticator E cid) (NewIAPIProvider E h) r) (\<lambda>_ s. w_sent s = l)"
  unfolding auth_chain_def by (intro valid_bind_keep [OF sent_Middleware] valid_res valid_return sent_LegacyMiddleware)

section \<open>Whose request it is\<close>

text \<open>The users that a request's own credentials stand for: that of its OAuth token, or that of its legacy
  token once the OAuth stage is over.\<close>

definition credential_user :: "'w auther \<Rightarrow> 'w auth_provider \<Rightarrow> http_request \<Rightarrow> 'w world \<Rightarrow> user \<Rightarrow> bool" where
  "credential_user auther provider r s u \<longleftrightarrow>
     (\<exists>tok e t. au_GetTokenFromRequest auther r = Ok tok \<and>
        run_state (au_Authenticate auther tok (rq_ip r)) s = (Ok (Some u, e), t)) \<or>
     (Header_Get r LegacyTokenHeader \<noteq> [] \<and>
        (\<exists>e. fst (run_state (provider (Header_Get r LegacyTokenHeader) (rq_ip r)) (snd (run_state (Middleware auther r) s)))
          = Ok (Some u, e)))"

lemma chain_credentials:
  assumes "run_state (auth_chain auther provider r) s = (Ok r', t)" and "fst (FromRequest r') = Some u"
  shows "credential_user auther provider r s u"
  using assms unfolding credential_user_def
  by (auto simp: auth_defs Let_def split: res.splits option.splits prod.splits if_splits)

text \<open>The request as the middlewares see it, with the client's address.\<close>

definition located_request :: "api_request \<Rightarrow> http_request" where
  "located_request r = ip_Middleware (ar_remoteAddr r) (ar_http r)"

definition for_credentials :: "'w api_env \<Rightarrow> api_request \<Rightarrow> 'w world \<Rightarrow> rpc_request \<Rightarrow> bool" where
  "for_credentials A r s q \<longleftrightarrow> (MethodRequiresWallet (req_Method q) \<longrightarrow>
     (\<exists>u m. credential_user (oauthAuther A) (legacyProvider A) (located_request r) s u \<and> 0 < usr_ID u \<and>
       req_Params q = JObj m \<and> fmlookup m ParamWalletID = Some (JStr (WalletID (usr_ID u)))))"

lemma for_user_credentials:
  assumes "for_user user q"
    and "\<And>u. user = Some u \<Longrightarrow> credential_user (oauthAuther A) (legacyProvider A) (located_request r) s u"
  shows "for_credentials A r s q"
  using assms unfolding for_user_def for_credentials_def by blast

section \<open>Requests of the handlers\<close>

abbreviation psends :: "'w world \<Rightarrow> (string \<Rightarrow> rpc_request \<Rightarrow> bool) \<Rightarrow> 'w pub_world \<Rightarrow> bool" where
  "psends s\<^sub>0 G \<equiv> \<lambda>s. sends s\<^sub>0 G (pw_api s)"

lemma psends_api [io_intro]:
  "valid (sends s\<^sub>0 G) m (\<lambda>_. sends s\<^sub>0 G) \<Longrightarrow> valid (psends s\<^sub>0 G) (api m) (\<lambda>_. psends s\<^sub>0 G)"
  by (simp add: valid_def case_prod_beta)

lemma psends_modify: "(\<And>s. pw_api (f s) = pw_api s) \<Longrightarrow> valid (psends s\<^sub>0 G) (pub_modify f) (\<lambda>_. psends s\<^sub>0 G)"
  by (simp add: valid_def)

lemma psends_reads [io_intro]: "valid (psends s\<^sub>0 G) (pub_reads f) (\<lambda>_. psends s\<^sub>0 G)"
  by (simp add: valid_def)

lemma psends_createFile [io_intro]: "valid (psends s\<^sub>0 G) (createFile E u n) (\<lambda>_. psends s\<^sub>0 G)"
  unfolding createFile_def Let_def store_def by (intro io_intro psends_modify; simp)

lemma psends_saveFile [io_intro]: "valid (psends s\<^sub>0 G) (saveFile E f u) (\<lambda>_. psends s\<^sub>0 G)"
  unfolding saveFile_def store_def by (intro io_intro psends_modify; simp)

lemma psends_fetchFile [io_intro]: "valid (psends s\<^sub>0 G) (fetchFile E f u) (\<lambda>_. psends s\<^sub>0 G)"
  unfolding fetchFile_def Let_def store_def by (intro io_intro psends_modify; simp)

lemma psends_after_fetch:
  assumes "\<And>x. valid (psends s\<^sub>0 G) (retry x) (\<lambda>_. psends s\<^sub>0 G)"
  shows "valid (psends s\<^sub>0 G) (after_fetch E form u f retry) (\<lambda>_. psends s\<^sub>0 G)"
  unfolding after_fetch_def by (cases f) (auto split: fetch_error.split intro!: io_intro assms)

lemma psends_fetch_tries [io_intro]: "valid (psends s\<^sub>0 G) (fetch_tries n E f u) (\<lambda>_. psends s\<^sub>0 G)"
  by (induction n) (auto intro!: io_intro psends_after_fetch)

lemma psends_remove_dir [io_intro]: "valid (psends s\<^sub>0 G) (remove_dir E n) (\<lambda>_. psends s\<^sub>0 G)"
  unfolding remove_dir_def Let_def by (intro io_intro psends_modify; simp)

lemma psends_publish_body:
  assumes "\<And>ep q. for_user (Some u) q \<Longrightarrow> G ep q"
  shows "valid (psends s\<^sub>0 G) (publish_body E r u n) (\<lambda>_. psends s\<^sub>0 G)"
proof (rule validI)
  fix s a t assume "psends s\<^sub>0 G s" and "run_state (publish_body E r u n) s = (a, t)"
  with publish_body_run [of E r u n s a t] show "psends s\<^sub>0 G t"
    by (blast intro: sends_trans sends_mono assms)
qed

lemma psends_publish_Handle:
  assumes "\<And>ep q. for_user (fst (FromRequest (pr_http r))) q \<Longrightarrow> G ep q"
  shows "valid (psends s\<^sub>0 G) (publish_Handle E r) (\<lambda>_. psends s\<^sub>0 G)"
  unfolding publish_Handle_def Let_def case_prod_beta
  by (intro io_intro psends_publish_body; (rule assms)?; simp)

lemma sends_StatusV2:
  assumes "\<And>ep q. for_user (fst (FromRequest r)) q \<Longrightarrow> G ep q"
  shows "valid (sends s\<^sub>0 G) (StatusV2 E servers r h) (\<lambda>_. sends s\<^sub>0 G)"
proof (rule validI)
  fix s a t assume s: "sends s\<^sub>0 G s" and run: "run_state (StatusV2 E servers r h) s = (a, t)"
  obtain x s1 where x: "run_state (status_server E servers r) s = (x, s1)" by fastforce
  have s1: "sends s\<^sub>0 G s1" by (rule validD [OF sends_status_server x s])
  show "sends s\<^sub>0 G t"
  proof (cases x)
    case (Ok p)
    obtain srv n where p: "p = (srv, n)" by fastforce
    let ?c = "if h then (NewCaller E (srv_Address srv) n)\<lparr>c_Cache := True\<rparr> else NewCaller E (srv_Address srv) n"
    let ?q = "NewRequest MethodResolve (fmap_of_list [(''urls'', JStr resolveURL)])"
    have n: "n = 0 \<or> (\<exists>u. fst (FromRequest r) = Some u \<and> n = usr_ID u)"
      using status_server_user [OF x [unfolded Ok p]] by (auto split: prod.splits option.splits)
    have "valid (sends s\<^sub>0 G) (Call E ?c (rq_CurrentUser r) ?q) (\<lambda>_. sends s\<^sub>0 G)"
      by (rule sends_Call) (use n in \<open>auto simp: permitted_def call_wallet_def NewCaller_sel split: if_splits
          intro!: assms elim!: own_request_for_user\<close>)
    then have "valid (sends s\<^sub>0 G) (State_Monad.bind (Call E ?c (rq_CurrentUser r) ?q)
        (\<lambda>out. State_Monad.return (status_of srv (fst (FromRequest r)) out))) (\<lambda>_. sends s\<^sub>0 G)"
      by (intro io_intro)
    from validD [OF this _ s1] run x Ok p show ?thesis by (simp add: StatusV2_def Let_def)
  qed (use run x s1 in \<open>auto simp: StatusV2_def\<close>)
qed

section \<open>Running the chain\<close>

text \<open>The request that reaches a handler, given what authentication made of it.\<close>

definition attached :: "api_request \<Rightarrow> http_request \<Rightarrow> api_request" where
  "attached r q = r\<lparr>ar_timer := True, ar_router := True, ar_http := q, ar_cache := True\<rparr>"

definition after_auth :: "'w api_env \<Rightarrow> 'w handler \<Rightarrow> api_request \<Rightarrow> ('w, outcome) pub_io" where
  "after_auth A h r = auth_layer (auth_chain (oauthAuther A) (legacyProvider A)) (\<lambda>x. h (attached r (ar_http x)))
     (r\<lparr>ar_http := located_request r\<rparr>)"

lemma run_after_auth:
  "run_state (after_auth A h r) s =
     (case run_state (auth_chain (oauthAuther A) (legacyProvider A) (located_request r)) (pw_api s) of
        (Ok q, w) \<Rightarrow> run_state (h (attached r q)) (s\<lparr>pw_api := w\<rparr>)
      | (Err e, w) \<Rightarrow> (([], Some (PanicError e)), s\<lparr>pw_api := w\<rparr>)
      | (Panic m, w) \<Rightarrow> (([], crash m), s\<lparr>pw_api := w\<rparr>))"
  by (simp add: after_auth_def auth_layer_def split: prod.split res.split)

lemma auth_layers:
  "run_state (auth_layer (Middleware a) (auth_layer (LegacyMiddleware p) h) r) s = run_state (auth_layer (auth_chain a p) h r) s"
  by (simp add: auth_layer_def auth_chain_def case_prod_beta split: prod.split res.split)

lemma run_default:
  assumes "cors_passes (ae_cors A)"
  obtains hs where "list_all is_header hs" "list_all (\<lambda>x. \<not> sets_length x) hs"
    "run_state (defaultMiddlewares A h r) s = ((hs @ [W_WriteHeader 204], None), s) \<or>
     run_state (defaultMiddlewares A h r) s =
       (case run_state (after_auth A h r) s of (out, t) \<Rightarrow> ((hs @ fst out, snd out), t))"
proof -
  let ?next = "ip_layer (AddToRequest (auth_layer (Middleware (oauthAuther A)) (auth_layer (LegacyMiddleware (legacyProvider A)) (AddCacheToRequest h))))"
  let ?r = "r\<lparr>ar_timer := True\<rparr>"
  have run: "run_state (?next ?r) s = run_state (after_auth A h r) s"
    by (simp add: ip_layer_def AddToRequest_def auth_layers run_after_auth)
       (simp add: auth_layer_def AddCacheToRequest_def located_request_def attached_def split: prod.split res.split)
  from assms obtain hs where hs: "list_all is_header hs" "list_all (\<lambda>x. \<not> sets_length x) hs"
    and c: "ae_cors A ?next ?r = State_Monad.return (hs @ [W_WriteHeader 204], None) \<or>
      ae_cors A ?next ?r = do { out \<leftarrow> ?next ?r; State_Monad.return (hs @ fst out, snd out) }"
    unfolding cors_passes_def by blast
  have "defaultMiddlewares A h r = ae_cors A ?next ?r"
    by (simp add: defaultMiddlewares_def Chain_def MeasureMiddleware_def)
  with c run have "run_state (defaultMiddlewares A h r) s = ((hs @ [W_WriteHeader 204], None), s) \<or>
     run_state (defaultMiddlewares A h r) s =
       (case run_state (after_auth A h r) s of (out, t) \<Rightarrow> ((hs @ fst out, snd out), t))"
    by (auto simp: case_prod_beta)
  with hs that show thesis by blast
qed

section \<open>Properties\<close>

text \<open>A handler that makes requests for the user of its request only.\<close>

definition minds_user :: "'w handler \<Rightarrow> bool" where
  "minds_user h \<longleftrightarrow> (\<forall>r s\<^sub>0 G. (\<forall>ep q. for_user (fst (FromRequest (ar_http r))) q \<longrightarrow> G ep q) \<longrightarrow>
     valid (psends s\<^sub>0 G) (h r) (\<lambda>_. psends s\<^sub>0 G))"

lemma minds_userD:
  assumes "minds_user h" "\<And>ep q. for_user (fst (FromRequest (ar_http r))) q \<Longrightarrow> G ep q"
  shows "valid (psends s\<^sub>0 G) (h r) (\<lambda>_. psends s\<^sub>0 G)"
  using assms unfolding minds_user_def by blast

lemma sends_Handle_mono:
  assumes "\<And>ep q. for_user (fst (FromRequest (px_http r))) q \<Longrightarrow> G ep q"
  shows "valid (sends s\<^sub>0 G) (Handle E Unmarshal r) (\<lambda>_. sends s\<^sub>0 G)"
proof (rule validI)
  fix s a t assume s: "sends s\<^sub>0 G s" and run: "run_state (Handle E Unmarshal r) s = (a, t)"
  from validD [OF sends_Handle run sends_refl] have "sends s G t" by (rule sends_mono) (rule assms)
  with s show "sends s\<^sub>0 G t" by (rule sends_trans)
qed

lemma routes_mind_user:
  assumes "route \<in> set (v1_proxy_routes A @ status_routes A)"
  shows "minds_user (ro_Handler route)"
proof -
  have "minds_user (upload_handler A)" unfolding minds_user_def upload_handler_def
    by (intro allI impI valid_bind_keep [OF psends_publish_Handle] valid_return) auto
  moreover have "minds_user (proxy_handler A)" unfolding minds_user_def proxy_handler_def
    by (intro allI impI valid_bind_keep [OF psends_api [OF sends_Handle_mono]] valid_return) auto
  moreover have "minds_user (status_handler A)" unfolding minds_user_def status_handler_def
    by (intro allI impI valid_bind_keep [OF psends_api [OF sends_StatusV2]] valid_return) auto
  moreover have "minds_user (whoami_handler A)" "minds_user emptyHandler"
    by (auto simp: minds_user_def whoami_handler_def emptyHandler_def valid_def)
  ultimately show ?thesis using assms by (auto simp: v1_proxy_routes_def status_routes_def)
qed

lemma sends_default:
  fixes A :: "'w api_env" and s :: "'w pub_world"
  assumes "cors_passes (ae_cors A)" "minds_user h" "run_state (defaultMiddlewares A h r) s = (out, t)"
  shows "psends (pw_api s) (\<lambda>ep q. for_credentials A r (pw_api s) q) t"
proof -
  let ?G = "\<lambda>(ep :: string) q. for_credentials A r (pw_api s) q"
  obtain x w where x: "run_state (auth_chain (oauthAuther A) (legacyProvider A) (located_request r)) (pw_api s) = (x, w)" by fastforce
  have "w_sent w = w_sent (pw_api s)"
    using validD [OF sent_auth_chain x [unfolded oauthAuther_def legacyProvider_def] refl] .
  then have w: "sends (pw_api s) ?G w" by (simp add: sends_def)
  have "psends (pw_api s) ?G t'" if "run_state (after_auth A h r) s = (o1, t')" for o1 t'
  proof (cases x)
    case (Ok q)
    have "valid (psends (pw_api s) ?G) (h (attached r q)) (\<lambda>_. psends (pw_api s) ?G)"
      by (rule minds_userD [OF assms(2)], rule for_user_credentials, assumption)
         (use chain_credentials [OF x [unfolded Ok]] in \<open>simp add: attached_def\<close>)
    from validD [OF this, of "s\<lparr>pw_api := w\<rparr>" o1 t'] w that x Ok show ?thesis by (simp add: run_after_auth)
  qed (use that x w in \<open>auto simp: run_after_auth\<close>)
  then show ?thesis using run_default [OF assms(1), of h r s] assms(3)
    by (metis (no_types, lifting) case_prod_beta prod.inject prod.collapse sends_refl)
qed

text \<open>C2: from the network to the SDK, the server acts only for the user whom the request's own credentials
  authenticate. Whatever request comes in on the proxy, upload or status routes, with whatever headers:
  every SDK request it causes that needs a wallet names the wallet of a user that the request's OAuth
  token, or failing that its legacy token, stands for at that moment, for the address the server has
  determined itself.\<close>

theorem server_acts_for_credentials:
  assumes "cors_passes (ae_cors A)" and "match_installed (ae_match A)"
  shows "sends (pw_api s) (\<lambda>ep q. for_credentials A r (pw_api s) q) (pw_api (snd (run_state (serve_api A r) s)))"
proof (cases "ae_match A (v1_proxy_routes A @ status_routes A) r")
  case (Some route)
  let ?h = "defaultMiddlewares A (ro_Handler route)"
  from assms(2) Some have "route \<in> set (v1_proxy_routes A @ status_routes A)" unfolding match_installed_def by blast
  from routes_mind_user [OF this] have m: "minds_user (ro_Handler route)" .
  obtain out t where out: "run_state (?h r) s = (out, t)" by fastforce
  have "sends (pw_api s) (\<lambda>ep q. for_credentials A r (pw_api s) q) (pw_api t)"
    by (rule sends_default [OF assms(1) m out])
  then have "sends (pw_api s) (\<lambda>ep q. for_credentials A r (pw_api s) q) (pw_api (snd (run_state (server_stack A ?h r) s)))"
    by (auto simp: server_stack_def out case_prod_beta Let_def ErrorToSentry_def split: option.split)
  then show ?thesis using Some by (simp add: serve_api_def serve_route_def case_prod_beta)
qed (simp add: serve_api_def)

text \<open>A small deployment: no CORS headers, routes in order, an encoder that writes nothing of interest.\<close>

definition sample_api :: "unit api_env" where
  "sample_api = \<lparr>ae_pub = calm_pub, ae_monitor = sample_monitor, ae_MarshalIndent = (\<lambda>_. ''{}''),
     ae_MarshalStatus = sr_GeneralState, ae_MarshalWhoAmI = (\<lambda>w. Inr (wa_DetectedIP w)), ae_Unmarshal = (\<lambda>_. Inr (Some balance_request)),
     ae_servers = [], ae_OauthClientID = ''odysee-apis'', ae_InternalAPIHost = ''h'',
     ae_cors = (\<lambda>next r. do { out \<leftarrow> next r; State_Monad.return (fst out, snd out) }),
     ae_match = (\<lambda>routes r. find (\<lambda>route. route_accepts route r) routes), ae_unmatched = (\<lambda>_. [W_WriteHeader 404])\<rparr>"

lemma sample_promises: "cors_passes (ae_cors sample_api)" "match_installed (ae_match sample_api)"
  "map_iteration (mo_iter (ae_monitor sample_api))"
proof -
  show "cors_passes (ae_cors sample_api)"
    unfolding cors_passes_def by (intro allI exI [of _ "[]"]) (simp add: sample_api_def)
  show "match_installed (ae_match sample_api)"
    by (auto simp: match_installed_def sample_api_def find_Some_iff)
  show "map_iteration (mo_iter (ae_monitor sample_api))"
    using key_order.map_iteration_axioms by (simp add: sample_api_def sample_monitor_def)
qed

definition bearer_call :: api_request where
  "bearer_call = \<lparr>ar_http = bearer_request, ar_Method = ''POST'', ar_remoteAddr = ''1.2.3.4:99'', ar_body = Body ''x'',
     ar_form = Inl ErrNoRows, ar_timer = False, ar_router = False, ar_cache = False\<rparr>"

definition linked_pub :: "unit pub_world" where
  "linked_pub = one_file\<lparr>pw_api := linked_world\<rparr>"

theorem server_acts_for_credentials_witness:
  "list_all (\<lambda>(ep, q). for_credentials sample_api bearer_call linked_world q)
     (w_sent (pw_api (snd (run_state (serve_api sample_api bearer_call) linked_pub))))"
  using server_acts_for_credentials [OF sample_promises(1,2), of linked_pub bearer_call]
  by (auto simp: sends_def linked_pub_def one_file_def linked_world_def quiet_world_def list_all_iff)

text \<open>Every request that a route accepts is answered.\<close>

definition proper_calls :: "write_op list \<Rightarrow> bool" where
  "proper_calls ops \<longleftrightarrow> settled ops \<and> list_all final_code ops \<and> list_all (\<lambda>x. \<not> sets_length x) ops"

definition proper_handler :: "'w handler \<Rightarrow> bool" where
  "proper_handler h \<longleftrightarrow> (\<forall>r s ops. fst (run_state (h r) s) = (ops, None) \<longrightarrow>
     proper_calls ops \<and> first_status ops \<in> {200, 400})"

lemma proper_handlerD:
  "proper_handler h \<Longrightarrow> run_state (h r) s = ((ops, None), t) \<Longrightarrow> proper_calls ops \<and> first_status ops \<in> {200, 400}"
  unfolding proper_handler_def by (metis fst_conv)

lemma valid_True: "valid P m (\<lambda>_ _. True)"
  by (simp add: valid_def case_prod_beta)

lemma Handle_status: "valid (\<lambda>_. True) (Handle E Unmarshal r) (\<lambda>x _. \<forall>reply. x = Ok reply \<longrightarrow> hr_status reply \<in> {200, 400})"
proof -
  have fin: "valid (\<lambda>_. True) (finish q out) (\<lambda>x _. \<forall>reply. x = Ok reply \<longrightarrow> hr_status reply \<in> {200, 400})" for q out
    unfolding finish_def by (intro io_intro valid_bind_keep [OF valid_True]) (auto simp: writeResponse_def)
  have "valid (\<lambda>_. True) (serve E r body req) (\<lambda>x _. \<forall>reply. x = Ok reply \<longrightarrow> hr_status reply \<in> {200, 400})" for body req
    unfolding serve_def Let_def case_prod_beta
    by (intro valid_if valid_bind_keep [OF valid_True] valid_res valid_return valid_prod fin) (auto simp: writeResponse_def)
  then show ?thesis unfolding Handle_def
    by (cases "px_body r") (auto intro!: valid_return valid_sum valid_option simp: writeResponse_def)
qed

lemma Handle_replies:
  assumes "fst (run_state (Handle E Unmarshal r) s) = Ok reply" and "hr_status reply \<noteq> 200"
  shows "hr_status reply = 400"
  using validD [OF Handle_status surjective_pairing] assms by fastforce

lemma after_fetch_status:
  assumes "\<And>reply. hr_status reply = 200 \<Longrightarrow>
    valid (\<lambda>_. True) (retry reply) (\<lambda>x _. \<forall>reply. x = Inl reply \<longrightarrow> hr_status reply = 200)"
  shows "valid (\<lambda>_. True) (after_fetch E form u f retry) (\<lambda>x _. \<forall>reply. x = Inl reply \<longrightarrow> hr_status reply = 200)"
proof -
  have ie: "hr_status (internal_error e) = 200" for e by (simp add: internal_error_def writeResponse_def)
  show ?thesis unfolding after_fetch_def
    by (cases f) (auto simp: ie split: fetch_error.split
        intro!: assms valid_return valid_sum valid_bind_keep [OF valid_True])
qed

lemma fetch_tries_status:
  "valid (\<lambda>_. True) (fetch_tries n E f u) (\<lambda>x _. \<forall>reply. x = Inl reply \<longrightarrow> hr_status reply = 200)"
  by (induction n) (auto intro!: valid_bind_keep [OF valid_True] after_fetch_status valid_return)

lemma publish_status: "valid (\<lambda>_. True) (publish_Handle E r) (\<lambda>x _. \<forall>reply. x = Ok reply \<longrightarrow> hr_status reply = 200)"
proof -
  let ?Q = "\<lambda>x (_ :: 'a pub_world). \<forall>reply. x = Ok reply \<longrightarrow> hr_status reply = 200"
  have ie: "hr_status (internal_error e) = 200" for e by (simp add: internal_error_def writeResponse_def)
  have body: "valid (\<lambda>_. True) (publish_body E r u n) ?Q" for u n
    unfolding publish_body_def Let_def
    by (intro valid_sum valid_option valid_json_obj valid_bind_keep [OF valid_True] valid_res valid_return) (auto simp: writeResponse_def)
  have rest: "valid (\<lambda>_. True) (do { out \<leftarrow> publish_body E r u n; remove_dir E n; State_Monad.return out }) ?Q" for u n
    by (rule valid_bind [OF body]) (auto simp: valid_def case_prod_beta)
  have tail: "valid (\<lambda>_. \<forall>reply. x = Inl reply \<longrightarrow> hr_status reply = 200) (case x of
       Inl reply \<Rightarrow> State_Monad.return (Ok reply)
     | Inr name \<Rightarrow> do {
         d \<leftarrow> api (ext (pe_ctxDone E));
         (case d of Some e \<Rightarrow> State_Monad.return (Ok (internal_error e))
          | None \<Rightarrow> do { out \<leftarrow> publish_body E r u name; remove_dir E name; State_Monad.return out }) }) ?Q" for x u
    by (cases x) (auto simp: ie intro!: valid_return valid_bind [OF valid_True] valid_option rest)
  show ?thesis unfolding publish_Handle_def Let_def case_prod_beta
    by (intro valid_option valid_if valid_return valid_bind [OF fetch_tries_status tail]) (auto simp: writeResponse_def ie)
qed

lemma reply_calls_proper:
  assumes "reply_calls A hs x = (ops, None)" "\<And>reply. x = Ok reply \<Longrightarrow> hr_status reply \<in> {200, 400}"
    "hs = [] \<or> hs = AddJSONContentType"
  shows "proper_calls ops \<and> first_status ops \<in> {200, 400}"
  using assms
  by (auto simp: reply_calls_def crash_def AddJSONContentType_def proper_calls_def settled_def first_status_def json_content_type
      split: res.splits if_splits)

lemma routes_proper:
  assumes "route \<in> set (v1_proxy_routes A @ status_routes A)"
  shows "proper_handler (ro_Handler route)"
proof -
  have "proper_handler (upload_handler A)" unfolding proper_handler_def upload_handler_def
    using publish_status by (auto simp: valid_def case_prod_beta dest!: reply_calls_proper)
  moreover have "proper_handler (proxy_handler A)" unfolding proper_handler_def proxy_handler_def
    by (auto simp: case_prod_beta dest!: reply_calls_proper intro: Handle_replies)
  moreover have "proper_handler (status_handler A)" "proper_handler (whoami_handler A)" "proper_handler emptyHandler"
    by (auto simp: proper_handler_def status_handler_def whoami_handler_def emptyHandler_def case_prod_beta crash_def WriteJSON_def
        proper_calls_def settled_def first_status_def AddJSONContentType_def json_content_type split: res.splits sum.splits)
  ultimately show ?thesis using assms by (auto simp: v1_proxy_routes_def status_routes_def)
qed

lemma header_prefix:
  assumes "list_all is_header hs"
  shows "takeWhile is_header (hs @ ops) = hs @ takeWhile is_header ops" "dropWhile is_header (hs @ ops) = dropWhile is_header ops"
  using assms by (auto simp: list_all_iff)

lemma proper_prefix:
  assumes "list_all is_header hs" "list_all (\<lambda>x. \<not> sets_length x) hs" "proper_calls ops"
  shows "proper_calls (hs @ ops)" "first_status (hs @ ops) = first_status ops"
proof -
  have "is_header x \<Longrightarrow> final_code x" for x by (cases x) auto
  with assms show "proper_calls (hs @ ops)" by (auto simp: proper_calls_def settled_def header_prefix list_all_iff)
  show "first_status (hs @ ops) = first_status ops" by (simp add: first_status_def header_prefix [OF assms(1)])
qed

lemma default_proper:
  assumes "cors_passes (ae_cors A)" "proper_handler h"
    and "fst (run_state (defaultMiddlewares A h r) s) = (ops, None)"
  shows "proper_calls ops \<and> first_status ops \<in> {200, 204, 400}"
proof -
  obtain hs where hs: "list_all is_header hs" "list_all (\<lambda>x. \<not> sets_length x) hs"
    and run: "run_state (defaultMiddlewares A h r) s = ((hs @ [W_WriteHeader 204], None), s) \<or>
     run_state (defaultMiddlewares A h r) s =
       (case run_state (after_auth A h r) s of (out, t) \<Rightarrow> ((hs @ fst out, snd out), t))"
    using run_default [OF assms(1)] by blast
  have pre: "proper_calls [W_WriteHeader 204]" "first_status [W_WriteHeader 204] = 204"
    by (simp_all add: proper_calls_def settled_def first_status_def)
  obtain o1 p1 t1 where o1: "run_state (after_auth A h r) s = ((o1, p1), t1)" by (metis surj_pair)
  then have "proper_calls o1 \<and> first_status o1 \<in> {200, 400}" if "p1 = None"
    using that assms(2) by (auto simp: run_after_auth crash_def split: prod.splits res.splits dest: proper_handlerD)
  with run assms(3) pre proper_prefix [OF hs] o1 show ?thesis by auto
qed

lemma default_headers_fine:
  "list_all is_header (map (\<lambda>(k, v). W_Set k v) default_headers)"
  "list_all (\<lambda>x. \<not> sets_length x) (map (\<lambda>(k, v). W_Set k v) default_headers)"
proof -
  have "CanonicalHeaderKey ''Server'' = ''Server''" "CanonicalHeaderKey ''Access-Control-Allow-Origin'' = ''Access-Control-Allow-Origin''"
    "CanonicalHeaderKey ''Access-Control-Allow-Headers'' = ''Access-Control-Allow-Headers''" by code_simp+
  then show "list_all is_header (map (\<lambda>(k, v). W_Set k v) default_headers)"
    "list_all (\<lambda>x. \<not> sets_length x) (map (\<lambda>(k, v). W_Set k v) default_headers)" by (simp_all add: default_headers_def)
qed


text \<open>A body of \<open>null\<close> makes the proxy handler dereference a nil pointer.\<close>

definition null_api :: "unit api_env" where
  "null_api = sample_api\<lparr>ae_Unmarshal := (\<lambda>_. Inr None)\<rparr>"


section \<open>Observations\<close>

text \<open>\<open>asynquery\<close>'s \<open>CreateQuery\<close> declares JSON, begins its answer with 201 and then writes with \<open>WriteJSON\<close>,
  which declares JSON again. \<open>net/http\<close> would ignore that; the recorder sends the content type twice.\<close>

definition query_created_calls :: "('d \<Rightarrow> go_error + bytes) \<Rightarrow> 'd \<Rightarrow> write_op list" where
  "query_created_calls MarshalIndent d = AddJSONContentType @ [W_WriteHeader 201] @ WriteJSON MarshalIndent d"

lemma content_type_twice:
  assumes "MarshalIndent d = Inr rb"
  shows "\<exists>a. net_answer (query_created_calls MarshalIndent d) = Ok a \<and>
      fmlookup (an_header a) ''Content-Type'' = Some [''application/json; charset=utf-8'']"
    and "rr_headerMap (recorded (query_created_calls MarshalIndent d)) =
      fmupd ''Content-Type'' [''application/json; charset=utf-8'', ''application/json; charset=utf-8''] fmempty"
  using assms
  by (auto simp: query_created_calls_def WriteJSON_def AddJSONContentType_def net_answer_def fresh_response_def Header_Add_def append_value_def
      json_content_type net_WriteHeader_def net_Write_def declared_length_def bodyAllowedForStatus_def recorded_def new_recorder_def
      rr_WriteHeader_def rr_Write_def)

text \<open>The default headers, among them that which lets any origin read the answer, are set inside of the
  middleware that handles panics, so that the answer to a panic has none of them.\<close>

lemma panic_loses_default_headers:
  assumes "fst (run_state (h r) s) = (ops, Some p)"
  shows "\<exists>a. net_answer (fst (run_state (server_stack A h r) s)) = Ok a \<and>
    fmlookup (an_header a) ''Access-Control-Allow-Origin'' = None"
proof -
  have "fst (run_state (server_stack A h r) s) = fst (ErrorLogging (ae_monitor A) (fst (defaultHeaders default_headers (ops, Some p)), Some p))"
    using assms by (simp add: server_stack_def case_prod_beta Let_def defaultHeaders_def)
  then show ?thesis by (simp add: panic_answer)
qed

end
