(* ===== verification/Handlers.thy ===== *)
theory Handlers
  imports Responses Proxy
begin

text \<open>
  Smaller handlers: the generic JSON-RPC handler of \<open>internal/handler\<close>, and the timers and the endpoint
  for metrics of the user interface in \<open>internal/metrics\<close>. Durations are in nanoseconds.
\<close>

section \<open>internal/handler\<close>

text \<open>\<open>StatusError\<close> inside of the error that a handler returns gives its status.\<close>

record rpc_result =
  rp_Status :: int
  rp_RedirectURL :: string
  rp_Error :: "(go_error \<times> int option) option"

definition result_status :: "rpc_result \<Rightarrow> int" where
  "result_status rsp = (
     if rp_Status rsp \<noteq> 0 then rp_Status rsp
     else case rp_Error rsp of
       Some (_, Some status) \<Rightarrow> status
     | Some (_, None) \<Rightarrow> 500
     | None \<Rightarrow> if rp_RedirectURL rsp \<noteq> [] then 302 else 200)"

definition Log :: "int \<Rightarrow> panic_value option" where
  "Log status = Some (PanicOther ''not implemented'')"

text \<open>\<open>Log\<close> is called on either branch before anything is written; what follows it is never reached.\<close>

definition handler_ServeHTTP :: "(bytes \<Rightarrow> go_error + rpc_request) \<Rightarrow> (rpc_request \<Rightarrow> ('s, rpc_result) state) \<Rightarrow> http_body
    \<Rightarrow> ('s, outcome) state" where
  "handler_ServeHTTP Unmarshal h body = (case body of
     NilBody \<Rightarrow> State_Monad.return ([W_WriteHeader 400, W_Write ''empty request body''], None)
   | BrokenBody _ \<Rightarrow> State_Monad.return ([W_WriteHeader 400, W_Write ''error reading request body''], None)
   | Body b \<Rightarrow>
       (case Unmarshal b of
          Inl err \<Rightarrow> State_Monad.return ([W_WriteHeader 400], None)
        | Inr req \<Rightarrow> do {
            rsp \<leftarrow> h req;
            State_Monad.return ([], Log (result_status rsp))
          }))"

definition expand_tab :: "string \<Rightarrow> string" where
  "expand_tab e = (if HasPrefix e [CHR 0x09] then ''    '' @ drop 1 e else e)"

definition getTraceFromError :: "string \<Rightarrow> string list" where
  "getTraceFromError trace = map expand_tab (split_on CHR 0x0A trace)"

text \<open>Every request that can be read ends in a panic.\<close>

lemma handler_always_panics:
  "Unmarshal b = Inr req \<Longrightarrow> fst (run_state (handler_ServeHTTP Unmarshal h (Body b)) s) = ([], Some (PanicOther ''not implemented''))"
  by (simp add: handler_ServeHTTP_def Log_def case_prod_beta)

lemma trace_lines: "length (getTraceFromError t) = length (split_on CHR 0x0A t) \<and> getTraceFromError t \<noteq> []"
  by (simp add: getTraceFromError_def)

section \<open>Timers\<close>

record timer =
  tm_Started :: int
  tm_duration :: int
  tm_observers :: "string list"

definition StartTimer :: "int \<Rightarrow> timer" where
  "StartTimer now = \<lparr>tm_Started = now, tm_duration = 0, tm_observers = []\<rparr>"

definition AddObserver :: "timer \<Rightarrow> string \<Rightarrow> timer" where
  "AddObserver t obs = t\<lparr>tm_observers := tm_observers t @ [obs]\<rparr>"

text \<open>The observations made, the duration that is returned and the timer afterwards.\<close>

definition Stop :: "int \<Rightarrow> timer \<Rightarrow> (string \<times> int) list \<times> int \<times> timer" where
  "Stop now t = (
     if tm_duration t = 0
     then let d = now - tm_Started t in (map (\<lambda>x. (x, d)) (tm_observers t), d, t\<lparr>tm_duration := d\<rparr>)
     else ([], tm_duration t, t))"

definition Duration :: "int \<Rightarrow> timer \<Rightarrow> int" where
  "Duration now t = (if tm_duration t = 0 then now - tm_Started t else tm_duration t)"

definition GetDuration :: "int \<Rightarrow> timer option \<Rightarrow> int" where
  "GetDuration now v = (case v of None \<Rightarrow> - 1 | Some t \<Rightarrow> Duration now t)"

text \<open>A timer that has run is stopped once: its observers are told once, and its duration stays.\<close>

lemma stopped_once:
  assumes "Stop now t = (seen, d, t')" "tm_duration t = 0" "tm_Started t \<noteq> now"
  shows "map fst seen = tm_observers t \<and> d = now - tm_Started t \<and> Stop later t' = ([], d, t') \<and> Duration later t' = d"
  using assms by (auto simp: Stop_def Duration_def Let_def comp_def)

text \<open>A timer that is stopped in the very instant of its start counts as running, and reports again.\<close>

lemma instant_timer_reports_twice:
  "let (seen, d, t) = Stop now (AddObserver (StartTimer now) obs) in
     seen = [(obs, 0)] \<and> fst (Stop (now + k) t) = [(obs, k)]"
  by (simp add: Stop_def AddObserver_def StartTimer_def Let_def)

section \<open>Metrics of the user interface\<close>

text \<open>\<open>FormValue\<close> of the three parameters; the answer as JSON, and what is observed.\<close>

definition TrackUIMetric :: "string \<Rightarrow> string \<Rightarrow> string \<Rightarrow> write_op list \<times> (string \<times> string) option" where
  "TrackUIMetric metricName player val = (
     let (code, errs, observed) =
       (if metricName = ''time_to_start''
        then if length player > 64 then (400, [(''error'', JStr ''invalid player value'')], Some (player, val))
             else (200, [], Some (player, val))
        else (400, [(''error'', JStr ''invalid metric name'')], None))
     in (AddJSONContentType @ [W_WriteHeader code, W_Write (json_marshal (JObj (fmap_of_list (errs @ [(''name'', JStr metricName)]))))],
         observed))"

text \<open>A label that is refused for its length is recorded all the same.\<close>

lemma refused_label_recorded:
  assumes "64 < length player"
  shows "snd (TrackUIMetric ''time_to_start'' player v) = Some (player, v)"
    and "first_status (fst (TrackUIMetric ''time_to_start'' player v)) = 400"
  using assms by (simp_all add: TrackUIMetric_def AddJSONContentType_def first_status_def)

end
