(* ===== verification/Arweave.thy ===== *)
theory Arweave
  imports World
begin

text \<open>
  \<open>app/arweave\<close>: thumbnails and streams that have been copied to another network are announced
  under the address of their copy. A resolver is asked which addresses have a copy; the copy's
  path, with the number of the data item as a query parameter, replaces the address. The query
  parameters are those of \<open>net/url\<close>. The resolver, the parser of URLs and the JSON libraries
  \<open>gjson\<close> and \<open>sjson\<close>, which read and set a document at a path, are parameters.
\<close>

section \<open>Query parameters\<close>

definition unreserved :: "char \<Rightarrow> bool" where
  "unreserved c \<longleftrightarrow> (let n = of_char c :: nat in
     48 \<le> n \<and> n \<le> 57 \<or> 65 \<le> n \<and> n \<le> 90 \<or> 97 \<le> n \<and> n \<le> 122) \<or> c \<in> {CHR ''-'', CHR ''_'', CHR ''.'', CHR ''~''}"

definition upperhex :: "nat \<Rightarrow> char" where
  "upperhex d = (if d < 10 then char_of (48 + d) else char_of (55 + d))"

definition escape_byte :: "char \<Rightarrow> string" where
  "escape_byte c = (
     if unreserved c then [c]
     else if c = CHR '' '' then ''+''
     else [CHR ''%'', upperhex (of_char c div 16), upperhex (of_char c mod 16)])"

definition QueryEscape :: "string \<Rightarrow> string" where
  "QueryEscape s = concat (map escape_byte s)"

fun QueryUnescape :: "string \<Rightarrow> string option" where
  "QueryUnescape [] = Some []"
| "QueryUnescape (c # s) = (
     if c = CHR ''%'' then
       (case s of
          a # b # rest \<Rightarrow>
            (case unhex_digit a of None \<Rightarrow> None
             | Some h \<Rightarrow> (case unhex_digit b of None \<Rightarrow> None
               | Some l \<Rightarrow> map_option ((#) (char_of (16 * h + l))) (QueryUnescape rest)))
        | _ \<Rightarrow> None)
     else map_option ((#) (if c = CHR ''+'' then CHR '' '' else c)) (QueryUnescape s))"

definition Cut :: "char \<Rightarrow> string \<Rightarrow> string \<times> string" where
  "Cut sep s = (takeWhile (\<lambda>c. c \<noteq> sep) s, drop 1 (dropWhile (\<lambda>c. c \<noteq> sep) s))"

type_synonym url_values = "(string, string list) fmap"

definition Values_Add :: "string \<Rightarrow> string \<Rightarrow> url_values \<Rightarrow> url_values" where
  "Values_Add = append_value"

text \<open>One element between the separators; what cannot be read is left out.\<close>

definition parse_element :: "string \<Rightarrow> url_values \<Rightarrow> url_values" where
  "parse_element e m = (
     if CHR '';'' \<in> set e \<or> e = [] then m
     else let (key, value) = Cut CHR ''='' e in
       (case QueryUnescape key of None \<Rightarrow> m
        | Some k \<Rightarrow> (case QueryUnescape value of None \<Rightarrow> m | Some v \<Rightarrow> Values_Add k v m)))"

definition parseQuery :: "string \<Rightarrow> url_values" where
  "parseQuery q = fold parse_element (split_on CHR ''&'' q) fmempty"

definition encode_pair :: "string \<times> string \<Rightarrow> string" where
  "encode_pair kv = QueryEscape (fst kv) @ ''='' @ QueryEscape (snd kv)"

definition Encode :: "url_values \<Rightarrow> string" where
  "Encode m = join_with CHR ''&'' (map encode_pair (pairs_of (sorted_list_of_fmap m)))"

text \<open>A parsed URL: what is printed before the query, the query, and the fragment as it is printed.\<close>

record url =
  u_head :: string
  u_ForceQuery :: bool
  u_RawQuery :: string
  u_fragment :: string

definition url_String :: "url \<Rightarrow> string" where
  "url_String u = u_head u @ (if u_ForceQuery u \<or> u_RawQuery u \<noteq> [] then ''?'' @ u_RawQuery u else []) @ u_fragment u"

definition url_Query :: "url \<Rightarrow> url_values" where
  "url_Query u = parseQuery (u_RawQuery u)"

section \<open>Reading back\<close>

lemma upperhex_unhex: "d < 16 \<Longrightarrow> unhex_digit (upperhex d) = Some d"
  by (auto simp: unhex_digit_def upperhex_def)

lemma unescape_byte: "QueryUnescape (escape_byte c @ s) = map_option ((#) c) (QueryUnescape s)"
proof (cases "unreserved c \<or> c = CHR '' ''")
  case True
  have "\<not> unreserved CHR ''%''" "\<not> unreserved CHR ''+''" "\<not> unreserved CHR '' ''" by code_simp+
  with True show ?thesis by (auto simp: escape_byte_def)
next
  case False
  have "(of_char c :: nat) div 16 < 16" using nat_of_char_less_256 [of c] by linarith
  moreover have "16 * ((of_char c :: nat) div 16) + of_char c mod 16 = of_char c" by simp
  ultimately show ?thesis using False by (simp add: escape_byte_def upperhex_unhex)
qed

lemma unescape_escape [simp]: "QueryUnescape (QueryEscape s) = Some s"
  by (induction s) (simp_all add: QueryEscape_def unescape_byte)

definition separator :: "char \<Rightarrow> bool" where
  "separator c \<longleftrightarrow> c \<in> {CHR ''&'', CHR '';'', CHR ''=''}"

lemma escape_no_separator: "c \<in> set (QueryEscape s) \<Longrightarrow> \<not> separator c"
proof -
  have hex: "\<not> separator (upperhex d)" if "d < 16" for d
  proof -
    have "unhex_digit (upperhex d) = Some d" by (rule upperhex_unhex [OF that])
    moreover have "unhex_digit CHR ''&'' = None" "unhex_digit CHR '';'' = None" "unhex_digit CHR ''='' = None" by code_simp+
    ultimately show ?thesis by (auto simp: separator_def)
  qed
  have un: "\<not> separator c" if "unreserved c" for c
  proof -
    have "\<not> unreserved CHR ''&''" "\<not> unreserved CHR '';''" "\<not> unreserved CHR ''=''" by code_simp+
    with that show ?thesis by (auto simp: separator_def)
  qed
  have "(of_char b :: nat) div 16 < 16" for b :: char using nat_of_char_less_256 [of b] by linarith
  moreover have "\<not> separator CHR ''%''" "\<not> separator CHR ''+''" by (simp_all add: separator_def)
  ultimately have "\<not> separator c" if "c \<in> set (escape_byte b)" for b
    using that hex un by (auto simp: escape_byte_def split: if_splits)
  then show "c \<in> set (QueryEscape s) \<Longrightarrow> \<not> separator c" by (auto simp: QueryEscape_def)
qed

lemma escape_free [simp]: "CHR ''&'' \<notin> set (QueryEscape s)" "CHR '';'' \<notin> set (QueryEscape s)" "CHR ''='' \<notin> set (QueryEscape s)"
  using escape_no_separator [of _ s] by (auto simp: separator_def)

lemma Cut_at: "sep \<notin> set a \<Longrightarrow> Cut sep (a @ sep # b) = (a, b)"
proof -
  assume a: "sep \<notin> set a"
  then have "takeWhile (\<lambda>c. c \<noteq> sep) (a @ sep # b) = a" "dropWhile (\<lambda>c. c \<noteq> sep) (a @ sep # b) = sep # b"
    by (induction a) auto
  then show ?thesis by (simp add: Cut_def)
qed

lemma parse_encoded: "parse_element (encode_pair kv) m = Values_Add (fst kv) (snd kv) m"
  by (simp add: parse_element_def encode_pair_def Cut_at)

lemma parse_Encode: "parseQuery (Encode m) = fold (\<lambda>(k, v). Values_Add k v) (pairs_of (sorted_list_of_fmap m)) fmempty"
proof (cases "pairs_of (sorted_list_of_fmap m) = []")
  case True
  then show ?thesis by (simp add: parseQuery_def Encode_def parse_element_def)
next
  case False
  have "split_on CHR ''&'' (Encode m) = map encode_pair (pairs_of (sorted_list_of_fmap m))"
    unfolding Encode_def by (rule split_on_join) (use False in \<open>auto simp: encode_pair_def\<close>)
  moreover have "fold parse_element (map encode_pair xs) n = fold (\<lambda>(k, v). Values_Add k v) xs n" for xs n
    by (induction xs arbitrary: n) (simp_all add: parse_encoded case_prod_beta)
  ultimately show ?thesis by (simp add: parseQuery_def)
qed

definition full_values :: "url_values \<Rightarrow> bool" where
  "full_values m \<longleftrightarrow> (\<forall>k vs. fmlookup m k = Some vs \<longrightarrow> vs \<noteq> [])"

lemma parse_Encode_full: "full_values m \<Longrightarrow> parseQuery (Encode m) = m"
  unfolding parse_Encode Values_Add_def by (rule append_all [OF sorted_entries]) (auto simp: full_values_def)

lemma full_append: "full_values m \<Longrightarrow> full_values (append_value k v m)"
  by (auto simp: full_values_def append_value_def)

lemma full_parseQuery: "full_values (parseQuery q)"
proof -
  have "full_values m \<Longrightarrow> full_values (parse_element e m)" for e m
    by (auto simp: parse_element_def Values_Add_def full_append split: option.split prod.split)
  then have "full_values m \<Longrightarrow> full_values (fold parse_element es m)" for es m
    by (induction es arbitrary: m) auto
  moreover have "full_values fmempty" by (simp add: full_values_def)
  ultimately show ?thesis by (simp add: parseQuery_def)
qed

section \<open>The resolver\<close>

text \<open>The fields of the resolver's answers that the code reads.\<close>

record resolve_response =
  rs_Arfleet :: string
  rs_DataItemId :: string
  rs_Resolved :: bool

text \<open>\<open>aw_Do\<close> sends a request and yields the status and what reading the body gives. \<open>aw_keys\<close> are the keys
  that \<open>ForEach\<close> visits, \<open>aw_Get\<close> the text at a path, \<open>aw_Set\<close> the document with a text put there.
  \<open>aw_iter\<close> is the order of a visit of a map. \<open>aw_early\<close> tells whether the compiled code reads a
  returned variable before or after a call in the same \<open>return\<close>, which Go leaves open.\<close>

record ('w, 'd) arweave_env =
  aw_NewRequest :: "string \<Rightarrow> string \<Rightarrow> go_error option"
  aw_Do :: "string \<Rightarrow> bytes \<Rightarrow> ('w, go_error + (int \<times> (go_error + bytes))) state"
  aw_decode :: "bytes \<Rightarrow> go_error + (string, resolve_response) fmap"
  aw_Parse :: "string \<Rightarrow> go_error + url"
  aw_Marshal :: "json \<Rightarrow> go_error + 'd"
  aw_Unmarshal :: "'d \<Rightarrow> go_error + json"
  aw_keys :: "'d \<Rightarrow> string \<Rightarrow> string list"
  aw_Get :: "'d \<Rightarrow> string \<Rightarrow> string"
  aw_Set :: "'d \<Rightarrow> string \<Rightarrow> string \<Rightarrow> 'd \<times> go_error option"
  aw_iter :: "(string, string) fmap \<Rightarrow> (string \<times> string) list"
  aw_early :: bool

definition batchResolverUrl :: string where
  "batchResolverUrl = ''https://migrator.arfleet.zephyrdev.xyz/batch-resolve''"

definition batchClaimResolverUrl :: string where
  "batchClaimResolverUrl = ''https://migrator.arfleet.zephyrdev.xyz/claims/batch-resolve''"

definition paramDataItemId :: string where "paramDataItemId = ''data_item_id''"

definition arfleet_makeRequest :: "('w, 'd) arweave_env \<Rightarrow> string \<Rightarrow> string \<Rightarrow> bytes \<Rightarrow> ('w, go_error + bytes) state" where
  "arfleet_makeRequest D method url jsonData = (case aw_NewRequest D method url of
     Some err \<Rightarrow> State_Monad.return (Inl (Wrapped ''error creating request'' err))
   | None \<Rightarrow> do {
       x \<leftarrow> aw_Do D url jsonData;
       State_Monad.return (case x of
         Inl err \<Rightarrow> Inl (Wrapped ''error sending request'' err)
       | Inr (statusCode, content) \<Rightarrow>
           (case content of
              Inl err \<Rightarrow> Inl (Wrapped ''error reading response'' err)
            | Inr body \<Rightarrow>
                if statusCode \<noteq> 200
                then Inl (Plain (''unexpected status code: got '' @ Itoa statusCode @ '', want 200''))
                else Inr body))
     })"

text \<open>The one parameter that callers pass.\<close>

definition appendParams :: "('w, 'd) arweave_env \<Rightarrow> string \<Rightarrow> (string \<times> string) list \<Rightarrow> go_error + string" where
  "appendParams D baseUrl params = (case aw_Parse D baseUrl of
     Inl err \<Rightarrow> Inl err
   | Inr u \<Rightarrow> Inr (url_String (u\<lparr>u_RawQuery := Encode (fold (\<lambda>(k, v). Values_Add k v) params (url_Query u))\<rparr>)))"

definition substitute :: "('w, 'd) arweave_env \<Rightarrow> string \<Rightarrow> resolve_response \<Rightarrow> string option" where
  "substitute D baseUrl resolved = (
     if \<not> rs_Resolved resolved then None
     else case appendParams D (rs_Arfleet resolved) [(paramDataItemId, rs_DataItemId resolved)] of
       Inl err \<Rightarrow> None
     | Inr u \<Rightarrow> Some (baseUrl @ u))"

text \<open>The loop over the answer keeps the entries that have a substitute.\<close>

definition substitutes :: "('w, 'd) arweave_env \<Rightarrow> string \<Rightarrow> (string, resolve_response) fmap \<Rightarrow> (string, string) fmap" where
  "substitutes D baseUrl resolvedList =
     fmmap (\<lambda>x. the (substitute D baseUrl x))
       (fmfilter (\<lambda>k. case fmlookup resolvedList k of None \<Rightarrow> False | Some x \<Rightarrow> substitute D baseUrl x \<noteq> None) resolvedList)"

definition resolve_batch :: "('w, 'd) arweave_env \<Rightarrow> string \<Rightarrow> string \<Rightarrow> string \<Rightarrow> string list
    \<Rightarrow> ('w, go_error + (string, string) fmap) state" where
  "resolve_batch D baseUrl resolverUrl field xs = do {
     x \<leftarrow> arfleet_makeRequest D ''POST'' resolverUrl (json_marshal (JObj (fmupd field (JArr (map JStr xs)) fmempty)));
     State_Monad.return (case x of
       Inl err \<Rightarrow> Inl err
     | Inr jsonResponse \<Rightarrow>
         (case aw_decode D jsonResponse of
            Inl err \<Rightarrow> Inl (Wrapped ''error parsing json'' err)
          | Inr resolvedList \<Rightarrow> Inr (substitutes D baseUrl resolvedList)))
   }"

definition ResolveUrls :: "('w, 'd) arweave_env \<Rightarrow> string \<Rightarrow> string list \<Rightarrow> ('w, go_error + (string, string) fmap) state" where
  "ResolveUrls D baseUrl urls = resolve_batch D baseUrl batchResolverUrl ''urls'' urls"

definition ResolveClaims :: "('w, 'd) arweave_env \<Rightarrow> string \<Rightarrow> string list \<Rightarrow> ('w, go_error + (string, string) fmap) state" where
  "ResolveClaims D baseUrl claim_ids = resolve_batch D baseUrl batchClaimResolverUrl ''claim_ids'' claim_ids"

section \<open>Replacement\<close>

text \<open>\<open>return d, json.Unmarshal(jsonData, &d)\<close>.\<close>

definition unmarshal_result :: "('w, 'd) arweave_env \<Rightarrow> 'd \<Rightarrow> go_error + json" where
  "unmarshal_result D jsonData = (case aw_Unmarshal D jsonData of
     Inl err \<Rightarrow> Inl err
   | Inr d \<Rightarrow> Inr (if aw_early D then JNull else d))"

definition item_path :: "string \<Rightarrow> string \<Rightarrow> string \<Rightarrow> string" where
  "item_path collPath itemPath key = collPath @ ''.'' @ key @ ''.'' @ itemPath"

definition url_paths :: "('w, 'd) arweave_env \<Rightarrow> 'd \<Rightarrow> string list \<Rightarrow> (string, string list) fmap" where
  "url_paths D jsonData paths = fold (\<lambda>p. append_value (aw_Get D jsonData p) p) paths fmempty"

definition paths_at :: "(string, string list) fmap \<Rightarrow> string \<Rightarrow> string list" where
  "paths_at urlPaths u = (case fmlookup urlPaths u of Some ps \<Rightarrow> ps | None \<Rightarrow> [])"

definition replacements :: "(string \<times> string) list \<Rightarrow> (string, string list) fmap \<Rightarrow> (string \<times> string) list" where
  "replacements subs urlPaths = concat (map (\<lambda>(oldURL, newURL). map (\<lambda>p. (p, newURL)) (paths_at urlPaths oldURL)) subs)"

definition ReplaceAssetUrls :: "('w, 'd) arweave_env \<Rightarrow> string \<Rightarrow> json \<Rightarrow> string \<Rightarrow> string \<Rightarrow> ('w, go_error + json) state" where
  "ReplaceAssetUrls D baseUrl structure collPath itemPath = (case aw_Marshal D structure of
     Inl err \<Rightarrow> State_Monad.return (Inl err)
   | Inr jsonData \<Rightarrow> do {
       let paths = map (item_path collPath itemPath) (aw_keys D jsonData collPath);
       subs \<leftarrow> ResolveUrls D baseUrl (map (aw_Get D jsonData) paths);
       State_Monad.return (case subs of
         Inl err \<Rightarrow> Inl err
       | Inr subsUrls \<Rightarrow> unmarshal_result D
           (fold (\<lambda>(p, newURL) d. fst (aw_Set D d p newURL)) (replacements (aw_iter D subsUrls) (url_paths D jsonData paths)) jsonData))
     })"

definition ReplaceAssetUrl :: "('w, 'd) arweave_env \<Rightarrow> string \<Rightarrow> json \<Rightarrow> string \<Rightarrow> ('w, go_error + json) state" where
  "ReplaceAssetUrl D baseUrl structure path = (case aw_Marshal D structure of
     Inl err \<Rightarrow> State_Monad.return (Inl err)
   | Inr jsonData \<Rightarrow> do {
       let origUrl = aw_Get D jsonData path;
       subs \<leftarrow> ResolveUrls D baseUrl [origUrl];
       State_Monad.return (case subs of
         Inl err \<Rightarrow> Inl err
       | Inr subsUrls \<Rightarrow>
           (case fmlookup subsUrls origUrl of
              None \<Rightarrow> unmarshal_result D jsonData
            | Some newUrl \<Rightarrow>
                (case aw_Set D jsonData path newUrl of
                   (_, Some err) \<Rightarrow> Inl err
                 | (d, None) \<Rightarrow> unmarshal_result D d)))
     })"

definition GetClaimUrl :: "('w, 'd) arweave_env \<Rightarrow> string \<Rightarrow> string \<Rightarrow> ('w, go_error + string) state" where
  "GetClaimUrl D baseUrl claim_id = do {
     r \<leftarrow> ResolveClaims D baseUrl [claim_id];
     State_Monad.return (case r of
       Inl err \<Rightarrow> Inl err
     | Inr m \<Rightarrow> Inr (case fmlookup m claim_id of Some u \<Rightarrow> u | None \<Rightarrow> []))
   }"

text \<open>The functions that the hooks of \<open>app/query\<close> call, with the paths they pass.\<close>

definition with_arweave :: "('w, 'd) arweave_env \<Rightarrow> 'w env \<Rightarrow> 'w env" where
  "with_arweave D E = E\<lparr>
     env_GetClaimUrl := GetClaimUrl D,
     env_ReplaceAssetUrls := (\<lambda>baseUrl j. ReplaceAssetUrls D baseUrl j ''items'' ''value.thumbnail.url''),
     env_ReplaceAssetUrl := (\<lambda>baseUrl j. ReplaceAssetUrl D baseUrl j ''value.thumbnail.url'')\<rparr>"

section \<open>Lemmas\<close>

lemma full_add_all: "full_values m \<Longrightarrow> full_values (fold (\<lambda>(k, v). Values_Add k v) ps m)"
  by (induction ps arbitrary: m) (auto simp: Values_Add_def full_append)

lemma substitutes_lookup:
  "fmlookup (substitutes D b rl) k = (case fmlookup rl k of None \<Rightarrow> None | Some x \<Rightarrow> substitute D b x)"
  by (auto simp: substitutes_def split: option.split)

lemma append_paths:
  "(\<exists>ps. fmlookup (fold (\<lambda>p. append_value (f p) p) xs m) u = Some ps \<and> p \<in> set ps) \<longleftrightarrow>
     (\<exists>ps. fmlookup m u = Some ps \<and> p \<in> set ps) \<or> p \<in> set xs \<and> f p = u"
proof (induction xs arbitrary: m)
  case (Cons x xs)
  show ?case unfolding fold_simps o_apply Cons.IH by (auto simp: append_value_def split: option.splits)
qed simp

lemma replacements_set:
  "(p, v) \<in> set (replacements subs (url_paths D d paths)) \<longleftrightarrow> p \<in> set paths \<and> (aw_Get D d p, v) \<in> set subs"
proof -
  have "(\<exists>ps. fmlookup (url_paths D d paths) u = Some ps \<and> p \<in> set ps) \<longleftrightarrow> p \<in> set paths \<and> aw_Get D d p = u" for u
    unfolding url_paths_def by (subst append_paths) simp
  moreover have "p \<in> set (paths_at m u) \<longleftrightarrow> (\<exists>ps. fmlookup m u = Some ps \<and> p \<in> set ps)" for m u
    by (cases "fmlookup m u") (simp_all add: paths_at_def)
  ultimately have at: "p \<in> set (paths_at (url_paths D d paths) u) \<longleftrightarrow> p \<in> set paths \<and> aw_Get D d p = u" for u by simp
  have "(p, v) \<in> set (replacements subs m) \<longleftrightarrow> (\<exists>u. (u, v) \<in> set subs \<and> p \<in> set (paths_at m u))" for m
    by (induction subs) (auto simp: replacements_def)
  with at show ?thesis by auto
qed

text \<open>What the JSON libraries promise of a set of paths that can be set in a document: each holds what was
  last put there, and the others are not disturbed.\<close>

definition path_laws :: "('w, 'd) arweave_env \<Rightarrow> ('d \<Rightarrow> bool) \<Rightarrow> string set \<Rightarrow> bool" where
  "path_laws D ok P \<longleftrightarrow> (\<forall>d p v. ok d \<longrightarrow> p \<in> P \<longrightarrow> ok (fst (aw_Set D d p v)) \<and> aw_Get D (fst (aw_Set D d p v)) p = v \<and>
     (\<forall>q \<in> P. q \<noteq> p \<longrightarrow> aw_Get D (fst (aw_Set D d p v)) q = aw_Get D d q))"

definition visits_all :: "((string, string) fmap \<Rightarrow> (string \<times> string) list) \<Rightarrow> bool" where
  "visits_all iter \<longleftrightarrow> (\<forall>m k v. (k, v) \<in> set (iter m) \<longleftrightarrow> fmlookup m k = Some v)"

lemma set_all:
  assumes "path_laws D ok P" "ok d" "fst ` set rs \<subseteq> P" "q \<in> P"
  shows "if \<exists>v. (q, v) \<in> set rs then (q, aw_Get D (fold (\<lambda>(p, v) d. fst (aw_Set D d p v)) rs d) q) \<in> set rs
    else aw_Get D (fold (\<lambda>(p, v) d. fst (aw_Set D d p v)) rs d) q = aw_Get D d q"
  using assms(2,3)
proof (induction rs arbitrary: d)
  case (Cons x rs)
  obtain p v where x: "x = (p, v)" by fastforce
  let ?d = "fst (aw_Set D d p v)"
  from assms(1) Cons.prems x have "ok ?d" "aw_Get D ?d p = v" "q \<noteq> p \<Longrightarrow> aw_Get D ?d q = aw_Get D d q"
    using assms(4) unfolding path_laws_def by auto
  with Cons.IH [of ?d] Cons.prems x show ?case by (auto split: if_splits)
qed simp

section \<open>Properties\<close>

text \<open>C25: the address of a copy carries the data item's number in a form that can be read back. Adding
  parameters to an address changes its query only; and the query parameters of the new address are
  exactly those of the old one, as far as they could be read, with the added ones after them, whatever
  bytes they consist of.\<close>

theorem params_readable:
  assumes "appendParams D baseUrl params = Inr s"
  shows "\<exists>u u'. aw_Parse D baseUrl = Inr u \<and> s = url_String u' \<and> u_head u' = u_head u \<and> u_fragment u' = u_fragment u \<and>
    url_Query u' = fold (\<lambda>(k, v). append_value k v) params (url_Query u)"
proof -
  from assms obtain u where u: "aw_Parse D baseUrl = Inr u"
    and s: "s = url_String (u\<lparr>u_RawQuery := Encode (fold (\<lambda>(k, v). Values_Add k v) params (url_Query u))\<rparr>)"
    by (auto simp: appendParams_def split: sum.splits)
  have "full_values (fold (\<lambda>(k, v). Values_Add k v) params (url_Query u))"
    by (rule full_add_all) (simp add: url_Query_def full_parseQuery)
  from parse_Encode_full [OF this] u s show ?thesis
    by (intro exI [of _ u] exI [of _ "u\<lparr>u_RawQuery := Encode (fold (\<lambda>(k, v). Values_Add k v) params (url_Query u))\<rparr>"])
       (simp add: url_Query_def Values_Add_def)
qed

text \<open>C26: exactly the thumbnails that have a copy are replaced, each by the address of its own copy. If the
  resolver answers, then in the document from which the result is read every item's address is the
  substitute of the address it had, or that address itself where there is no substitute, also when
  several items share an address and in whatever order the substitutes are visited.\<close>

theorem thumbnails_replaced:
  fixes D :: "('w, 'd) arweave_env"
  assumes "aw_Marshal D structure = Inr jsonData"
    and "P = item_path collPath itemPath ` set (aw_keys D jsonData collPath)"
    and "path_laws D ok P" and "ok jsonData" and "visits_all (aw_iter D)"
    and "fst (run_state (ResolveUrls D baseUrl (map (aw_Get D jsonData) (map (item_path collPath itemPath) (aw_keys D jsonData collPath)))) w) = Inr subs"
  shows "\<exists>d. fst (run_state (ReplaceAssetUrls D baseUrl structure collPath itemPath) w) = unmarshal_result D d \<and>
    (\<forall>p \<in> P. aw_Get D d p = (case fmlookup subs (aw_Get D jsonData p) of Some new \<Rightarrow> new | None \<Rightarrow> aw_Get D jsonData p))"
proof -
  let ?paths = "map (item_path collPath itemPath) (aw_keys D jsonData collPath)"
  let ?rs = "replacements (aw_iter D subs) (url_paths D jsonData ?paths)"
  let ?d = "fold (\<lambda>(p, v) d. fst (aw_Set D d p v)) ?rs jsonData"
  have P: "set ?paths = P" by (simp add: assms(2))
  have rs: "(p, v) \<in> set ?rs \<longleftrightarrow> p \<in> P \<and> fmlookup subs (aw_Get D jsonData p) = Some v" for p v
    using assms(5) unfolding replacements_set P visits_all_def by blast
  have "aw_Get D ?d p = (case fmlookup subs (aw_Get D jsonData p) of Some new \<Rightarrow> new | None \<Rightarrow> aw_Get D jsonData p)" if "p \<in> P" for p
  proof -
    have "fst ` set ?rs \<subseteq> P" using rs by auto
    from set_all [OF assms(3,4) this that] rs that show ?thesis by (auto split: option.splits if_splits)
  qed
  moreover have "fst (run_state (ReplaceAssetUrls D baseUrl structure collPath itemPath) w) = unmarshal_result D ?d"
    using assms(1,6) by (simp add: ReplaceAssetUrls_def Let_def case_prod_beta)
  ultimately show ?thesis by blast
qed

text \<open>A resolver that knows one address, and documents that are maps from paths to addresses.\<close>

definition sample_arweave :: "(unit, (string, string) fmap) arweave_env" where
  "sample_arweave = \<lparr>aw_NewRequest = (\<lambda>_ _. None), aw_Do = (\<lambda>_ _. State_Monad.return (Inr (200, Inr ''r''))),
     aw_decode = (\<lambda>_. Inr (fmupd ''a'' \<lparr>rs_Arfleet = ''/x?k=1'', rs_DataItemId = ''i d'', rs_Resolved = True\<rparr> fmempty)),
     aw_Parse = (\<lambda>_. Inr \<lparr>u_head = ''/x'', u_ForceQuery = False, u_RawQuery = ''k=1'', u_fragment = []\<rparr>),
     aw_Marshal = (\<lambda>_. Inr (fmap_of_list [(''items.0.u'', ''a''), (''items.1.u'', ''b''), (''items.2.u'', ''a'')])),
     aw_Unmarshal = (\<lambda>d. Inr (JObj (fmmap JStr d))), aw_keys = (\<lambda>_ _. [''0'', ''1'', ''2'']),
     aw_Get = (\<lambda>d p. case fmlookup d p of Some x \<Rightarrow> x | None \<Rightarrow> []), aw_Set = (\<lambda>d p v. (fmupd p v d, None)),
     aw_iter = sorted_list_of_fmap, aw_early = False\<rparr>"

lemma sample_url: "appendParams sample_arweave ''/x?k=1'' [(paramDataItemId, ''i d'')] = Inr ''/x?data_item_id=i+d&k=1''"
proof -
  have "Encode (Values_Add paramDataItemId ''i d'' (parseQuery ''k=1'')) = ''data_item_id=i+d&k=1''" by code_simp
  then show ?thesis by (simp add: appendParams_def sample_arweave_def url_Query_def url_String_def)
qed

theorem params_readable_witness:
  "\<exists>u u'. aw_Parse sample_arweave ''/x?k=1'' = Inr u \<and> ''/x?data_item_id=i+d&k=1'' = url_String u' \<and> u_head u' = u_head u \<and>
     url_Query u' = append_value paramDataItemId ''i d'' (url_Query u)"
  using params_readable [OF sample_url] by auto

lemma sample_laws: "path_laws sample_arweave (\<lambda>_. True) P" "visits_all (aw_iter sample_arweave)"
proof -
  show "path_laws sample_arweave (\<lambda>_. True) P" by (simp add: path_laws_def sample_arweave_def)
  have "(k, v) \<in> set (sorted_list_of_fmap m) \<longleftrightarrow> fmlookup m k = Some v" for m :: "(string, string) fmap" and k v
    by (metis map_of_sorted_list map_of_SomeD map_of_is_SomeI sorted_entries(1))
  then show "visits_all (aw_iter sample_arweave)" by (simp add: visits_all_def sample_arweave_def)
qed

theorem thumbnails_replaced_witness:
  "\<exists>d. fst (run_state (ReplaceAssetUrls sample_arweave ''https://cdn'' JNull ''items'' ''u'') ()) = unmarshal_result sample_arweave d \<and>
     aw_Get sample_arweave d ''items.0.u'' = ''https://cdn/x?data_item_id=i+d&k=1'' \<and>
     aw_Get sample_arweave d ''items.1.u'' = ''b'' \<and> aw_Get sample_arweave d ''items.2.u'' = ''https://cdn/x?data_item_id=i+d&k=1''"
proof -
  define j where "j = fmap_of_list [(''items.0.u'', ''a''), (''items.1.u'', ''b''), (''items.2.u'', ''a'')]"
  let ?P = "item_path ''items'' ''u'' ` set (aw_keys sample_arweave j ''items'')"
  let ?new = "''https://cdn/x?data_item_id=i+d&k=1''"
  define rl where "rl = fmupd ''a'' \<lparr>rs_Arfleet = ''/x?k=1'', rs_DataItemId = ''i d'', rs_Resolved = True\<rparr> fmempty"
  define subs where "subs = substitutes sample_arweave ''https://cdn'' rl"
  have look: "fmlookup subs ''a'' = Some ?new" "fmlookup subs ''b'' = None"
    by (simp_all add: subs_def substitutes_lookup rl_def substitute_def sample_url)
  have m: "aw_Marshal sample_arweave JNull = Inr j" by (simp add: sample_arweave_def j_def)
  have r: "fst (run_state (ResolveUrls sample_arweave ''https://cdn'' us) ()) = Inr subs" for us
    by (simp add: ResolveUrls_def resolve_batch_def arfleet_makeRequest_def subs_def rl_def) (simp add: sample_arweave_def)
  have P: "?P = {''items.0.u'', ''items.1.u'', ''items.2.u''}" by (simp add: sample_arweave_def item_path_def)
  have g: "aw_Get sample_arweave j ''items.0.u'' = ''a''" "aw_Get sample_arweave j ''items.1.u'' = ''b''" "aw_Get sample_arweave j ''items.2.u'' = ''a''"
    by (simp_all add: sample_arweave_def j_def fmlookup_of_list)
  from thumbnails_replaced [OF m P [symmetric] sample_laws(1) TrueI sample_laws(2) r] look g show ?thesis by auto
qed

section \<open>Observations\<close>

text \<open>Both functions end in \<open>return d, json.Unmarshal(jsonData, &d)\<close>: the value that is returned depends on
  whether \<open>d\<close> is read before or after the call, an order that the language does not fix. Code that reads it
  first replaces every search result by \<open>null\<close>.\<close>

lemma early_read_loses_result:
  "aw_early D \<Longrightarrow> fst (run_state (ReplaceAssetUrls D b j c i) w) = Inr r \<Longrightarrow> r = JNull"
  "aw_early D \<Longrightarrow> fst (run_state (ReplaceAssetUrl D b j p) w) = Inr r \<Longrightarrow> r = JNull"
  by (auto simp: ReplaceAssetUrls_def ReplaceAssetUrl_def unmarshal_result_def Let_def case_prod_beta
      split: sum.splits option.splits prod.splits if_splits)

end
