(* ===== verification/Keys.thy ===== *)
theory Keys
  imports Keybox Responses
begin

text \<open>
  The rest of \<open>pkg/keybox\<close>: keys as text. The API server reads its private key from the
  configuration, a base64 string, and publishes the public half on an HTTP route; the upload service
  loads the public half from there when it starts. The base64 decoder of the Go library is written
  out, for the standard alphabet with padding. PEM blocks and the DER form of keys, and what the
  network answers, are arguments.
\<close>

section \<open>Base64\<close>

definition b64_alphabet :: string where
  "b64_alphabet = ''ABCDEFGHIJKLMNOPQRSTUVWXYZabcdefghijklmnopqrstuvwxyz0123456789+/''"

definition sextet :: "char \<Rightarrow> nat option" where
  "sextet c = (let n = length (takeWhile (\<lambda>d. d \<noteq> c) b64_alphabet) in if n < 64 then Some n else None)"

definition newline :: "char \<Rightarrow> bool" where
  "newline c \<longleftrightarrow> c = CHR 0x0A \<or> c = CHR 0x0D"

text \<open>Two, three or four sextets are one, two or three bytes; the bits left over are not looked at.\<close>

definition quantum :: "nat list \<Rightarrow> bytes" where
  "quantum buf = (let v = foldl (\<lambda>a d. a * 64 + d) 0 (take 4 (buf @ [0, 0, 0, 0])) in
     take (length buf - 1) [char_of (v div 65536), char_of (v div 256), char_of v])"

text \<open>After the padding only line breaks may follow. An error is the position that is reported.\<close>

definition after_padding :: "nat \<Rightarrow> nat list \<Rightarrow> string \<Rightarrow> nat + bytes" where
  "after_padding si buf cs = (if list_all newline cs then Inr (quantum buf) else Inl (si + length (takeWhile newline cs)))"

fun decode_from :: "nat \<Rightarrow> nat list \<Rightarrow> string \<Rightarrow> nat + bytes" where
  "decode_from si buf [] = (if buf = [] then Inr [] else Inl (si - length buf))"
| "decode_from si buf (c # cs) = (case sextet c of
     Some v \<Rightarrow>
       if length buf = 3 then map_sum id (\<lambda>b. quantum (buf @ [v]) @ b) (decode_from (Suc si) [] cs)
       else decode_from (Suc si) (buf @ [v]) cs
   | None \<Rightarrow>
       if newline c then decode_from (Suc si) buf cs
       else if c \<noteq> CHR ''='' then Inl si
       else if length buf < 2 then Inl si
       else if length buf = 2 then
         (case dropWhile newline cs of
            [] \<Rightarrow> Inl (Suc si + length cs)
          | d # ds \<Rightarrow>
              if d \<noteq> CHR ''='' then Inl (si + length (takeWhile newline cs))
              else after_padding (si + length (takeWhile newline cs) + 2) buf ds)
       else after_padding (Suc si) buf cs)"

definition DecodeString :: "string \<Rightarrow> nat + bytes" where
  "DecodeString s = decode_from 0 [] s"

definition CorruptInputError :: "nat \<Rightarrow> go_error" where
  "CorruptInputError n = Plain (''illegal base64 data at input byte '' @ Itoa (int n))"

section \<open>Keys as text\<close>

record key_formats =
  kx_pem_Decode :: "bytes \<Rightarrow> (string \<times> bytes) option"
  kx_pem_Encode :: "string \<Rightarrow> bytes \<Rightarrow> bytes"
  kx_ParseECPrivateKey :: "bytes \<Rightarrow> go_error + nat"
  kx_ParsePKIXPublicKey :: "bytes \<Rightarrow> go_error + public_key"
  kx_MarshalPKIXPublicKey :: "public_key \<Rightarrow> go_error + bytes"

text \<open>A PEM block that is not there is a nil pointer, and its bytes are asked for.\<close>

definition privateKeyFromString :: "key_formats \<Rightarrow> string \<Rightarrow> private_key res" where
  "privateKeyFromString K key = (case DecodeString key of
     Inl _ \<Rightarrow> Err (Plain ''base64 input is corrupt'')
   | Inr privateKeyBytes \<Rightarrow>
       (case kx_pem_Decode K privateKeyBytes of
          None \<Rightarrow> Panic ''invalid memory address or nil pointer dereference''
        | Some (_, b) \<Rightarrow>
            (case kx_ParseECPrivateKey K b of
               Inl err \<Rightarrow> Err err
             | Inr privateKey \<Rightarrow> Ok (EcdsaPrivate privateKey))))"

definition KeyfobFromString :: "jwx \<Rightarrow> key_formats \<Rightarrow> (go_error \<Rightarrow> string) \<Rightarrow> string \<Rightarrow> keyfob res" where
  "KeyfobFromString J K format_e privateKey = (case privateKeyFromString K privateKey of
     Err err \<Rightarrow> Err (Wrapped ''unable to load private key from string'' err)
   | Panic m \<Rightarrow> Panic m
   | Ok pvk \<Rightarrow>
       (case NewKeyfob J (Some pvk) of
          Inl err \<Rightarrow> Err (Plain (''unable to create keyfob: '' @ format_e err))
        | Inr kf \<Rightarrow> Ok kf))"

definition publicKeyFromString :: "key_formats \<Rightarrow> string \<Rightarrow> go_error + public_key" where
  "publicKeyFromString K key = (case DecodeString key of
     Inl n \<Rightarrow> Inl (CorruptInputError n)
   | Inr publicKeyBytes \<Rightarrow>
       (case kx_ParsePKIXPublicKey K publicKeyBytes of
          Inl err \<Rightarrow> Inl err
        | Inr (OtherPublic _) \<Rightarrow> Inl (Plain ''public key is not an ECDSA key'')
        | Inr (EcdsaPublic k) \<Rightarrow> Inr (EcdsaPublic k)))"

definition ValidatorFromPublicKeyString :: "key_formats \<Rightarrow> string \<Rightarrow> go_error + public_key" where
  "ValidatorFromPublicKeyString K publicKey = (case publicKeyFromString K publicKey of
     Inl err \<Rightarrow> Inl (Wrapped ''unable to load public key'' err)
   | Inr k \<Rightarrow> Inr k)"

section \<open>The published key\<close>

text \<open>The answer of \<open>http.Get\<close>: an error, or the status and what reading the body yields. The status is not
  looked at.\<close>

definition PublicKeyFromURL :: "key_formats \<Rightarrow> (string \<Rightarrow> ('w, go_error + int \<times> (go_error + bytes)) state) \<Rightarrow> string
    \<Rightarrow> ('w, go_error + public_key) state" where
  "PublicKeyFromURL K Get keyURL = do {
     r \<leftarrow> Get keyURL;
     State_Monad.return (case r of
       Inl err \<Rightarrow> Inl (Wrapped ''unable to retrieve public key'' err)
     | Inr (_, Inl err) \<Rightarrow> Inl (Wrapped ''unable to read public key'' err)
     | Inr (_, Inr pemData) \<Rightarrow>
         (case kx_pem_Decode K pemData of
            None \<Rightarrow> Inl (Plain ''invalid PEM-encoded public key'')
          | Some (ty, b) \<Rightarrow>
              if ty \<noteq> ''PUBLIC KEY'' then Inl (Plain ''invalid PEM-encoded public key'')
              else (case kx_ParsePKIXPublicKey K b of
                Inl err \<Rightarrow> Inl (Wrapped ''unable to parse public key'' err)
              | Inr pubKey \<Rightarrow> Inr pubKey)))
   }"

text \<open>\<open>http.Error\<close>.\<close>

definition http_Error :: "string \<Rightarrow> int \<Rightarrow> write_op list" where
  "http_Error msg code = [W_Set ''Content-Type'' ''text/plain; charset=utf-8'', W_Set ''X-Content-Type-Options'' ''nosniff'',
     W_WriteHeader code, W_Write (msg @ [CHR 0x0A])]"

definition PublicKeyHandler :: "key_formats \<Rightarrow> keyfob \<Rightarrow> write_op list" where
  "PublicKeyHandler K kf = (case kx_MarshalPKIXPublicKey K (kf_public kf) of
     Inl err \<Rightarrow> http_Error (''error marshaling pubkey: '' @ error_msg err) 500
   | Inr pkb \<Rightarrow> [W_Set ''Content-Type'' ''application/x-pem-file'', W_Write (kx_pem_Encode K ''PUBLIC KEY'' pkb)])"

section \<open>Base64: the decoder reads what an encoder wrote\<close>

text \<open>The reference encoder of RFC 4648, without line breaks.\<close>

definition b64_digit :: "nat \<Rightarrow> char" where
  "b64_digit v = b64_alphabet ! (v mod 64)"

fun b64_encode :: "bytes \<Rightarrow> string" where
  "b64_encode [] = []"
| "b64_encode [a] = (let v = of_char a * 16 in [b64_digit (v div 64), b64_digit v, CHR ''='', CHR ''=''])"
| "b64_encode [a, b] = (let v = of_char a * 1024 + of_char b * 4 in [b64_digit (v div 4096), b64_digit (v div 64), b64_digit v, CHR ''=''])"
| "b64_encode (a # b # c # bs) = (let v = of_char a * 65536 + of_char b * 256 + of_char c in
     b64_digit (v div 262144) # b64_digit (v div 4096) # b64_digit (v div 64) # b64_digit v # b64_encode bs)"

lemma alphabet_digits: "list_all (\<lambda>v. sextet (b64_alphabet ! v) = Some v) [0..<64]"
  by code_simp

lemma sextet_digit [simp]: "sextet (b64_digit v) = Some (v mod 64)"
  using alphabet_digits by (simp add: b64_digit_def list_all_iff)

lemma sextet_other [simp]: "sextet (CHR ''='') = None" "sextet (CHR 0x0A) = None" "sextet (CHR 0x0D) = None"
  by code_simp+

lemma sextet_newline [simp]: "newline c \<Longrightarrow> sextet c = None" "\<not> newline (CHR ''='')"
  by (auto simp: newline_def)

definition stripped :: "string \<Rightarrow> string" where
  "stripped s = filter (\<lambda>c. \<not> newline c) s"

lemma stripped_simps [simp]:
  "stripped [] = []" "stripped (c # s) = (if newline c then stripped s else c # stripped s)"
  "list_all newline (stripped s) \<longleftrightarrow> list_all newline s"
  by (auto simp: stripped_def list_all_iff)

lemma dropWhile_stripped: "dropWhile newline s = d # ds \<Longrightarrow> stripped s = d # stripped ds \<and> \<not> newline d"
  by (induction s) (auto split: if_splits)

lemma after_padding_stripped: "after_padding si buf cs = Inr b \<longleftrightarrow> after_padding n buf (stripped cs) = Inr b"
  by (auto simp: after_padding_def)

lemma b64_digit_no_newline [simp]: "\<not> newline (b64_digit v)"
  using sextet_digit [of v] sextet_newline(1) [of "b64_digit v"] by auto

lemma stripped_encode [simp]: "stripped (b64_encode bs) = b64_encode bs"
  by (induction bs rule: b64_encode.induct) (simp_all add: Let_def)

lemma map_sum_Inr:
  assumes "\<And>r. x = Inr r \<longleftrightarrow> y = Inr r"
  shows "map_sum id f x = Inr b \<longleftrightarrow> map_sum id f y = Inr b"
proof (cases x)
  case (Inl e)
  with assms show ?thesis by (cases y) auto
next
  case (Inr r)
  with assms [of r] show ?thesis by simp
qed

text \<open>Line breaks make no difference to what is decoded.\<close>

lemma decode_stripped: "decode_from si buf cs = Inr b \<longleftrightarrow> decode_from n buf (stripped cs) = Inr b"
proof (induction cs arbitrary: si n buf b)
  case Nil
  show ?case by simp
next
  case (Cons c cs)
  show ?case
  proof (cases "sextet c")
    case (Some v)
    then have "\<not> newline c" by auto
    with Some map_sum_Inr [OF Cons [of "Suc si" "[]" _ "Suc n"], of "(@) (quantum (buf @ [v]))" b] Cons [of "Suc si" "buf @ [v]" b "Suc n"] show ?thesis by simp
  next
    case None
    consider "newline c" | "\<not> newline c" "dropWhile newline cs = []" | d ds where "\<not> newline c" "dropWhile newline cs = d # ds"
      by (cases "dropWhile newline cs") auto
    then show ?thesis
    proof cases
      case 1
      with None Cons [of "Suc si" buf b n] show ?thesis by simp
    next
      case 2
      then have "list_all newline cs" "stripped cs = []" by (auto simp: list_all_iff stripped_def)
      with 2 None show ?thesis by (simp add: after_padding_def del: dropWhile_eq_Nil_conv)
    next
      case 3
      from dropWhile_stripped [OF 3(2)] have "stripped cs = d # stripped ds" "\<not> newline d" by auto
      moreover from this have "\<not> list_all newline cs" by (metis list.pred_inject(2) stripped_simps(3))
      ultimately show ?thesis using 3 None by (simp add: after_padding_def)
    qed
  qed
qed

lemma foldl_sextets:
  assumes "v < 16777216"
  shows "foldl (\<lambda>a d. a * 64 + d) 0 [v div 262144 mod 64, v div 4096 mod 64, v div 64 mod 64, v mod 64] = (v :: nat)"
proof -
  define p q r where "p = v div 64" and "q = p div 64" and "r = q div 64"
  have d: "v div 64 = p" "v div 4096 = q" "v div 262144 = r"
    using div_mult2_eq [of v 64 64] div_mult2_eq [of v 4096 64] by (simp_all add: p_def q_def r_def)
  have "r < 64" using assms d(3) by (simp add: less_mult_imp_div_less)
  moreover have "v = 64 * p + v mod 64" "p = 64 * q + p mod 64" "q = 64 * r + q mod 64" by (simp_all add: p_def q_def r_def)
  ultimately show ?thesis unfolding d by simp
qed

lemma quantum_sextets:
  "v < 16777216 \<Longrightarrow> quantum [v div 262144 mod 64, v div 4096 mod 64, v div 64 mod 64, v mod 64] =
    [char_of (v div 65536), char_of (v div 256), char_of v]"
  "v < 262144 \<Longrightarrow> quantum [v div 4096 mod 64, v div 64 mod 64, v mod 64] = [char_of (v div 1024), char_of (v div 4)]"
  "v < 4096 \<Longrightarrow> quantum [v div 64 mod 64, v mod 64] = [char_of (v div 16)]"
  using foldl_sextets [of v] foldl_sextets [of "v * 64"] foldl_sextets [of "v * 4096"]
  by (simp_all add: quantum_def Let_def)

lemma char_of_bytes:
  "char_of ((of_char a * 65536 + of_char b * 256 + of_char c :: nat) div 65536) = a"
  "char_of ((of_char a * 65536 + of_char b * 256 + of_char c :: nat) div 256) = b"
  "char_of (of_char a * 65536 + of_char b * 256 + of_char c :: nat) = c"
  "char_of ((of_char a * 1024 + of_char b * 4 :: nat) div 1024) = a" "char_of ((of_char a * 1024 + of_char b * 4 :: nat) div 4) = b"
proof -
  have char: "n mod 256 = of_char d \<Longrightarrow> char_of (n :: nat) = d" for n d by (metis char_of_mod_256 char_of_char)
  define h n :: nat where "h = of_char a * 256 + of_char b" and "n = of_char a * 65536 + of_char b * 256 + of_char c"
  have "n = h * 256 + of_char c" by (simp add: h_def n_def)
  then have "n div 256 = h" "n mod 256 = of_char c" by simp_all
  moreover have "n div 65536 = n div 256 div 256" using div_mult2_eq [of n 256 256] by simp
  moreover have "h div 256 = of_char a" "h mod 256 = of_char b" by (simp_all add: h_def)
  ultimately show "char_of ((of_char a * 65536 + of_char b * 256 + of_char c :: nat) div 65536) = a"
    "char_of ((of_char a * 65536 + of_char b * 256 + of_char c :: nat) div 256) = b"
    "char_of (of_char a * 65536 + of_char b * 256 + of_char c :: nat) = c"
    unfolding n_def [symmetric] by (auto intro!: char)
  show "char_of ((of_char a * 1024 + of_char b * 4 :: nat) div 1024) = a" "char_of ((of_char a * 1024 + of_char b * 4 :: nat) div 4) = b"
    using nat_of_char_less_256 [of b] by (auto intro!: char)
qed

lemma decode_encode: "decode_from si [] (b64_encode bs) = Inr bs"
proof (induction bs arbitrary: si rule: b64_encode.induct)
  case 1
  show ?case by simp
next
  case (2 a)
  define v :: nat where "v = of_char a * 16"
  then have "v < 4096" "char_of (v div 16) = a" using nat_of_char_less_256 [of a] by simp_all
  with quantum_sextets(3) [of v] show ?case
    unfolding b64_encode.simps Let_def v_def [symmetric] by (simp add: after_padding_def)
next
  case (3 a b)
  define v :: nat where "v = of_char a * 1024 + of_char b * 4"
  then have "v < 262144" using nat_of_char_less_256 [of a] nat_of_char_less_256 [of b] by linarith
  with quantum_sextets(2) [of v] char_of_bytes(4,5) [of a b, folded v_def] show ?case
    unfolding b64_encode.simps Let_def v_def [symmetric] by (simp add: after_padding_def)
next
  case (4 a b c bs)
  define v :: nat where "v = of_char a * 65536 + of_char b * 256 + of_char c"
  then have "v < 16777216" using nat_of_char_less_256 [of a] nat_of_char_less_256 [of b] nat_of_char_less_256 [of c] by linarith
  with quantum_sextets(1) [of v] char_of_bytes(1-3) [where a = a and b = b and c = c, folded v_def] 4 show ?case
    unfolding b64_encode.simps Let_def v_def [symmetric] by simp
qed

text \<open>Base64 as an encoder writes it, with line breaks anywhere, is decoded to what was encoded.\<close>

lemma DecodeString_encoded:
  assumes "stripped s = b64_encode bs"
  shows "DecodeString s = Inr bs"
  using decode_stripped [of 0 "[]" s bs 0] by (simp add: DecodeString_def assms decode_encode)

section \<open>The key that is published is the key that signs\<close>

text \<open>What is relied on of the two formats: a PEM block is read back as it was written, so is a public
  key, and public keys for ECDSA can be written.\<close>

definition formats_ok :: "key_formats \<Rightarrow> bool" where
  "formats_ok K \<longleftrightarrow> (\<forall>ty b. kx_pem_Decode K (kx_pem_Encode K ty b) = Some (ty, b)) \<and>
     (\<forall>k b. kx_MarshalPKIXPublicKey K k = Inr b \<longrightarrow> kx_ParsePKIXPublicKey K b = Inr k) \<and>
     (\<forall>n. \<exists>b. kx_MarshalPKIXPublicKey K (EcdsaPublic n) = Inr b)"

lemma NewKeyfob_Inr: "NewKeyfob J k = Inr kf \<Longrightarrow> \<exists>n. k = Some (EcdsaPrivate n) \<and> kf = \<lparr>kf_private = n, kf_public = EcdsaPublic (jwx_Public J n)\<rparr>"
  by (auto simp: NewKeyfob_def split: option.splits private_key.splits)

lemma KeyfobFromString_Ok: "KeyfobFromString J K e s = Ok kf \<Longrightarrow> \<exists>k. NewKeyfob J (Some (EcdsaPrivate k)) = Inr kf"
  by (auto simp: KeyfobFromString_def privateKeyFromString_def split: res.splits sum.splits option.splits)

text \<open>A key that was configured in the documented form is loaded; and in the form that the endpoint
  publishes, it is the public half that arrives.\<close>

lemma configured_key_loaded:
  assumes "stripped s = b64_encode p" "kx_pem_Decode K p = Some (ty, der)" "kx_ParseECPrivateKey K der = Inr n"
  shows "KeyfobFromString J K e s = Ok \<lparr>kf_private = n, kf_public = EcdsaPublic (jwx_Public J n)\<rparr>"
  using assms by (simp add: KeyfobFromString_def privateKeyFromString_def DecodeString_encoded NewKeyfob_def)

lemma published_key:
  assumes "formats_ok K" "NewKeyfob J k = Inr kf"
  obtains b where "net_answer (PublicKeyHandler K kf) = Ok \<lparr>an_informational = [], an_status = 200,
      an_header = Header_Set ''Content-Type'' ''application/x-pem-file'' fmempty, an_body = kx_pem_Encode K ''PUBLIC KEY'' b\<rparr>"
    "kx_ParsePKIXPublicKey K b = Inr (kf_public kf)"
proof -
  from NewKeyfob_Inr [OF assms(2)] obtain n where n: "kf_public kf = EcdsaPublic n" by auto
  with assms(1) obtain b where b: "kx_MarshalPKIXPublicKey K (kf_public kf) = Inr b" "kx_ParsePKIXPublicKey K b = Inr (kf_public kf)"
    unfolding formats_ok_def by metis
  have "CanonicalHeaderKey ''Content-Type'' = ''Content-Type''" by code_simp
  then have "net_answer (PublicKeyHandler K kf) = Ok \<lparr>an_informational = [], an_status = 200,
      an_header = Header_Set ''Content-Type'' ''application/x-pem-file'' fmempty, an_body = kx_pem_Encode K ''PUBLIC KEY'' b\<rparr>"
    by (simp add: PublicKeyHandler_def b net_answer_def net_Write_def net_WriteHeader_def fresh_response_def declared_length_def
        Header_Set_def bodyAllowedForStatus_def)
  with b(2) show ?thesis by (rule that [rotated])
qed

lemma published_key_loaded:
  assumes "formats_ok K" "NewKeyfob J k = Inr kf" "net_answer (PublicKeyHandler K kf) = Ok a"
    and "run_state (Get url) w = (Inr (an_status a, Inr (an_body a)), w')"
  shows "run_state (PublicKeyFromURL K Get url) w = (Inr (Validator kf), w')" "NewValidator (Validator kf) = Inr (Validator kf)"
proof -
  from published_key [OF assms(1,2)] obtain b where "an_body a = kx_pem_Encode K ''PUBLIC KEY'' b"
      "kx_ParsePKIXPublicKey K b = Inr (kf_public kf)" using assms(3) by force
  with assms(1,4) show "run_state (PublicKeyFromURL K Get url) w = (Inr (Validator kf), w')"
    by (simp add: PublicKeyFromURL_def formats_ok_def Validator_def)
  show "NewValidator (Validator kf) = Inr (Validator kf)"
    using NewKeyfob_Inr [OF assms(2)] by (auto simp: NewValidator_def Validator_def)
qed

text \<open>A validator made from text checks the same tokens.\<close>

lemma validator_from_text:
  assumes "formats_ok K" "NewKeyfob J k = Inr kf" "kx_MarshalPKIXPublicKey K (kf_public kf) = Inr b" "stripped s = b64_encode b"
  shows "ValidatorFromPublicKeyString K s = Inr (Validator kf)"
proof -
  from assms(1,3) have "kx_ParsePKIXPublicKey K b = Inr (kf_public kf)" by (simp add: formats_ok_def)
  with NewKeyfob_Inr [OF assms(2)] DecodeString_encoded [OF assms(4)] show ?thesis
    by (auto simp: ValidatorFromPublicKeyString_def publicKeyFromString_def Validator_def)
qed

section \<open>Observations\<close>

text \<open>A configured key that is valid base64 but no PEM text stops the server with a nil pointer instead of the
  error of \<open>KeyfobFromString\<close>; the empty string, the value when nothing is configured, is such a key.\<close>

lemma unset_key_panics:
  "kx_pem_Decode K [] = None \<Longrightarrow> KeyfobFromString J K e [] = Panic ''invalid memory address or nil pointer dereference''"
  by (simp add: KeyfobFromString_def privateKeyFromString_def DecodeString_def)

text \<open>The status of the answer is not looked at: an error page is reported as an invalid key.\<close>

lemma error_page_is_invalid_key:
  "run_state (Get url) w = (Inr (404, Inr page), w') \<Longrightarrow> kx_pem_Decode K page = None \<Longrightarrow>
    run_state (PublicKeyFromURL K Get url) w = (Inl (Plain ''invalid PEM-encoded public key''), w')"
  by (simp add: PublicKeyFromURL_def)

end
