(* ===== verification/Queue.thy ===== *)
theory Queue
  imports Errors "HOL-Library.Multiset"
begin

text \<open>
  \<open>pkg/queue\<close>: message passing between the services over Redis, through the \<open>asynq\<close> library. A queue
  may have a connection for requests, which it can send and serve, and one for responses, which it can
  send. The library's objects that hold connections are handles; the state knows which handles are
  open and which messages have been accepted. What Redis and the library answer is a parameter.
\<close>

section \<open>Options\<close>

record queue_options =
  qo_concurrency :: int
  qo_requestsConnOpts :: "string option"
  qo_requestsConnURL :: string
  qo_responsesConnOpts :: "string option"
  qo_responsesConnURL :: string

record message_options =
  mg_retry :: int
  mg_timeout :: int
  mg_retention :: int

record message =
  ms_type :: string
  ms_payload :: bytes
  ms_options :: message_options

datatype handle = PingClient | RequestsClient | ResponsesClient | Inspector | Server

record 'w queue_env =
  qe_ParseRedisURI :: "string \<Rightarrow> go_error + string"
  qe_Ping :: "string \<Rightarrow> ('w, go_error option) state"
  qe_Enqueue :: "bool \<Rightarrow> handle \<Rightarrow> message \<Rightarrow> ('w, go_error option) state"
  qe_Run :: "string list \<Rightarrow> ('w, go_error option) state"

record 'w queue_world =
  qw_ext :: 'w
  qw_open :: "handle list"
  qw_sent :: "(handle \<times> message) list"

type_synonym ('w, 'a) qio = "('w queue_world, 'a) state"

type_synonym queue_option = "queue_options \<Rightarrow> queue_options res"

definition WithRequestsConnOpts :: "string option \<Rightarrow> queue_option" where
  "WithRequestsConnOpts opts options = Ok (options\<lparr>qo_requestsConnOpts := opts\<rparr>)"

definition WithResponsesConnOpts :: "string option \<Rightarrow> queue_option" where
  "WithResponsesConnOpts opts options = Ok (options\<lparr>qo_responsesConnOpts := opts\<rparr>)"

definition WithRequestsConnURL :: "'w queue_env \<Rightarrow> string \<Rightarrow> queue_option" where
  "WithRequestsConnURL E url options = (case qe_ParseRedisURI E url of
     Inl err \<Rightarrow> Panic (error_msg err)
   | Inr opts \<Rightarrow> Ok (options\<lparr>qo_requestsConnOpts := Some opts, qo_requestsConnURL := url\<rparr>))"

definition WithResponsesConnURL :: "'w queue_env \<Rightarrow> string \<Rightarrow> queue_option" where
  "WithResponsesConnURL E url options = (case qe_ParseRedisURI E url of
     Inl err \<Rightarrow> Panic (error_msg err)
   | Inr opts \<Rightarrow> Ok (options\<lparr>qo_responsesConnOpts := Some opts, qo_responsesConnURL := url\<rparr>))"

definition WithConcurrency :: "int \<Rightarrow> queue_option" where
  "WithConcurrency n options = Ok (options\<lparr>qo_concurrency := n\<rparr>)"

definition WithRequestRetry :: "int \<Rightarrow> message_options \<Rightarrow> message_options" where
  "WithRequestRetry n options = options\<lparr>mg_retry := n\<rparr>"

definition WithRequestTimeout :: "int \<Rightarrow> message_options \<Rightarrow> message_options" where
  "WithRequestTimeout t options = options\<lparr>mg_timeout := t\<rparr>"

definition WithRequestRetention :: "int \<Rightarrow> message_options \<Rightarrow> message_options" where
  "WithRequestRetention t options = options\<lparr>mg_retention := t\<rparr>"

section \<open>The queue\<close>

text \<open>Pointers that may be nil are flags; a handler is known by its request type.\<close>

record queue =
  q_options :: queue_options
  q_requestsClient :: bool
  q_responsesClient :: bool
  q_asynqInspector :: bool
  q_asynqServer :: bool
  q_stopClosed :: bool
  q_handlers :: "string list"

definition q_ext :: "('w, 'a) state \<Rightarrow> ('w, 'a) qio" where
  "q_ext m = State (\<lambda>s. case run_state m (qw_ext s) of (a, x) \<Rightarrow> (a, s\<lparr>qw_ext := x\<rparr>))"

definition q_modify :: "('w queue_world \<Rightarrow> 'w queue_world) \<Rightarrow> ('w, unit) qio" where
  "q_modify f = State (\<lambda>s. ((), f s))"

definition open_handle :: "handle \<Rightarrow> ('w, unit) qio" where
  "open_handle h = q_modify (\<lambda>s. s\<lparr>qw_open := h # qw_open s\<rparr>)"

definition close_handle :: "handle \<Rightarrow> ('w, unit) qio" where
  "close_handle h = q_modify (\<lambda>s. s\<lparr>qw_open := remove1 h (qw_open s)\<rparr>)"

definition default_options :: queue_options where
  "default_options = \<lparr>qo_concurrency = 3, qo_requestsConnOpts = None, qo_requestsConnURL = [],
     qo_responsesConnOpts = None, qo_responsesConnURL = []\<rparr>"

fun apply_options :: "queue_option list \<Rightarrow> queue_option" where
  "apply_options [] options = Ok options"
| "apply_options (f # fs) options = (case f options of Ok o' \<Rightarrow> apply_options fs o' | Err e \<Rightarrow> Err e | Panic m \<Rightarrow> Panic m)"

text \<open>A connection: it is tried out, with a client of its own that nobody closes, before the handles are made.\<close>

definition connect :: "'w queue_env \<Rightarrow> string option \<Rightarrow> string \<Rightarrow> handle list \<Rightarrow> ('w, go_error option) qio" where
  "connect E conn what handles = (case conn of
     None \<Rightarrow> State_Monad.return None
   | Some c \<Rightarrow> do {
       _ \<leftarrow> open_handle PingClient;
       err \<leftarrow> q_ext (qe_Ping E c);
       (case err of
          Some e \<Rightarrow> State_Monad.return (Some (Wrapped (''redis '' @ what @ '' connection failed'') e))
        | None \<Rightarrow> do {
            _ \<leftarrow> q_modify (\<lambda>s. s\<lparr>qw_open := rev handles @ qw_open s\<rparr>);
            State_Monad.return None
          })
     })"

definition queue_New :: "'w queue_env \<Rightarrow> queue_option list \<Rightarrow> ('w, queue res) qio" where
  "queue_New E optionFuncs = (case apply_options optionFuncs default_options of
     Err e \<Rightarrow> State_Monad.return (Err e)
   | Panic m \<Rightarrow> State_Monad.return (Panic m)
   | Ok options \<Rightarrow> do {
       e1 \<leftarrow> connect E (qo_responsesConnOpts options) ''responses'' [ResponsesClient];
       (case e1 of
          Some err \<Rightarrow> State_Monad.return (Err err)
        | None \<Rightarrow> do {
            e2 \<leftarrow> connect E (qo_requestsConnOpts options) ''requests'' [Inspector, RequestsClient];
            State_Monad.return (case e2 of
              Some err \<Rightarrow> Err err
            | None \<Rightarrow>
                if qo_responsesConnOpts options = None \<and> qo_requestsConnOpts options = None
                then Err (Plain ''either requests or responses connection options must be provided'')
                else Ok \<lparr>q_options = options, q_requestsClient = qo_requestsConnOpts options \<noteq> None,
                  q_responsesClient = qo_responsesConnOpts options \<noteq> None,
                  q_asynqInspector = qo_requestsConnOpts options \<noteq> None, q_asynqServer = False,
                  q_stopClosed = False, q_handlers = []\<rparr>)
          })
     })"

definition NewWithResponses :: "'w queue_env \<Rightarrow> string \<Rightarrow> string \<Rightarrow> queue_option list \<Rightarrow> ('w, queue res) qio" where
  "NewWithResponses E requestsConnURL responsesConnURL optionFuncs = (
     if requestsConnURL = [] \<or> responsesConnURL = []
     then State_Monad.return (Err (Plain ''both requests and responses connection URL must be provided''))
     else queue_New E (optionFuncs @ [WithRequestsConnURL E requestsConnURL, WithResponsesConnURL E responsesConnURL]))"

definition AddHandler :: "queue \<Rightarrow> string \<Rightarrow> queue" where
  "AddHandler q requestType = q\<lparr>q_handlers := List.insert requestType (q_handlers q)\<rparr>"

text \<open>\<open>Run\<close> returns when the server has been stopped, with its connections closed, or with an error when it
  could not be started.\<close>

definition ServeUntilShutdown :: "'w queue_env \<Rightarrow> queue \<Rightarrow> ('w, go_error option \<times> queue) qio" where
  "ServeUntilShutdown E q = (
     if qo_requestsConnOpts (q_options q) = None
     then State_Monad.return (Some (Plain ''requests connection options must be provided''), q)
     else if q_handlers q = []
     then State_Monad.return (Some (Plain ''no request handlers registered''), q)
     else do {
       _ \<leftarrow> open_handle Server;
       err \<leftarrow> q_ext (qe_Run E (q_handlers q));
       _ \<leftarrow> (if err = None then close_handle Server else State_Monad.return ());
       State_Monad.return (err, q\<lparr>q_asynqServer := True\<rparr>)
     })"

definition close_if :: "bool \<Rightarrow> handle \<Rightarrow> ('w, unit) qio" where
  "close_if b h = (if b then close_handle h else State_Monad.return ())"

text \<open>Closing a closed channel panics.\<close>

definition queue_Shutdown :: "queue \<Rightarrow> ('w, queue res) qio" where
  "queue_Shutdown q = (
     if q_stopClosed q then State_Monad.return (Panic ''close of closed channel'')
     else do {
       _ \<leftarrow> close_if (q_responsesClient q) ResponsesClient;
       _ \<leftarrow> close_if (q_requestsClient q) RequestsClient;
       _ \<leftarrow> close_if (q_asynqInspector q) Inspector;
       _ \<leftarrow> close_if (q_asynqServer q) Server;
       State_Monad.return (Ok (q\<lparr>q_stopClosed := True\<rparr>))
     })"

definition hour_ns :: int where "hour_ns = 3600 * 1000000000"

text \<open>\<open>json.Marshal\<close> of the payload has been done: its bytes, or its error.\<close>

definition sendMessage :: "'w queue_env \<Rightarrow> handle \<Rightarrow> string \<Rightarrow> go_error + bytes \<Rightarrow> (message_options \<Rightarrow> message_options) list
    \<Rightarrow> ('w, go_error option) qio" where
  "sendMessage E client messageType payload optionFuncs = (
     let options = fold (\<lambda>f. f) optionFuncs \<lparr>mg_retry = 3, mg_timeout = hour_ns, mg_retention = 72 * hour_ns\<rparr> in
     case payload of
       Inl err \<Rightarrow> State_Monad.return (Some err)
     | Inr pb \<Rightarrow> do {
         let t = \<lparr>ms_type = messageType, ms_payload = pb, ms_options = options\<rparr>;
         s \<leftarrow> State_Monad.get;
         err \<leftarrow> q_ext (qe_Enqueue E (client \<in> set (qw_open s)) client t);
         (case err of
            Some e \<Rightarrow> State_Monad.return (Some (Wrapped (''failed to enqueue '' @ messageType @ '' request'') e))
          | None \<Rightarrow> do {
              _ \<leftarrow> q_modify (\<lambda>s. s\<lparr>qw_sent := qw_sent s @ [(client, t)]\<rparr>);
              State_Monad.return None
            })
       })"

definition queue_SendResponse :: "'w queue_env \<Rightarrow> queue \<Rightarrow> string \<Rightarrow> go_error + bytes \<Rightarrow> (message_options \<Rightarrow> message_options) list
    \<Rightarrow> ('w, go_error option) qio" where
  "queue_SendResponse E q responseType payload optionFuncs = (
     if \<not> q_responsesClient q then State_Monad.return (Some (Plain ''response client is missing''))
     else sendMessage E ResponsesClient responseType payload optionFuncs)"

definition queue_SendRequest :: "'w queue_env \<Rightarrow> queue \<Rightarrow> string \<Rightarrow> go_error + bytes \<Rightarrow> (message_options \<Rightarrow> message_options) list
    \<Rightarrow> ('w, go_error option) qio" where
  "queue_SendRequest E q requestType payload optionFuncs = (
     if \<not> q_requestsClient q then State_Monad.return (Some (Plain ''requests client is missing''))
     else sendMessage E RequestsClient requestType payload optionFuncs)"

section \<open>Running\<close>

lemma run_q_ext [simp]:
  "run_state (q_ext m) s = (fst (run_state m (qw_ext s)), s\<lparr>qw_ext := snd (run_state m (qw_ext s))\<rparr>)"
  by (simp add: q_ext_def split: prod.split)

lemma run_q_modify [simp]: "run_state (q_modify f) s = ((), f s)"
  by (simp add: q_modify_def)

lemma run_handles [simp]:
  "run_state (open_handle h) s = ((), s\<lparr>qw_open := h # qw_open s\<rparr>)"
  "run_state (close_handle h) s = ((), s\<lparr>qw_open := remove1 h (qw_open s)\<rparr>)"
  "run_state (close_if b h) s = ((), if b then s\<lparr>qw_open := remove1 h (qw_open s)\<rparr> else s)"
  by (simp_all add: open_handle_def close_handle_def close_if_def)

lemma connect_run:
  assumes "run_state (connect E conn what hs) s = (e, t)"
  shows "qw_sent t = qw_sent s \<and> qw_open t = (if conn = None then qw_open s
      else if e = None then rev hs @ PingClient # qw_open s else PingClient # qw_open s)"
  using assms by (auto simp: connect_def split: option.splits)

text \<open>The handles that a queue refers to, apart from servers.\<close>

definition connections :: "queue \<Rightarrow> handle list" where
  "connections q = (if q_requestsClient q then [RequestsClient] else []) @ (if q_asynqInspector q then [Inspector] else [])
     @ (if q_responsesClient q then [ResponsesClient] else [])"

definition pings :: "queue \<Rightarrow> nat" where
  "pings q = (if q_requestsClient q then 1 else 0) + (if q_responsesClient q then 1 else 0)"

definition wf_queue :: "queue \<Rightarrow> bool" where
  "wf_queue q \<longleftrightarrow> (q_requestsClient q \<longleftrightarrow> qo_requestsConnOpts (q_options q) \<noteq> None) \<and>
     (q_asynqInspector q \<longleftrightarrow> q_requestsClient q) \<and>
     (q_responsesClient q \<longleftrightarrow> qo_responsesConnOpts (q_options q) \<noteq> None) \<and> (q_requestsClient q \<or> q_responsesClient q)"

lemma New_run:
  assumes "run_state (queue_New E fs) s = (Ok q, t)"
  shows "wf_queue q \<and> \<not> q_stopClosed q \<and> \<not> q_asynqServer q \<and>
    mset (qw_open t) = mset (connections q) + replicate_mset (pings q) PingClient + mset (qw_open s)"
proof -
  from assms obtain os where os: "apply_options fs default_options = Ok os" by (auto simp: queue_New_def split: res.splits)
  obtain e1 s1 where 1: "run_state (connect E (qo_responsesConnOpts os) ''responses'' [ResponsesClient]) s = (e1, s1)" by fastforce
  obtain e2 s2 where 2: "run_state (connect E (qo_requestsConnOpts os) ''requests'' [Inspector, RequestsClient]) s1 = (e2, s2)" by fastforce
  from assms os 1 2 have "e1 = None" "e2 = None" "t = s2" by (auto simp: queue_New_def split: option.splits if_splits)
  with assms os 1 2 connect_run [OF 1] connect_run [OF 2] show ?thesis
    by (auto simp: queue_New_def wf_queue_def connections_def pings_def split: if_splits)
qed

lemma sendMessage_run:
  assumes "run_state (sendMessage E h ty pl fs) s = (e, t)"
  shows "qw_open t = qw_open s"
    and "e = None \<Longrightarrow> \<exists>pb. pl = Inr pb \<and> qw_sent t = qw_sent s @ [(h, \<lparr>ms_type = ty, ms_payload = pb,
      ms_options = fold (\<lambda>f. f) fs \<lparr>mg_retry = 3, mg_timeout = hour_ns, mg_retention = 72 * hour_ns\<rparr>\<rparr>)]"
    and "e \<noteq> None \<Longrightarrow> qw_sent t = qw_sent s"
  using assms by (auto simp: sendMessage_def Let_def split: sum.splits option.splits)

section \<open>The life of a queue\<close>

definition can_serve :: "queue \<Rightarrow> bool" where
  "can_serve q \<longleftrightarrow> qo_requestsConnOpts (q_options q) \<noteq> None \<and> q_handlers q \<noteq> []"

text \<open>What happens to a queue before it is shut down; the number counts the starts of the server that
  failed.\<close>

inductive alive :: "'w queue_env \<Rightarrow> queue \<Rightarrow> 'w queue_world \<Rightarrow> nat \<Rightarrow> bool" for E where
  created: "qw_open s = [] \<Longrightarrow> run_state (queue_New E fs) s = (Ok q, t) \<Longrightarrow> alive E q t 0"
| handler: "alive E q s n \<Longrightarrow> alive E (AddHandler q ty) s n"
| request: "alive E q s n \<Longrightarrow> run_state (queue_SendRequest E q ty pl fs) s = (e, t) \<Longrightarrow> alive E q t n"
| response: "alive E q s n \<Longrightarrow> run_state (queue_SendResponse E q ty pl fs) s = (e, t) \<Longrightarrow> alive E q t n"
| served: "alive E q s n \<Longrightarrow> run_state (ServeUntilShutdown E q) s = ((e, q'), t) \<Longrightarrow>
    alive E q' t (if can_serve q \<and> e \<noteq> None then Suc n else n)"

definition held :: "queue \<Rightarrow> 'w queue_world \<Rightarrow> nat \<Rightarrow> bool" where
  "held q s n \<longleftrightarrow> wf_queue q \<and> \<not> q_stopClosed q \<and> (0 < n \<longrightarrow> q_asynqServer q) \<and>
     mset (qw_open s) = mset (connections q) + replicate_mset (pings q) PingClient + replicate_mset n Server"

lemma connections_upd [simp]:
  "pings (q\<lparr>q_asynqServer := b\<rparr>) = pings q" "pings (AddHandler q ty) = pings q"
  "connections (q\<lparr>q_asynqServer := b\<rparr>) = connections q" "wf_queue (q\<lparr>q_asynqServer := b\<rparr>) = wf_queue q"
  "connections (AddHandler q ty) = connections q" "wf_queue (AddHandler q ty) = wf_queue q"
  by (simp_all add: connections_def wf_queue_def AddHandler_def pings_def)

lemma no_server: "Server \<notin> set (connections q)"
  by (simp add: connections_def)

lemma serve_run:
  assumes "run_state (ServeUntilShutdown E q) s = ((e, q'), t)"
  shows "if can_serve q then q' = q\<lparr>q_asynqServer := True\<rparr> \<and> qw_open t = (if e = None then qw_open s else Server # qw_open s)
    else q' = q \<and> t = s \<and> e \<noteq> None"
  using assms by (auto simp: ServeUntilShutdown_def can_serve_def split: if_splits)

lemma alive_held:
  assumes "alive E q s n"
  shows "held q s n"
  using assms
proof induction
  case (created s fs q t)
  from New_run [OF created(2)] created(1) show ?case by (simp add: held_def)
next
  case (handler q s n ty)
  then show ?case by (simp add: held_def) (simp add: AddHandler_def)
next
  case (request q s n ty pl fs e t)
  then have "qw_open t = qw_open s" by (auto simp: queue_SendRequest_def dest: sendMessage_run split: if_splits)
  with request show ?case by (simp add: held_def)
next
  case (response q s n ty pl fs e t)
  then have "qw_open t = qw_open s" by (auto simp: queue_SendResponse_def dest: sendMessage_run split: if_splits)
  with response show ?case by (simp add: held_def)
next
  case (served q s n e q' t)
  from serve_run [OF served(2)] served(3) show ?case by (auto simp: held_def split: if_splits)
qed

section \<open>Properties\<close>


definition quiet_queue :: "unit queue_env" where
  "quiet_queue = \<lparr>qe_ParseRedisURI = Inr, qe_Ping = (\<lambda>_. State_Monad.return None),
     qe_Enqueue = (\<lambda>b _ _. State_Monad.return (if b then None else Some (Plain ''closed''))), qe_Run = (\<lambda>_. State_Monad.return None)\<rparr>"

definition empty_bus :: "unit queue_world" where
  "empty_bus = \<lparr>qw_ext = (), qw_open = [], qw_sent = []\<rparr>"


text \<open>A message is accepted as it was given or not at all, and never by a connection that was not configured.\<close>

lemma request_accepted:
  assumes "wf_queue q" "run_state (queue_SendRequest E q ty pl fs) s = (e, t)"
  shows "if e = None
    then qo_requestsConnOpts (q_options q) \<noteq> None \<and> (\<exists>pb. pl = Inr pb \<and> qw_sent t = qw_sent s @ [(RequestsClient, \<lparr>ms_type = ty, ms_payload = pb,
      ms_options = fold (\<lambda>f. f) fs \<lparr>mg_retry = 3, mg_timeout = hour_ns, mg_retention = 72 * hour_ns\<rparr>\<rparr>)])
    else qw_sent t = qw_sent s"
  using assms by (auto simp: queue_SendRequest_def wf_queue_def dest: sendMessage_run split: if_splits)

section \<open>Observations\<close>

text \<open>If the second connection cannot be made, the first one stays open and nobody has a reference to it.\<close>

lemma failed_New_leaks:
  "\<exists>E e t. run_state (NewWithResponses E ''redis:1'' ''redis:2'' []) empty_bus = (Err e, t) \<and>
     qw_open t = [PingClient, ResponsesClient, PingClient]"
proof -
  let ?E = "quiet_queue\<lparr>qe_Ping := (\<lambda>c. State_Monad.return (if c = ''redis:1'' then Some (Plain ''down'') else None))\<rparr>"
  show ?thesis
    by (rule exI [of _ ?E]) (simp add: NewWithResponses_def queue_New_def WithRequestsConnURL_def WithResponsesConnURL_def
      default_options_def quiet_queue_def connect_def empty_bus_def)
qed

end
