(* ===== verification/Origins.thy ===== *)
theory Origins
  imports Prelude
begin

text \<open>
  The origins that the upload service accepts (\<open>Launcher.BuildHandler\<close> in \<open>apps/uploads\<close>): the configured
  domains, in which \<open>*\<close> stands for anything, are turned into one regular expression, which the TUS
  library matches against the origin of a request. The string functions of Go are written out, and
  so are the regular expressions of the form that is built here.
\<close>

section \<open>The pattern\<close>

abbreviation backslash :: char where "backslash \<equiv> CHR 0x5C"

definition special :: "char \<Rightarrow> bool" where
  "special c \<longleftrightarrow> c \<in> set (backslash # ''.+*?()|[]{}^$'')"

primrec QuoteMeta :: "string \<Rightarrow> string" where
  "QuoteMeta [] = []"
| "QuoteMeta (c # s) = (if special c then [backslash, c] else [c]) @ QuoteMeta s"

text \<open>\<open>strings.ReplaceAll\<close> of two bytes.\<close>

fun replace_pair :: "char \<Rightarrow> char \<Rightarrow> string \<Rightarrow> string \<Rightarrow> string" where
  "replace_pair a b new (x # y # s) = (if x = a \<and> y = b then new @ replace_pair a b new s else x # replace_pair a b new (y # s))"
| "replace_pair a b new s = s"

definition regexDomain :: "string \<Rightarrow> string" where
  "regexDomain d = replace_pair backslash (CHR ''*'') ''.*'' (QuoteMeta d)"

definition origin_pattern :: "string list \<Rightarrow> string" where
  "origin_pattern domains = ''^('' @ join_with (CHR ''|'') (map regexDomain domains) @ '')$''"

section \<open>Regular expressions\<close>

text \<open>Alternatives between \<open>^(\<close> and \<open>)$\<close>; in each of them literal bytes, special ones behind a backslash, and
  runs \<open>.*\<close> of anything but line feeds. Patterns of another form are not needed. Patterns come from a
  YAML file and are UTF-8, so that a run, which Go matches by code points, may be matched by bytes.\<close>

datatype item = Literal char | AnyRun

type_synonym regex = "item list list"

definition cons_item :: "item \<Rightarrow> regex option \<Rightarrow> regex option" where
  "cons_item i r = map_option (\<lambda>alts. (i # hd alts) # tl alts) r"

fun alternatives :: "string \<Rightarrow> regex option" where
  "alternatives [] = Some [[]]"
| "alternatives (c # s) = (
     if c = CHR ''|'' then map_option ((#) []) (alternatives s)
     else if c = backslash then (case s of d # s' \<Rightarrow> if special d then cons_item (Literal d) (alternatives s') else None | [] \<Rightarrow> None)
     else if c = CHR ''.'' then (case s of d # s' \<Rightarrow> if d = CHR ''*'' then cons_item AnyRun (alternatives s') else None | [] \<Rightarrow> None)
     else if special c then None
     else cons_item (Literal c) (alternatives s))"

definition MustCompile :: "string \<Rightarrow> regex option" where
  "MustCompile p = (if HasPrefix p ''^('' \<and> HasSuffix p '')$'' \<and> 4 \<le> length p
     then alternatives (take (length p - 4) (drop 2 p)) else None)"

fun match_items :: "item list \<Rightarrow> string \<Rightarrow> bool" where
  "match_items [] s = (s = [])"
| "match_items (Literal c # is) s = (case s of x # xs \<Rightarrow> x = c \<and> match_items is xs | [] \<Rightarrow> False)"
| "match_items (AnyRun # is) s = list_ex (\<lambda>n. CHR 0x0A \<notin> set (take n s) \<and> match_items is (drop n s)) [0..<Suc (length s)]"

definition MatchString :: "regex \<Rightarrow> string \<Rightarrow> bool" where
  "MatchString r s = list_ex (\<lambda>is. match_items is s) r"

text \<open>The library's own pattern, \<open>.*\<close>, is kept when no domain is configured; it is not anchored.\<close>

definition AllowOrigin :: "string list \<Rightarrow> string \<Rightarrow> bool option" where
  "AllowOrigin corsDomains origin = (
     if corsDomains = [] then Some True
     else map_option (\<lambda>r. MatchString r origin) (MustCompile (origin_pattern corsDomains)))"

section \<open>What the configuration means\<close>

text \<open>A domain with wildcards, read directly.\<close>

fun wildcard :: "string \<Rightarrow> string \<Rightarrow> bool" where
  "wildcard [] s = (s = [])"
| "wildcard (c # p) s = (
     if c = CHR ''*'' then list_ex (\<lambda>n. CHR 0x0A \<notin> set (take n s) \<and> wildcard p (drop n s)) [0..<Suc (length s)]
     else (case s of x # xs \<Rightarrow> x = c \<and> wildcard p xs | [] \<Rightarrow> False))"

definition item_of :: "char \<Rightarrow> item" where
  "item_of c = (if c = CHR ''*'' then AnyRun else Literal c)"

lemma match_item_of: "match_items (map item_of d) s = wildcard d s"
  by (induction d s rule: wildcard.induct) (auto simp: item_of_def list_ex_iff split: list.split)

text \<open>Quoting and replacing work on one byte at a time.\<close>

definition quoted :: "char \<Rightarrow> string" where
  "quoted c = (if c = CHR ''*'' then ''.*'' else if special c then [backslash, c] else [c])"

lemma QuoteMeta_no_star: "QuoteMeta s \<noteq> CHR ''*'' # t"
  by (cases s) (auto simp: special_def)

lemma replace_skip: "replace_pair a b new (x # QuoteMeta s) = x # replace_pair a b new (QuoteMeta s)" if "b = CHR ''*''"
  using QuoteMeta_no_star [of s] that by (cases "QuoteMeta s") auto

lemma regexDomain_quoted: "regexDomain d = concat (map quoted d)"
proof (induction d)
  case Nil
  show ?case by (simp add: regexDomain_def)
next
  case (Cons c d)
  have "special (CHR ''*'')" by (simp add: special_def)
  with Cons show ?case by (auto simp: regexDomain_def quoted_def replace_skip)
qed

lemma cons_item_cons [simp]: "cons_item i (Some (a # as)) = Some ((i # a) # as)"
  by (simp add: cons_item_def)

lemma special_chars [simp]: "special backslash" "special (CHR ''|'')" "special (CHR ''.'')" "special (CHR ''*'')"
  by (simp_all add: special_def)

lemma alternatives_quoted:
  assumes "alternatives t = Some (a # as)"
  shows "alternatives (concat (map quoted d) @ t) = Some ((map item_of d @ a) # as)"
proof (induction d)
  case Nil
  show ?case by (simp add: assms)
next
  case (Cons c d)
  then show ?case by (auto simp: quoted_def item_of_def)
qed

lemma alternatives_join:
  assumes "ds \<noteq> []"
  shows "alternatives (join_with (CHR ''|'') (map regexDomain ds)) = Some (map (map item_of) ds)"
  using assms
proof (induction ds rule: list_nonempty_induct)
  case (single d)
  show ?case using alternatives_quoted [of "[]" "[]" "[]" d] by (simp add: regexDomain_quoted)
next
  case (cons d ds)
  then have "alternatives (CHR ''|'' # join_with (CHR ''|'') (map regexDomain ds)) = Some ([] # map (map item_of) ds)" by simp
  from alternatives_quoted [OF this, of d] cons(1) show ?case by (cases ds) (simp_all add: regexDomain_quoted [of d])
qed

lemma MustCompile_body: "MustCompile (CHR ''^'' # CHR ''('' # b @ '')$'') = alternatives b"
  by (simp add: MustCompile_def HasPrefix_def HasSuffix_def)

lemma origin_compiles: "ds \<noteq> [] \<Longrightarrow> MustCompile (origin_pattern ds) = Some (map (map item_of) ds)"
  by (simp add: origin_pattern_def MustCompile_body alternatives_join)

section \<open>Property\<close>

text \<open>C24: an origin is accepted exactly if one of the configured domains covers it. Whatever characters the domains
  consist of, those that mean something in a regular expression included, the pattern that is built
  from them is valid, and it matches an origin if and only if the origin is a configured domain with
  every star replaced by some text without line feeds. If no domain is configured, every origin is
  accepted.\<close>

theorem origins_as_configured:
  "AllowOrigin corsDomains origin = Some (corsDomains = [] \<or> list_ex (\<lambda>d. wildcard d origin) corsDomains)"
  by (auto simp: AllowOrigin_def origin_compiles MatchString_def list_ex_iff match_item_of)

text \<open>The dot of a domain is a dot, a star covers subdomains and more, and the default, one empty domain,
  accepts requests that name no origin.\<close>

lemma origin_examples:
  "AllowOrigin [''https://odysee.com''] ''https://odyseeXcom'' = Some False"
  "AllowOrigin [''https://*.odysee.com''] ''https://a.b.odysee.com'' = Some True"
  "AllowOrigin [''https://*.odysee.com''] ''https://odysee.com'' = Some False"
  "AllowOrigin [[]] [] = Some True" "AllowOrigin [[]] ''https://odysee.com'' = Some False"
  by code_simp+

end
