(* ===== verification/Launchers.thy ===== *)
theory Launchers
  imports Keys Queue Origins Uploads Asynquery
begin

text \<open>
  How the services are put together: the launchers of \<open>app/asynquery\<close>, \<open>apps/uploads\<close> and \<open>apps/forklift\<close>,
  the blob stores of \<open>pkg/blobs\<close>, the messages between the services (\<open>internal/tasks\<close>), and how the upload
  service stops. A launcher is a record of its options; building a service makes its queue, its keys
  and its routes. What storage, network and file system answer is an argument.
\<close>

section \<open>Messages\<close>

definition ForkliftUploadIncoming :: string where "ForkliftUploadIncoming = ''forklift:upload:incoming''"
definition ForkliftURLIncoming :: string where "ForkliftURLIncoming = ''forklift:url:incoming''"

definition notify_UploadReceived :: "'w queue_env \<Rightarrow> queue \<Rightarrow> go_error + bytes \<Rightarrow> ('w, go_error option) qio" where
  "notify_UploadReceived E q pl = queue_SendRequest E q ForkliftUploadIncoming pl
     [WithRequestRetry 10, WithRequestTimeout (24 * hour_ns)]"

definition notify_URLReceived :: "'w queue_env \<Rightarrow> queue \<Rightarrow> go_error + bytes \<Rightarrow> ('w, go_error option) qio" where
  "notify_URLReceived E q pl = queue_SendRequest E q ForkliftURLIncoming pl
     [WithRequestRetry 10, WithRequestTimeout (24 * hour_ns)]"

definition report_done :: "'w queue_env \<Rightarrow> queue \<Rightarrow> go_error + bytes \<Rightarrow> ('w, go_error option) qio" where
  "report_done E q pl = queue_SendResponse E q ForkliftUploadDone pl
     [WithRequestRetry 15, WithRequestTimeout (15 * 60 * 1000000000)]"

definition queue_query :: "'w queue_env \<Rightarrow> queue \<Rightarrow> go_error + bytes \<Rightarrow> ('w, go_error option) qio" where
  "queue_query E q pl = queue_SendRequest E q AsynqueryIncomingQuery pl [WithRequestRetry 3]"

section \<open>The launcher of asynquery\<close>

text \<open>The call manager is its queue.\<close>

definition NewCallManager :: "'w queue_env \<Rightarrow> string option \<Rightarrow> ('w, queue res) qio" where
  "NewCallManager E redisOpts = queue_New E [WithRequestsConnOpts redisOpts, WithConcurrency 10]"

definition manager_handlers :: "queue \<Rightarrow> queue" where
  "manager_handlers q = AddHandler (AddHandler q ForkliftUploadDone) AsynqueryIncomingQuery"

definition manager_Start :: "'w queue_env \<Rightarrow> queue \<Rightarrow> ('w, go_error option \<times> queue) qio" where
  "manager_Start E q = ServeUntilShutdown E (manager_handlers q)"

record aq_launcher =
  al_requestsConnOpts :: "string option"
  al_privateKey :: "private_key option"
  al_uploadServiceURL :: string
  al_manager :: "queue option"

definition aq_WithPrivateKey :: "private_key option \<Rightarrow> aq_launcher \<Rightarrow> aq_launcher" where
  "aq_WithPrivateKey k l = l\<lparr>al_privateKey := k\<rparr>"

definition aq_WithRequestsConnOpts :: "string option \<Rightarrow> aq_launcher \<Rightarrow> aq_launcher" where
  "aq_WithRequestsConnOpts opts l = l\<lparr>al_requestsConnOpts := opts\<rparr>"

definition aq_WithUploadServiceURL :: "string \<Rightarrow> aq_launcher \<Rightarrow> aq_launcher" where
  "aq_WithUploadServiceURL url l = l\<lparr>al_uploadServiceURL := url\<rparr>"

definition aq_NewLauncher :: "(aq_launcher \<Rightarrow> aq_launcher) list \<Rightarrow> aq_launcher" where
  "aq_NewLauncher options = fold (\<lambda>f. f) options \<lparr>al_requestsConnOpts = None, al_privateKey = None,
     al_uploadServiceURL = ''https://uploads-v4.na-backend.odysee.com/v1/'', al_manager = None\<rparr>"

text \<open>The endpoints carry what their handlers were made with.\<close>

datatype aq_endpoint = Preflight | PublicKeyOf keyfob | CreateUploadWith keyfob string | GetQuery | CreateQueryOn queue

record aq_route =
  ar_path :: string
  ar_method :: string
  ar_endpoint :: aq_endpoint

definition aq_routes :: "keyfob \<Rightarrow> string \<Rightarrow> queue \<Rightarrow> aq_route list" where
  "aq_routes keyfob url manager = [
     \<lparr>ar_path = ''/asynqueries/*'', ar_method = ''OPTIONS'', ar_endpoint = Preflight\<rparr>,
     \<lparr>ar_path = ''/asynqueries/auth/pubkey'', ar_method = ''GET'', ar_endpoint = PublicKeyOf keyfob\<rparr>,
     \<lparr>ar_path = ''/asynqueries/{type:(?:urls)|(?:uploads)}/'', ar_method = ''POST'', ar_endpoint = CreateUploadWith keyfob url\<rparr>,
     \<lparr>ar_path = ''/asynqueries/{id}'', ar_method = ''GET'', ar_endpoint = GetQuery\<rparr>,
     \<lparr>ar_path = ''/asynqueries/'', ar_method = ''POST'', ar_endpoint = CreateQueryOn manager\<rparr>]"

definition aq_InstallRoutes :: "jwx \<Rightarrow> 'w queue_env \<Rightarrow> aq_launcher \<Rightarrow> ('w, aq_route list res \<times> aq_launcher) qio" where
  "aq_InstallRoutes J E l = (
     if al_requestsConnOpts l = None then State_Monad.return (Err (Plain ''missing redis requests connection options''), l)
     else (case NewKeyfob J (al_privateKey l) of
       Inl err \<Rightarrow> State_Monad.return (Err err, l)
     | Inr keyfob \<Rightarrow> do {
         m \<leftarrow> NewCallManager E (al_requestsConnOpts l);
         State_Monad.return (case m of
           Err err \<Rightarrow> (Err err, l)
         | Panic p \<Rightarrow> (Panic p, l)
         | Ok manager \<Rightarrow> (Ok (aq_routes keyfob (al_uploadServiceURL l) manager), l\<lparr>al_manager := Some manager\<rparr>))
       }))"

abbreviation nil_pointer :: string where "nil_pointer \<equiv> ''invalid memory address or nil pointer dereference''"

definition aq_Start :: "'w queue_env \<Rightarrow> aq_launcher \<Rightarrow> ('w, unit res \<times> aq_launcher) qio" where
  "aq_Start E l = (case al_manager l of
     None \<Rightarrow> State_Monad.return (Panic nil_pointer, l)
   | Some q \<Rightarrow> do {
       r \<leftarrow> manager_Start E q;
       State_Monad.return (case fst r of None \<Rightarrow> Ok () | Some err \<Rightarrow> Err err, l\<lparr>al_manager := Some (snd r)\<rparr>)
     })"

definition aq_Shutdown :: "aq_launcher \<Rightarrow> ('w, unit res \<times> aq_launcher) qio" where
  "aq_Shutdown l = (case al_manager l of
     None \<Rightarrow> State_Monad.return (Panic nil_pointer, l)
   | Some q \<Rightarrow> do {
       r \<leftarrow> queue_Shutdown q;
       State_Monad.return (case r of
         Ok q' \<Rightarrow> (Ok (), l\<lparr>al_manager := Some q'\<rparr>) | Err err \<Rightarrow> (Err err, l) | Panic m \<Rightarrow> (Panic m, l))
     })"

section \<open>The launcher of the upload service\<close>

record up_handler =
  uh_bucket :: string
  uh_validator :: public_key
  uh_notifier :: "queue option"
  uh_stopClosed :: bool

record up_launcher =
  lu_corsDomains :: "string list"
  lu_httpAddress :: string
  lu_prefix :: string
  lu_publicKey :: "public_key option"
  lu_queueRedisURL :: string
  lu_s3bucket :: string
  lu_handler :: "up_handler option"
  lu_serving :: "bool option"
  lu_ready :: "bool option"

text \<open>\<open>lu_ready\<close> is the context of the liveness probe, with the flag whether it is not cancelled; \<open>lu_serving\<close>
  is the HTTP server, with the flag whether it has not been shut down. Both are nil before the
  handler is built.\<close>

definition up_WithS3Bucket :: "string \<Rightarrow> up_launcher \<Rightarrow> up_launcher" where
  "up_WithS3Bucket bucket l = l\<lparr>lu_s3bucket := bucket\<rparr>"

definition up_WithPublicKey :: "public_key option \<Rightarrow> up_launcher \<Rightarrow> up_launcher" where
  "up_WithPublicKey k l = l\<lparr>lu_publicKey := k\<rparr>"

definition up_WithForkliftRequestsConnURL :: "string \<Rightarrow> up_launcher \<Rightarrow> up_launcher" where
  "up_WithForkliftRequestsConnURL url l = l\<lparr>lu_queueRedisURL := url\<rparr>"

definition up_WithCORSDomains :: "string list \<Rightarrow> up_launcher \<Rightarrow> up_launcher" where
  "up_WithCORSDomains domains l = l\<lparr>lu_corsDomains := domains\<rparr>"

definition up_NewLauncher :: "(up_launcher \<Rightarrow> up_launcher) list \<Rightarrow> up_launcher" where
  "up_NewLauncher options = fold (\<lambda>f. f) options \<lparr>lu_corsDomains = [[]], lu_httpAddress = ''0.0.0.0:8080'', lu_prefix = ''/v1'',
     lu_publicKey = None, lu_queueRedisURL = [], lu_s3bucket = [], lu_handler = None, lu_serving = None, lu_ready = None\<rparr>"

definition Notifier :: "'w queue_env \<Rightarrow> up_launcher \<Rightarrow> ('w, queue option res) qio" where
  "Notifier E l = (
     if lu_queueRedisURL l = [] then State_Monad.return (Ok None)
     else (case qe_ParseRedisURI E (lu_queueRedisURL l) of
       Inl err \<Rightarrow> State_Monad.return (Err err)
     | Inr opts \<Rightarrow> do {
         q \<leftarrow> queue_New E [WithRequestsConnOpts (Some opts)];
         State_Monad.return (case q of Ok q' \<Rightarrow> Ok (Some q') | Err err \<Rightarrow> Err err | Panic m \<Rightarrow> Panic m)
       }))"

record 'w up_services =
  us_CreateBucket :: "string \<Rightarrow> ('w, go_error option) state"
  us_AlreadyOwned :: "go_error \<Rightarrow> bool"
  us_NewUnroutedHandler :: "('w, go_error option) state"

definition up_validator :: "up_launcher \<Rightarrow> go_error + public_key" where
  "up_validator l = (case lu_publicKey l of
     None \<Rightarrow> Inl (Plain ''not an ECDSA public key'')
   | Some k \<Rightarrow> NewValidator k)"

text \<open>The part of \<open>BuildHandler\<close> after the notifier.\<close>

definition finish_handler :: "'w up_services \<Rightarrow> up_launcher \<Rightarrow> public_key \<Rightarrow> queue option \<Rightarrow> ('w, unit res \<times> up_launcher) qio" where
  "finish_handler S l validator notifier = (
     let l' = l\<lparr>lu_ready := Some True\<rparr> in
     if lu_corsDomains l \<noteq> [] \<and> MustCompile (origin_pattern (lu_corsDomains l)) = None
     then State_Monad.return (Panic ''regexp: Compile'', l')
     else do {
       err \<leftarrow> q_ext (us_NewUnroutedHandler S);
       State_Monad.return (case err of
         Some e \<Rightarrow> (Err (Plain (''unable to create tusd handler: '' @ error_msg e)), l')
       | None \<Rightarrow> (Ok (), l'\<lparr>lu_serving := Some True, lu_handler := Some \<lparr>uh_bucket = lu_s3bucket l, uh_validator = validator,
           uh_notifier = notifier, uh_stopClosed = False\<rparr>\<rparr>))
     })"

definition BuildHandler :: "'w queue_env \<Rightarrow> 'w up_services \<Rightarrow> up_launcher \<Rightarrow> ('w, unit res \<times> up_launcher) qio" where
  "BuildHandler E S l = (case up_validator l of
     Inl err \<Rightarrow> State_Monad.return (Err err, l)
   | Inr validator \<Rightarrow> do {
       bucket \<leftarrow> q_ext (us_CreateBucket S (lu_s3bucket l));
       (case (case bucket of Some err \<Rightarrow> if us_AlreadyOwned S err then None else Some err | None \<Rightarrow> None) of
          Some err \<Rightarrow> State_Monad.return (Err err, l)
        | None \<Rightarrow> do {
            n \<leftarrow> Notifier E l;
            (case n of
               Err err \<Rightarrow> State_Monad.return (Err err, l)
             | Panic m \<Rightarrow> State_Monad.return (Panic m, l)
             | Ok notifier \<Rightarrow> finish_handler S l validator notifier)
          })
     })"

text \<open>The probes of the orchestrator.\<close>

definition livez :: "up_launcher \<Rightarrow> write_op list" where
  "livez l = (if lu_ready l = Some False then http_Error ''upload service is shutting down'' 503 else [W_Write ''OK''])"

definition healthz :: "write_op list" where "healthz = [W_Write ''OK'']"

text \<open>The two halves of a shutdown. Calling a nil function, a method of a nil server, or closing a closed
  channel panics.\<close>

definition StartShutdown :: "up_launcher \<Rightarrow> up_launcher res" where
  "StartShutdown l = (case lu_ready l of None \<Rightarrow> Panic nil_pointer | Some _ \<Rightarrow> Ok (l\<lparr>lu_ready := Some False\<rparr>))"

definition CompleteShutdown :: "up_launcher \<Rightarrow> up_launcher res" where
  "CompleteShutdown l = (case (lu_serving l, lu_handler l) of
     (Some _, Some h) \<Rightarrow>
       if uh_stopClosed h then Panic ''close of closed channel''
       else Ok (l\<lparr>lu_serving := Some False, lu_handler := Some (h\<lparr>uh_stopClosed := True\<rparr>)\<rparr>)
   | _ \<Rightarrow> Panic nil_pointer)"

section \<open>Blob stores\<close>

text \<open>The configuration of the reflector: the settings under \<open>destinations\<close>, if there are any, each with its
  sub-configuration if it is one.\<close>

record reflector_config =
  rc_destinations :: "(string \<times> string option) list option"
  rc_databasedsn :: string

datatype main_store = OneStore string | MultiWriter "string list"

record blob_store =
  bs_mainStore :: main_store
  bs_blobStores :: "string list"
  bs_workers :: int

fun create_stores :: "(string \<Rightarrow> string \<Rightarrow> ('w, go_error + string) state) \<Rightarrow> string \<Rightarrow> (string \<Rightarrow> string option) \<Rightarrow> string list
    \<Rightarrow> ('w, go_error + string list) qio" where
  "create_stores S3StoreFactory path Sub [] = State_Monad.return (Inr [])"
| "create_stores S3StoreFactory path Sub (subKey # keys) = (case Sub subKey of
     None \<Rightarrow> State_Monad.return (Inl (Plain (''empty config path: '' @ path @ ''.'' @ subKey)))
   | Some subCfg \<Rightarrow> do {
       bs \<leftarrow> q_ext (S3StoreFactory subKey subCfg);
       (case bs of
          Inl err \<Rightarrow> State_Monad.return (Inl (Wrapped (''failed to create S3 store from '' @ path @ ''.'' @ subKey) err))
        | Inr st \<Rightarrow> do {
            rest \<leftarrow> create_stores S3StoreFactory path Sub keys;
            State_Monad.return (map_sum id ((#) st) rest)
          })
     })"

definition CreateStoresFromConfig :: "(string \<Rightarrow> string \<Rightarrow> ('w, go_error + string) state) \<Rightarrow> reflector_config \<Rightarrow> string
    \<Rightarrow> ('w, go_error + string list) qio" where
  "CreateStoresFromConfig S3StoreFactory cfg path = (case rc_destinations cfg of
     None \<Rightarrow> State_Monad.return (Inl (Plain (''empty config path: '' @ path)))
   | Some entries \<Rightarrow> create_stores S3StoreFactory path (\<lambda>k. Option.bind (map_of entries k) id) (sort (map fst entries)))"

definition NewStore :: "(string \<Rightarrow> ('w, go_error option) state) \<Rightarrow> string \<Rightarrow> string list \<Rightarrow> ('w, go_error + blob_store) qio" where
  "NewStore Connect dsn destinations = do {
     err \<leftarrow> q_ext (Connect dsn);
     State_Monad.return (case err of
       Some e \<Rightarrow> Inl e
     | None \<Rightarrow> Inr \<lparr>bs_mainStore = (case destinations of [d] \<Rightarrow> OneStore d | _ \<Rightarrow> MultiWriter destinations),
         bs_blobStores = destinations, bs_workers = 1\<rparr>)
   }"

definition SetWorkers :: "int \<Rightarrow> blob_store \<Rightarrow> blob_store" where
  "SetWorkers workers st = st\<lparr>bs_workers := workers\<rparr>"

section \<open>The launcher of forklift\<close>

text \<open>A retriever is known by the directory it downloads to.\<close>

record fl_launcher =
  lf_blobPath :: string
  lf_downloadsPath :: string
  lf_requestsConnURL :: string
  lf_responsesConnURL :: string
  lf_reflectorConfig :: "reflector_config option"
  lf_retriever :: "string option"
  lf_httpRetriever :: "string option"
  lf_db :: bool
  lf_concurrency :: int
  lf_reflectorWorkers :: int
  lf_metricsAddress :: string

record 'w fl_services =
  fs_MkdirTemp :: "string \<Rightarrow> ('w, go_error + string) state"
  fs_S3StoreFactory :: "string \<Rightarrow> string \<Rightarrow> ('w, go_error + string) state"
  fs_Connect :: "string \<Rightarrow> ('w, go_error option) state"
  fs_Listen :: "string \<Rightarrow> ('w, go_error option) state"

record forklift_service =
  fk_blobPath :: string
  fk_retriever :: string
  fk_httpRetriever :: string
  fk_store :: blob_store
  fk_queue :: queue

definition fl_WithDownloadsPath :: "string \<Rightarrow> fl_launcher \<Rightarrow> fl_launcher" where
  "fl_WithDownloadsPath path l = l\<lparr>lf_downloadsPath := path\<rparr>"

definition fl_WithBlobPath :: "string \<Rightarrow> fl_launcher \<Rightarrow> fl_launcher" where
  "fl_WithBlobPath path l = l\<lparr>lf_blobPath := path\<rparr>"

definition fl_WithRequestsConnURL :: "string \<Rightarrow> fl_launcher \<Rightarrow> fl_launcher" where
  "fl_WithRequestsConnURL url l = l\<lparr>lf_requestsConnURL := url\<rparr>"

definition fl_WithResponsesConnURL :: "string \<Rightarrow> fl_launcher \<Rightarrow> fl_launcher" where
  "fl_WithResponsesConnURL url l = l\<lparr>lf_responsesConnURL := url\<rparr>"

definition fl_WithReflectorConfig :: "reflector_config option \<Rightarrow> fl_launcher \<Rightarrow> fl_launcher" where
  "fl_WithReflectorConfig cfg l = l\<lparr>lf_reflectorConfig := cfg\<rparr>"

definition fl_WithRetriever :: "string option \<Rightarrow> fl_launcher \<Rightarrow> fl_launcher" where
  "fl_WithRetriever r l = l\<lparr>lf_retriever := r\<rparr>"

definition fl_WithHTTPRetriever :: "string option \<Rightarrow> fl_launcher \<Rightarrow> fl_launcher" where
  "fl_WithHTTPRetriever r l = l\<lparr>lf_httpRetriever := r\<rparr>"

definition fl_WithConcurrency :: "int \<Rightarrow> fl_launcher \<Rightarrow> fl_launcher" where
  "fl_WithConcurrency n l = l\<lparr>lf_concurrency := n\<rparr>"

definition fl_WithReflectorWorkers :: "int \<Rightarrow> fl_launcher \<Rightarrow> fl_launcher" where
  "fl_WithReflectorWorkers n l = l\<lparr>lf_reflectorWorkers := n\<rparr>"

definition fl_WithDB :: "bool \<Rightarrow> fl_launcher \<Rightarrow> fl_launcher" where
  "fl_WithDB db l = l\<lparr>lf_db := db\<rparr>"

definition ExposeMetrics :: "string list \<Rightarrow> fl_launcher \<Rightarrow> fl_launcher" where
  "ExposeMetrics address l = l\<lparr>lf_metricsAddress := (case address of [] \<Rightarrow> '':8080'' | a # _ \<Rightarrow> a)\<rparr>"

text \<open>A directory that was not given is a temporary one.\<close>

definition temp_if_empty :: "'w fl_services \<Rightarrow> string \<Rightarrow> string \<Rightarrow> ('w, string res) qio" where
  "temp_if_empty F dir pattern = (
     if dir \<noteq> [] then State_Monad.return (Ok dir)
     else do {
       r \<leftarrow> q_ext (fs_MkdirTemp F pattern);
       State_Monad.return (case r of Inl err \<Rightarrow> Panic (error_msg err) | Inr d \<Rightarrow> Ok d)
     })"

definition forklift_defaults :: fl_launcher where
  "forklift_defaults = \<lparr>lf_blobPath = [], lf_downloadsPath = [], lf_requestsConnURL = [], lf_responsesConnURL = [],
     lf_reflectorConfig = None, lf_retriever = None, lf_httpRetriever = None, lf_db = False, lf_concurrency = 10,
     lf_reflectorWorkers = 1, lf_metricsAddress = []\<rparr>"

definition forklift_NewLauncher :: "'w fl_services \<Rightarrow> (fl_launcher \<Rightarrow> fl_launcher) list \<Rightarrow> ('w, fl_launcher res) qio" where
  "forklift_NewLauncher F options = do {
     let l = fold (\<lambda>f. f) options forklift_defaults;
     blobs \<leftarrow> temp_if_empty F (lf_blobPath l) ''forklift-blobs'';
     (case blobs of
        Ok blobPath \<Rightarrow> do {
          downloads \<leftarrow> temp_if_empty F (lf_downloadsPath l) ''forklift-downloads'';
          State_Monad.return (case downloads of
            Ok dl \<Rightarrow> Ok (l\<lparr>lf_blobPath := blobPath, lf_downloadsPath := dl,
              lf_httpRetriever := Some (case lf_httpRetriever l of Some r \<Rightarrow> r | None \<Rightarrow> dl),
              lf_retriever := Some (case lf_retriever l of Some r \<Rightarrow> r | None \<Rightarrow> dl)\<rparr>)
          | Err e \<Rightarrow> Err e
          | Panic m \<Rightarrow> Panic m)
        }
      | Err e \<Rightarrow> State_Monad.return (Err e)
      | Panic m \<Rightarrow> State_Monad.return (Panic m))
   }"

text \<open>The metrics server always listens on port 8080; the configured address only appears in messages.\<close>

definition bind_metrics :: "'w fl_services \<Rightarrow> string \<Rightarrow> ('w, go_error option) qio" where
  "bind_metrics F metricsAddress = (
     if metricsAddress = [] then State_Monad.return None
     else do {
       err \<leftarrow> q_ext (fs_Listen F '':8080'');
       State_Monad.return (map_option (Wrapped (''failed to bind http metrics server to '' @ metricsAddress)) err)
     })"

definition build_store :: "'w fl_services \<Rightarrow> fl_launcher \<Rightarrow> ('w, blob_store res) qio" where
  "build_store F l = (case lf_reflectorConfig l of
     None \<Rightarrow> State_Monad.return (Panic nil_pointer)
   | Some cfg \<Rightarrow> do {
       d \<leftarrow> CreateStoresFromConfig (fs_S3StoreFactory F) cfg ''destinations'';
       (case d of
          Inl err \<Rightarrow> State_Monad.return (Err (Wrapped ''cannot initialize reflector destination stores'' err))
        | Inr destinations \<Rightarrow> do {
            st \<leftarrow> NewStore (fs_Connect F) (rc_databasedsn cfg) destinations;
            State_Monad.return (case st of
              Inl err \<Rightarrow> Err (Wrapped ''cannot initialize reflector store'' err)
            | Inr store \<Rightarrow> Ok (SetWorkers (lf_reflectorWorkers l) store))
          })
     })"

definition forklift_handlers :: "queue \<Rightarrow> queue" where
  "forklift_handlers q = AddHandler (AddHandler q ForkliftUploadIncoming) ForkliftURLIncoming"

definition forklift_Build :: "'w queue_env \<Rightarrow> 'w fl_services \<Rightarrow> fl_launcher \<Rightarrow> ('w, forklift_service res) qio" where
  "forklift_Build E F l = (
     if \<not> lf_db l then State_Monad.return (Err (Plain ''database is required''))
     else (case lf_retriever l of
       None \<Rightarrow> State_Monad.return (Err (Plain ''retriever is required''))
     | Some retriever \<Rightarrow> do {
         b \<leftarrow> build_store F l;
         (case b of
            Err err \<Rightarrow> State_Monad.return (Err err)
          | Panic m \<Rightarrow> State_Monad.return (Panic m)
          | Ok store \<Rightarrow> do {
              t \<leftarrow> NewWithResponses E (lf_requestsConnURL l) (lf_responsesConnURL l) [WithConcurrency (lf_concurrency l)];
              (case t of
                 Err err \<Rightarrow> State_Monad.return (Err (Wrapped ''unable to initialize queue'' err))
               | Panic m \<Rightarrow> State_Monad.return (Panic m)
               | Ok taskQueue \<Rightarrow> do {
                   err \<leftarrow> bind_metrics F (lf_metricsAddress l);
                   State_Monad.return (case err of
                     Some e \<Rightarrow> Err e
                   | None \<Rightarrow> Ok \<lparr>fk_blobPath = lf_blobPath l, fk_retriever = retriever,
                       fk_httpRetriever = (case lf_httpRetriever l of Some r \<Rightarrow> r | None \<Rightarrow> lf_downloadsPath l),
                       fk_store = store, fk_queue = forklift_handlers taskQueue\<rparr>)
                 })
            })
       }))"

section \<open>Stopping the listeners\<close>

text \<open>The four goroutines of \<open>listenToHooks\<close>. Each of them waits for an event or for its stop channel, which
  it looks up in the handler every time it begins to wait. Channels are numbered: 0 is made by
  \<open>BuildHandler\<close>, 1 by \<open>listenToHooks\<close> itself, after it has started the goroutines.\<close>

datatype listener = NotStarted | Waiting nat | Finished

record hooks =
  hk_stopChan :: nat
  hk_closed :: "nat option"
  hk_listeners :: "listener list"

definition hooks_start :: hooks where
  "hooks_start = \<lparr>hk_stopChan = 0, hk_closed = None, hk_listeners = replicate 4 NotStarted\<rparr>"

inductive hook_step :: "hooks \<Rightarrow> hooks \<Rightarrow> bool" where
  go: "i < length (hk_listeners s) \<Longrightarrow> hk_listeners s ! i = NotStarted \<Longrightarrow>
    hook_step s (s\<lparr>hk_listeners := (hk_listeners s)[i := Waiting (hk_stopChan s)]\<rparr>)"
| event: "i < length (hk_listeners s) \<Longrightarrow> hk_listeners s ! i = Waiting c \<Longrightarrow>
    hook_step s (s\<lparr>hk_listeners := (hk_listeners s)[i := Waiting (hk_stopChan s)]\<rparr>)"
| make: "hk_stopChan s = 0 \<Longrightarrow> hook_step s (s\<lparr>hk_stopChan := 1\<rparr>)"
| shut: "hk_stopChan s = 1 \<Longrightarrow> hk_closed s = None \<Longrightarrow> hook_step s (s\<lparr>hk_closed := Some (hk_stopChan s)\<rparr>)"
| stop: "i < length (hk_listeners s) \<Longrightarrow> hk_listeners s ! i = Waiting c \<Longrightarrow> hk_closed s = Some c \<Longrightarrow>
    hook_step s (s\<lparr>hk_listeners := (hk_listeners s)[i := Finished]\<rparr>)"

inductive_cases hook_stepE: "hook_step s t"

definition hooks_reach :: "hooks \<Rightarrow> bool" where
  "hooks_reach s \<longleftrightarrow> hook_step\<^sup>*\<^sup>* hooks_start s"

definition hooks_inv :: "hooks \<Rightarrow> bool" where
  "hooks_inv s \<longleftrightarrow> hk_stopChan s \<in> {0, 1} \<and> hk_closed s \<in> {None, Some 1} \<and> (hk_closed s \<noteq> None \<longrightarrow> hk_stopChan s = 1) \<and>
     length (hk_listeners s) = 4 \<and> (\<forall>l \<in> set (hk_listeners s). l \<in> {NotStarted, Finished, Waiting 0, Waiting (hk_stopChan s)})"

lemma hooks_inv_update:
  assumes "hooks_inv s" "l \<in> {NotStarted, Finished, Waiting 0, Waiting (hk_stopChan s)}"
  shows "hooks_inv (s\<lparr>hk_listeners := (hk_listeners s)[i := l]\<rparr>)"
proof -
  have "set ((hk_listeners s)[i := l]) \<subseteq> insert l (set (hk_listeners s))" by (rule set_update_subset_insert)
  then have "\<forall>x \<in> set ((hk_listeners s)[i := l]). x \<in> {NotStarted, Finished, Waiting 0, Waiting (hk_stopChan s)}"
    using assms unfolding hooks_inv_def by blast
  with assms(1) show ?thesis by (simp add: hooks_inv_def)
qed

lemma hooks_inv_step: "hook_step s t \<Longrightarrow> hooks_inv s \<Longrightarrow> hooks_inv t"
proof (induction rule: hook_step.induct)
  case (make s)
  then show ?case by (auto simp: hooks_inv_def)
next
  case (shut s)
  then show ?case by (simp add: hooks_inv_def)
qed (simp_all add: hooks_inv_update)

lemma hooks_inv_start: "hooks_inv hooks_start"
  by (simp add: hooks_inv_def hooks_start_def)

lemma hooks_reach_inv: "hooks_reach s \<Longrightarrow> hooks_inv s"
  unfolding hooks_reach_def by (induction rule: rtranclp_induct) (rule hooks_inv_start, rule hooks_inv_step)

text \<open>When the handler has been shut down, every listener that waits on the channel that was closed can
  finish; one that still waits on the first channel finishes only after another event.\<close>

lemma listeners_finish:
  assumes "hooks_reach s" "hk_closed s \<noteq> None" "i < 4" "hk_listeners s ! i = Waiting c"
  shows "if c = 1 then hook_step s (s\<lparr>hk_listeners := (hk_listeners s)[i := Finished]\<rparr>)
    else hook_step s (s\<lparr>hk_listeners := (hk_listeners s)[i := Waiting 1]\<rparr>)"
proof -
  from hooks_reach_inv [OF assms(1)] assms(2,3) have "hk_closed s = Some 1" "hk_stopChan s = 1" "i < length (hk_listeners s)"
    by (auto simp: hooks_inv_def)
  with assms(4) hook_step.stop [of i s c] hook_step.event [of i s c] show ?thesis by simp
qed

text \<open>A listener that began to wait before the channel was replaced is not stopped: without further
  events it waits for ever.\<close>

lemma stale_listener_waits:
  "\<exists>s. hooks_reach s \<and> hk_closed s = Some 1 \<and> hk_listeners s ! 0 = Waiting 0"
proof -
  let ?s = "hooks_start\<lparr>hk_listeners := (hk_listeners hooks_start)[0 := Waiting 0]\<rparr>"
  let ?t = "?s\<lparr>hk_stopChan := 1\<rparr>"
  have 1: "hook_step hooks_start ?s" using hook_step.go [of 0 hooks_start] by (simp add: hooks_start_def)
  have 2: "hook_step ?s ?t" using hook_step.make [of ?s] by (simp add: hooks_start_def)
  have 3: "hook_step ?t (?t\<lparr>hk_closed := Some 1\<rparr>)" using hook_step.shut [of ?t] by (simp add: hooks_start_def)
  have "hooks_reach (?t\<lparr>hk_closed := Some 1\<rparr>)" unfolding hooks_reach_def
    using 1 2 3 by (meson converse_rtranclp_into_rtranclp rtranclp.rtrancl_refl)
  moreover have "hk_listeners (?t\<lparr>hk_closed := Some 1\<rparr>) ! 0 = Waiting 0" by (simp add: hooks_start_def)
  ultimately show ?thesis by (intro exI [of _ "?t\<lparr>hk_closed := Some 1\<rparr>"]) simp
qed

lemma stale_listener_stuck:
  "hook_step s t \<Longrightarrow> hk_closed s = Some 1 \<Longrightarrow> i < length (hk_listeners s) \<Longrightarrow> hk_listeners s ! i = Waiting 0 \<Longrightarrow> hk_listeners t ! i \<noteq> Finished"
  by (erule hook_stepE) (auto simp: nth_list_update split: if_splits)

section \<open>Messages and their handlers\<close>

text \<open>The connection behind a client of a queue, and the messages that a queue serves.\<close>

definition connection :: "queue \<Rightarrow> handle \<Rightarrow> string option" where
  "connection q h = (case h of
     RequestsClient \<Rightarrow> qo_requestsConnOpts (q_options q)
   | ResponsesClient \<Rightarrow> qo_responsesConnOpts (q_options q)
   | _ \<Rightarrow> None)"

definition serves :: "queue \<Rightarrow> string option \<Rightarrow> string \<Rightarrow> bool" where
  "serves q conn ty \<longleftrightarrow> conn \<noteq> None \<and> qo_requestsConnOpts (q_options q) = conn \<and> ty \<in> set (q_handlers q) \<and> can_serve q"

text \<open>Sending either fails and puts nothing on the bus, or puts one message with the given payload on a
  connection that the other queue serves, and the other queue has a handler for its type.\<close>

definition delivers :: "(go_error + bytes \<Rightarrow> ('w, go_error option) qio) \<Rightarrow> queue \<Rightarrow> queue \<Rightarrow> bool" where
  "delivers snd_op q r \<longleftrightarrow> (\<forall>pl s e t. run_state (snd_op pl) s = (e, t) \<longrightarrow>
     (if e = None then \<exists>h m. qw_sent t = qw_sent s @ [(h, m)] \<and> pl = Inr (ms_payload m) \<and> serves r (connection q h) (ms_type m)
      else qw_sent t = qw_sent s))"

lemma delivers_message:
  assumes "serves r (connection q h) ty" "run_state (sendMessage E h ty pl fs) s = (e, t)"
  shows "if e = None then \<exists>h m. qw_sent t = qw_sent s @ [(h, m)] \<and> pl = Inr (ms_payload m) \<and> serves r (connection q h) (ms_type m)
    else qw_sent t = qw_sent s"
proof (cases e)
  case None
  with sendMessage_run(2) [OF assms(2)] assms(1) show ?thesis by fastforce
next
  case (Some x)
  with sendMessage_run(3) [OF assms(2)] show ?thesis by simp
qed

lemma delivers_request: "serves r (connection q RequestsClient) ty \<Longrightarrow> delivers (\<lambda>pl. queue_SendRequest E q ty pl fs) q r"
  using delivers_message [of r q RequestsClient ty E] by (auto simp: delivers_def queue_SendRequest_def)

lemma delivers_response: "serves r (connection q ResponsesClient) ty \<Longrightarrow> delivers (\<lambda>pl. queue_SendResponse E q ty pl fs) q r"
  using delivers_message [of r q ResponsesClient ty E] by (auto simp: delivers_def queue_SendResponse_def)

lemma New_options:
  "run_state (queue_New E fs) s = (Ok q, t) \<Longrightarrow> apply_options fs default_options = Ok (q_options q) \<and> q_handlers q = []"
  by (auto simp: queue_New_def split: res.splits option.splits prod.splits if_splits)

lemma handlers_added [simp]:
  "q_options (AddHandler q ty) = q_options q" "set (q_handlers (AddHandler q ty)) = insert ty (set (q_handlers q))"
  by (simp_all add: AddHandler_def)

lemma can_serve_added: "can_serve (AddHandler q ty) \<longleftrightarrow> qo_requestsConnOpts (q_options q) \<noteq> None"
  by (auto simp: can_serve_def AddHandler_def List.insert_def)

lemma Notifier_queue:
  assumes "run_state (Notifier E u) s = (Ok (Some q), t)"
  shows "\<exists>opts. qe_ParseRedisURI E (lu_queueRedisURL u) = Inr opts \<and> connection q RequestsClient = Some opts"
proof -
  from assms obtain opts s' where opts: "qe_ParseRedisURI E (lu_queueRedisURL u) = Inr opts"
      "run_state (queue_New E [WithRequestsConnOpts (Some opts)]) s = (Ok q, s')"
    by (auto simp: Notifier_def split: if_splits sum.splits res.splits prod.splits)
  from New_options [OF this(2)] have "default_options\<lparr>qo_requestsConnOpts := Some opts\<rparr> = q_options q" by (simp add: WithRequestsConnOpts_def)
  from this [symmetric] opts(1) show ?thesis by (simp add: connection_def)
qed

lemma CallManager_queue:
  assumes "run_state (NewCallManager E opts) s = (Ok q, t)"
  shows "connection q RequestsClient = opts"
proof -
  from New_options [OF assms [unfolded NewCallManager_def]]
  have "default_options\<lparr>qo_requestsConnOpts := opts, qo_concurrency := 10\<rparr> = q_options q"
    by (simp add: WithRequestsConnOpts_def WithConcurrency_def)
  from this [symmetric] show ?thesis by (simp add: connection_def)
qed

lemma NewWithResponses_queue:
  assumes "run_state (NewWithResponses E req res [WithConcurrency n]) s = (Ok q, t)"
  obtains c d where "qe_ParseRedisURI E req = Inr c" "qe_ParseRedisURI E res = Inr d"
    "connection q RequestsClient = Some c" "connection q ResponsesClient = Some d" "qo_concurrency (q_options q) = n"
proof -
  from assms have "run_state (queue_New E ([WithConcurrency n] @ [WithRequestsConnURL E req, WithResponsesConnURL E res])) s = (Ok q, t)"
    by (auto simp: NewWithResponses_def split: if_splits)
  from New_options [OF this] obtain c d where "qe_ParseRedisURI E req = Inr c" "qe_ParseRedisURI E res = Inr d"
      "q_options q = default_options\<lparr>qo_concurrency := n, qo_requestsConnOpts := Some c, qo_requestsConnURL := req,
        qo_responsesConnOpts := Some d, qo_responsesConnURL := res\<rparr>"
    by (auto simp: WithConcurrency_def WithRequestsConnURL_def WithResponsesConnURL_def split: sum.splits)
  then show ?thesis by (intro that) (simp_all add: connection_def)
qed

lemma Build_queue:
  assumes "run_state (forklift_Build E F l) s = (Ok fk, t)"
  obtains q s1 s2 where "run_state (NewWithResponses E (lf_requestsConnURL l) (lf_responsesConnURL l) [WithConcurrency (lf_concurrency l)]) s1 = (Ok q, s2)"
    "fk_queue fk = forklift_handlers q"
  using assms that by (auto simp: forklift_Build_def split: if_splits option.splits res.splits prod.splits)

text \<open>C23: no message is sent to where nobody handles it. The upload service and forklift are configured with the
  same address for requests, and the responses of forklift go to the address of the API server's
  queue. Then whatever the upload service tells forklift, what forklift reports back, and the
  queries that the API server queues for itself, each arrive on a connection that is served, by a
  queue with a handler for that type of message, with the payload that was given; or nothing is put
  on the bus and the sender gets an error.\<close>

theorem messages_reach_handlers:
  assumes "run_state (Notifier E u) s1 = (Ok (Some qu), t1)" "run_state (forklift_Build E F l) s2 = (Ok fk, t2)"
    and "run_state (NewCallManager E (Some conn)) s3 = (Ok qa, t3)"
    and "lf_requestsConnURL l = lu_queueRedisURL u" "qe_ParseRedisURI E (lf_responsesConnURL l) = Inr conn"
  shows "delivers (notify_UploadReceived E qu) qu (fk_queue fk) \<and> delivers (notify_URLReceived E qu) qu (fk_queue fk) \<and>
    delivers (report_done E (fk_queue fk)) (fk_queue fk) (manager_handlers qa) \<and> delivers (queue_query E qa) qa (manager_handlers qa)"
proof -
  from Build_queue [OF assms(2)] obtain q s s' where
    q: "run_state (NewWithResponses E (lf_requestsConnURL l) (lf_responsesConnURL l) [WithConcurrency (lf_concurrency l)]) s = (Ok q, s')"
      "fk_queue fk = forklift_handlers q" .
  from NewWithResponses_queue [OF q(1)] Notifier_queue [OF assms(1)] assms(4,5) obtain c where
    c: "connection qu RequestsClient = Some c" "connection q RequestsClient = Some c" "connection q ResponsesClient = Some conn" by force
  note a = CallManager_queue [OF assms(3)]
  have fk: "serves (forklift_handlers q) (Some c) ForkliftUploadIncoming" "serves (forklift_handlers q) (Some c) ForkliftURLIncoming"
    using c(2) by (simp_all add: serves_def forklift_handlers_def can_serve_added connection_def)
  have aq: "serves (manager_handlers qa) (Some conn) ForkliftUploadDone" "serves (manager_handlers qa) (Some conn) AsynqueryIncomingQuery"
    using a by (simp_all add: serves_def manager_handlers_def can_serve_added connection_def)
  have conn: "connection (forklift_handlers q) ResponsesClient = Some conn" using c(3) by (simp add: connection_def forklift_handlers_def)
  show ?thesis
    using fk aq a conn c(1) unfolding q(2) notify_UploadReceived_def notify_URLReceived_def report_done_def queue_query_def
    by (simp add: delivers_request delivers_response)
qed

definition sample_uploads :: up_launcher where
  "sample_uploads = up_NewLauncher [up_WithForkliftRequestsConnURL ''redis:1'', up_WithPublicKey (Some (EcdsaPublic 1))]"

definition sample_forklift :: "(fl_launcher \<Rightarrow> fl_launcher) list" where
  "sample_forklift = [fl_WithDB True,
     fl_WithReflectorConfig (Some \<lparr>rc_destinations = Some [(''a'', Some ''bucket'')], rc_databasedsn = ''db''\<rparr>), fl_WithConcurrency 2,
     fl_WithBlobPath ''/blobs'', fl_WithDownloadsPath ''/uploads'', fl_WithRequestsConnURL ''redis:1'', fl_WithResponsesConnURL ''redis:2'', ExposeMetrics []]"

definition calm_services :: "unit fl_services" where
  "calm_services = \<lparr>fs_MkdirTemp = (\<lambda>p. State_Monad.return (Inr p)), fs_S3StoreFactory = (\<lambda>k c. State_Monad.return (Inr c)),
     fs_Connect = (\<lambda>_. State_Monad.return None), fs_Listen = (\<lambda>_. State_Monad.return None)\<rparr>"

lemmas service_defs = queue_New_def NewWithResponses_def WithRequestsConnOpts_def WithRequestsConnURL_def WithResponsesConnURL_def
  WithConcurrency_def default_options_def quiet_queue_def connect_def empty_bus_def

lemmas option_defs = fl_WithDB_def fl_WithReflectorConfig_def fl_WithConcurrency_def fl_WithBlobPath_def fl_WithDownloadsPath_def
  fl_WithRequestsConnURL_def fl_WithResponsesConnURL_def ExposeMetrics_def up_NewLauncher_def up_WithForkliftRequestsConnURL_def up_WithPublicKey_def

lemma sample_built:
  "\<exists>qu t1. run_state (Notifier quiet_queue sample_uploads) empty_bus = (Ok (Some qu), t1) \<and>
     fst (run_state (notify_UploadReceived quiet_queue qu (Inr ''p'')) t1) = None"
  "\<exists>l fk t2. run_state (forklift_NewLauncher calm_services sample_forklift) empty_bus = (Ok l, empty_bus) \<and>
     lf_requestsConnURL l = ''redis:1'' \<and> lf_responsesConnURL l = ''redis:2'' \<and>
     run_state (forklift_Build quiet_queue calm_services l) empty_bus = (Ok fk, t2)"
  "\<exists>qa t3. run_state (NewCallManager quiet_queue (Some ''redis:2'')) empty_bus = (Ok qa, t3)"
  by (simp_all add: service_defs option_defs Notifier_def sample_uploads_def notify_UploadReceived_def queue_SendRequest_def sendMessage_def
      NewCallManager_def forklift_NewLauncher_def temp_if_empty_def forklift_Build_def sample_forklift_def
      forklift_defaults_def calm_services_def build_store_def CreateStoresFromConfig_def NewStore_def bind_metrics_def)

theorem messages_reach_handlers_witness:
  "\<exists>(qu :: queue) (fk :: forklift_service) (t1 :: unit queue_world). fst (run_state (notify_UploadReceived quiet_queue qu (Inr ''p'')) t1) = None \<and>
     delivers (notify_UploadReceived quiet_queue qu) qu (fk_queue fk)"
proof -
  from sample_built obtain qu t1 l fk t2 qa t3 where
    built: "run_state (Notifier quiet_queue sample_uploads) empty_bus = (Ok (Some qu), t1)"
      "run_state (forklift_Build quiet_queue calm_services l) empty_bus = (Ok fk, t2)"
      "run_state (NewCallManager quiet_queue (Some ''redis:2'')) empty_bus = (Ok qa, t3)"
    and sent: "fst (run_state (notify_UploadReceived quiet_queue qu (Inr ''p'')) t1) = None"
    and l: "lf_requestsConnURL l = ''redis:1''" "lf_responsesConnURL l = ''redis:2''" by blast
  have "lf_requestsConnURL l = lu_queueRedisURL sample_uploads" "qe_ParseRedisURI quiet_queue (lf_responsesConnURL l) = Inr ''redis:2''"
    by (simp_all add: l sample_uploads_def option_defs quiet_queue_def)
  from messages_reach_handlers [OF built this] sent show ?thesis by blast
qed

section \<open>Tokens across the services\<close>

lemma InstallRoutes_Ok:
  assumes "run_state (aq_InstallRoutes J E l) s = ((Ok routes, l'), t)"
  obtains kf manager where "NewKeyfob J (al_privateKey l) = Inr kf" "routes = aq_routes kf (al_uploadServiceURL l) manager"
    "al_manager l' = Some manager"
  using assms that by (auto simp: aq_InstallRoutes_def split: if_splits sum.splits res.splits prod.splits)

lemma aq_routes_keys:
  assumes "r \<in> set (aq_routes kf url manager)"
  shows "ar_endpoint r = PublicKeyOf k \<Longrightarrow> k = kf" "ar_endpoint r = CreateUploadWith k url' \<Longrightarrow> k = kf \<and> url' = url"
  using assms by (auto simp: aq_routes_def)

lemma BuildHandler_Ok:
  assumes "run_state (BuildHandler E S l) s = ((Ok (), l'), t)"
  obtains v n where "up_validator l = Inr v" "l' = l\<lparr>lu_ready := Some True, lu_serving := Some True,
      lu_handler := Some \<lparr>uh_bucket = lu_s3bucket l, uh_validator = v, uh_notifier = n, uh_stopClosed = False\<rparr>\<rparr>"
  using assms that by (auto simp: BuildHandler_def finish_handler_def Let_def split: if_splits sum.splits res.splits option.splits prod.splits)

lemma token_checked:
  assumes "NewKeyfob J k = Inr kf"
    and "\<And>n t s. jwx_Sign J n t = Inr s \<Longrightarrow> s \<noteq> [] \<and> jwx_Parse J (EcdsaPublic (jwx_Public J n)) s = (Some t, None)"
    and "int32_range uid" "GenerateToken J kf uid expiry fs = Ok tok"
    and "ue_jwx U = J" "ue_key U = Validator kf" "ue_TokenFromHeader U header = tok" "httpMethod \<noteq> ''OPTIONS''"
  shows "\<exists>t. tok_Expiration t = expiry \<and> fst (run_state (authByToken U httpMethod header) s) =
    (if fst (run_state (ue_Validate U t) (uw_ext s)) = None then Pass (Some uid) else Refuse 401)"
proof -
  from assms(4) obtain t where t: "jwx_Sign J (kf_private kf) t = Inr tok" "tok_Subject t = Itoa uid" "tok_Expiration t = expiry"
    by (rule GenerateToken_Ok)
  from NewKeyfob_Inr [OF assms(1)] assms(2) [OF t(1)] have p: "tok \<noteq> []" "ParseToken J (Validator kf) tok = (Some t, None)"
    by (auto simp: ParseToken_def Validator_def)
  have "fst (run_state (authByToken U httpMethod header) s) =
      (if fst (run_state (ue_Validate U t) (uw_ext s)) = None then Pass (Some uid) else Refuse 401)"
    using assms(3,5-8) p t by (auto simp: authByToken_def extractUserIDFromRequest_def user_of_token_def split: option.splits)
  with t(3) show ?thesis by blast
qed


text \<open>Formats that write the length of the type in front of it, and a key as so many bytes.\<close>

definition unary_formats :: key_formats where
  "unary_formats = \<lparr>
     kx_pem_Decode = (\<lambda>s. if s = [] then None else let n = length (takeWhile (\<lambda>c. c = CHR ''-'') s); rest = drop (Suc n) s in
       Some (take n rest, drop n rest)),
     kx_pem_Encode = (\<lambda>ty b. replicate (length ty) (CHR ''-'') @ CHR '':'' # ty @ b),
     kx_ParseECPrivateKey = (\<lambda>b. Inr (length b)),
     kx_ParsePKIXPublicKey = (\<lambda>b. Inr (EcdsaPublic (length b))),
     kx_MarshalPKIXPublicKey = (\<lambda>k. case k of EcdsaPublic n \<Rightarrow> Inr (replicate n (CHR ''k'')) | OtherPublic _ \<Rightarrow> Inl (Plain ''unsupported''))\<rparr>"

lemma takeWhile_replicate_append: "\<not> P y \<Longrightarrow> P x \<Longrightarrow> takeWhile P (replicate n x @ y # ys) = replicate n x"
  by (induction n) simp_all

lemma unary_formats_ok: "formats_ok unary_formats"
  by (auto simp: formats_ok_def unary_formats_def takeWhile_replicate_append Let_def split: public_key.splits)

definition sample_key_text :: string where
  "sample_key_text = b64_encode (kx_pem_Encode unary_formats ''EC PRIVATE KEY'' ''k'')"

lemma sample_keyfob: "KeyfobFromString plain_jwx unary_formats error_msg sample_key_text = Ok \<lparr>kf_private = 1, kf_public = EcdsaPublic 1\<rparr>"
proof -
  have "kx_pem_Decode unary_formats (kx_pem_Encode unary_formats ''EC PRIVATE KEY'' ''k'') = Some (''EC PRIVATE KEY'', ''k'')"
    using unary_formats_ok by (simp add: formats_ok_def)
  moreover have "kx_ParseECPrivateKey unary_formats ''k'' = Inr 1" by (simp add: unary_formats_def)
  ultimately have "KeyfobFromString plain_jwx unary_formats error_msg sample_key_text = Ok \<lparr>kf_private = 1, kf_public = EcdsaPublic (jwx_Public plain_jwx 1)\<rparr>"
    using configured_key_loaded [of sample_key_text, OF _ ] by (simp add: sample_key_text_def stripped_encode)
  then show ?thesis by (simp add: plain_jwx_def)
qed

definition sample_auth :: "unit up_env" where
  "sample_auth = \<lparr>ue_fault = (\<lambda>_. State_Monad.return None), ue_enqueue = State_Monad.return None, ue_jwx = plain_jwx, ue_key = EcdsaPublic 1,
     ue_TokenFromHeader = id, ue_Validate = (\<lambda>_. State_Monad.return None), ue_rand = State_Monad.return (Inr []), ue_ParseRequestURI = Inr,
     ue_bucket = ''b'', ue_notifier = True\<rparr>"

definition calm_storage :: "unit up_services" where
  "calm_storage = \<lparr>us_CreateBucket = (\<lambda>_. State_Monad.return None), us_AlreadyOwned = (\<lambda>_. False),
     us_NewUnroutedHandler = State_Monad.return None\<rparr>"


section \<open>Stopping the upload service\<close>

text \<open>A service that was built answers its liveness probe. Once the shutdown has begun the probe gets 503 while
  requests are still served; completing it stops the server and closes the stop channel.\<close>

lemma upload_service_drains:
  assumes "run_state (BuildHandler E S l) s = ((Ok (), built), t)"
  shows "livez built = [W_Write ''OK'']"
    and "\<exists>draining stopped. StartShutdown built = Ok draining \<and> livez draining = http_Error ''upload service is shutting down'' 503 \<and>
      lu_serving draining = Some True \<and> CompleteShutdown draining = Ok stopped \<and> lu_serving stopped = Some False \<and>
      CompleteShutdown stopped = Panic ''close of closed channel''"
  by (rule BuildHandler_Ok [OF assms]; simp add: livez_def StartShutdown_def CompleteShutdown_def)+

text \<open>The probe's answer is a 503 on the wire.\<close>

lemma probe_refused: "net_answer (http_Error msg 503) = Ok \<lparr>an_informational = [], an_status = 503,
    an_header = Header_Set ''X-Content-Type-Options'' ''nosniff'' (Header_Set ''Content-Type'' ''text/plain; charset=utf-8'' fmempty),
    an_body = msg @ [CHR 0x0A]\<rparr>"
proof -
  have "CanonicalHeaderKey ''Content-Type'' = ''Content-Type''" "CanonicalHeaderKey ''X-Content-Type-Options'' = ''X-Content-Type-Options''" by code_simp+
  then show ?thesis
    by (simp add: http_Error_def net_answer_def net_Write_def net_WriteHeader_def fresh_response_def declared_length_def
        Header_Set_def bodyAllowedForStatus_def)
qed

section \<open>Observations\<close>

text \<open>The signal handler of the upload service is installed before the handler is built: a signal that arrives
  earlier calls a function that is nil.\<close>

lemma early_signal_panics:
  "StartShutdown (up_NewLauncher [up_WithS3Bucket b, up_WithPublicKey k, up_WithCORSDomains d, up_WithForkliftRequestsConnURL url]) = Panic nil_pointer"
  by (simp add: StartShutdown_def up_NewLauncher_def up_WithS3Bucket_def up_WithPublicKey_def up_WithCORSDomains_def up_WithForkliftRequestsConnURL_def)

text \<open>The launcher of asynquery must have installed its routes before it is started.\<close>

lemma start_before_routes_panics: "al_manager l = None \<Longrightarrow> run_state (aq_Start E l) s = ((Panic nil_pointer, l), s)"
  by (simp add: aq_Start_def)

text \<open>The address for the metrics makes no difference to where they are served.\<close>

lemma metrics_address_ignored:
  "a \<noteq> [] \<Longrightarrow> b \<noteq> [] \<Longrightarrow> snd (run_state (bind_metrics F a) s) = snd (run_state (bind_metrics F b) s)"
  by (simp add: bind_metrics_def)

text \<open>If the port is taken, the queue that has just been made stays open and is lost.\<close>

lemma taken_port_leaks_queue:
  assumes "lf_db l" "lf_retriever l = Some r" "run_state (build_store F l) s = (Ok st, s1)"
    and "run_state (NewWithResponses E (lf_requestsConnURL l) (lf_responsesConnURL l) [WithConcurrency (lf_concurrency l)]) s1 = (Ok q, s2)"
    and "lf_metricsAddress l \<noteq> []" "run_state (fs_Listen F '':8080'') (qw_ext s2) = (Some e, x)"
  shows "run_state (forklift_Build E F l) s =
    (Err (Wrapped (''failed to bind http metrics server to '' @ lf_metricsAddress l) e), s2\<lparr>qw_ext := x\<rparr>)"
  using assms by (simp add: forklift_Build_def bind_metrics_def)

end
