(* ===== verification/Spec2Isabelle.thy ===== *)
theory Spec2Isabelle
  imports AsyncCalls UploadFlow Admin GeoFlow Watchman Redislocker Api Handlers Arweave Launchers
begin

text \<open>
  Verification library for the Odysee API server (Go, \<open>OdyseeTeam/odysee-api\<close>).

  \<^bold>\<open>The program.\<close> The API server takes JSON-RPC requests of web and mobile clients, finds out
  who sends them, checks them and forwards them to one of several LBRY SDK instances, each
  user having a wallet on one of them. Users are known to \<open>internal-apis\<close>, by a legacy token
  or by OAuth; the server keeps its own table of users with the SDK instance assigned to
  each. Answers to anonymous queries are cached. Content that is paid, unlisted, scheduled
  or for members is only served after checks. Files are published on four ways: with the
  request (\<open>app/publish/publish.go\<close>), by resumable upload to the server (\<open>tus.go\<close>), by
  resumable upload with a queue and a worker of its own (\<open>app/geopublish\<close>), or by the upload
  service (\<open>apps/uploads\<close>) and the worker behind it (\<open>apps/forklift\<close>), whose reports complete
  queries that clients have left with the server (\<open>app/asynquery\<close>). A service beside it
  (\<open>apps/watchman\<close>) collects reports of playback.

  \<^bold>\<open>How the code is modelled.\<close> Stateful code is in the state monad over a record: \<open>world\<close>
  for the API server, \<open>up_world\<close> for the upload service and forklift, \<open>pub_world\<close> (a \<open>world\<close>
  with local files) for the publish handlers, \<open>geo_world\<close> (a \<open>pub_world\<close> with tables, queue and
  bus) for geopublish, \<open>wm_world\<close> for watchman, \<open>queue_world\<close> for the message queue and the launchers. Every call of something outside the repository
  (SDK, database faults, internal-apis, cache servers, clock, random numbers, file system,
  object store, the \<open>tusd\<close>, \<open>jwx\<close>, \<open>asynq\<close> and \<open>retryablehttp\<close> libraries) is a field of an
  environment record (\<open>env\<close>, \<open>up_env\<close>, \<open>fl_env\<close>, \<open>pub_env\<close>, \<open>tus_env\<close>, \<open>geo_env\<close>, \<open>wm_env\<close>,
  \<open>api_env\<close>, \<open>arweave_env\<close>, \<open>queue_env\<close>, \<open>up_services\<close>, \<open>fl_services\<close>, \<open>key_formats\<close>): a computation
  on an unknown state \<open>'w\<close>, about which nothing is assumed unless a theorem says so. A Go function
  that returns an error and may panic has a result in \<open>res\<close> (\<open>Ok\<close>, \<open>Err\<close>, \<open>Panic\<close>), so that
  every early return and every nil dereference is a branch. Requests to an SDK are recorded
  in \<open>w_sent\<close> in the order in which they are made. Integers are \<open>int\<close> with the wrap-around
  written out where it can happen (\<open>wrap64\<close>, \<open>int32_range\<close>), and words of the width of the
  column in watchman. Loops are structural recursion:
  \<open>send_loop\<close> on the three attempts of \<open>SendQuery\<close>, \<open>fetch_tries\<close> on the five of the publish
  handler, \<open>load_scan\<close> and \<open>unload_loop\<close> on lists; no fuel is needed. Endless service loops
  are represented by one turn (\<open>WatchLoad_tick\<close>, \<open>runInvalidator\<close>, \<open>listen\<close>, \<open>listen_result\<close>,
  \<open>Start_turn\<close>) or by a step relation (\<open>aq_step\<close>, \<open>up_step\<close>, \<open>geo_step\<close>, \<open>wm_run\<close>).

  \<^bold>\<open>Theories.\<close>
    \<^item> \<open>Prelude\<close>, \<open>Paths\<close>, \<open>Json\<close>, \<open>Errors\<close>, \<open>World\<close>: strings, integers, paths and Hoare triples
      for the state monad; JSON; \<open>internal/errors\<close> and \<open>pkg/rpcerrors\<close>; the state and the
      services, with \<open>sends\<close>, the statement of what has been sent to SDKs.
    \<^item> \<open>Sdkrouter\<close>: \<open>app/sdkrouter\<close>. Choice of servers; the locale \<open>server_pool\<close> states what
      clients of the router rely on and is interpreted on the router.
    \<^item> \<open>Iapi\<close>, \<open>Wallet\<close>, \<open>Tokens\<close>, \<open>Auth\<close>: \<open>pkg/iapi\<close>, \<open>app/wallet\<close> with the tracker, \<open>app/auth\<close>.
      Transactions on the table of users (locale \<open>tx_invariant\<close>, with interpretations for
      undoing exactly and for keeping assigned servers), token cache, logins (locale
      \<open>login_service\<close>) and the middlewares.
    \<^item> \<open>Query\<close>, \<open>Cache\<close>, \<open>Caller\<close>, \<open>Access\<close>, \<open>Processors\<close>: \<open>app/query\<close>, \<open>pkg/sturdycache\<close>,
      \<open>pkg/chainquery\<close>. Admission of requests, the cache over any store that keeps its
      contract (locales \<open>cache_store\<close>, \<open>replicated_stores\<close>), sending with wallet reloading,
      access to restricted streams, the hooks, and \<open>Call\<close>.
    \<^item> \<open>Proxy\<close>: \<open>app/proxy\<close>, the handler of client requests.
    \<^item> \<open>Asynquery\<close>, \<open>Drafts\<close>, \<open>AsyncCalls\<close>: \<open>app/asynquery\<close>. The transactions, the protocol of
      drafts, commits and upload reports that they implement, and all handlers over the
      table of queries (locale \<open>sdk_frame\<close>: what sending a query leaves alone).
    \<^item> \<open>Publish\<close>, \<open>Tus\<close>: \<open>app/publish\<close>. Both older publish handlers with their files.
    \<^item> \<open>Keybox\<close>, \<open>Fileanalyzer\<close>, \<open>Uploads\<close>, \<open>Forklift\<close>, \<open>UploadFlow\<close>: \<open>pkg/keybox\<close>,
      \<open>pkg/fileanalyzer\<close>, \<open>apps/uploads\<close>, \<open>apps/forklift\<close>, \<open>pkg/blobs\<close>. Tokens for uploads, media
      types, the upload service with its tables and listeners, the worker, and the way of an
      upload through all of them.
    \<^item> \<open>Geopublish\<close>, \<open>GeoFlow\<close>: \<open>app/geopublish\<close>. The tables, signals, handlers, queue, worker and
      bus of results; the state machine they make (locale \<open>geo_invariant\<close>: what every step
      keeps, interpreted for consistency, for owners and for stored requests).
    \<^item> \<open>Ip\<close>, \<open>Iprate\<close>, \<open>Admin\<close>, \<open>Status\<close>: \<open>internal/ip\<close>, \<open>pkg/iprate\<close>, \<open>internal/admin\<close>,
      \<open>internal/status\<close>. Client addresses, rate limiting, the maintenance route, the status page.
    \<^item> \<open>Redislocker\<close>: \<open>pkg/redislocker\<close>, the lock on uploads, over the contract of \<open>redsync\<close>.
    \<^item> \<open>Watchman\<close>: \<open>apps/watchman\<close>. Validation of reports, rows, and the goroutine that writes them
      in batches.
    \<^item> \<open>Responses\<close>, \<open>Handlers\<close>: \<open>internal/responses\<close>, \<open>internal/monitor/middleware.go\<close>,
      \<open>internal/handler\<close>, \<open>internal/metrics\<close>. What handlers do to a response writer, as lists of
      calls; the writer of \<open>net/http\<close> and the recorder that stands in for it (locale
      \<open>map_iteration\<close>: what Go promises of a visit of a map); smaller handlers and timers.
    \<^item> \<open>Api\<close>: \<open>api/routes.go\<close>, \<open>server/server.go\<close>, \<open>internal/middleware\<close>. The chain of middlewares
      around the handlers of \<open>Proxy\<close>, \<open>Publish\<close> and \<open>Status\<close>, and the answer of the server.
    \<^item> \<open>Arweave\<close>: \<open>app/arweave\<close>. Addresses of copies, with the query parameters of \<open>net/url\<close>; its
      functions are what \<open>with_arweave\<close> puts into the environment of the hooks.
    \<^item> \<open>Queue\<close>: \<open>pkg/queue\<close>. Message queues with the connections they hold (relation \<open>alive\<close>).
    \<^item> \<open>Keys\<close>, \<open>Origins\<close>, \<open>Launchers\<close>: keys as text and the endpoint for the public key (the rest of
      \<open>pkg/keybox\<close>, with the base64 decoder of Go); the pattern of accepted origins; the launchers of
      \<open>app/asynquery\<close>, \<open>apps/uploads\<close> and \<open>apps/forklift\<close> with the stores of \<open>pkg/blobs\<close>, the messages
      between the services, and the listeners of the upload service (relation \<open>hook_step\<close>).

  \<^bold>\<open>What is shown.\<close>
    \<^item> \<^emph>\<open>Wallets.\<close> Whatever a client sends and whatever hooks do, requests to SDKs name the
      authenticated user's wallet and go to that user's SDK: for \<open>NewQuery\<close>, \<open>Call\<close>, the
      proxy, both publish handlers and asynchronous queries. Sending is bounded, and a user
      is only deleted after the last failed attempt.
    \<^item> \<^emph>\<open>Access.\<close> Restricted streams are served only on the grounds of their access type, \<open>get\<close>
      never reaches the SDK, searches exclude hidden claims.
    \<^item> \<^emph>\<open>Logins.\<close> Users are attached only by their own credentials, both ways of finding a user
      agree, a failed login leaves the table as it was, assigned servers stay, cached tokens
      live for a bounded time.
    \<^item> \<^emph>\<open>Cache.\<close> Only answers to the same key are returned, errors are never stored, keys
      separate queries, invalidation follows the chain.
    \<^item> \<^emph>\<open>Asynchronous queries.\<close> The transactions implement the draft protocol (each upload is
      sent exactly once, with the request first committed), fail atomically, and keep the
      table well-formed in every reachable state; reports send the committed request and
      polling shows clients their own queries.
    \<^item> \<^emph>\<open>Files.\<close> The publish handlers publish the file they received, in a directory of its own,
      and touch no other; the retry loop ends; forklift cleans up on every branch, reports
      only what it has recorded and deletes only after recording; media types come from the
      content; requests on uploads are confined to their owner, and an upload keeps one owner
      through all services.
    \<^item> \<^emph>\<open>Publishing by queue.\<close> In every reachable state the tables, the queue and the bus of
      geopublish agree; the worker publishes for the owner of the upload, with a description
      of the uploaded file; a task that ends well is seen by polling.
    \<^item> \<^emph>\<open>Operation.\<close> What a client writes into forwarding headers does not change the address
      behind the proxies; an upload is locked by one request at a time; the limiter is one
      bucket for every client; only the configured token moves users, and only to the next
      instance of their group.
    \<^item> \<^emph>\<open>The server as a whole.\<close> From the network to the SDK, requests act only in the wallets of
      users whom their own credentials authenticate; every request that a route takes is
      answered, a panic by an error document that carries nothing else; recording responses is
      invisible to the clients of well-behaved handlers; thumbnails are replaced by the
      addresses of their own copies, whose parameters can be read back; queues give back the
      connections they took.
    \<^item> \<^emph>\<open>The services together.\<close> A token that the API server issues is accepted by the upload service,
      which has loaded the key from the server's own endpoint, for the user it was issued for; every
      message between the services goes to a queue with a handler for it; origins are accepted
      exactly as configured.
    \<^item> \<^emph>\<open>Playback reports.\<close> Reports are stored in bounds, in order and once, batches as a whole,
      and get into the table if the database answers.
  The theorems on observations (for instance \<open>succeeded_query_sent_again\<close>,
  \<open>failed_report_loses_upload\<close>, \<open>notify_destination_escapes\<close>) show where the code does not do
  what it means to do.

  \<^bold>\<open>Not modelled.\<close> Configuration, the main functions of the processes, CORS and the choice of routes,
  which are those of \<open>rs/cors\<close> and \<open>gorilla/mux\<close> (parameters of \<open>Api\<close>), PEM and the DER form of keys
  (parameters of \<open>Keys\<close>), collectors of metrics,
  logs and tracing, which do not influence answers; \<open>models\<close>, generated by sqlboiler, in place
  of which the rows in use are records; the transport of HTTP, TLS and JSON text. Concurrency is
  modelled where handlers meet in a table, a channel or a lock: by the steps of \<open>aq_step\<close>,
  \<open>up_step\<close>, \<open>geo_step\<close>, \<open>wm_run\<close>, \<open>lk_run\<close> and \<open>hook_step\<close>, and by other writers of the table of users
  (\<open>env_db_others\<close>).
\<close>

end
